(* ===== verification/Prelude.thy ===== *)
theory Prelude
  imports Main "HOL-Library.AList" "HOL-Library.Multiset"
begin

text \<open>
  What every component of the development shares: the ways a Go call can end, the Go map
  and slice operations the sources use, and the collections of facts the component proofs
  draw on.
\<close>

named_theorems wf_intros \<open>preservation of a component's well-formedness invariant\<close>

section \<open>How a Go call ends\<close>

text \<open>
  A call returns a value, returns a non-nil \<open>error\<close> (represented by its text), panics, or
  blocks for ever. Every early return and every failure of the sources is one of these.
\<close>

datatype 'a outcome = Ret 'a | Err string | Panic string | Block

definition returned :: "'a outcome \<Rightarrow> bool" where
  "returned r \<longleftrightarrow> (case r of Ret _ \<Rightarrow> True | _ \<Rightarrow> False)"

lemma returned_simps [simp]:
  "returned (Ret v)"
  "\<not> returned (Err e)"
  "\<not> returned (Panic p)"
  "\<not> returned Block"
  by (simp_all add: returned_def)

lemma returned_iff: "returned r \<longleftrightarrow> (\<exists>v. r = Ret v)"
  by (cases r) simp_all

text \<open>A call whose value the next call takes; every other ending is the ending of both.\<close>

fun outcome_bind :: "'a outcome \<Rightarrow> ('a \<Rightarrow> 'b outcome) \<Rightarrow> 'b outcome" where
  "outcome_bind (Ret v) f = f v"
| "outcome_bind (Err e) f = Err e"
| "outcome_bind (Panic p) f = Panic p"
| "outcome_bind Block f = Block"

section \<open>Go maps\<close>

text \<open>
  A Go map that is only read and written by key is a HOL map. A Go map that the code also
  ranges over is an association list with distinct keys: \<open>AList.update\<close> is the
  assignment \<open>m[k] = v\<close> and \<open>AList.delete\<close> the builtin \<open>delete\<close>.
\<close>

lemma map_of_AList_update [simp]: "map_of (AList.update k v al) = (map_of al)(k \<mapsto> v)"
  by (simp add: AList.update_conv')

lemma map_of_AList_delete [simp]: "map_of (AList.delete k al) = (map_of al)(k := None)"
  by (simp add: AList.delete_conv')

lemma fst_set_update: "fst ` set (AList.update k v al) = insert k (fst ` set al)"
  by (induction al) auto

lemma fst_set_delete: "fst ` set (AList.delete k al) = fst ` set al - {k}"
  by (induction al) auto

lemma distinct_keys_update [wf_intros]:
  "distinct (map fst al) \<Longrightarrow> distinct (map fst (AList.update k v al))"
  by (rule AList.distinct_update)

lemma distinct_keys_delete [wf_intros]:
  "distinct (map fst al) \<Longrightarrow> distinct (map fst (AList.delete k al))"
  by (rule AList.distinct_delete)

lemma snd_set_update: "snd ` set (AList.update k v al) \<subseteq> insert v (snd ` set al)"
  by (induction al) auto

lemma snd_set_delete: "snd ` set (AList.delete k al) \<subseteq> snd ` set al"
  by (induction al) auto

lemma distinct_vals_delete:
  "distinct (map snd al) \<Longrightarrow> distinct (map snd (AList.delete k al))"
proof (induction al)
  case Nil
  then show ?case by simp
next
  case (Cons a al)
  then show ?case using snd_set_delete [of k al] by (cases a) auto
qed

lemma distinct_vals_update:
  assumes "distinct (map snd al)" and "v \<notin> snd ` set al"
  shows "distinct (map snd (AList.update k v al))"
  using assms
proof (induction al)
  case Nil
  then show ?case by simp
next
  case (Cons a al)
  show ?case
  proof (cases "fst a = k")
    case True
    with Cons.prems show ?thesis by (cases a) auto
  next
    case False
    have "snd a \<notin> snd ` set (AList.update k v al)"
      using Cons.prems snd_set_update [of k v al] by auto
    with False Cons show ?thesis by (cases a) auto
  qed
qed

lemma in_set_map_of_distinct:
  "distinct (map fst al) \<Longrightarrow> (k, v) \<in> set al \<longleftrightarrow> map_of al k = Some v"
  by (auto dest: map_of_SomeD)

text \<open>The number of keys of a finite map, and how assignment and deletion change it.\<close>

lemma card_dom_fresh [simp]:
  "finite (dom m) \<Longrightarrow> m k = None \<Longrightarrow> card (dom (m(k \<mapsto> v))) = Suc (card (dom m))"
  by (simp add: domIff)

lemma card_dom_delete [simp]:
  "finite (dom m) \<Longrightarrow> m k = Some v \<Longrightarrow> card (dom (m(k := None))) = card (dom m) - 1"
  by (simp add: domI)

lemma finite_dom_upd: "finite (dom m) \<Longrightarrow> finite (dom (m(k := v)))"
  by simp

lemma card_dom_pos: "finite (dom m) \<Longrightarrow> m k = Some v \<Longrightarrow> 0 < card (dom m)"
  by (auto simp: card_gt_0_iff)

section \<open>Folding over a permuted list\<close>

text \<open>
  Ranging over a Go map visits the entries in an unspecified order. A loop whose body
  commutes gives the same result in every order.
\<close>

lemma fold_mset_eq:
  assumes "mset xs = mset ys"
    and "\<And>x y. x \<in> set ys \<Longrightarrow> y \<in> set ys \<Longrightarrow> f x \<circ> f y = f y \<circ> f x"
  shows "fold f xs = fold f ys"
proof (rule fold_multiset_equiv)
  show "mset xs = mset ys" by (rule assms(1))
  fix x y assume "x \<in> set xs" "y \<in> set xs"
  then show "f x \<circ> f y = f y \<circ> f x"
    using assms by (metis mset_eq_setD)
qed

end
