(* ===== verification/Go_Channels.thy ===== *)
theory Go_Channels
  imports Prelude "HOL-Library.Sublist"
begin

text \<open>
  Buffered Go channels. A channel is a queue with a capacity; channels are shared between
  goroutines, so code holds the address of a channel in a store. A receiver that is
  already waiting takes a message as soon as it is sent, which is the same as buffering it
  and receiving it next.
\<close>

record 'm chan =
  chan_buf :: "'m list"
  chan_cap :: nat

definition make_chan :: "nat \<Rightarrow> 'm chan" where
  "make_chan n = \<lparr>chan_buf = [], chan_cap = n\<rparr>"

text \<open>The send of a \<open>select\<close> with a \<open>default\<close> branch: it happens only when there is room.\<close>

definition chan_room :: "'m chan \<Rightarrow> bool" where
  "chan_room c \<longleftrightarrow> length (chan_buf c) < chan_cap c"

definition chan_send :: "'m \<Rightarrow> 'm chan \<Rightarrow> 'm chan" where
  "chan_send m c = (if chan_room c then c\<lparr>chan_buf := chan_buf c @ [m]\<rparr> else c)"

definition chan_recv :: "'m chan \<Rightarrow> ('m \<times> 'm chan) option" where
  "chan_recv c = (case chan_buf c of [] \<Rightarrow> None | m # ms \<Rightarrow> Some (m, c\<lparr>chan_buf := ms\<rparr>))"

type_synonym 'm chans = "nat \<rightharpoonup> 'm chan"

text \<open>The same on the store. A send to a nil channel never happens, so the default runs.\<close>

definition select_send :: "'m \<Rightarrow> nat \<Rightarrow> 'm chans \<Rightarrow> 'm chans" where
  "select_send m ch cs = (case cs ch of None \<Rightarrow> cs | Some c \<Rightarrow> cs(ch \<mapsto> chan_send m c))"

lemma make_chan_simps [simp]: "chan_buf (make_chan n) = []" "chan_cap (make_chan n) = n"
  by (simp_all add: make_chan_def)

lemma chan_cap_send [simp]: "chan_cap (chan_send m c) = chan_cap c"
  by (simp add: chan_send_def)

lemma chan_buf_send:
  "chan_buf (chan_send m c) = (if chan_room c then chan_buf c @ [m] else chan_buf c)"
  by (simp add: chan_send_def)

lemma chan_send_bounded:
  "length (chan_buf c) \<le> chan_cap c \<Longrightarrow> length (chan_buf (chan_send m c)) \<le> chan_cap c"
  by (simp add: chan_buf_send chan_room_def)

lemma select_send_same [simp]: "select_send m ch cs ch = map_option (chan_send m) (cs ch)"
  by (simp add: select_send_def split: option.splits)

lemma select_send_other [simp]: "ch' \<noteq> ch \<Longrightarrow> select_send m ch cs ch' = cs ch'"
  by (simp add: select_send_def split: option.splits)

lemma dom_select_send [simp]: "dom (select_send m ch cs) = dom cs"
  by (auto simp: select_send_def split: option.splits)

lemma select_send_commute:
  "ch \<noteq> ch' \<Longrightarrow> select_send m ch \<circ> select_send m' ch' = select_send m' ch' \<circ> select_send m ch"
  by (auto simp: fun_eq_iff select_send_def split: option.splits)

section \<open>The contract of a lossy queue\<close>

text \<open>
  What a sender that does not wait and a receiver may rely on: a message is appended or
  dropped, and the receiver takes the oldest one. Whatever the interleaving, the receiver
  then sees a subsequence of what was sent, in order and without repetition.
\<close>

datatype 'm queue_op = Send 'm | Recv

fun sent :: "'m queue_op list \<Rightarrow> 'm list" where
  "sent [] = []"
| "sent (Send m # ops) = m # sent ops"
| "sent (Recv # ops) = sent ops"

fun run_queue :: "('m \<Rightarrow> 'q \<Rightarrow> 'q) \<Rightarrow> ('q \<Rightarrow> ('m \<times> 'q) option) \<Rightarrow> 'm queue_op list \<Rightarrow> 'q \<Rightarrow> 'm list \<times> 'q"
  where
  "run_queue snd_op rcv_op [] q = ([], q)"
| "run_queue snd_op rcv_op (Send m # ops) q = run_queue snd_op rcv_op ops (snd_op m q)"
| "run_queue snd_op rcv_op (Recv # ops) q =
     (case rcv_op q of
        None \<Rightarrow> run_queue snd_op rcv_op ops q
      | Some (m, q') \<Rightarrow> apfst ((#) m) (run_queue snd_op rcv_op ops q'))"

locale lossy_queue =
  fixes snd_op :: "'m \<Rightarrow> 'q \<Rightarrow> 'q"
    and rcv_op :: "'q \<Rightarrow> ('m \<times> 'q) option"
    and content :: "'q \<Rightarrow> 'm list"
  assumes send_content: "content (snd_op m q) = content q @ [m] \<or> content (snd_op m q) = content q"
    and recv_content: "rcv_op q = Some (m, q') \<Longrightarrow> content q = m # content q'"
begin

lemma received_subseq:
  "run_queue snd_op rcv_op ops q = (rs, q') \<Longrightarrow> subseq (rs @ content q') (content q @ sent ops)"
proof (induction ops arbitrary: q rs)
  case Nil
  then show ?case by simp
next
  case (Cons op ops)
  show ?case
  proof (cases op)
    case (Send m)
    with Cons have sub: "subseq (rs @ content q') (content (snd_op m q) @ sent ops)" by simp
    have "subseq (content (snd_op m q) @ sent ops) (content q @ m # sent ops)"
      using send_content [of m q]
      by (elim disjE) (simp_all add: list_emb_append_mono list_emb_Cons)
    with sub Send show ?thesis by (auto intro: subseq_order.trans)
  next
    case Recv
    show ?thesis
    proof (cases "rcv_op q")
      case None
      with Recv Cons show ?thesis by simp
    next
      case (Some mq)
      obtain m q1 where mq: "mq = (m, q1)" by (cases mq)
      obtain rs' where rs: "run_queue snd_op rcv_op ops q1 = (rs', q')" "rs = m # rs'"
        using Cons.prems Recv Some mq by (cases "run_queue snd_op rcv_op ops q1") auto
      have "subseq (rs' @ content q') (content q1 @ sent ops)" using Cons.IH [OF rs(1)] .
      with rs(2) Recv show ?thesis using recv_content [of q m q1] Some mq by simp
    qed
  qed
qed

end

interpretation chan_queue: lossy_queue chan_send chan_recv chan_buf
  by unfold_locales (auto simp: chan_buf_send chan_recv_def split: list.splits)

end
