(* ===== verification/Go_Strings.thy ===== *)
theory Go_Strings
  imports Prelude
begin

text \<open>
  The functions of Go's \<open>strings\<close>, \<open>strconv\<close> and \<open>fmt\<close> packages that the sources
  call. A Go string is a sequence of bytes, which is what HOL's \<open>string\<close> is.
\<close>

section \<open>Splitting and joining\<close>

text \<open>\<open>strings.Split(s, sep)\<close> for a separator of one byte.\<close>

fun go_split :: "char \<Rightarrow> string \<Rightarrow> string list" where
  "go_split sep [] = [[]]"
| "go_split sep (c # cs) =
     (if c = sep then [] # go_split sep cs
      else (case go_split sep cs of
              [] \<Rightarrow> [[c]]
            | w # ws \<Rightarrow> (c # w) # ws))"

text \<open>\<open>strings.Join(parts, sep)\<close>.\<close>

fun go_join :: "string \<Rightarrow> string list \<Rightarrow> string" where
  "go_join sep [] = []"
| "go_join sep [w] = w"
| "go_join sep (w # v # ws) = w @ sep @ go_join sep (v # ws)"

lemma go_split_nonempty [simp]: "go_split sep s \<noteq> []"
  by (induction s) (auto split: list.splits)

lemma go_join_Cons: "ws \<noteq> [] \<Longrightarrow> go_join sep (w # ws) = w @ sep @ go_join sep ws"
  by (cases ws) simp_all

lemma go_join_split: "go_join [sep] (go_split sep s) = s"
proof (induction s)
  case Nil
  then show ?case by simp
next
  case (Cons c cs)
  obtain w ws where split: "go_split sep cs = w # ws"
    using go_split_nonempty [of sep cs] by (cases "go_split sep cs") simp_all
  show ?case
    using Cons split by (cases ws) (auto simp: go_join_Cons)
qed

lemma go_split_parts: "w \<in> set (go_split sep s) \<Longrightarrow> sep \<notin> set w"
  by (induction s arbitrary: w) (auto split: list.splits if_splits)

lemma go_split_none: "sep \<notin> set s \<Longrightarrow> go_split sep s = [s]"
  by (induction s) auto

lemma go_split_first: "sep \<notin> set h \<Longrightarrow> go_split sep (h @ sep # t) = h # go_split sep t"
  by (induction h) auto

lemma length_go_split: "length (go_split sep s) = Suc (count_list s sep)"
  by (induction s) (auto split: list.splits)

section \<open>Case folding\<close>

text \<open>\<open>strings.ToLower\<close> on ASCII bytes; other bytes are left as they are.\<close>

definition lower_char :: "char \<Rightarrow> char" where
  "lower_char c =
     (if 65 \<le> (of_char c :: nat) \<and> (of_char c :: nat) \<le> 90 then char_of ((of_char c :: nat) + 32) else c)"

definition go_toLower :: "string \<Rightarrow> string" where
  "go_toLower s = map lower_char s"

lemma of_char_lower:
  "(of_char (lower_char c) :: nat) =
     (if 65 \<le> (of_char c :: nat) \<and> (of_char c :: nat) \<le> 90 then of_char c + 32 else of_char c)"
  by (auto simp: lower_char_def of_char_of take_bit_eq_mod)

lemma lower_char_idem [simp]: "lower_char (lower_char c) = lower_char c"
  using of_char_lower [of c] by (auto simp: lower_char_def split: if_splits)

lemma go_toLower_idem [simp]: "go_toLower (go_toLower s) = go_toLower s"
  by (simp add: go_toLower_def)

section \<open>Decimal numbers\<close>

text \<open>The \<open>%d\<close> verb on a non-negative number.\<close>

definition digit_char :: "nat \<Rightarrow> char" where
  "digit_char d = char_of (48 + d)"

fun go_itoa :: "nat \<Rightarrow> string" where
  "go_itoa n = (if n < 10 then [digit_char n] else go_itoa (n div 10) @ [digit_char (n mod 10)])"

declare go_itoa.simps [simp del]

definition is_digit :: "char \<Rightarrow> bool" where
  "is_digit c \<longleftrightarrow> 48 \<le> (of_char c :: nat) \<and> (of_char c :: nat) \<le> 57"

definition digit_val :: "char \<Rightarrow> nat" where
  "digit_val c = of_char c - 48"

text \<open>The value \<open>strconv\<close> reads from a run of digits.\<close>

definition digits_val :: "string \<Rightarrow> nat" where
  "digits_val s = foldl (\<lambda>n c. 10 * n + digit_val c) 0 s"

lemma of_digit_char: "d < 10 \<Longrightarrow> (of_char (digit_char d) :: nat) = 48 + d"
  by (simp add: digit_char_def of_char_of take_bit_eq_mod)

lemma digit_char_simps [simp]:
  "d < 10 \<Longrightarrow> is_digit (digit_char d)"
  "d < 10 \<Longrightarrow> digit_val (digit_char d) = d"
  by (simp_all add: is_digit_def digit_val_def of_digit_char)

lemma go_itoa_digits: "c \<in> set (go_itoa n) \<Longrightarrow> is_digit c"
proof (induction n rule: go_itoa.induct)
  case (1 n)
  then show ?case
    by (subst (asm) (2) go_itoa.simps) (auto split: if_splits)
qed

lemma digits_val_itoa: "digits_val (go_itoa n) = n"
proof (induction n rule: go_itoa.induct)
  case (1 n)
  show ?case
  proof (cases "n < 10")
    case True
    then show ?thesis by (subst go_itoa.simps) (simp add: digits_val_def)
  next
    case False
    with 1 have "digits_val (go_itoa (n div 10)) = n div 10" by simp
    with False show ?thesis
      by (subst go_itoa.simps) (simp add: digits_val_def)
  qed
qed

lemma go_itoa_inject: "go_itoa m = go_itoa n \<Longrightarrow> m = n"
  by (metis digits_val_itoa)

end
