(* ===== verification/Json_Strings.thy ===== *)
theory Json_Strings
  imports Go_Strings
begin

text \<open>
  String literals of Go's \<open>encoding/json\<close>: the encoder's escaping (with the HTML
  characters escaped, as \<open>json.Marshal\<close> does), the decoder's unescaping, and UTF-8 as
  \<open>unicode/utf8\<close> reads it. The last lemma is that decoding inverts encoding on every
  string that is valid UTF-8.
\<close>

section \<open>Bytes and UTF-8\<close>

definition byte :: "char \<Rightarrow> nat" where
  "byte c = of_char c"

definition chr :: "nat \<Rightarrow> char" where
  "chr n = char_of n"

lemma byte_chr [simp]: "n < 256 \<Longrightarrow> byte (chr n) = n"
  by (simp add: byte_def chr_def of_char_of take_bit_eq_mod)

lemma chr_byte [simp]: "chr (byte c) = c"
  by (simp add: byte_def chr_def)

lemma byte_less [simp]: "byte c < 256"
  by (simp add: byte_def)

lemma byte_inject: "byte c = byte d \<longleftrightarrow> c = d"
  by (simp add: byte_def)

definition continuation :: "char \<Rightarrow> bool" where
  "continuation c \<longleftrightarrow> 128 \<le> byte c \<and> byte c \<le> 191"

text \<open>The bounds of the second byte, which depend on the first (\<open>utf8.acceptRanges\<close>).\<close>

definition second_ok :: "nat \<Rightarrow> char \<Rightarrow> bool" where
  "second_ok x b \<longleftrightarrow>
     (if x = 224 then 160 else if x = 240 then 144 else 128) \<le> byte b
     \<and> byte b \<le> (if x = 237 then 159 else if x = 244 then 143 else 191)"

text \<open>The length of the rune at the head of a string, 0 when it is not valid UTF-8.\<close>

definition utf8_len :: "string \<Rightarrow> nat" where
  "utf8_len s =
     (case s of
        [] \<Rightarrow> 0
      | a # r \<Rightarrow>
          let x = byte a in
          if x < 128 then 1
          else if 194 \<le> x \<and> x \<le> 223 then
            (case r of b # _ \<Rightarrow> if second_ok x b then 2 else 0 | _ \<Rightarrow> 0)
          else if 224 \<le> x \<and> x \<le> 239 then
            (case r of b # c # _ \<Rightarrow> if second_ok x b \<and> continuation c then 3 else 0 | _ \<Rightarrow> 0)
          else if 240 \<le> x \<and> x \<le> 244 then
            (case r of b # c # d # _ \<Rightarrow>
               if second_ok x b \<and> continuation c \<and> continuation d then 4 else 0 | _ \<Rightarrow> 0)
          else 0)"

fun valid_utf8 :: "string \<Rightarrow> bool" where
  "valid_utf8 [] = True"
| "valid_utf8 (c # cs) =
     (utf8_len (c # cs) \<noteq> 0 \<and> valid_utf8 (drop (utf8_len (c # cs) - 1) cs))"

definition encode_rune :: "nat \<Rightarrow> string" where
  "encode_rune u =
     (if u < 128 then [chr u]
      else if u < 2048 then [chr (192 + u div 64), chr (128 + u mod 64)]
      else if 55296 \<le> u \<and> u \<le> 57343 \<or> 1114111 < u then [chr 239, chr 191, chr 189]
      else if u < 65536 then
        [chr (224 + u div 4096), chr (128 + u div 64 mod 64), chr (128 + u mod 64)]
      else
        [chr (240 + u div 262144), chr (128 + u div 4096 mod 64), chr (128 + u div 64 mod 64),
         chr (128 + u mod 64)])"

section \<open>Encoding\<close>

definition quote :: char where "quote = chr 34"
definition backslash :: char where "backslash = chr 92"

definition hex_digit :: "nat \<Rightarrow> char" where
  "hex_digit n = (if n < 10 then chr (48 + n) else chr (87 + n))"

definition enc_u :: "nat \<Rightarrow> string" where
  "enc_u u = [backslash, chr 117, hex_digit (u div 4096 mod 16), hex_digit (u div 256 mod 16),
     hex_digit (u div 16 mod 16), hex_digit (u mod 16)]"

text \<open>\<open>htmlSafeSet\<close>: the ASCII bytes that are written as they are.\<close>

definition html_safe :: "char \<Rightarrow> bool" where
  "html_safe c \<longleftrightarrow> 32 \<le> byte c \<and> byte c < 128 \<and> byte c \<notin> {34, 38, 60, 62, 92}"

definition enc_ascii :: "char \<Rightarrow> string" where
  "enc_ascii c =
     (if html_safe c then [c]
      else if c = quote \<or> c = backslash then [backslash, c]
      else if byte c = 10 then [backslash, chr 110]
      else if byte c = 13 then [backslash, chr 114]
      else if byte c = 9 then [backslash, chr 116]
      else enc_u (byte c))"

fun enc_body :: "string \<Rightarrow> string" where
  "enc_body [] = []"
| "enc_body (c # cs) =
     (if byte c < 128 then enc_ascii c @ enc_body cs
      else if utf8_len (c # cs) = 0 then enc_u 65533 @ enc_body cs
      else (let r = take (utf8_len (c # cs)) (c # cs) in
            (if r = encode_rune 8232 then enc_u 8232
             else if r = encode_rune 8233 then enc_u 8233 else r)
            @ enc_body (drop (utf8_len (c # cs) - 1) cs)))"

definition enc_string :: "string \<Rightarrow> string" where
  "enc_string s = quote # enc_body s @ [quote]"

section \<open>Decoding\<close>

definition hex_val :: "char \<Rightarrow> nat option" where
  "hex_val c =
     (if 48 \<le> byte c \<and> byte c \<le> 57 then Some (byte c - 48)
      else if 97 \<le> byte c \<and> byte c \<le> 102 then Some (byte c - 87)
      else if 65 \<le> byte c \<and> byte c \<le> 70 then Some (byte c - 55)
      else None)"

definition hex4 :: "string \<Rightarrow> nat option" where
  "hex4 s =
     (case s of
        a # b # c # d # _ \<Rightarrow>
          (case (hex_val a, hex_val b, hex_val c, hex_val d) of
             (Some w, Some x, Some y, Some z) \<Rightarrow> Some (4096 * w + 256 * x + 16 * y + z)
           | _ \<Rightarrow> None)
      | _ \<Rightarrow> None)"

definition surrogate :: "nat \<Rightarrow> bool" where
  "surrogate u \<longleftrightarrow> 55296 \<le> u \<and> u \<le> 57343"

text \<open>A high surrogate followed by an escaped low one is one rune (\<open>utf16.DecodeRune\<close>).\<close>

definition surrogate_pair :: "nat \<Rightarrow> string \<Rightarrow> nat option" where
  "surrogate_pair u s =
     (case s of
        e # f # r \<Rightarrow>
          (if e = backslash \<and> f = chr 117 \<and> u < 56320 then
             (case hex4 r of
                Some v \<Rightarrow> if 56320 \<le> v \<and> v \<le> 57343
                          then Some ((u - 55296) * 1024 + (v - 56320) + 65536) else None
              | None \<Rightarrow> None)
           else None)
      | _ \<Rightarrow> None)"

definition simple_escape :: "char \<Rightarrow> char option" where
  "simple_escape e =
     (if e = quote \<or> e = backslash \<or> byte e = 47 then Some e
      else if byte e = 98 then Some (chr 8)
      else if byte e = 102 then Some (chr 12)
      else if byte e = 110 then Some (chr 10)
      else if byte e = 114 then Some (chr 13)
      else if byte e = 116 then Some (chr 9)
      else None)"

text \<open>
  The decoded literal and the text behind its closing quote. A byte sequence that is not
  UTF-8 is replaced by U+FFFD; a control character or a bad escape is a syntax error.
\<close>

fun dec_body :: "string \<Rightarrow> (string \<times> string) option" where
  "dec_body [] = None"
| "dec_body (c # cs) =
     (if c = quote then Some ([], cs)
      else if c = backslash then
        (case cs of
           [] \<Rightarrow> None
         | e # r \<Rightarrow>
             if e = chr 117 then
               (case hex4 r of
                  None \<Rightarrow> None
                | Some u \<Rightarrow>
                    if surrogate u then
                      (case surrogate_pair u (drop 4 r) of
                         Some v \<Rightarrow> map_option (apfst ((@) (encode_rune v))) (dec_body (drop 10 r))
                       | None \<Rightarrow> map_option (apfst ((@) (encode_rune 65533))) (dec_body (drop 4 r)))
                    else map_option (apfst ((@) (encode_rune u))) (dec_body (drop 4 r)))
             else
               (case simple_escape e of
                  None \<Rightarrow> None
                | Some b \<Rightarrow> map_option (apfst ((#) b)) (dec_body r)))
      else if byte c < 32 then None
      else if byte c < 128 then map_option (apfst ((#) c)) (dec_body cs)
      else if utf8_len (c # cs) = 0 then
        map_option (apfst ((@) (encode_rune 65533))) (dec_body cs)
      else
        map_option (apfst ((@) (take (utf8_len (c # cs)) (c # cs))))
          (dec_body (drop (utf8_len (c # cs) - 1) cs)))"

declare dec_body.simps(2) [simp del]

section \<open>Decoding inverts encoding\<close>

lemma byte_eq_iff: "c = chr n \<longleftrightarrow> byte c = n" if "n < 256"
  using that by (metis byte_chr chr_byte)

lemmas special_chars = quote_def backslash_def

lemma chr_eq_iff [simp]: "m < 256 \<Longrightarrow> n < 256 \<Longrightarrow> chr m = chr n \<longleftrightarrow> m = n"
  by (metis byte_chr)

lemma hex_val_digit: "n < 16 \<Longrightarrow> hex_val (hex_digit n) = Some n"
  by (auto simp: hex_val_def hex_digit_def)

lemma hex4_digits:
  assumes "u < 65536"
  shows "hex4 (hex_digit (u div 4096 mod 16) # hex_digit (u div 256 mod 16)
    # hex_digit (u div 16 mod 16) # hex_digit (u mod 16) # r) = Some u"
proof -
  have "4096 * (u div 4096 mod 16) + 256 * (u div 256 mod 16) + 16 * (u div 16 mod 16) + u mod 16 = u"
  proof -
    have "u div 256 = u div 16 div 16" and "u div 4096 = u div 16 div 16 div 16"
      by (simp_all add: div_mult2_eq [symmetric])
    moreover have "u div 16 div 16 div 16 < 16"
      using assms by (simp add: div_mult2_eq [symmetric] less_mult_imp_div_less)
    moreover have "16 * (u div 16) + u mod 16 = u"
      and "16 * (u div 16 div 16) + u div 16 mod 16 = u div 16"
      and "16 * (u div 16 div 16 div 16) + u div 16 div 16 mod 16 = u div 16 div 16"
      by (rule mult_div_mod_eq)+
    ultimately show ?thesis by (simp only: mod_less)
  qed
  then show ?thesis by (simp only: hex4_def list.case hex_val_digit prod.case option.case
      mod_less_divisor zero_less_numeral)
qed

lemma dec_enc_u:
  assumes "u < 65536" and "\<not> surrogate u"
  shows "dec_body (enc_u u @ r) = map_option (apfst ((@) (encode_rune u))) (dec_body r)"
proof -
  obtain h i j k where "enc_u u = [backslash, chr 117, h, i, j, k]"
    and "\<And>t. hex4 (h # i # j # k # t) = Some u"
    using hex4_digits [OF assms(1)] by (simp only: enc_u_def)
  with assms(2) show ?thesis by (simp add: dec_body.simps(2) [of "chr 92"] special_chars)
qed

lemma dec_enc_ascii:
  assumes "byte c < 128"
  shows "dec_body (enc_ascii c @ r) = map_option (apfst ((#) c)) (dec_body r)"
proof -
  consider (safe) "html_safe c" | (escape) "\<not> html_safe c" "c = quote \<or> c = backslash"
    | (ctrl) "byte c \<in> {9, 10, 13}"
    | (u) "\<not> html_safe c" "c \<noteq> quote" "c \<noteq> backslash" "byte c \<notin> {9, 10, 13}"
    by auto
  then show ?thesis
  proof cases
    case safe
    then show ?thesis
      by (simp add: enc_ascii_def html_safe_def dec_body.simps(2) special_chars byte_eq_iff)
  next
    case escape
    then show ?thesis
      by (auto simp: enc_ascii_def dec_body.simps(2) special_chars simple_escape_def)
  next
    case ctrl
    then have "c = chr 9 \<or> c = chr 10 \<or> c = chr 13"
      by (auto simp: byte_eq_iff)
    then show ?thesis
      by (auto simp: enc_ascii_def html_safe_def dec_body.simps(2) special_chars simple_escape_def)
  next
    case u
    then have "enc_ascii c = enc_u (byte c)" by (simp add: enc_ascii_def)
    moreover have "encode_rune (byte c) = [c]" using assms by (simp add: encode_rune_def)
    moreover have "\<not> surrogate (byte c)" using assms by (simp add: surrogate_def)
    moreover have "(@) [c] = (#) c" by (rule ext) simp
    ultimately show ?thesis using assms dec_enc_u [of "byte c" r] by simp
  qed
qed

text \<open>The length of a rune is determined by its own bytes.\<close>

lemma short_string_cases:
  obtains "s = []" | a where "s = [a]" | a b where "s = [a, b]" | a b c where "s = [a, b, c]"
    | a b c d r where "s = a # b # c # d # r"
  by (metis list.exhaust)

lemma utf8_len_le: "utf8_len s \<le> length s"
  by (cases s rule: short_string_cases) (simp_all add: utf8_len_def Let_def)

lemma utf8_len_take:
  "utf8_len s \<noteq> 0 \<Longrightarrow> utf8_len (take (utf8_len s) s @ r) = utf8_len s"
  by (cases s rule: short_string_cases) (auto simp: utf8_len_def Let_def split: if_splits)

lemma utf8_len_high: "128 \<le> byte c \<Longrightarrow> utf8_len (c # cs) \<noteq> 1"
  by (auto simp: utf8_len_def Let_def split: list.splits)

lemma dec_raw_rune:
  assumes "128 \<le> byte c" and len: "utf8_len (c # cs) \<noteq> 0"
  defines "n \<equiv> utf8_len (c # cs)"
  shows "dec_body (take n (c # cs) @ r) = map_option (apfst ((@) (take n (c # cs)))) (dec_body r)"
proof -
  obtain m where n: "n = Suc m" using len by (cases n) (simp_all add: n_def)
  have le: "m \<le> length cs" using utf8_len_le [of "c # cs"] n by (simp add: n_def)
  have "utf8_len (c # take m cs @ r) = n"
    using utf8_len_take [OF len, of r] n by (simp add: n_def)
  with assms(1) n le show ?thesis
    by (simp add: dec_body.simps(2) special_chars byte_eq_iff)
qed

theorem dec_enc_body:
  "valid_utf8 s \<Longrightarrow> dec_body (enc_body s @ quote # r) = Some (s, r)"
proof (induction s rule: enc_body.induct)
  case 1
  show ?case by (simp add: dec_body.simps(2))
next
  case (2 c cs)
  let ?n = "utf8_len (c # cs)"
  from "2.prems" have len: "?n \<noteq> 0" by simp
  show ?case
  proof (cases "byte c < 128")
    case True
    then have "?n = 1" by (simp add: utf8_len_def)
    with "2.prems" have "valid_utf8 cs" by simp
    with True "2.IH"(1) show ?thesis by (simp add: dec_enc_ascii)
  next
    case False
    let ?t = "take ?n (c # cs)"
    let ?d = "drop (?n - 1) cs"
    have split: "?t @ ?d = c # cs" using len by (cases ?n) simp_all
    have IH: "dec_body (enc_body ?d @ quote # r) = Some (?d, r)"
      using "2.IH"(3) [OF False len] "2.prems" by simp
    show ?thesis
    proof (cases "?t = encode_rune 8232 \<or> ?t = encode_rune 8233")
      case True
      then obtain u where u: "?t = encode_rune u" "u = 8232 \<or> u = 8233" by auto
      then have "enc_body (c # cs) = enc_u u @ enc_body ?d"
        using False len by (auto simp: Let_def encode_rune_def)
      then show ?thesis
        using u IH split by (auto simp: dec_enc_u surrogate_def)
    next
      case raw: False
      then have "enc_body (c # cs) = ?t @ enc_body ?d"
        using False len by (simp add: Let_def)
      then show ?thesis
        using False len IH split by (simp add: dec_raw_rune)
    qed
  qed
qed

text \<open>ASCII strings are valid UTF-8.\<close>

lemma valid_utf8_ascii: "\<forall>c\<in>set s. byte c < 128 \<Longrightarrow> valid_utf8 s"
  by (induction s) (simp_all add: utf8_len_def)

lemma valid_utf8_append: "valid_utf8 s \<Longrightarrow> valid_utf8 t \<Longrightarrow> valid_utf8 (s @ t)"
proof (induction s rule: valid_utf8.induct)
  case 1
  then show ?case by simp
next
  case (2 c cs)
  let ?n = "utf8_len (c # cs)"
  from "2.prems" have len: "?n \<noteq> 0" and rest: "valid_utf8 (drop (?n - 1) cs @ t)"
    using "2.IH" by simp_all
  have le: "?n - 1 \<le> length cs" using utf8_len_le [of "c # cs"] by simp
  have "utf8_len (take ?n (c # cs) @ drop ?n (c # cs) @ t) = ?n"
    by (rule utf8_len_take [OF len])
  then have "utf8_len (c # cs @ t) = ?n" by (simp add: append_assoc [symmetric] del: append_assoc)
  with len rest le show ?case by simp
qed

end
