(* ===== verification/Json.thy ===== *)
theory Json
  imports Json_Strings
begin

text \<open>
  Go's \<open>encoding/json\<close> as the sources use it: JSON values, the compact text
  \<open>json.Marshal\<close> writes, the text \<open>json.Unmarshal\<close> reads, and how an object is
  decoded into a struct. Decoding fails with \<open>None\<close>; the text of the error is not
  modelled. The decoder's limit of 10000 on the nesting depth is not modelled.
\<close>

datatype json =
    JNull
  | JBool bool
  | JNum string
  | JStr string
  | JArr "json list"
  | JObj "(string \<times> json) list"

section \<open>Writing\<close>

fun json_print :: "json \<Rightarrow> string"
  and print_elems :: "json list \<Rightarrow> string"
  and print_members :: "(string \<times> json) list \<Rightarrow> string" where
  "json_print JNull = ''null''"
| "json_print (JBool b) = (if b then ''true'' else ''false'')"
| "json_print (JNum lit) = lit"
| "json_print (JStr s) = enc_string s"
| "json_print (JArr vs) = ''['' @ print_elems vs @ '']''"
| "json_print (JObj kvs) = ''{'' @ print_members kvs @ ''}''"
| "print_elems [] = []"
| "print_elems [v] = json_print v"
| "print_elems (v # w # vs) = json_print v @ '','' @ print_elems (w # vs)"
| "print_members [] = []"
| "print_members [(k, v)] = enc_string k @ '':'' @ json_print v"
| "print_members ((k, v) # kv # kvs) =
     enc_string k @ '':'' @ json_print v @ '','' @ print_members (kv # kvs)"

section \<open>Reading\<close>

definition is_ws :: "char \<Rightarrow> bool" where
  "is_ws c \<longleftrightarrow> byte c \<in> {9, 10, 13, 32}"

definition skip_ws :: "string \<Rightarrow> string" where
  "skip_ws s = dropWhile is_ws s"

fun strip_prefix :: "string \<Rightarrow> string \<Rightarrow> string option" where
  "strip_prefix [] s = Some s"
| "strip_prefix (p # ps) [] = None"
| "strip_prefix (p # ps) (c # cs) = (if p = c then strip_prefix ps cs else None)"

text \<open>Number literals: an optional sign, an integer without leading zeros, fraction, exponent.\<close>

definition digits1 :: "string \<Rightarrow> (string \<times> string) option" where
  "digits1 s = (case takeWhile is_digit s of [] \<Rightarrow> None | ds \<Rightarrow> Some (ds, dropWhile is_digit s))"

definition num_int :: "string \<Rightarrow> (string \<times> string) option" where
  "num_int s =
     (case s of
        [] \<Rightarrow> None
      | c # r \<Rightarrow> if c = CHR ''0'' then Some ([c], r) else digits1 s)"

definition num_sign :: "string \<Rightarrow> string \<times> string" where
  "num_sign s = (case s of c # r \<Rightarrow> if c = CHR ''-'' then ([c], r) else ([], s) | [] \<Rightarrow> ([], s))"

definition num_frac :: "string \<Rightarrow> (string \<times> string) option" where
  "num_frac s =
     (case s of
        c # r \<Rightarrow> if c = CHR ''.'' then map_option (apfst ((#) c)) (digits1 r) else Some ([], s)
      | [] \<Rightarrow> Some ([], s))"

definition num_exp :: "string \<Rightarrow> (string \<times> string) option" where
  "num_exp s =
     (case s of
        c # r \<Rightarrow>
          if c = CHR ''e'' \<or> c = CHR ''E'' then
            (case r of
               d # r' \<Rightarrow>
                 if d = CHR ''+'' \<or> d = CHR ''-''
                 then map_option (apfst ((@) [c, d])) (digits1 r')
                 else map_option (apfst ((#) c)) (digits1 r)
             | [] \<Rightarrow> None)
          else Some ([], s)
      | [] \<Rightarrow> Some ([], s))"

definition num_lit :: "string \<Rightarrow> (string \<times> string) option" where
  "num_lit s =
     (let (sg, s1) = num_sign s in
      case num_int s1 of
        None \<Rightarrow> None
      | Some (i, s2) \<Rightarrow>
          (case num_frac s2 of
             None \<Rightarrow> None
           | Some (f, s3) \<Rightarrow>
               (case num_exp s3 of
                  None \<Rightarrow> None
                | Some (e, s4) \<Rightarrow> Some (sg @ i @ f @ e, s4))))"

text \<open>The key of a member, with the colon behind it.\<close>

definition parse_key :: "string \<Rightarrow> (string \<times> string) option" where
  "parse_key s =
     (case skip_ws s of
        [] \<Rightarrow> None
      | q # r0 \<Rightarrow>
          if q \<noteq> quote then None
          else
            (case dec_body r0 of
               None \<Rightarrow> None
             | Some (k, r1) \<Rightarrow> map_option (Pair k) (strip_prefix '':'' (skip_ws r1))))"

fun parse_val :: "nat \<Rightarrow> string \<Rightarrow> (json \<times> string) option"
  and parse_elems :: "nat \<Rightarrow> string \<Rightarrow> (json list \<times> string) option"
  and parse_members :: "nat \<Rightarrow> string \<Rightarrow> ((string \<times> json) list \<times> string) option" where
  "parse_val 0 s = None"
| "parse_val (Suc n) s =
     (case skip_ws s of
        [] \<Rightarrow> None
      | c # r \<Rightarrow>
          if c = CHR ''n'' then map_option (Pair JNull) (strip_prefix ''ull'' r)
          else if c = CHR ''t'' then map_option (Pair (JBool True)) (strip_prefix ''rue'' r)
          else if c = CHR ''f'' then map_option (Pair (JBool False)) (strip_prefix ''alse'' r)
          else if c = quote then map_option (apfst JStr) (dec_body r)
          else if c = CHR ''['' then
            (case strip_prefix '']'' (skip_ws r) of
               Some r' \<Rightarrow> Some (JArr [], r')
             | None \<Rightarrow> map_option (apfst JArr) (parse_elems n r))
          else if c = CHR ''{'' then
            (case strip_prefix ''}'' (skip_ws r) of
               Some r' \<Rightarrow> Some (JObj [], r')
             | None \<Rightarrow> map_option (apfst JObj) (parse_members n r))
          else map_option (apfst JNum) (num_lit (c # r)))"
| "parse_elems 0 s = None"
| "parse_elems (Suc n) s =
     (case parse_val n s of
        None \<Rightarrow> None
      | Some (v, r) \<Rightarrow>
          (case skip_ws r of
             [] \<Rightarrow> None
           | c # r' \<Rightarrow>
               if c = CHR '','' then map_option (apfst ((#) v)) (parse_elems n r')
               else if c = CHR '']'' then Some ([v], r')
               else None))"
| "parse_members 0 s = None"
| "parse_members (Suc n) s =
     (case parse_key s of
        None \<Rightarrow> None
      | Some (k, r2) \<Rightarrow>
          (case parse_val n r2 of
             None \<Rightarrow> None
           | Some (v, r) \<Rightarrow>
               (case skip_ws r of
                  [] \<Rightarrow> None
                | c # r' \<Rightarrow>
                    if c = CHR '','' then
                      map_option (apfst ((#) (k, v))) (parse_members n r')
                    else if c = CHR ''}'' then Some ([(k, v)], r')
                    else None)))"

declare parse_val.simps [simp del] parse_elems.simps [simp del] parse_members.simps [simp del]

definition json_parse :: "string \<Rightarrow> json option" where
  "json_parse s =
     (case parse_val (2 * length s + 1) s of
        Some (v, r) \<Rightarrow> if skip_ws r = [] then Some v else None
      | None \<Rightarrow> None)"

section \<open>Decoding an object into a struct\<close>

text \<open>
  A key selects the field with exactly that name, else the first field whose name is equal
  under case folding. The folding of \<open>encoding/json\<close> also identifies U+017F with
  \<open>s\<close> and U+212A with \<open>k\<close>.
\<close>

fun fold_key :: "string \<Rightarrow> string" where
  "fold_key [] = []"
| "fold_key (c # cs) =
     (if c = chr 197 \<and> take 1 cs = [chr 191] then CHR ''s'' # fold_key (drop 1 cs)
      else if c = chr 226 \<and> take 2 cs = [chr 132, chr 170] then CHR ''k'' # fold_key (drop 2 cs)
      else lower_char c # fold_key cs)"

type_synonym 'r field = "string \<times> (json \<Rightarrow> 'r \<Rightarrow> 'r option)"

definition select_field :: "'r field list \<Rightarrow> string \<Rightarrow> 'r field option" where
  "select_field fs k =
     (case find (\<lambda>f. fst f = k) fs of
        Some f \<Rightarrow> Some f
      | None \<Rightarrow> find (\<lambda>f. fold_key (fst f) = fold_key k) fs)"

fun decode_members :: "'r field list \<Rightarrow> (string \<times> json) list \<Rightarrow> 'r \<Rightarrow> 'r option" where
  "decode_members fs [] r = Some r"
| "decode_members fs ((k, v) # kvs) r =
     (case select_field fs k of
        None \<Rightarrow> decode_members fs kvs r
      | Some (_, dec) \<Rightarrow>
          (case dec v r of
             None \<Rightarrow> None
           | Some r' \<Rightarrow> decode_members fs kvs r'))"

definition decode_struct :: "'r field list \<Rightarrow> json \<Rightarrow> 'r \<Rightarrow> 'r option" where
  "decode_struct fs j r =
     (case j of
        JNull \<Rightarrow> Some r
      | JObj kvs \<Rightarrow> decode_members fs kvs r
      | _ \<Rightarrow> None)"

text \<open>Decoders of the basic kinds; \<open>null\<close> leaves the target as it is.\<close>

definition dec_string :: "json \<Rightarrow> string \<Rightarrow> string option" where
  "dec_string j old = (case j of JStr s \<Rightarrow> Some s | JNull \<Rightarrow> Some old | _ \<Rightarrow> None)"

definition dec_bool :: "json \<Rightarrow> bool \<Rightarrow> bool option" where
  "dec_bool j old = (case j of JBool b \<Rightarrow> Some b | JNull \<Rightarrow> Some old | _ \<Rightarrow> None)"

text \<open>\<open>strconv.ParseInt(lit, 10, 64)\<close> on a number literal.\<close>

definition parse_int64 :: "string \<Rightarrow> int option" where
  "parse_int64 lit =
     (let (sg, ds) = num_sign lit; n = int (digits_val ds); v = (if sg = [] then n else - n) in
      if ds \<noteq> [] \<and> list_all is_digit ds \<and> - (2 ^ 63) \<le> v \<and> v < 2 ^ 63 then Some v else None)"

definition dec_int :: "json \<Rightarrow> int \<Rightarrow> int option" where
  "dec_int j old = (case j of JNum lit \<Rightarrow> parse_int64 lit | JNull \<Rightarrow> Some old | _ \<Rightarrow> None)"

section \<open>The fuel of the reader is enough\<close>

text \<open>Every part of the reader consumes text, so twice the length of the text bounds its calls.\<close>

lemma length_skip_ws: "length (skip_ws s) \<le> length s"
  by (simp add: skip_ws_def length_dropWhile_le)

lemma skip_ws_Cons_less: "skip_ws s = c # r \<Longrightarrow> length r < length s"
  using length_skip_ws [of s] by simp

lemma strip_prefix_length: "strip_prefix p s = Some r \<Longrightarrow> length r + length p = length s"
  by (induction p s rule: strip_prefix.induct) (auto split: if_splits)

lemma dec_body_length: "dec_body s = Some (x, r) \<Longrightarrow> length r < length s"
proof (induction "length s" arbitrary: s x r rule: less_induct)
  case less
  note IH = less.hyps [rotated]
  show ?case
  proof (cases s)
    case Nil
    with less.prems show ?thesis by simp
  next
    case (Cons c cs)
    with less.prems show ?thesis
      by (auto simp: dec_body.simps(2) split: if_splits list.splits option.splits dest!: IH)
  qed
qed

lemma digits1_length: "digits1 s = Some (d, r) \<Longrightarrow> length r < length s"
proof -
  assume a: "digits1 s = Some (d, r)"
  then have "takeWhile is_digit s = d" "d \<noteq> []" "r = dropWhile is_digit s"
    by (auto simp: digits1_def split: list.splits)
  moreover have "length (takeWhile is_digit s) + length (dropWhile is_digit s) = length s"
    by (metis length_append takeWhile_dropWhile_id)
  ultimately show ?thesis by (cases d) auto
qed

lemma num_int_length: "num_int s = Some (i, r) \<Longrightarrow> length r < length s"
  by (auto simp: num_int_def split: list.splits if_splits dest: digits1_length)

lemma num_frac_length: "num_frac s = Some (f, r) \<Longrightarrow> length r \<le> length s"
  by (auto simp: num_frac_def split: list.splits if_splits dest: digits1_length)

lemma num_exp_length: "num_exp s = Some (e, r) \<Longrightarrow> length r \<le> length s"
  by (auto simp: num_exp_def split: list.splits if_splits dest!: digits1_length)

lemma num_lit_length: "num_lit s = Some (l, r) \<Longrightarrow> length r < length s"
proof -
  assume a: "num_lit s = Some (l, r)"
  obtain sg s1 where s1: "num_sign s = (sg, s1)" by (cases "num_sign s")
  then have "length s1 \<le> length s" by (auto simp: num_sign_def split: list.splits if_splits)
  then show ?thesis
    using a s1 by (auto simp: num_lit_def split: option.splits
        dest!: num_int_length num_frac_length num_exp_length)
qed

lemma parse_key_length: "parse_key s = Some (k, r) \<Longrightarrow> length r < length s"
  by (auto simp: parse_key_def split: list.splits if_splits option.splits
      dest!: strip_prefix_length dec_body_length skip_ws_Cons_less)
    (metis le_less_trans length_skip_ws less_trans Suc_lessD)

lemmas consumption = skip_ws_Cons_less strip_prefix_length dec_body_length num_lit_length

lemma parse_length:
  "parse_val n s = Some (v, r) \<Longrightarrow> length r < length s"
  "parse_elems n s = Some (vs, r) \<Longrightarrow> length r < length s"
  "parse_members n s = Some (kvs, r) \<Longrightarrow> length r < length s"
proof (induction n arbitrary: s v vs kvs r)
  case 0
  { case 1 then show ?case by (simp add: parse_val.simps) }
  { case 2 then show ?case by (simp add: parse_elems.simps) }
  { case 3 then show ?case by (simp add: parse_members.simps) }
next
  case (Suc n)
  { case 1
    then obtain c t where t: "skip_ws s = c # t"
      by (auto simp: parse_val.simps split: list.splits)
    have "length t < length s" using t by (rule skip_ws_Cons_less)
    moreover have "length r < length (c # t)"
      using 1 t length_skip_ws [of t]
      by (auto simp: parse_val.simps split: if_splits option.splits
          dest!: Suc.IH consumption(2-4))
    ultimately show ?case by simp }
  { case 2
    then show ?case
      by (auto simp: parse_elems.simps split: option.splits list.splits if_splits
          dest!: Suc.IH consumption(1)) }
  { case 3
    then show ?case
      by (auto simp: parse_members.simps split: option.splits list.splits if_splits
          dest!: Suc.IH skip_ws_Cons_less parse_key_length) }
qed

lemma parse_fuel:
  "2 * length s < f \<Longrightarrow> 2 * length s < g \<Longrightarrow> parse_val f s = parse_val g s"
  "2 * length s + 1 < f \<Longrightarrow> 2 * length s + 1 < g \<Longrightarrow> parse_elems f s = parse_elems g s"
  "2 * length s + 1 < f \<Longrightarrow> 2 * length s + 1 < g \<Longrightarrow> parse_members f s = parse_members g s"
proof (induction f arbitrary: s g)
  case 0
  { case 1 then show ?case by simp }
  { case 2 then show ?case by simp }
  { case 3 then show ?case by simp }
next
  case (Suc n)
  { case 1
    then obtain m where m: "g = Suc m" by (cases g) simp_all
    { fix c r assume "skip_ws s = c # r"
      then have "2 * length r + 1 < n" "2 * length r + 1 < m"
        using 1 m skip_ws_Cons_less [of s c r] by simp_all
      then have "parse_elems n r = parse_elems m r" "parse_members n r = parse_members m r"
        by (rule Suc.IH)+ }
    then show ?case by (cases "skip_ws s") (simp_all add: m parse_val.simps split: option.splits) }
  { case 2
    then obtain m where m: "g = Suc m" by (cases g) simp_all
    have v: "parse_val n s = parse_val m s" using 2 m by (intro Suc.IH(1)) simp_all
    { fix v r c r' assume "parse_val m s = Some (v, r)" "skip_ws r = c # r'"
      then have "2 * length r' + 1 < n" "2 * length r' + 1 < m"
        using 2 m parse_length(1) [of m s v r] skip_ws_Cons_less [of r c r'] by simp_all
      then have "parse_elems n r' = parse_elems m r'" by (rule Suc.IH(2)) }
    then show ?case by (simp add: m v parse_elems.simps split: option.splits list.splits) }
  { case 3
    then obtain m where m: "g = Suc m" by (cases g) simp_all
    { fix k t assume "parse_key s = Some (k, t)"
      then have less: "2 * length t < n" "2 * length t < m"
        using 3 m by (auto dest!: parse_key_length)
      then have v: "parse_val n t = parse_val m t" by (rule Suc.IH(1))
      { fix v r c r' assume "parse_val m t = Some (v, r)" "skip_ws r = c # r'"
        then have "2 * length r' + 1 < n" "2 * length r' + 1 < m"
          using less parse_length(1) [of m t v r] skip_ws_Cons_less [of r c r'] by simp_all
        then have "parse_members n r' = parse_members m r'" by (rule Suc.IH(3)) }
      note v this }
    then show ?case
      by (cases "parse_key s")
        (auto simp: m parse_members.simps split: option.splits list.splits) }
qed

section \<open>Reading inverts writing\<close>

lemma quote_char: "quote = CHR 0x22"
  by code_simp

definition valid_num :: "string \<Rightarrow> bool" where
  "valid_num lit \<longleftrightarrow> num_lit lit = Some (lit, [])"

fun wf_json :: "json \<Rightarrow> bool" where
  "wf_json JNull = True"
| "wf_json (JBool b) = True"
| "wf_json (JNum lit) = valid_num lit"
| "wf_json (JStr s) = valid_utf8 s"
| "wf_json (JArr vs) = list_all wf_json vs"
| "wf_json (JObj kvs) = list_all (\<lambda>kv. valid_utf8 (fst kv) \<and> wf_json (snd kv)) kvs"

text \<open>What may follow a value in the text: the end, or a delimiter.\<close>

definition delim :: "string \<Rightarrow> bool" where
  "delim r \<longleftrightarrow> (case r of [] \<Rightarrow> True | c # _ \<Rightarrow> c \<in> {CHR '','', CHR '']'', CHR ''}''})"

lemma delim_char: "delim (c # r) \<longleftrightarrow> c = CHR '','' \<or> c = CHR '']'' \<or> c = CHR ''}''"
  by (auto simp: delim_def)

lemma delim_not_digit: "delim r \<Longrightarrow> takeWhile is_digit r = [] \<and> dropWhile is_digit r = r"
  by (auto simp: delim_def is_digit_def split: list.splits)

lemma takeWhile_delim:
  "delim r \<Longrightarrow> takeWhile is_digit (s @ r) = takeWhile is_digit s"
  "delim r \<Longrightarrow> dropWhile is_digit (s @ r) = dropWhile is_digit s @ r"
  by (induction s) (auto dest: delim_not_digit)

lemma digits1_delim:
  "delim r \<Longrightarrow> digits1 (s @ r) = map_option (apsnd (\<lambda>t. t @ r)) (digits1 s)"
  by (simp add: digits1_def takeWhile_delim split: list.splits)

lemma num_int_delim:
  "delim r \<Longrightarrow> num_int s = Some (i, t) \<Longrightarrow> num_int (s @ r) = Some (i, t @ r)"
  by (cases s) (auto simp: num_int_def digits1_delim [of r "_ # _", simplified] split: if_splits)

lemma num_frac_delim:
  "delim r \<Longrightarrow> num_frac s = Some (f, t) \<Longrightarrow> num_frac (s @ r) = Some (f, t @ r)"
  by (cases s; cases r)
    (auto simp: num_frac_def delim_char digits1_delim [of "_ # _"] split: if_splits)

lemma num_exp_delim:
  assumes "delim r" and "num_exp s = Some (e, t)"
  shows "num_exp (s @ r) = Some (e, t @ r)"
proof (cases s)
  case Nil
  with assms show ?thesis by (cases r) (auto simp: num_exp_def delim_char)
next
  case (Cons c s')
  with assms show ?thesis
    by (cases s') (auto simp: num_exp_def digits1_delim digits1_delim [of r "_ # _", simplified]
        split: if_splits)
qed

lemma num_lit_delim:
  assumes "delim r" and "valid_num lit"
  shows "num_lit (lit @ r) = Some (lit, r)"
proof -
  obtain sg s1 where sg: "num_sign lit = (sg, s1)" by (cases "num_sign lit")
  with assms(2) obtain i s2 f s3 e where
    parts: "num_int s1 = Some (i, s2)" "num_frac s2 = Some (f, s3)" "num_exp s3 = Some (e, [])"
    and lit: "sg @ i @ f @ e = lit"
    by (auto simp: valid_num_def num_lit_def split: option.splits)
  have "s1 \<noteq> []" using parts(1) by (auto simp: num_int_def)
  then have "num_sign (lit @ r) = (sg, s1 @ r)"
    using sg by (cases lit) (auto simp: num_sign_def split: if_splits)
  then show ?thesis
    using num_int_delim [OF assms(1) parts(1)] num_frac_delim [OF assms(1) parts(2)]
      num_exp_delim [OF assms(1) parts(3)] lit
    by (simp add: num_lit_def)
qed

text \<open>The first byte of a value's text selects the branch of the reader.\<close>

lemma num_head:
  assumes "valid_num lit"
  obtains c t where "lit = c # t" and "is_digit c \<or> c = CHR ''-''"
proof -
  from assms obtain sg s1 i s2 where sg: "num_sign lit = (sg, s1)" and i: "num_int s1 = Some (i, s2)"
    by (auto simp: valid_num_def num_lit_def split: option.splits prod.splits)
  show ?thesis
  proof (cases lit)
    case Nil
    with sg i show ?thesis by (simp add: num_sign_def num_int_def)
  next
    case (Cons c t)
    with sg i have "is_digit c \<or> c = CHR ''-''"
      by (auto simp: num_sign_def num_int_def digits1_def is_digit_def split: if_splits list.splits)
    with Cons show ?thesis by (rule that)
  qed
qed

lemma print_head:
  assumes "wf_json v"
  obtains c t where "json_print v = c # t" and "\<not> is_ws c" and "c \<notin> {CHR '']'', CHR ''}''}"
proof (cases v)
  case (JNum lit)
  with assms obtain c t where "lit = c # t" "is_digit c \<or> c = CHR ''-''"
    by (auto elim: num_head)
  moreover from this have "\<not> is_ws c" "c \<notin> {CHR '']'', CHR ''}''}"
    by (auto simp: is_digit_def is_ws_def byte_def)
  ultimately show ?thesis using JNum that by simp
next
  case (JStr x)
  have "quote \<notin> {CHR '']'', CHR ''}''}" "\<not> is_ws quote" by (simp_all add: quote_char is_ws_def byte_def)
  with JStr that show ?thesis by (simp add: enc_string_def)
next
  case (JBool b)
  with that show ?thesis by (cases b) (simp_all add: is_ws_def byte_def)
qed (use that in \<open>simp_all add: is_ws_def byte_def\<close>)

lemma skip_ws_print: "wf_json v \<Longrightarrow> skip_ws (json_print v @ r) = json_print v @ r"
  by (erule print_head) (simp add: skip_ws_def)

lemma skip_ws_delim: "delim r \<Longrightarrow> skip_ws r = r"
  by (auto simp: delim_def skip_ws_def is_ws_def byte_def split: list.splits)

lemma parse_str_literal:
  "valid_utf8 s \<Longrightarrow> parse_val (Suc n) (enc_string s @ r) = Some (JStr s, r)"
proof -
  have "\<not> is_ws quote" "quote \<notin> {CHR ''n'', CHR ''t'', CHR ''f''}"
    by (simp_all add: quote_char is_ws_def byte_def)
  then show "valid_utf8 s \<Longrightarrow> parse_val (Suc n) (enc_string s @ r) = Some (JStr s, r)"
    by (simp add: parse_val.simps enc_string_def skip_ws_def dec_enc_body)
qed

lemma parse_num_literal:
  assumes "valid_num lit" and "delim r"
  shows "parse_val (Suc n) (lit @ r) = Some (JNum lit, r)"
proof -
  obtain c t where lit: "lit = c # t" and c: "is_digit c \<or> c = CHR ''-''"
    using assms(1) by (rule num_head)
  then have "skip_ws (lit @ r) = c # t @ r"
    by (auto simp: skip_ws_def is_ws_def is_digit_def byte_def)
  moreover have "c \<notin> {CHR ''n'', CHR ''t'', CHR ''f'', quote, CHR ''['', CHR ''{''}"
    using c by (auto simp: is_digit_def quote_char)
  ultimately show ?thesis
    using num_lit_delim [OF assms(2,1)] lit by (simp add: parse_val.simps)
qed

lemma strip_close_print:
  assumes "wf_json v"
  shows "strip_prefix '']'' (skip_ws (json_print v @ r)) = None"
  using assms by (rule print_head) (auto simp: skip_ws_def)

lemma parse_member_head:
  assumes "valid_utf8 k" and "parse_val n (json_print v @ r) = Some (v, r)"
    and "wf_json v" and "r = c # r'" and "delim r"
  shows "parse_members (Suc n) (enc_string k @ '':'' @ json_print v @ r) =
    (if c = CHR '','' then map_option (apfst ((#) (k, v))) (parse_members n r')
     else if c = CHR ''}'' then Some ([(k, v)], r') else None)"
proof -
  have "skip_ws (enc_string k @ t) = enc_string k @ t" for t
    by (simp add: skip_ws_def enc_string_def is_ws_def quote_def)
  moreover have "skip_ws (CHR '':'' # t) = CHR '':'' # t" for t
    by (simp add: skip_ws_def is_ws_def byte_def)
  ultimately show ?thesis
    using assms skip_ws_delim [OF assms(5)]
    by (simp add: parse_members.simps parse_key_def enc_string_def dec_enc_body)
qed

lemma parse_elem_head:
  assumes "parse_val n (json_print v @ r) = Some (v, r)" and "r = c # r'" and "delim r"
  shows "parse_elems (Suc n) (json_print v @ r) =
    (if c = CHR '','' then map_option (apfst ((#) v)) (parse_elems n r')
     else if c = CHR '']'' then Some ([v], r') else None)"
  using assms skip_ws_delim [OF assms(3)] by (simp add: parse_elems.simps)

lemma parse_array:
  assumes "vs \<noteq> [] \<Longrightarrow> parse_elems n (print_elems vs @ CHR '']'' # r) = Some (vs, r)" and "list_all wf_json vs"
  shows "parse_val (Suc n) (CHR ''['' # print_elems vs @ CHR '']'' # r) = Some (JArr vs, r)"
proof -
  have bracket: "parse_val (Suc n) (CHR ''['' # t) = (case strip_prefix '']'' (skip_ws t) of
      Some r' \<Rightarrow> Some (JArr [], r') | None \<Rightarrow> map_option (apfst JArr) (parse_elems n t))" for t
    by (simp add: parse_val.simps skip_ws_def is_ws_def byte_def quote_char)
  show ?thesis
  proof (cases vs)
    case Nil
    then show ?thesis by (simp add: bracket skip_ws_def is_ws_def byte_def)
  next
    case (Cons w ws)
    have "strip_prefix '']'' (skip_ws (print_elems vs @ CHR '']'' # r)) = None"
      using Cons assms(2) strip_close_print [of w] by (cases ws) (auto simp del: strip_prefix.simps)
    then show ?thesis using assms(1) Cons by (simp add: bracket)
  qed
qed

lemma parse_object:
  assumes "kvs \<noteq> [] \<Longrightarrow> parse_members n (print_members kvs @ CHR ''}'' # r) = Some (kvs, r)"
  shows "parse_val (Suc n) (CHR ''{'' # print_members kvs @ CHR ''}'' # r) = Some (JObj kvs, r)"
proof -
  have bracket: "parse_val (Suc n) (CHR ''{'' # t) = (case strip_prefix ''}'' (skip_ws t) of
      Some r' \<Rightarrow> Some (JObj [], r') | None \<Rightarrow> map_option (apfst JObj) (parse_members n t))" for t
    by (simp add: parse_val.simps skip_ws_def is_ws_def byte_def quote_char)
  show ?thesis
  proof (cases kvs)
    case Nil
    then show ?thesis by (simp add: bracket skip_ws_def is_ws_def byte_def)
  next
    case (Cons kv ws)
    obtain k w where kv: "kv = (k, w)" by (cases kv)
    obtain t where "print_members kvs = enc_string k @ t"
      using Cons kv by (cases ws) simp_all
    then have "strip_prefix ''}'' (skip_ws (print_members kvs @ CHR ''}'' # r)) = None"
      by (simp add: enc_string_def skip_ws_def is_ws_def quote_char byte_def)
    then show ?thesis using assms Cons by (simp add: bracket)
  qed
qed

text \<open>
  The round trip for values, element lists and member lists together, each followed by
  more text.
\<close>

lemma parse_print:
  "wf_json v \<Longrightarrow> delim r \<Longrightarrow> 2 * length (json_print v @ r) < f
    \<Longrightarrow> parse_val f (json_print v @ r) = Some (v, r)"
  "vs \<noteq> [] \<Longrightarrow> list_all wf_json vs \<Longrightarrow> 2 * length (print_elems vs @ CHR '']'' # r) + 1 < f
    \<Longrightarrow> parse_elems f (print_elems vs @ CHR '']'' # r) = Some (vs, r)"
  "kvs \<noteq> [] \<Longrightarrow> list_all (\<lambda>kv. valid_utf8 (fst kv) \<and> wf_json (snd kv)) kvs
    \<Longrightarrow> 2 * length (print_members kvs @ CHR ''}'' # r) + 1 < f
    \<Longrightarrow> parse_members f (print_members kvs @ CHR ''}'' # r) = Some (kvs, r)"
proof (induction v and vs and kvs arbitrary: r f and r f and r f
    rule: json_print_print_elems_print_members.induct)
  case (5 vs)
  then obtain n where "f = Suc n" by (cases f) simp_all
  with 5 parse_array [of vs n r] show ?case by simp
next
  case (6 kvs)
  then obtain n where "f = Suc n" by (cases f) simp_all
  with 6 parse_object [of kvs n r] show ?case by simp
next
  case (8 v)
  then obtain n where f: "f = Suc n" by (cases f) simp_all
  have "parse_val n (json_print v @ CHR '']'' # r) = Some (v, CHR '']'' # r)"
    using 8 f by (intro "8.IH") (simp_all add: delim_char)
  then show ?case by (simp add: f parse_elem_head delim_char)
next
  case (9 v w vs)
  then obtain n where f: "f = Suc n" by (cases f) simp_all
  let ?t = "print_elems (w # vs) @ CHR '']'' # r"
  have "parse_val n (json_print v @ CHR '','' # ?t) = Some (v, CHR '','' # ?t)"
    using 9 f by (intro "9.IH"(1)) (simp_all add: delim_char)
  moreover have "parse_elems n ?t = Some (w # vs, r)"
    using 9 f by (intro "9.IH"(2)) simp_all
  ultimately show ?case by (simp add: f parse_elem_head delim_char)
next
  case (11 k v)
  then obtain n where f: "f = Suc n" by (cases f) simp_all
  have "parse_val n (json_print v @ CHR ''}'' # r) = Some (v, CHR ''}'' # r)"
    using 11 f by (intro "11.IH") (simp_all add: delim_char)
  then show ?case
    using 11 f parse_member_head [of k n v "CHR ''}'' # r"] by (simp add: delim_char)
next
  case (12 k v kv kvs)
  then obtain n where f: "f = Suc n" by (cases f) simp_all
  let ?t = "print_members (kv # kvs) @ CHR ''}'' # r"
  have "parse_val n (json_print v @ CHR '','' # ?t) = Some (v, CHR '','' # ?t)"
    using 12 f by (intro "12.IH"(1)) (simp_all add: delim_char)
  moreover have "parse_members n ?t = Some (kv # kvs, r)"
    using 12 f by (intro "12.IH"(2)) simp_all
  ultimately show ?case
    using 12 f parse_member_head [of k n v "CHR '','' # ?t"] by (simp add: delim_char)
next
  case (3 lit)
  then show ?case by (cases f) (simp_all add: parse_num_literal)
next
  case (4 s)
  then show ?case by (cases f) (simp_all add: parse_str_literal)
next
  case 1
  then show ?case by (cases f) (simp_all add: parse_val.simps skip_ws_def is_ws_def byte_def)
next
  case (2 b)
  then show ?case by (cases f) (simp_all add: parse_val.simps skip_ws_def is_ws_def byte_def)
qed simp_all

lemma json_parse_print: "wf_json v \<Longrightarrow> json_parse (json_print v) = Some v"
  using parse_print(1) [of v "[]" "2 * length (json_print v) + 1"]
  by (simp add: json_parse_def delim_def skip_ws_def)

section \<open>Formats of messages\<close>

text \<open>
  What every type of message on the wire promises: the values that can be sent are marshalled
  to JSON that can be printed, and decoding gives them back. Then their text reads back.
\<close>

locale wire_format =
  fixes marshal :: "'m \<Rightarrow> json" and unmarshal :: "json \<Rightarrow> 'm option" and sendable :: "'m \<Rightarrow> bool"
  assumes printable: "sendable m \<Longrightarrow> wf_json (marshal m)"
    and decodes: "sendable m \<Longrightarrow> unmarshal (marshal m) = Some m"
begin

lemma parsed: "sendable m \<Longrightarrow> json_parse (json_print (marshal m)) = Some (marshal m)"
  by (rule json_parse_print [OF printable])

lemma read_back: "sendable m \<Longrightarrow> Option.bind (json_parse (json_print (marshal m))) unmarshal = Some m"
  by (simp add: parsed decodes)

lemma text_injective:
  assumes "sendable m" and "sendable m'" and "json_print (marshal m) = json_print (marshal m')"
  shows "m = m'"
  using decodes [OF assms(1)] decodes [OF assms(2)] parsed [OF assms(1)] parsed [OF assms(2)] assms(3)
  by (metis option.inject)

end

end
