(* ===== verification/Config.thy ===== *)
theory Config
  imports Go_Strings
begin

text \<open>
  \<open>pkg/config.go\<close>: the configuration structs, the endpoint a node advertises to the rest
  of the cluster, and the key lookup of the token check. The struct \<open>sfu.Config\<close>
  belongs to ion-sfu; \<open>sfuConfig\<close> has the fields of it that this repository reads or
  writes.
\<close>

section \<open>The configuration structs\<close>

record AuthConfig =
  Enabled :: bool
  auth_Key :: string
  KeyType :: string

record SignalConfig =
  FQDN :: string
  Key :: string
  Cert :: string
  HTTPAddr :: string
  GRPCAddr :: string
  Auth :: AuthConfig

text \<open>The pointer fields of \<open>CoordinatorConfig\<close> are options; \<open>None\<close> is nil.\<close>

record LocalCoordinatorConfig =
  local_Enabled :: bool

record EtcdCoordinatorConfig =
  etcd_Enabled :: bool
  Hosts :: "string list"

record CoordinatorConfig =
  Local :: "LocalCoordinatorConfig option"
  Etcd :: "EtcdCoordinatorConfig option"

text \<open>A buffer factory of ion-sfu, uninterpreted: the packet limit it was made with.\<close>

datatype bufferFactory = NewBufferFactory int

record sfuConfig =
  BufferFactory :: "bufferFactory option"
  MaxPacketTrack :: int
  ICEPortRange :: "nat list"
  NAT1To1IPs :: "string list"
  Ballast :: int
  TurnEnabled :: bool

record RootConfig =
  Signal :: SignalConfig
  SFU :: sfuConfig
  Coordinator :: CoordinatorConfig

section \<open>Operations\<close>

text \<open>
  Whether the listener uses TLS: the test \<open>Key != "" \<and> Cert != ""\<close> that both
  \<open>Endpoint\<close> and \<open>ServeWebsocket\<close> make.
\<close>

definition uses_tls :: "SignalConfig \<Rightarrow> bool" where
  "uses_tls c \<longleftrightarrow> Key c \<noteq> [] \<and> Cert c \<noteq> []"

text \<open>Indexing the result of \<open>strings.Split\<close> with 1 panics when there is no colon.\<close>

definition Endpoint :: "RootConfig \<Rightarrow> string outcome" where
  "Endpoint c =
     (case go_split (CHR '':'') (HTTPAddr (Signal c)) of
        _ # port # _ \<Rightarrow>
          Ret ((if uses_tls (Signal c) then ''wss://'' else ''ws://'')
               @ FQDN (Signal c) @ '':'' @ port @ ''/ws'')
      | _ \<Rightarrow> Panic ''index out of range [1] with length 1'')"

text \<open>\<open>keyFunc\<close> ignores the token and the key type: its switch has only a default.\<close>

definition keyFunc :: "AuthConfig \<Rightarrow> 'token \<Rightarrow> string outcome" where
  "keyFunc a t = Ret (auth_Key a)"

section \<open>Lemmas\<close>

lemma Endpoint_host_port:
  assumes "HTTPAddr (Signal c) = host @ '':'' @ port"
    and "CHR '':'' \<notin> set host" and "CHR '':'' \<notin> set port"
  shows "Endpoint c =
    Ret ((if uses_tls (Signal c) then ''wss://'' else ''ws://'') @ FQDN (Signal c) @ '':'' @ port @ ''/ws'')"
  using assms by (simp add: Endpoint_def go_split_first go_split_none)

lemma Endpoint_panics_iff:
  "(\<exists>p. Endpoint c = Panic p) \<longleftrightarrow> CHR '':'' \<notin> set (HTTPAddr (Signal c))"
proof -
  let ?a = "HTTPAddr (Signal c)"
  have "length (go_split (CHR '':'') ?a) = Suc (count_list ?a (CHR '':''))"
    by (rule length_go_split)
  then have "CHR '':'' \<notin> set ?a \<longleftrightarrow> length (go_split (CHR '':'') ?a) = 1"
    by (simp add: count_list_0_iff)
  then show ?thesis
    by (auto simp: Endpoint_def split: list.splits)
qed

lemma Endpoint_no_error: "Endpoint c \<noteq> Err e \<and> Endpoint c \<noteq> Block"
  by (simp add: Endpoint_def split: list.splits)

section \<open>The advertised endpoint\<close>

text \<open>
  The endpoint of a node whose listen address is \<open>host:port\<close> is the scheme, the
  configured name, that port and the path \<open>/ws\<close>; without a colon in the address, and only
  then, computing it panics.
\<close>

lemma endpoint_of_listen_address:
  "(HTTPAddr (Signal c) = host @ '':'' @ port \<and> CHR '':'' \<notin> set host \<and> CHR '':'' \<notin> set port \<longrightarrow>
      Endpoint c = Ret ((if uses_tls (Signal c) then ''wss://'' else ''ws://'') @ FQDN (Signal c) @ '':'' @ port @ ''/ws''))
    \<and> ((\<exists>p. Endpoint c = Panic p) \<longleftrightarrow> CHR '':'' \<notin> set (HTTPAddr (Signal c)))"
  using Endpoint_host_port [of c host port] Endpoint_panics_iff [of c] by blast

end
