(* ===== verification/Metrics.thy ===== *)
theory Metrics
  imports Complex_Main Prelude
begin

text \<open>
  \<open>pkg/metrics.go\<close>: the three gauges of a node. A Prometheus gauge is third-party code,
  so the model records the \<open>Inc\<close> and \<open>Dec\<close> calls the node makes, in order, and what
  a gauge reads after those calls is a parameter \<open>read\<close>. Its documented behaviour is
  the hypothesis \<open>gauge_reads_net\<close>.
\<close>

datatype gauge =
    GaugeSessions      \<comment> \<open>\<open>prometheusGaugeSessions\<close>\<close>
  | GaugeClients       \<comment> \<open>\<open>prometheusGaugeClients\<close>\<close>
  | GaugeProxyClients  \<comment> \<open>\<open>prometheusGaugeProxyClients\<close>\<close>

datatype gauge_call = Inc gauge | Dec gauge

text \<open>The calls of \<open>Inc\<close> less the calls of \<open>Dec\<close> on one gauge.\<close>

fun net :: "gauge \<Rightarrow> gauge_call list \<Rightarrow> int" where
  "net g [] = 0"
| "net g (Inc h # cs) = (if h = g then 1 else 0) + net g cs"
| "net g (Dec h # cs) = (if h = g then - 1 else 0) + net g cs"

definition gauge_reads_net :: "(gauge_call list \<Rightarrow> gauge \<Rightarrow> real) \<Rightarrow> bool" where
  "gauge_reads_net read \<longleftrightarrow> (\<forall>cs g. read cs g = of_int (net g cs))"

text \<open>Go's conversion of a float64 to an int truncates towards zero.\<close>

definition go_int_of_float :: "real \<Rightarrow> int" where
  "go_int_of_float x = (if 0 \<le> x then \<lfloor>x\<rfloor> else \<lceil>x\<rceil>)"

definition MetricsGetActiveClientsCount ::
  "(gauge_call list \<Rightarrow> gauge \<Rightarrow> real) \<Rightarrow> gauge_call list \<Rightarrow> int" where
  "MetricsGetActiveClientsCount read cs =
     (let active = read cs GaugeClients + read cs GaugeProxyClients in go_int_of_float active)"

text \<open>
  Registration, when the package is initialised. The registry is Prometheus's: \<open>register\<close>
  takes the name of a collector; \<open>MustRegister\<close> panics with its error.
\<close>

definition gauge_name :: "gauge \<Rightarrow> string" where
  "gauge_name g =
     (case g of
        GaugeSessions \<Rightarrow> ''ion_cluster_sessions''
      | GaugeClients \<Rightarrow> ''ion_cluster_clients''
      | GaugeProxyClients \<Rightarrow> ''ion_cluster_proxy_clients'')"

fun MustRegister :: "(string \<Rightarrow> 'r \<Rightarrow> string option \<times> 'r) \<Rightarrow> string list \<Rightarrow> 'r \<Rightarrow> unit outcome \<times> 'r" where
  "MustRegister register [] r = (Ret (), r)"
| "MustRegister register (c # cs) r =
     (case register c r of
        (Some err, r') \<Rightarrow> (Panic err, r')
      | (None, r') \<Rightarrow> MustRegister register cs r')"

definition metrics_init :: "(string \<Rightarrow> 'r \<Rightarrow> string option \<times> 'r) \<Rightarrow> string \<Rightarrow> 'r \<Rightarrow> unit outcome \<times> 'r" where
  "metrics_init register buildInfo =
     MustRegister register (map gauge_name [GaugeSessions, GaugeClients, GaugeProxyClients] @ [buildInfo])"

text \<open>The documented behaviour of a registry: a name is refused exactly if it is taken.\<close>

definition registry_laws :: "(string \<Rightarrow> 'r \<Rightarrow> string option \<times> 'r) \<Rightarrow> ('r \<Rightarrow> string set) \<Rightarrow> bool" where
  "registry_laws register taken \<longleftrightarrow>
     (\<forall>c r e r'. register c r = (e, r') \<longrightarrow>
        (e \<noteq> None \<longleftrightarrow> c \<in> taken r) \<and> (e = None \<longrightarrow> taken r' = insert c (taken r)))"

lemma gauge_name_inj: "inj gauge_name"
  by (rule injI) (simp add: gauge_name_def split: gauge.splits)

lemma MustRegister_distinct:
  assumes "registry_laws register taken" and "distinct cs" and "set cs \<inter> taken r = {}"
  shows "fst (MustRegister register cs r) = Ret () \<and> taken (snd (MustRegister register cs r)) = taken r \<union> set cs"
  using assms(2,3)
proof (induction cs arbitrary: r)
  case (Cons c cs)
  obtain e r' where reg: "register c r = (e, r')" by (cases "register c r")
  then have "e = None" "taken r' = insert c (taken r)"
    using assms(1) Cons.prems(2) unfolding registry_laws_def by (metis IntI emptyE list.set_intros(1))+
  with reg Cons show ?case by auto
qed simp

text \<open>The names of the gauges differ, so that a fresh process gets through its initialisation.\<close>

lemma metrics_init_registers:
  assumes "registry_laws register taken" and "taken r = {}" and "buildInfo \<notin> range gauge_name"
  shows "fst (metrics_init register buildInfo r) = Ret ()
    \<and> taken (snd (metrics_init register buildInfo r)) = insert buildInfo (range gauge_name)"
proof -
  have gs: "(UNIV :: gauge set) = set [GaugeSessions, GaugeClients, GaugeProxyClients]" by (auto intro: gauge.exhaust)
  have "distinct (map gauge_name [GaugeSessions, GaugeClients, GaugeProxyClients] @ [buildInfo])"
    using assms(3) gauge_name_inj by (auto simp: gs distinct_map inj_def)
  from MustRegister_distinct [OF assms(1) this, of r] show ?thesis
    using assms(2) by (auto simp: metrics_init_def gs)
qed

lemma net_append [simp]: "net g (cs @ ds) = net g cs + net g ds"
  by (induction g cs rule: net.induct) auto

lemma go_int_of_float_int [simp]: "go_int_of_float (of_int n) = n"
  by (simp add: go_int_of_float_def)

lemma active_clients_net:
  "gauge_reads_net read \<Longrightarrow>
    MetricsGetActiveClientsCount read cs = net GaugeClients cs + net GaugeProxyClients cs"
  unfolding MetricsGetActiveClientsCount_def gauge_reads_net_def Let_def
  by (simp flip: of_int_add)

end
