(* ===== verification/Session.thy ===== *)
theory Session
  imports Go_Channels Json Config Metrics "HOL-Library.Word"
begin

text \<open>
  \<open>pkg/session.go\<close>: the presence map of a session, its revision, and the broadcast of
  every change to the peers that listen. The store of a node's sessions and channels,
  which the coordinators and the signalling handlers share, is defined here too.
\<close>

type_synonym u64 = "64 word"

section \<open>Data\<close>

text \<open>
  A Go value of type \<open>interface{}\<close>, as far as presence metadata goes: the nil interface,
  or a \<open>map[string]interface{}\<close>. The map itself may be nil, and an interface that holds a
  nil map is not the nil interface.
\<close>

datatype iface = INil | IMap "(string \<times> json) list option"

text \<open>\<open>Presence\<close> of \<open>pkg/server_jsonrpc.go\<close>, and the message that carries it.\<close>

record Presence =
  Revision :: u64
  Meta :: "string \<rightharpoonup> iface"
  SystemInfo :: "string \<rightharpoonup> string"

record Broadcast =
  bc_method :: string
  bc_params :: Presence

text \<open>
  The embedded \<open>sfu.SessionLocal\<close> belongs to ion-sfu. It stays uninterpreted: a value
  that remembers the arguments of \<open>sfu.NewSession\<close>.
\<close>

datatype datachannel = Datachannel string "string list"

datatype transportConfig = NewWebRTCTransportConfig sfuConfig

datatype sessionLocal = SfuNewSession string "datachannel list" transportConfig

record Session =
  presence :: "string \<rightharpoonup> iface"
  presenceRevision :: u64
  broadcastListeners :: "(string \<times> nat) list"
  SessionLocal :: sessionLocal

text \<open>
  What the methods take from outside this package: the order in which Go ranges over the
  listeners (any permutation), \<open>deepcopy.Copy\<close> of the presence map, and the
  environment variable \<open>POD_NAME\<close>.
\<close>

record sess_env =
  rangeOrder :: "(string \<times> nat) list \<Rightarrow> (string \<times> nat) list"
  deepcopy :: "(string \<rightharpoonup> iface) \<Rightarrow> (string \<rightharpoonup> iface)"
  podName :: string

definition range_permutes :: "sess_env \<Rightarrow> bool" where
  "range_permutes E \<longleftrightarrow> (\<forall>xs. mset (rangeOrder E xs) = mset xs)"

section \<open>Operations\<close>

definition NewSession :: "string \<Rightarrow> datachannel list \<Rightarrow> transportConfig \<Rightarrow> Session" where
  "NewSession sid dcs cfg =
     \<lparr>presence = Map.empty, presenceRevision = 0, broadcastListeners = [],
      SessionLocal = SfuNewSession sid dcs cfg\<rparr>"

definition Broadcast_send :: "sess_env \<Rightarrow> Broadcast \<Rightarrow> Session \<Rightarrow> Broadcast chans \<Rightarrow> Broadcast chans" where
  "Broadcast_send E msg s cs = fold (\<lambda>(_, ch). select_send msg ch) (rangeOrder E (broadcastListeners s)) cs"

definition set_presence :: "string \<Rightarrow> iface \<Rightarrow> Session \<Rightarrow> Session" where
  "set_presence peerID meta s =
     (let s1 = s\<lparr>presenceRevision := presenceRevision s + 1\<rparr> in
      if meta \<noteq> INil then s1\<lparr>presence := (presence s1)(peerID \<mapsto> meta)\<rparr>
      else s1\<lparr>presence := (presence s1)(peerID := None)\<rparr>)"

definition presence_msg :: "sess_env \<Rightarrow> Session \<Rightarrow> Broadcast" where
  "presence_msg E s =
     \<lparr>bc_method = ''presence'',
      bc_params = \<lparr>Revision = presenceRevision s, Meta = deepcopy E (presence s),
                   SystemInfo = [''pod'' \<mapsto> podName E]\<rparr>\<rparr>"

definition UpdatePresenceMetaForPeer ::
  "sess_env \<Rightarrow> string \<Rightarrow> iface \<Rightarrow> Session \<times> Broadcast chans \<Rightarrow> Session \<times> Broadcast chans" where
  "UpdatePresenceMetaForPeer E peerID meta st =
     (let s' = set_presence peerID meta (fst st) in
      (s', Broadcast_send E (presence_msg E s') s' (snd st)))"

definition BroadcastAddListener :: "string \<Rightarrow> nat \<Rightarrow> Session \<Rightarrow> Session" where
  "BroadcastAddListener peerID ch s =
     s\<lparr>broadcastListeners := AList.update peerID ch (broadcastListeners s)\<rparr>"

definition BroadcastRemoveListener :: "string \<Rightarrow> Session \<Rightarrow> Session" where
  "BroadcastRemoveListener peerID s =
     s\<lparr>broadcastListeners := AList.delete peerID (broadcastListeners s)\<rparr>"

section \<open>One session: invariant and behaviour\<close>

text \<open>
  Listeners have distinct peer ids (a Go map) and distinct channels (\<open>join\<close> makes a new
  channel for every listener), and the channels exist.
\<close>

definition wf_session :: "Session \<Rightarrow> Broadcast chans \<Rightarrow> bool" where
  "wf_session s cs \<longleftrightarrow>
     distinct (map fst (broadcastListeners s)) \<and> distinct (map snd (broadcastListeners s))
     \<and> snd ` set (broadcastListeners s) \<subseteq> dom cs"

lemma wf_NewSession [wf_intros]: "wf_session (NewSession sid dcs cfg) cs"
  by (simp add: wf_session_def NewSession_def)

lemma wf_set_presence [simp]: "wf_session (set_presence p v s) cs \<longleftrightarrow> wf_session s cs"
  by (simp add: wf_session_def set_presence_def Let_def)

lemma set_presence_simps [simp]:
  "presenceRevision (set_presence p v s) = presenceRevision s + 1"
  "broadcastListeners (set_presence p v s) = broadcastListeners s"
  "SessionLocal (set_presence p v s) = SessionLocal s"
  "presence (set_presence p v s) = (presence s)(p := (if v = INil then None else Some v))"
  by (simp_all add: set_presence_def Let_def)

lemma wf_AddListener [wf_intros]:
  assumes "wf_session s cs" and "ch \<notin> snd ` set (broadcastListeners s)" and "ch \<in> dom cs"
  shows "wf_session (BroadcastAddListener p ch s) cs"
  using assms snd_set_update [of p ch "broadcastListeners s"]
  by (simp add: wf_session_def BroadcastAddListener_def distinct_keys_update distinct_vals_update)
    blast

lemma wf_RemoveListener [wf_intros]:
  "wf_session s cs \<Longrightarrow> wf_session (BroadcastRemoveListener p s) cs"
  using snd_set_delete [of p "broadcastListeners s"]
  by (simp add: wf_session_def BroadcastRemoveListener_def distinct_keys_delete distinct_vals_delete)
    blast

text \<open>The sends of one broadcast commute, so the range order does not matter.\<close>

lemma Broadcast_order:
  assumes "distinct (map snd (broadcastListeners s))" and "range_permutes E"
  shows "Broadcast_send E msg s cs = fold (\<lambda>(_, ch). select_send msg ch) (broadcastListeners s) cs"
proof -
  have "fold (\<lambda>(_, ch). select_send msg ch) (rangeOrder E (broadcastListeners s))
    = fold (\<lambda>(_, ch). select_send msg ch) (broadcastListeners s)"
  proof (rule fold_mset_eq)
    show "mset (rangeOrder E (broadcastListeners s)) = mset (broadcastListeners s)"
      using assms(2) by (simp add: range_permutes_def)
    fix x y assume "x \<in> set (broadcastListeners s)" "y \<in> set (broadcastListeners s)"
    then have "x = y \<or> snd x \<noteq> snd y"
      using assms(1) by (auto simp: distinct_map inj_on_def)
    then show "(case x of (_, ch) \<Rightarrow> select_send msg ch) \<circ> (case y of (_, ch) \<Rightarrow> select_send msg ch)
      = (case y of (_, ch) \<Rightarrow> select_send msg ch) \<circ> (case x of (_, ch) \<Rightarrow> select_send msg ch)"
      by (auto simp: case_prod_beta intro: select_send_commute)
  qed
  then show ?thesis by (simp add: Broadcast_send_def)
qed

lemma fold_select_send:
  assumes "distinct (map snd ls)"
  shows "fold (\<lambda>(_, ch). select_send msg ch) ls cs ch =
    (if ch \<in> snd ` set ls then map_option (chan_send msg) (cs ch) else cs ch)"
  using assms by (induction ls arbitrary: cs) (auto simp: image_iff)

text \<open>A broadcast reaches every listener whose channel has room, and nobody else.\<close>

lemma Broadcast_send_apply:
  assumes "wf_session s cs" and "range_permutes E"
  shows "Broadcast_send E msg s cs ch =
    (if ch \<in> snd ` set (broadcastListeners s) then map_option (chan_send msg) (cs ch) else cs ch)"
  using assms by (simp add: Broadcast_order fold_select_send wf_session_def)

lemma dom_Broadcast_send [simp]: "dom (Broadcast_send E msg s cs) = dom cs"
proof -
  have "dom (fold (\<lambda>(_, ch). select_send msg ch) ls cs) = dom cs" for ls :: "(string \<times> nat) list"
    by (induction ls arbitrary: cs) (simp_all add: case_prod_beta)
  then show ?thesis by (simp add: Broadcast_send_def)
qed

lemma wf_UpdatePresence [wf_intros]:
  "wf_session s cs \<Longrightarrow> UpdatePresenceMetaForPeer E p v (s, cs) = (s', cs') \<Longrightarrow> wf_session s' cs'"
  unfolding UpdatePresenceMetaForPeer_def Let_def wf_session_def
  by (elim conjE Pair_inject, hypsubst) simp

section \<open>Runs of a session\<close>

text \<open>
  The steps the goroutines of a node take on one session, interleaved in any order: an
  update of the presence map, a peer that joins with a new channel of capacity 32, a
  listener that is removed, and a peer that receives from its channel. The index counts
  the updates.
\<close>

inductive sess_reach :: "sess_env \<Rightarrow> nat \<Rightarrow> Session \<Rightarrow> Broadcast chans \<Rightarrow> bool" for E where
  new: "sess_reach E 0 (NewSession sid dcs cfg) Map.empty"
| update: "sess_reach E n s cs \<Longrightarrow> UpdatePresenceMetaForPeer E p v (s, cs) = (s', cs')
    \<Longrightarrow> sess_reach E (Suc n) s' cs'"
| join: "sess_reach E n s cs \<Longrightarrow> cs ch = None
    \<Longrightarrow> sess_reach E n (BroadcastAddListener p ch s) (cs(ch \<mapsto> make_chan 32))"
| leave: "sess_reach E n s cs \<Longrightarrow> sess_reach E n (BroadcastRemoveListener p s) cs"
| receive: "sess_reach E n s cs \<Longrightarrow> cs ch = Some c \<Longrightarrow> chan_recv c = Some (m, c')
    \<Longrightarrow> sess_reach E n s (cs(ch \<mapsto> c'))"

lemma wf_session_mono: "wf_session s cs \<Longrightarrow> dom cs \<subseteq> dom cs' \<Longrightarrow> wf_session s cs'"
  unfolding wf_session_def by blast

lemma reach_wf: "sess_reach E n s cs \<Longrightarrow> wf_session s cs"
proof (induction rule: sess_reach.induct)
  case (join n s cs ch p)
  have "ch \<notin> snd ` set (broadcastListeners s)"
    using join.hyps join.IH by (auto simp: wf_session_def)
  moreover have "wf_session s (cs(ch \<mapsto> make_chan 32))"
    using join.IH by (rule wf_session_mono) auto
  ultimately have "wf_session (BroadcastAddListener p ch s) (cs(ch \<mapsto> make_chan 32))"
    by (intro wf_AddListener) simp_all
  then show ?case by (simp add: fun_upd_def)
qed (auto intro: wf_intros wf_session_mono)

lemma reach_revision: "sess_reach E n s cs \<Longrightarrow> presenceRevision s = of_nat n"
  by (induction rule: sess_reach.induct)
    (auto simp: NewSession_def UpdatePresenceMetaForPeer_def Let_def BroadcastAddListener_def
      BroadcastRemoveListener_def)

text \<open>What holds of the buffered messages of one channel after \<open>n\<close> updates.\<close>

definition revisions :: "Broadcast chan \<Rightarrow> nat list" where
  "revisions c = map (\<lambda>m. unat (Revision (bc_params m))) (chan_buf c)"

definition revs_ok :: "nat \<Rightarrow> Broadcast chan \<Rightarrow> bool" where
  "revs_ok n c \<longleftrightarrow>
     sorted_wrt (<) (revisions c) \<and> (\<forall>r \<in> set (revisions c). r \<le> n)
     \<and> chan_cap c = 32 \<and> length (chan_buf c) \<le> 32"

lemma revs_ok_mono: "revs_ok n c \<Longrightarrow> revs_ok (Suc n) c"
  by (auto simp: revs_ok_def)

lemma revs_ok_send:
  assumes "revs_ok n c" and "unat (Revision (bc_params m)) = Suc n"
  shows "revs_ok (Suc n) (chan_send m c)"
  using assms
  by (auto simp: revs_ok_def revisions_def chan_buf_send chan_room_def sorted_wrt_append less_Suc_eq_le)

lemma revs_ok_recv:
  "revs_ok n c \<Longrightarrow> chan_recv c = Some (m, c') \<Longrightarrow> revs_ok n c'"
  by (auto simp: revs_ok_def revisions_def chan_recv_def split: list.splits)

lemma revs_ok_broadcast:
  assumes "wf_session s cs" and "range_permutes E" and "\<forall>c \<in> ran cs. revs_ok n c"
    and "unat (Revision (bc_params m)) = Suc n"
  shows "\<forall>c \<in> ran (Broadcast_send E m s cs). revs_ok (Suc n) c"
  using assms by (auto simp: ran_def Broadcast_send_apply split: if_splits
      intro: revs_ok_send revs_ok_mono)

lemma reach_revs:
  assumes "range_permutes E"
  shows "sess_reach E n s cs \<Longrightarrow> n < 2 ^ 64 \<Longrightarrow> \<forall>c \<in> ran cs. revs_ok n c"
proof (induction rule: sess_reach.induct)
  case (update n s cs p v s' cs')
  then have eq: "s' = set_presence p v s" "cs' = Broadcast_send E (presence_msg E s') s' cs"
    by (auto simp: UpdatePresenceMetaForPeer_def Let_def)
  have "presenceRevision s' = of_nat (Suc n)"
    using reach_revision [OF update.hyps(1)] eq(1) by simp
  then have "unat (Revision (bc_params (presence_msg E s'))) = Suc n"
    using update.prems by (simp add: presence_msg_def unat_of_nat take_bit_eq_mod del: of_nat_Suc)
  moreover have "wf_session s' cs" using reach_wf [OF update.hyps(1)] eq(1) by simp
  moreover have "\<forall>c \<in> ran cs. revs_ok n c" using update by simp
  ultimately show ?case using assms eq(2) by (simp add: revs_ok_broadcast)
next
  case (join n s cs ch p)
  then show ?case by (auto simp: ran_def revs_ok_def revisions_def)
next
  case (receive n s cs ch c m c')
  then show ?case by (auto simp: ran_def intro: revs_ok_recv)
qed simp_all

section \<open>The store of a node\<close>

text \<open>
  Sessions are shared through pointers: the coordinator's table, every connection of a
  session and its listener goroutine hold the same \<open>*Session\<close>. The store maps addresses
  to sessions and channels and keeps the gauge calls made so far.
\<close>

record mem =
  heap :: "nat \<rightharpoonup> Session"
  next_session :: nat
  chans :: "Broadcast chans"
  next_chan :: nat
  gauges :: "gauge_call list"

definition mem0 :: mem where
  "mem0 = \<lparr>heap = Map.empty, next_session = 0, chans = Map.empty, next_chan = 0, gauges = []\<rparr>"

definition gauge_op :: "gauge_call \<Rightarrow> mem \<Rightarrow> mem" where
  "gauge_op g m = m\<lparr>gauges := gauges m @ [g]\<rparr>"

definition new_session :: "Session \<Rightarrow> mem \<Rightarrow> nat \<times> mem" where
  "new_session s m =
     (next_session m, m\<lparr>heap := (heap m)(next_session m \<mapsto> s), next_session := Suc (next_session m)\<rparr>)"

definition new_chan :: "nat \<Rightarrow> mem \<Rightarrow> nat \<times> mem" where
  "new_chan n m =
     (next_chan m, m\<lparr>chans := (chans m)(next_chan m \<mapsto> make_chan n), next_chan := Suc (next_chan m)\<rparr>)"

text \<open>A method call through a session pointer.\<close>

definition mem_AddListener :: "nat \<Rightarrow> string \<Rightarrow> nat \<Rightarrow> mem \<Rightarrow> mem" where
  "mem_AddListener a p ch m =
     (case heap m a of
        None \<Rightarrow> m
      | Some s \<Rightarrow> m\<lparr>heap := (heap m)(a \<mapsto> BroadcastAddListener p ch s)\<rparr>)"

definition mem_RemoveListener :: "nat \<Rightarrow> string \<Rightarrow> mem \<Rightarrow> mem" where
  "mem_RemoveListener a p m =
     (case heap m a of
        None \<Rightarrow> m
      | Some s \<Rightarrow> m\<lparr>heap := (heap m)(a \<mapsto> BroadcastRemoveListener p s)\<rparr>)"

definition mem_UpdatePresence :: "sess_env \<Rightarrow> nat \<Rightarrow> string \<Rightarrow> iface \<Rightarrow> mem \<Rightarrow> mem" where
  "mem_UpdatePresence E a p v m =
     (case heap m a of
        None \<Rightarrow> m
      | Some s \<Rightarrow>
          (let (s', cs') = UpdatePresenceMetaForPeer E p v (s, chans m) in
           m\<lparr>heap := (heap m)(a \<mapsto> s'), chans := cs'\<rparr>))"

text \<open>Addresses in use are below the allocation counters.\<close>

definition wf_mem :: "mem \<Rightarrow> bool" where
  "wf_mem m \<longleftrightarrow>
     (\<forall>a \<in> dom (heap m). a < next_session m) \<and> (\<forall>c \<in> dom (chans m). c < next_chan m)
     \<and> (\<forall>s \<in> ran (heap m). wf_session s (chans m))"

lemma wf_mem0 [wf_intros]: "wf_mem mem0"
  by (simp add: wf_mem_def mem0_def)

lemma wf_gauge_op [wf_intros]: "wf_mem m \<Longrightarrow> wf_mem (gauge_op g m)"
  by (simp add: wf_mem_def gauge_op_def)

lemma wf_new_session [wf_intros]:
  "wf_mem m \<Longrightarrow> wf_session s (chans m) \<Longrightarrow> wf_mem (snd (new_session s m))"
  by (force simp: wf_mem_def new_session_def ran_def less_Suc_eq)

lemma wf_new_chan [wf_intros]: "wf_mem m \<Longrightarrow> wf_mem (snd (new_chan n m))"
  unfolding wf_mem_def new_chan_def
  by (auto intro: wf_session_mono less_SucI)

lemma wf_mem_UpdatePresence [wf_intros]:
  assumes "wf_mem m"
  shows "wf_mem (mem_UpdatePresence E a p v m)"
proof (cases "heap m a")
  case None
  with assms show ?thesis by (simp add: mem_UpdatePresence_def)
next
  case (Some s)
  obtain s' cs' where up: "UpdatePresenceMetaForPeer E p v (s, chans m) = (s', cs')"
    by (cases "UpdatePresenceMetaForPeer E p v (s, chans m)")
  have dom: "dom cs' = dom (chans m)"
    using up unfolding UpdatePresenceMetaForPeer_def Let_def
    by (elim Pair_inject, hypsubst) simp
  have wf: "wf_session t cs'" if "t \<in> ran (heap m)" for t
    using that assms dom wf_session_mono [of t "chans m" cs'] by (simp add: wf_mem_def)
  have "wf_session s' cs'"
    using assms Some up by (auto simp: wf_mem_def ran_def intro: wf_UpdatePresence)
  with wf have "\<forall>t \<in> ran ((heap m)(a \<mapsto> s')). wf_session t cs'"
    by (auto simp: ran_def)
  then show ?thesis
    using assms Some up dom by (simp add: wf_mem_def mem_UpdatePresence_def) blast
qed

lemma mem_AddListener_heap:
  "heap m a = Some s \<Longrightarrow> heap (mem_AddListener a p ch m) = (heap m)(a \<mapsto> BroadcastAddListener p ch s)"
  by (simp add: mem_AddListener_def)

lemma mem_AddListener_rest [simp]:
  "chans (mem_AddListener a p ch m) = chans m" "gauges (mem_AddListener a p ch m) = gauges m"
  "next_session (mem_AddListener a p ch m) = next_session m" "next_chan (mem_AddListener a p ch m) = next_chan m"
  "dom (heap (mem_AddListener a p ch m)) = dom (heap m)"
  by (auto simp: mem_AddListener_def split: option.splits)

lemma mem_RemoveListener_rest [simp]:
  "chans (mem_RemoveListener a p m) = chans m" "gauges (mem_RemoveListener a p m) = gauges m"
  "next_session (mem_RemoveListener a p m) = next_session m" "next_chan (mem_RemoveListener a p m) = next_chan m"
  "dom (heap (mem_RemoveListener a p m)) = dom (heap m)"
  by (auto simp: mem_RemoveListener_def split: option.splits)

lemma mem_UpdatePresence_rest [simp]:
  "gauges (mem_UpdatePresence E a p v m) = gauges m"
  "next_session (mem_UpdatePresence E a p v m) = next_session m"
  "next_chan (mem_UpdatePresence E a p v m) = next_chan m"
  "dom (heap (mem_UpdatePresence E a p v m)) = dom (heap m)"
  by (auto simp: mem_UpdatePresence_def split: option.splits prod.splits)

lemma new_chan_rest [simp]:
  "heap (snd (new_chan n m)) = heap m" "gauges (snd (new_chan n m)) = gauges m"
  "next_session (snd (new_chan n m)) = next_session m" "fst (new_chan n m) = next_chan m"
  "chans (snd (new_chan n m)) = (chans m)(next_chan m \<mapsto> make_chan n)"
  by (simp_all add: new_chan_def)

lemma mem_UpdatePresence_apply:
  assumes "heap m a = Some s"
  shows "heap (mem_UpdatePresence E a p v m) = (heap m)(a \<mapsto> set_presence p v s)"
    and "chans (mem_UpdatePresence E a p v m) =
      Broadcast_send E (presence_msg E (set_presence p v s)) (set_presence p v s) (chans m)"
  using assms by (simp_all add: mem_UpdatePresence_def UpdatePresenceMetaForPeer_def Let_def)

text \<open>A channel that no session of a well-formed store uses yet can be registered.\<close>

lemma wf_mem_AddListener [wf_intros]:
  assumes wf: "wf_mem m" and ch: "ch \<in> dom (chans m)"
    and fresh: "\<And>s. heap m a = Some s \<Longrightarrow> ch \<notin> snd ` set (broadcastListeners s)"
  shows "wf_mem (mem_AddListener a p ch m)"
proof (cases "heap m a")
  case None
  with wf show ?thesis by (simp add: mem_AddListener_def)
next
  case (Some s)
  then have "wf_session s (chans m)" using wf by (auto simp: wf_mem_def ran_def)
  then have "wf_session (BroadcastAddListener p ch s) (chans m)"
    using fresh Some ch by (intro wf_AddListener) auto
  then have "\<forall>t \<in> ran ((heap m)(a \<mapsto> BroadcastAddListener p ch s)). wf_session t (chans m)"
    using wf by (auto simp: wf_mem_def ran_def)
  with wf Some show ?thesis by (simp add: wf_mem_def mem_AddListener_def) blast
qed

lemma wf_mem_RemoveListener [wf_intros]:
  assumes wf: "wf_mem m"
  shows "wf_mem (mem_RemoveListener a p m)"
proof (cases "heap m a")
  case None
  with wf show ?thesis by (simp add: mem_RemoveListener_def)
next
  case (Some s)
  then have "wf_session (BroadcastRemoveListener p s) (chans m)"
    using wf by (auto simp: wf_mem_def ran_def intro: wf_RemoveListener)
  then have "\<forall>t \<in> ran ((heap m)(a \<mapsto> BroadcastRemoveListener p s)). wf_session t (chans m)"
    using wf by (auto simp: wf_mem_def ran_def)
  with wf Some show ?thesis by (simp add: wf_mem_def mem_RemoveListener_def) blast
qed

lemma new_chan_fresh:
  assumes "wf_mem m" and "heap m a = Some s"
  shows "next_chan m \<notin> snd ` set (broadcastListeners s)"
proof
  assume "next_chan m \<in> snd ` set (broadcastListeners s)"
  moreover have "wf_session s (chans m)" using assms by (auto simp: wf_mem_def ran_def)
  ultimately have "next_chan m \<in> dom (chans m)" unfolding wf_session_def by blast
  then show False using assms(1) by (auto simp: wf_mem_def)
qed

section \<open>What a listener sees\<close>

text \<open>
  C18. In every run of a session, with joins, leaves, updates and receives interleaved in any
  order: the messages waiting in a listener's channel have strictly increasing revisions, none
  above the number of updates so far, and there are never more than 32.
  The revision of the session is the number of updates, at 64 bits.
\<close>

theorem broadcast_revisions_increase:
  assumes "range_permutes E" and "sess_reach E n s cs" and "n < 2 ^ 64" and "cs ch = Some c"
  shows "sorted_wrt (<) (map (\<lambda>m. unat (Revision (bc_params m))) (chan_buf c))
    \<and> (\<forall>m \<in> set (chan_buf c). unat (Revision (bc_params m)) \<le> n)
    \<and> length (chan_buf c) \<le> 32 \<and> presenceRevision s = of_nat n"
  using reach_revs [OF assms(1,2,3)] assms(4) reach_revision [OF assms(2)]
  by (auto simp: ran_def revs_ok_def revisions_def)

definition quiet_env :: sess_env where
  "quiet_env = \<lparr>rangeOrder = rev, deepcopy = id, podName = []\<rparr>"

definition one_listener :: Session where
  "one_listener = BroadcastAddListener ''bob'' 0 (NewSession ''room'' [] (NewWebRTCTransportConfig
     \<lparr>BufferFactory = None, MaxPacketTrack = 0, ICEPortRange = [], NAT1To1IPs = [], Ballast = 0, TurnEnabled = False\<rparr>))"

lemma one_listener_runs:
  "range_permutes quiet_env" "sess_reach quiet_env 0 one_listener [0 \<mapsto> make_chan 32]"
  "sess_reach quiet_env 1 (set_presence ''bob'' (IMap None) one_listener)
    [0 \<mapsto> chan_send (presence_msg quiet_env (set_presence ''bob'' (IMap None) one_listener)) (make_chan 32)]"
proof -
  show perm: "range_permutes quiet_env" by (simp add: range_permutes_def quiet_env_def)
  show run: "sess_reach quiet_env 0 one_listener [0 \<mapsto> make_chan 32]"
    unfolding one_listener_def by (rule sess_reach.join [OF sess_reach.new]) simp
  let ?s = "set_presence ''bob'' (IMap None) one_listener"
  have "Broadcast_send quiet_env (presence_msg quiet_env ?s) ?s [0 \<mapsto> make_chan 32]
    = [0 \<mapsto> chan_send (presence_msg quiet_env ?s) (make_chan 32)]"
    using reach_wf [OF run] perm
    by (auto simp: fun_eq_iff Broadcast_send_apply one_listener_def NewSession_def BroadcastAddListener_def)
  with sess_reach.update [OF run, of "''bob''" "IMap None"] show "sess_reach quiet_env 1 ?s
    [0 \<mapsto> chan_send (presence_msg quiet_env ?s) (make_chan 32)]"
    by (simp add: UpdatePresenceMetaForPeer_def Let_def)
qed

theorem broadcast_revisions_increase_witness:
  "presenceRevision (set_presence ''bob'' (IMap None) one_listener) = 1"
  using broadcast_revisions_increase [OF one_listener_runs(1,3), of 0] by simp

text \<open>
  C17. A broadcast reaches the channel of every listener that has room and drops the message
  for the others; channels of nobody are untouched. The order in which Go ranges over the map
  of listeners does not matter, and the update keeps the session well-formed.
\<close>

theorem update_reaches_every_listener:
  assumes "wf_session s cs" and "range_permutes E"
    and "UpdatePresenceMetaForPeer E p v (s, cs) = (s', cs')"
  shows "(\<forall>ch. cs' ch = (if ch \<in> snd ` set (broadcastListeners s)
            then map_option (chan_send (presence_msg E s')) (cs ch) else cs ch))
    \<and> presence s' = (presence s)(p := (if v = INil then None else Some v))
    \<and> presenceRevision s' = presenceRevision s + 1
    \<and> broadcastListeners s' = broadcastListeners s \<and> wf_session s' cs'"
proof -
  have s': "s' = set_presence p v s" "cs' = Broadcast_send E (presence_msg E s') s' cs"
    using assms(3) by (auto simp: UpdatePresenceMetaForPeer_def Let_def)
  moreover have "wf_session s' cs" using assms(1) s'(1) by simp
  ultimately show ?thesis
    using wf_UpdatePresence [OF assms(1,3)] assms(2) by (simp add: Broadcast_send_apply)
qed

theorem update_reaches_every_listener_witness:
  "snd (UpdatePresenceMetaForPeer quiet_env ''bob'' INil (one_listener, [0 \<mapsto> make_chan 32])) 0
    = Some (chan_send (presence_msg quiet_env (set_presence ''bob'' INil one_listener)) (make_chan 32))"
  using update_reaches_every_listener [OF reach_wf [OF one_listener_runs(2)] one_listener_runs(1),
      of "''bob''" INil "fst (UpdatePresenceMetaForPeer quiet_env ''bob'' INil (one_listener, [0 \<mapsto> make_chan 32]))"
      "snd (UpdatePresenceMetaForPeer quiet_env ''bob'' INil (one_listener, [0 \<mapsto> make_chan 32]))"]
  by (simp add: one_listener_def NewSession_def BroadcastAddListener_def) (simp add: UpdatePresenceMetaForPeer_def Let_def)

text \<open>
  Whatever is sent to a listener and however its receives are interleaved with the sends,
  what it has received followed by what is still waiting is a subsequence of what was sent: in
  order, nothing twice, nothing invented.
\<close>

lemma listener_sees_subsequence:
  assumes "run_queue chan_send chan_recv ops (make_chan 32) = (received, c)"
  shows "subseq (received @ chan_buf c) (sent ops)"
  using chan_queue.received_subseq [OF assms] by (simp add: make_chan_def)

end
