(* ===== verification/Coordinator.thy ===== *)
theory Coordinator
  imports Session
begin

text \<open>
  \<open>pkg/coordinator.go\<close>: the metadata of a session, the interface both coordinators
  implement, and the coordinator of a single node. The part every coordinator promises to
  the signalling layer about its session table is the locale \<open>session_registry\<close>.
\<close>

section \<open>Session metadata and its JSON form\<close>

record sessionMeta =
  SessionID :: string
  NodeID :: string
  NodeEndpoint :: string
  Redirect :: bool

definition zero_meta :: sessionMeta where
  "zero_meta = \<lparr>SessionID = [], NodeID = [], NodeEndpoint = [], Redirect = False\<rparr>"

text \<open>\<open>json.Marshal(&meta)\<close>: the fields in the order of the struct, under their tags.\<close>

definition meta_json :: "sessionMeta \<Rightarrow> json" where
  "meta_json m =
     JObj [(''session_id'', JStr (SessionID m)), (''node_id'', JStr (NodeID m)),
           (''node_endpoint'', JStr (NodeEndpoint m)), (''redirect'', JBool (Redirect m))]"

definition marshal_meta :: "sessionMeta \<Rightarrow> string" where
  "marshal_meta m = json_print (meta_json m)"

definition meta_fields :: "sessionMeta field list" where
  "meta_fields =
     [(''session_id'', \<lambda>j m. map_option (\<lambda>v. m\<lparr>SessionID := v\<rparr>) (dec_string j (SessionID m))),
      (''node_id'', \<lambda>j m. map_option (\<lambda>v. m\<lparr>NodeID := v\<rparr>) (dec_string j (NodeID m))),
      (''node_endpoint'', \<lambda>j m. map_option (\<lambda>v. m\<lparr>NodeEndpoint := v\<rparr>) (dec_string j (NodeEndpoint m))),
      (''redirect'', \<lambda>j m. map_option (\<lambda>v. m\<lparr>Redirect := v\<rparr>) (dec_bool j (Redirect m)))]"

text \<open>\<open>json.Unmarshal(payload, &meta)\<close> into a zero \<open>meta\<close>.\<close>

definition unmarshal_meta :: "string \<Rightarrow> sessionMeta option" where
  "unmarshal_meta payload =
     (case json_parse payload of
        None \<Rightarrow> None
      | Some j \<Rightarrow> decode_struct meta_fields j zero_meta)"

definition utf8_meta :: "sessionMeta \<Rightarrow> bool" where
  "utf8_meta m \<longleftrightarrow> valid_utf8 (SessionID m) \<and> valid_utf8 (NodeID m) \<and> valid_utf8 (NodeEndpoint m)"

lemma decode_meta_json: "decode_struct meta_fields (meta_json m) zero_meta = Some m"
  by (simp add: decode_struct_def meta_json_def meta_fields_def select_field_def zero_meta_def
      dec_string_def dec_bool_def)

lemma wf_meta_json: "utf8_meta m \<Longrightarrow> wf_json (meta_json m)"
  by (simp add: utf8_meta_def meta_json_def utf8_len_def byte_def)

interpretation meta_format: wire_format meta_json "\<lambda>j. decode_struct meta_fields j zero_meta" utf8_meta
  by unfold_locales (simp_all add: wf_meta_json decode_meta_json)

lemma unmarshal_marshal_meta: "utf8_meta m \<Longrightarrow> unmarshal_meta (marshal_meta m) = Some m"
  using meta_format.read_back [of m] by (simp add: unmarshal_meta_def marshal_meta_def meta_format.parsed)

section \<open>The coordinator interface\<close>

text \<open>
  A Go interface value: the methods, over the coordinator's own state and the store of the
  node. \<open>GetSession\<close> is the method of \<open>sfu.SessionProvider\<close>; it also returns the
  transport configuration.
\<close>

record 'c coordinator =
  getOrCreateSession :: "string \<Rightarrow> 'c \<times> mem \<Rightarrow> sessionMeta outcome \<times> ('c \<times> mem)"
  GetSession :: "string \<Rightarrow> 'c \<times> mem \<Rightarrow> (nat \<times> transportConfig) \<times> ('c \<times> mem)"

section \<open>The local coordinator\<close>

record localCoordinator =
  lc_nodeID :: string
  lc_nodeEndpoint :: string
  lc_w :: transportConfig
  lc_sessions :: "string \<rightharpoonup> nat"
  lc_datachannels :: "datachannel list"

text \<open>
  Shared by both constructors: the buffer factory default and the API data channel. The
  label is \<open>sfu.APIChannelLabel\<close>, a constant of ion-sfu.
\<close>

definition default_buffers :: "sfuConfig \<Rightarrow> sfuConfig" where
  "default_buffers c =
     (case BufferFactory c of
        None \<Rightarrow> c\<lparr>BufferFactory := Some (NewBufferFactory (MaxPacketTrack c))\<rparr>
      | Some _ \<Rightarrow> c)"

definition api_datachannel :: "string \<Rightarrow> datachannel" where
  "api_datachannel label = Datachannel label [''datachannel.SubscriberAPI'']"

definition newCoordinatorLocal :: "string \<Rightarrow> string \<Rightarrow> RootConfig \<Rightarrow> localCoordinator outcome" where
  "newCoordinatorLocal label uuid conf =
     (let sfu = default_buffers (SFU conf) in
      case Endpoint (conf\<lparr>SFU := sfu\<rparr>) of
        Ret ep \<Rightarrow>
          Ret \<lparr>lc_nodeID = uuid, lc_nodeEndpoint = ep, lc_w = NewWebRTCTransportConfig sfu,
               lc_sessions = Map.empty, lc_datachannels = [api_datachannel label]\<rparr>
      | Err e \<Rightarrow> Err e
      | Panic p \<Rightarrow> Panic p
      | Block \<Rightarrow> Block)"

definition local_ensureSession ::
  "string \<Rightarrow> localCoordinator \<times> mem \<Rightarrow> nat \<times> (localCoordinator \<times> mem)" where
  "local_ensureSession sid st =
     (let (c, m) = st in
      case lc_sessions c sid of
        Some a \<Rightarrow> (a, (c, m))
      | None \<Rightarrow>
          (let (a, m1) = new_session (NewSession sid (lc_datachannels c) (lc_w c)) m;
               m2 = gauge_op (Inc GaugeSessions) m1
           in (a, (c\<lparr>lc_sessions := (lc_sessions c)(sid \<mapsto> a)\<rparr>, m2))))"

definition local_GetSession ::
  "string \<Rightarrow> localCoordinator \<times> mem \<Rightarrow> (nat \<times> transportConfig) \<times> (localCoordinator \<times> mem)" where
  "local_GetSession sid st =
     (let (a, st') = local_ensureSession sid st in ((a, lc_w (fst st')), st'))"

definition local_getOrCreateSession ::
  "string \<Rightarrow> localCoordinator \<times> mem \<Rightarrow> sessionMeta outcome \<times> (localCoordinator \<times> mem)" where
  "local_getOrCreateSession sid st =
     (let (_, st') = local_ensureSession sid st in
      (Ret \<lparr>SessionID = sid, NodeID = lc_nodeID (fst st'), NodeEndpoint = lc_nodeEndpoint (fst st'),
            Redirect = False\<rparr>, st'))"

definition local_onSessionClosed :: "string \<Rightarrow> localCoordinator \<times> mem \<Rightarrow> localCoordinator \<times> mem" where
  "local_onSessionClosed sid st =
     (let (c, m) = st in
      (c\<lparr>lc_sessions := (lc_sessions c)(sid := None)\<rparr>, gauge_op (Dec GaugeSessions) m))"

definition local_coordinator :: "localCoordinator coordinator" where
  "local_coordinator =
     \<lparr>getOrCreateSession = local_getOrCreateSession, GetSession = local_GetSession\<rparr>"

section \<open>The contract of a session registry\<close>

text \<open>
  What the rest of a node may do to the store between two calls of the coordinator: any
  change that keeps the sessions allocated and what the gauges have counted.
\<close>

definition frame_mem :: "mem \<Rightarrow> mem \<Rightarrow> bool" where
  "frame_mem m m' \<longleftrightarrow>
     next_session m = next_session m' \<and> dom (heap m) = dom (heap m')
     \<and> (\<forall>h. net h (gauges m) = net h (gauges m'))"

text \<open>
  The histories of a registry: lookups, the close callback of a session that is in the
  table, and other activity of the node.
\<close>

inductive registry_reach ::
  "(string \<Rightarrow> 's \<Rightarrow> nat \<times> 's) \<Rightarrow> (string \<Rightarrow> 's \<Rightarrow> 's) \<Rightarrow> ('s \<Rightarrow> string \<rightharpoonup> nat) \<Rightarrow> ('s \<Rightarrow> mem)
    \<Rightarrow> 's \<Rightarrow> 's \<Rightarrow> bool"
  for get closed table store s0 where
  start: "registry_reach get closed table store s0 s0"
| lookup: "registry_reach get closed table store s0 st
    \<Longrightarrow> registry_reach get closed table store s0 (snd (get sid st))"
| close: "registry_reach get closed table store s0 st \<Longrightarrow> table st sid = Some a
    \<Longrightarrow> registry_reach get closed table store s0 (closed sid st)"
| other: "registry_reach get closed table store s0 st \<Longrightarrow> table st' = table st
    \<Longrightarrow> frame_mem (store st) (store st') \<Longrightarrow> registry_reach get closed table store s0 st'"

text \<open>The table is finite and injective and points into the store.\<close>

definition wf_registry :: "(string \<rightharpoonup> nat) \<Rightarrow> mem \<Rightarrow> bool" where
  "wf_registry t m \<longleftrightarrow>
     finite (dom t) \<and> inj_on t (dom t) \<and> ran t \<subseteq> dom (heap m) \<and> (\<forall>a \<in> dom (heap m). a < next_session m)"

lemma wf_registry_empty [wf_intros]: "wf_registry Map.empty mem0"
  by (simp add: wf_registry_def mem0_def)

lemma wf_registry_delete [wf_intros]: "wf_registry t m \<Longrightarrow> wf_registry (t(k := None)) m"
proof -
  assume wf: "wf_registry t m"
  have "ran (t(k := None)) \<subseteq> ran t" by (auto simp: ran_def split: if_splits)
  moreover have "inj_on (t(k := None)) (dom t - {k})"
    using wf unfolding wf_registry_def inj_on_def by simp
  ultimately show ?thesis using wf by (auto simp: wf_registry_def)
qed

lemma wf_registry_gauge [simp]: "wf_registry t (gauge_op g m) \<longleftrightarrow> wf_registry t m"
  by (simp add: wf_registry_def gauge_op_def)

lemma wf_registry_frame: "wf_registry t m \<Longrightarrow> frame_mem m m' \<Longrightarrow> wf_registry t m'"
  by (simp add: wf_registry_def frame_mem_def)

lemma wf_registry_insert:
  assumes "wf_registry t m" and "t k = None" and "a = next_session m"
    and "heap m' = (heap m)(a \<mapsto> s)" and "next_session m' = Suc (next_session m)"
  shows "wf_registry (t(k \<mapsto> a)) m'"
proof -
  have fresh: "a \<notin> ran t" using assms(1,3) unfolding wf_registry_def by blast
  then have "inj_on (t(k \<mapsto> a)) (dom (t(k \<mapsto> a)))"
    using assms(1,2) unfolding wf_registry_def inj_on_def ran_def by (auto split: if_splits)
  then show ?thesis
    using assms fresh unfolding wf_registry_def by (auto simp: less_Suc_eq)
qed

locale session_registry =
  fixes get :: "string \<Rightarrow> 's \<Rightarrow> nat \<times> 's"
    and closed :: "string \<Rightarrow> 's \<Rightarrow> 's"
    and table :: "'s \<Rightarrow> string \<rightharpoonup> nat"
    and store :: "'s \<Rightarrow> mem"
  assumes get_hit: "table st sid = Some a \<Longrightarrow> get sid st = (a, st)"
    and get_new: "table st sid = None \<Longrightarrow> get sid st = (a, st') \<Longrightarrow>
      table st' = (table st)(sid \<mapsto> a)
      \<and> (\<exists>dcs cfg m1. new_session (NewSession sid dcs cfg) (store st) = (a, m1)
            \<and> store st' = gauge_op (Inc GaugeSessions) m1)"
    and closed_cases:
      "table (closed sid st) = (table st)(sid := None)
         \<and> store (closed sid st) = gauge_op (Dec GaugeSessions) (store st)
       \<or> table (closed sid st) = table st \<and> store (closed sid st) = store st"
begin

lemma get_miss:
  assumes "table st sid = None" and "get sid st = (a, st')"
  shows "table st' = (table st)(sid \<mapsto> a) \<and> a = next_session (store st)
      \<and> (\<exists>dcs cfg. heap (store st') = (heap (store st))(a \<mapsto> NewSession sid dcs cfg))
      \<and> next_session (store st') = Suc (next_session (store st))
      \<and> gauges (store st') = gauges (store st) @ [Inc GaugeSessions]
      \<and> chans (store st') = chans (store st) \<and> next_chan (store st') = next_chan (store st)"
proof -
  from get_new [OF assms] obtain dcs cfg m1 where
    "table st' = (table st)(sid \<mapsto> a)" "new_session (NewSession sid dcs cfg) (store st) = (a, m1)"
    "store st' = gauge_op (Inc GaugeSessions) m1"
    by blast
  then show ?thesis
    by (auto simp: new_session_def gauge_op_def intro!: exI [of _ dcs] exI [of _ cfg])
qed

lemma get_table: "table (snd (get sid st)) sid = Some (fst (get sid st))"
proof (cases "table st sid")
  case None
  with get_miss [of st sid "fst (get sid st)" "snd (get sid st)"] show ?thesis by simp
next
  case (Some a)
  with get_hit show ?thesis by simp
qed

lemma get_again: "get sid (snd (get sid st)) = get sid st"
  using get_hit [OF get_table] by simp

lemma get_other: "sid' \<noteq> sid \<Longrightarrow> table (snd (get sid st)) sid' = table st sid'"
  using get_hit get_miss [of st sid "fst (get sid st)" "snd (get sid st)"]
  by (cases "table st sid") simp_all

lemma get_wf: "wf_registry (table st) (store st) \<Longrightarrow>
  wf_registry (table (snd (get sid st))) (store (snd (get sid st)))"
proof (cases "table st sid")
  case None
  moreover assume "wf_registry (table st) (store st)"
  ultimately show ?thesis
    using get_miss [of st sid "fst (get sid st)" "snd (get sid st)"]
    by (auto intro: wf_registry_insert)
qed (simp add: get_hit)

lemma closed_wf: "wf_registry (table st) (store st) \<Longrightarrow>
  wf_registry (table (closed sid st)) (store (closed sid st))"
  using closed_cases [of sid st] by (auto intro: wf_registry_delete)

text \<open>The sessions gauge counts the sessions of the table, in every history.\<close>

lemma lookup_gauge:
  assumes "finite (dom (table st))"
  shows "net GaugeSessions (gauges (store (snd (get sid st)))) - int (card (dom (table (snd (get sid st)))))
    = net GaugeSessions (gauges (store st)) - int (card (dom (table st)))"
proof (cases "table st sid")
  case None
  then show ?thesis
    using assms get_miss [of st sid "fst (get sid st)" "snd (get sid st)"]
    by (simp add: domIff)
qed (simp add: get_hit)

lemma closed_gauge:
  assumes "finite (dom (table st))" and "table st sid = Some a"
  shows "net GaugeSessions (gauges (store (closed sid st))) - int (card (dom (table (closed sid st))))
    = net GaugeSessions (gauges (store st)) - int (card (dom (table st)))"
proof -
  have "int (card (dom (table st)) - 1) = int (card (dom (table st))) - 1"
    using card_dom_pos [OF assms] by (simp add: of_nat_diff)
  with closed_cases [of sid st] show ?thesis
    using card_dom_delete [OF assms] by (auto simp: gauge_op_def simp del: dom_fun_upd)
qed

lemma reach_registry:
  assumes "registry_reach get closed table store s0 st" and "wf_registry (table s0) (store s0)"
    and "net GaugeSessions (gauges (store s0)) = int (card (dom (table s0)))"
  shows "wf_registry (table st) (store st)
    \<and> net GaugeSessions (gauges (store st)) = int (card (dom (table st)))"
  using assms
proof (induction rule: registry_reach.induct)
  case (lookup st sid)
  then show ?case using get_wf lookup_gauge [of st sid] by (simp add: wf_registry_def)
next
  case (close st sid a)
  then show ?case using closed_wf closed_gauge [of st sid a] by (simp add: wf_registry_def)
next
  case (other st st')
  then show ?case using wf_registry_frame by (auto simp: frame_mem_def)
qed simp_all

lemma reach_other_gauge:
  assumes "registry_reach get closed table store s0 st" and "h \<noteq> GaugeSessions"
  shows "net h (gauges (store st)) = net h (gauges (store s0))"
  using assms
proof (induction rule: registry_reach.induct)
  case (lookup st sid)
  then show ?case
    using get_hit get_miss [of st sid "fst (get sid st)" "snd (get sid st)"]
    by (cases "table st sid") simp_all
next
  case (close st sid a)
  then show ?case using closed_cases [of sid st] by (auto simp: gauge_op_def)
qed (simp_all add: frame_mem_def)

end

section \<open>The contract of a coordinator\<close>

text \<open>
  A coordinator value whose lookups are those of a session registry, and whose
  \<open>getOrCreateSession\<close> either looks the session up too or leaves the table and the
  store as they are.
\<close>

locale coordinator_contract = session_registry get onClosed table snd
  for get :: "string \<Rightarrow> 'c \<times> mem \<Rightarrow> nat \<times> ('c \<times> mem)"
    and onClosed :: "string \<Rightarrow> 'c \<times> mem \<Rightarrow> 'c \<times> mem"
    and table :: "'c \<times> mem \<Rightarrow> string \<rightharpoonup> nat" +
  fixes C :: "'c coordinator"
  assumes C_get: "fst (fst (GetSession C sid n)) = fst (get sid n)" "snd (GetSession C sid n) = snd (get sid n)"
    and C_ask: "snd (getOrCreateSession C sid n) = snd (get sid n)
      \<or> table (snd (getOrCreateSession C sid n)) = table n \<and> snd (snd (getOrCreateSession C sid n)) = snd n"
    and table_coord: "fst n = fst n' \<Longrightarrow> table n = table n'"
begin

lemma C_get_eq:
  obtains w where "GetSession C sid n = ((fst (get sid n), w), snd (get sid n))"
  using C_get [of sid n] by (metis prod.collapse)

text \<open>A lookup leaves a well-formed store well-formed and the session it returns allocated.\<close>

lemma get_store:
  assumes "wf_mem (snd n)" and "ran (table n) \<subseteq> dom (heap (snd n))"
  shows "wf_mem (snd (snd (get sid n)))" and "\<exists>s. heap (snd (snd (get sid n))) (fst (get sid n)) = Some s"
proof -
  have "wf_mem (snd (snd (get sid n))) \<and> (\<exists>s. heap (snd (snd (get sid n))) (fst (get sid n)) = Some s)"
  proof (cases "table n sid")
    case None
    note new = get_miss [OF None prod.collapse [symmetric]]
    then obtain dcs cfg where
      h: "heap (snd (snd (get sid n))) = (heap (snd n))(fst (get sid n) \<mapsto> NewSession sid dcs cfg)"
      by blast
    have "wf_mem (snd (snd (get sid n)))"
      unfolding wf_mem_def h using new assms(1) wf_NewSession
      by (auto simp: wf_mem_def ran_def less_Suc_eq)
    with h show ?thesis by simp
  next
    case (Some a)
    then have "a \<in> ran (table n)" by (auto simp: ran_def)
    with assms Some show ?thesis by (auto simp: get_hit)
  qed
  then show "wf_mem (snd (snd (get sid n)))" and "\<exists>s. heap (snd (snd (get sid n))) (fst (get sid n)) = Some s"
    by simp_all
qed

end

section \<open>The local coordinator is a session registry\<close>

lemmas store_defs = new_session_def gauge_op_def NewSession_def

interpretation local_reg: session_registry local_ensureSession local_onSessionClosed
    "\<lambda>st. lc_sessions (fst st)" snd
  by unfold_locales
    (auto simp: local_ensureSession_def local_onSessionClosed_def store_defs Let_def
      split: prod.splits option.splits)

lemma local_ensureSession_frame:
  assumes "local_ensureSession sid st = (a, st')"
  shows "lc_nodeID (fst st') = lc_nodeID (fst st)" "lc_nodeEndpoint (fst st') = lc_nodeEndpoint (fst st)"
    "lc_w (fst st') = lc_w (fst st)" "lc_datachannels (fst st') = lc_datachannels (fst st)"
  using assms by (auto simp: local_ensureSession_def Let_def new_session_def split: prod.splits option.splits)

lemma local_getOrCreateSession_result:
  "fst (local_getOrCreateSession sid st) =
    Ret \<lparr>SessionID = sid, NodeID = lc_nodeID (fst st), NodeEndpoint = lc_nodeEndpoint (fst st),
      Redirect = False\<rparr>"
  "snd (local_getOrCreateSession sid st) = snd (local_ensureSession sid st)"
  using local_ensureSession_frame [of sid st "fst (local_ensureSession sid st)" "snd (local_ensureSession sid st)"]
  by (simp_all add: local_getOrCreateSession_def case_prod_beta)

lemma local_GetSession_result:
  "local_GetSession sid st = ((fst (local_ensureSession sid st), lc_w (fst st)), snd (local_ensureSession sid st))"
  using local_ensureSession_frame(3) [of sid st "fst (local_ensureSession sid st)" "snd (local_ensureSession sid st)"]
  by (simp add: local_GetSession_def case_prod_beta)

lemma new_local_registry:
  assumes "newCoordinatorLocal label uuid conf = Ret c"
  shows "wf_registry (lc_sessions c) mem0"
    and "net GaugeSessions (gauges mem0) = int (card (dom (lc_sessions c)))"
  using assms by (auto simp: newCoordinatorLocal_def Let_def mem0_def wf_registry_def split: outcome.splits)

interpretation local_coord: coordinator_contract local_ensureSession local_onSessionClosed
    "\<lambda>st. lc_sessions (fst st)" local_coordinator
  by unfold_locales (simp_all add: local_coordinator_def local_GetSession_result local_getOrCreateSession_result)

section \<open>Properties of the local coordinator and of the metadata\<close>

text \<open>
  C24. What a node writes for a session is what every node reads: decoding the JSON text of
  session metadata gives the same metadata, whatever characters of UTF-8 the ids and the
  endpoint contain.
\<close>

theorem meta_roundtrip:
  assumes "valid_utf8 (SessionID m)" and "valid_utf8 (NodeID m)" and "valid_utf8 (NodeEndpoint m)"
  shows "unmarshal_meta (marshal_meta m) = Some m"
  using assms by (intro unmarshal_marshal_meta) (simp add: utf8_meta_def)

theorem meta_roundtrip_witness:
  "unmarshal_meta (marshal_meta \<lparr>SessionID = ''<a&b>'', NodeID = ''n|1'', NodeEndpoint = ''ws://h:1/ws'', Redirect = True\<rparr>)
    = Some \<lparr>SessionID = ''<a&b>'', NodeID = ''n|1'', NodeEndpoint = ''ws://h:1/ws'', Redirect = True\<rparr>"
  by (rule meta_roundtrip) (simp_all add: utf8_len_def byte_def)

text \<open>
  C31. The local coordinator hands out one session per id: asking again returns the same
  session and changes nothing, other ids keep theirs, two ids never share one, and the
  metadata names this node and never redirects.
\<close>

theorem local_one_session_per_id:
  assumes "wf_registry (lc_sessions (fst n)) (snd n)" and "local_GetSession sid n = ((a, w), n')"
  shows "local_GetSession sid n' = ((a, w), n')
    \<and> (\<forall>sid'. sid' \<noteq> sid \<longrightarrow> lc_sessions (fst n') sid' = lc_sessions (fst n) sid' \<and> lc_sessions (fst n') sid' \<noteq> Some a)
    \<and> fst (local_getOrCreateSession sid n') =
        Ret \<lparr>SessionID = sid, NodeID = lc_nodeID (fst n), NodeEndpoint = lc_nodeEndpoint (fst n), Redirect = False\<rparr>
    \<and> snd (local_getOrCreateSession sid n') = n'"
proof -
  have get: "local_ensureSession sid n = (a, n')" and w: "w = lc_w (fst n)"
    using assms(2) by (auto simp: local_GetSession_result prod_eq_iff)
  note frame = local_ensureSession_frame [OF get]
  have again: "local_ensureSession sid n' = (a, n')" using local_reg.get_again [of sid n] get by simp
  have tab: "lc_sessions (fst n') sid = Some a" using local_reg.get_table [of sid n] get by simp
  have "wf_registry (lc_sessions (fst n')) (snd n')" using local_reg.get_wf [OF assms(1), of sid] get by simp
  then have "lc_sessions (fst n') sid' \<noteq> Some a" if "sid' \<noteq> sid" for sid'
    using tab that by (metis domI inj_onD wf_registry_def)
  then show ?thesis
    using again frame w local_reg.get_other [of _ sid n] get
    by (auto simp: local_GetSession_result local_getOrCreateSession_result)
qed

definition one_node :: localCoordinator where
  "one_node =
     \<lparr>lc_nodeID = ''n'', lc_nodeEndpoint = ''ws://h:1/ws'', lc_w = NewWebRTCTransportConfig
        \<lparr>BufferFactory = None, MaxPacketTrack = 0, ICEPortRange = [], NAT1To1IPs = [], Ballast = 0, TurnEnabled = False\<rparr>,
      lc_sessions = Map.empty, lc_datachannels = []\<rparr>"

theorem local_one_session_per_id_witness:
  "snd (local_getOrCreateSession ''a'' (snd (local_GetSession ''a'' (one_node, mem0)))) = snd (local_GetSession ''a'' (one_node, mem0))"
  using local_one_session_per_id [of "(one_node, mem0)" "''a''", OF _ prod.collapse [symmetric, THEN trans],
      of "fst (fst (local_GetSession ''a'' (one_node, mem0)))" "snd (fst (local_GetSession ''a'' (one_node, mem0)))"
        "snd (local_GetSession ''a'' (one_node, mem0))"] wf_registry_empty
  by (simp add: one_node_def)

end
