(* ===== verification/Coordinator_Etcd.thy ===== *)
theory Coordinator_Etcd
  imports Coordinator
begin

text \<open>
  \<open>pkg/coordinator_etcd.go\<close>: the coordinator of a node in a cluster. Sessions are
  claimed by writing their metadata to etcd under a lease, inside an etcd mutex. The etcd
  client is third-party code: its calls are the fields of the parameter \<open>etcd\<close>, over an
  abstract state \<open>'w\<close> of the etcd service (and of the client's contexts), and each call
  may fail. What the documentation promises about the key-value store is the predicate
  \<open>etcd_laws\<close>.
\<close>

section \<open>The etcd client\<close>

record getResponse =
  Count :: int
  Kvs :: "string list"

text \<open>
  \<open>KeepAlive\<close> returns an error and a channel; the flag says whether the receive on that
  channel that follows in the code completes. \<open>KvPut\<close> has a context without a deadline, so
  that it returns, fails, or never comes back. \<open>ctxDone\<close> is the deferred \<open>cancel()\<close> of the
  call's context.
\<close>

record 'w etcd =
  NewConcSession :: "'w \<Rightarrow> (string + nat) \<times> 'w"
  MutexLock :: "nat \<Rightarrow> string \<Rightarrow> 'w \<Rightarrow> string option \<times> 'w"
  MutexUnlock :: "nat \<Rightarrow> string \<Rightarrow> 'w \<Rightarrow> 'w"
  KvGet :: "string \<Rightarrow> 'w \<Rightarrow> (string + getResponse) \<times> 'w"
  Grant :: "int \<Rightarrow> 'w \<Rightarrow> (string + nat) \<times> 'w"
  KeepAlive :: "nat \<Rightarrow> 'w \<Rightarrow> (string option \<times> bool) \<times> 'w"
  KvPut :: "string \<Rightarrow> string \<Rightarrow> nat \<Rightarrow> 'w \<Rightarrow> unit outcome \<times> 'w"
  KvDelete :: "string \<Rightarrow> 'w \<Rightarrow> string option \<times> 'w"
  leaseCancel :: "nat \<Rightarrow> 'w \<Rightarrow> 'w"
  ctxDone :: "'w \<Rightarrow> 'w"

section \<open>The coordinator\<close>

record etcdCoordinator =
  ec_nodeID :: string
  ec_nodeEndpoint :: string
  ec_w :: transportConfig
  ec_datachannels :: "datachannel list"
  localSessions :: "string \<rightharpoonup> nat"
  sessionLeases :: "string \<rightharpoonup> nat"

type_synonym 'w etcd_state = "(etcdCoordinator \<times> 'w) \<times> mem"

text \<open>\<open>clientv3.New\<close> is the parameter \<open>dial\<close>: an error, or the client's state.\<close>

definition newCoordinatorEtcd ::
  "(string list \<Rightarrow> string + 'w) \<Rightarrow> string \<Rightarrow> string \<Rightarrow> EtcdCoordinatorConfig \<Rightarrow> RootConfig
    \<Rightarrow> (etcdCoordinator \<times> 'w) outcome" where
  "newCoordinatorEtcd dial label uuid ec conf =
     (case dial (Hosts ec) of
        Inl err \<Rightarrow> Err err
      | Inr w \<Rightarrow>
          (let sfu = default_buffers (SFU conf) in
           case Endpoint (conf\<lparr>SFU := sfu\<rparr>) of
             Ret ep \<Rightarrow>
               Ret (\<lparr>ec_nodeID = uuid, ec_nodeEndpoint = ep, ec_w = NewWebRTCTransportConfig sfu,
                     ec_datachannels = [api_datachannel label], localSessions = Map.empty,
                     sessionLeases = Map.empty\<rparr>, w)
           | Err e \<Rightarrow> Err e
           | Panic p \<Rightarrow> Panic p
           | Block \<Rightarrow> Block))"

definition session_key :: "string \<Rightarrow> string" where
  "session_key sid = ''/session/'' @ sid"

text \<open>The part of \<open>getOrCreateSession\<close> after the lookup found an entry.\<close>

definition found_session :: "string \<Rightarrow> getResponse \<Rightarrow> sessionMeta outcome" where
  "found_session nodeID gr =
     (case Kvs gr of
        [] \<Rightarrow> Panic ''index out of range [0] with length 0''
      | v # _ \<Rightarrow>
          (case unmarshal_meta v of
             None \<Rightarrow> Err ''error unmarshaling session meta''
           | Some meta \<Rightarrow> Ret (meta\<lparr>Redirect := (NodeID meta \<noteq> nodeID)\<rparr>)))"

text \<open>
  The part that takes the session: lease, keep-alive, the lease table, the entry. An error
  of \<open>KeepAlive\<close> is only logged. The call never returns when the receive on the keep-alive
  channel or the write blocks; then the deferred calls of the function do not run.
\<close>

definition take_session ::
  "'w etcd \<Rightarrow> string \<Rightarrow> etcdCoordinator \<Rightarrow> 'w \<Rightarrow> sessionMeta outcome \<times> etcdCoordinator \<times> 'w" where
  "take_session E sid e w =
     (case Grant E 1 w of
        (Inl err, w1) \<Rightarrow> (Err err, e, w1)
      | (Inr lease, w1) \<Rightarrow>
          (case KeepAlive E lease w1 of
             ((_, False), w2) \<Rightarrow> (Block, e, w2)
           | ((_, True), w2) \<Rightarrow>
               (let e' = e\<lparr>sessionLeases := (sessionLeases e)(sid \<mapsto> lease)\<rparr>;
                    meta = \<lparr>SessionID = sid, NodeID = ec_nodeID e, NodeEndpoint = ec_nodeEndpoint e,
                            Redirect = False\<rparr>
                in case KvPut E (session_key sid) (marshal_meta meta) lease w2 of
                     (Err err, w3) \<Rightarrow> (Err err, e', w3)
                   | (Panic p, w3) \<Rightarrow> (Panic p, e', w3)
                   | (Block, w3) \<Rightarrow> (Block, e', w3)
                   | (Ret _, w3) \<Rightarrow> (Ret meta, e', w3))))"

definition etcd_getOrCreateSession ::
  "'w etcd \<Rightarrow> string \<Rightarrow> 'w etcd_state \<Rightarrow> sessionMeta outcome \<times> 'w etcd_state" where
  "etcd_getOrCreateSession E sid st =
     (let ((e, w), m) = st; key = session_key sid in
      case NewConcSession E w of
        (Inl err, w1) \<Rightarrow> (Err err, ((e, ctxDone E w1), m))
      | (Inr s, w1) \<Rightarrow>
          (case MutexLock E s key w1 of
             (Some err, w2) \<Rightarrow> (Err err, ((e, ctxDone E w2), m))
           | (None, w2) \<Rightarrow>
               (let deferred = (\<lambda>w. ctxDone E (MutexUnlock E s key w)) in
                case KvGet E key w2 of
                  (Inl err, w3) \<Rightarrow> (Err err, ((e, deferred w3), m))
                | (Inr gr, w3) \<Rightarrow>
                    if Count gr > 0 then (found_session (ec_nodeID e) gr, ((e, deferred w3), m))
                    else
                      (case take_session E sid e w3 of
                         (r, e', w4) \<Rightarrow>
                           (r, ((e', if r = Block then w4 else deferred w4), m))))))"

definition etcd_ensureSession :: "string \<Rightarrow> 'w etcd_state \<Rightarrow> nat \<times> 'w etcd_state" where
  "etcd_ensureSession sid st =
     (let ((e, w), m) = st in
      case localSessions e sid of
        Some a \<Rightarrow> (a, ((e, w), m))
      | None \<Rightarrow>
          (let (a, m1) = new_session (NewSession sid (ec_datachannels e) (ec_w e)) m;
               m2 = gauge_op (Inc GaugeSessions) m1
           in (a, ((e\<lparr>localSessions := (localSessions e)(sid \<mapsto> a)\<rparr>, w), m2))))"

definition etcd_GetSession :: "string \<Rightarrow> 'w etcd_state \<Rightarrow> (nat \<times> transportConfig) \<times> 'w etcd_state" where
  "etcd_GetSession sid st =
     (let (a, st') = etcd_ensureSession sid st in ((a, ec_w (fst (fst st'))), st'))"

definition etcd_onSessionClosed :: "'w etcd \<Rightarrow> string \<Rightarrow> 'w etcd_state \<Rightarrow> 'w etcd_state" where
  "etcd_onSessionClosed E sid st =
     (let ((e, w), m) = st; key = session_key sid in
      case NewConcSession E w of
        (Inl err, w1) \<Rightarrow> ((e, ctxDone E w1), m)
      | (Inr s, w1) \<Rightarrow>
          (case MutexLock E s key w1 of
             (Some err, w2) \<Rightarrow> ((e, ctxDone E w2), m)
           | (None, w2) \<Rightarrow>
               (let deferred = (\<lambda>w. ctxDone E (MutexUnlock E s key w));
                    (e1, w3) = (case sessionLeases e sid of
                       Some lease \<Rightarrow>
                         (e\<lparr>sessionLeases := (sessionLeases e)(sid := None)\<rparr>, leaseCancel E lease w2)
                     | None \<Rightarrow> (e, w2))
                in case KvDelete E key w3 of
                     (Some err, w4) \<Rightarrow> ((e1, deferred w4), m)
                   | (None, w4) \<Rightarrow>
                       ((e1\<lparr>localSessions := (localSessions e1)(sid := None)\<rparr>, deferred w4),
                        gauge_op (Dec GaugeSessions) m))))"

definition etcd_coordinator :: "'w etcd \<Rightarrow> (etcdCoordinator \<times> 'w) coordinator" where
  "etcd_coordinator E =
     \<lparr>getOrCreateSession = etcd_getOrCreateSession E, GetSession = etcd_GetSession\<rparr>"

section \<open>Choosing the coordinator\<close>

datatype 'w anyCoordinator = LocalCoordinator localCoordinator | EtcdCoordinator etcdCoordinator 'w

text \<open>The first non-nil section wins; the \<open>Enabled\<close> flags are not read.\<close>

definition NewCoordinator ::
  "(string list \<Rightarrow> string + 'w) \<Rightarrow> string \<Rightarrow> string \<Rightarrow> RootConfig \<Rightarrow> 'w anyCoordinator outcome" where
  "NewCoordinator dial label uuid conf =
     (case Etcd (Coordinator conf) of
        Some ec \<Rightarrow>
          (case newCoordinatorEtcd dial label uuid ec conf of
             Ret (e, w) \<Rightarrow> Ret (EtcdCoordinator e w) | Err s \<Rightarrow> Err s | Panic p \<Rightarrow> Panic p | Block \<Rightarrow> Block)
      | None \<Rightarrow>
          (case Local (Coordinator conf) of
             Some _ \<Rightarrow>
               (case newCoordinatorLocal label uuid conf of
                  Ret c \<Rightarrow> Ret (LocalCoordinator c) | Err s \<Rightarrow> Err s | Panic p \<Rightarrow> Panic p | Block \<Rightarrow> Block)
           | None \<Rightarrow> Err ''error no coodinator configured''))"

section \<open>A session registry\<close>

interpretation etcd_reg: session_registry etcd_ensureSession "etcd_onSessionClosed E"
    "\<lambda>st. localSessions (fst (fst st))" snd for E
  by unfold_locales
    (auto simp: etcd_ensureSession_def etcd_onSessionClosed_def store_defs Let_def
      split: prod.splits option.splits sum.splits)

text \<open>Taking a session changes only the table of leases of the coordinator.\<close>

lemma leases_only_self [simp]: "\<exists>ls. e = e\<lparr>sessionLeases := ls\<rparr>"
  by (rule exI [of _ "sessionLeases e"]) simp

lemma take_session_leases:
  assumes "take_session E sid e w = (r, e', w')"
  shows "\<exists>ls. e' = e\<lparr>sessionLeases := ls\<rparr>"
  using assms by (auto simp: take_session_def Let_def split: prod.splits sum.splits bool.splits outcome.splits)

lemma etcd_getOrCreate_table:
  "localSessions (fst (fst (snd (etcd_getOrCreateSession E sid st)))) = localSessions (fst (fst st))"
  "snd (snd (etcd_getOrCreateSession E sid st)) = snd st"
  by (auto simp: etcd_getOrCreateSession_def Let_def split: prod.splits sum.splits option.splits dest!: take_session_leases)

lemma etcd_ensureSession_w:
  "ec_w (fst (fst (snd (etcd_ensureSession sid st)))) = ec_w (fst (fst st))"
  by (auto simp: etcd_ensureSession_def new_session_def Let_def split: prod.splits option.splits)

interpretation etcd_coord: coordinator_contract etcd_ensureSession "etcd_onSessionClosed E"
    "\<lambda>st. localSessions (fst (fst st))" "etcd_coordinator E" for E
  by unfold_locales
    (simp_all add: etcd_coordinator_def etcd_GetSession_def etcd_getOrCreate_table case_prod_beta)

lemma new_etcd_registry:
  assumes "newCoordinatorEtcd dial label uuid ec conf = Ret (e, w)"
  shows "wf_registry (localSessions e) mem0"
    and "net GaugeSessions (gauges mem0) = int (card (dom (localSessions e)))"
  using assms
  by (auto simp: newCoordinatorEtcd_def Let_def mem0_def wf_registry_def split: outcome.splits sum.splits)

section \<open>What etcd promises\<close>

text \<open>
  The mutex of the \<open>concurrency\<close> package keeps its own keys below the key it is made
  for, so a session id with a slash could name one of them; the laws speak of the other
  session ids. \<open>kv w\<close> are the entries of the store other than the mutexes' keys.
\<close>

definition slash_free :: "string \<Rightarrow> bool" where
  "slash_free sid \<longleftrightarrow> CHR ''/'' \<notin> set sid"

definition law_get :: "'w etcd \<Rightarrow> ('w \<Rightarrow> string \<rightharpoonup> string) \<Rightarrow> bool" where
  "law_get E kv \<longleftrightarrow> (\<forall>sid w r w'. slash_free sid \<longrightarrow> KvGet E (session_key sid) w = (r, w') \<longrightarrow>
     kv w' = kv w \<and>
     (\<forall>gr. r = Inr gr \<longrightarrow> gr = (case kv w (session_key sid) of
        None \<Rightarrow> \<lparr>Count = 0, Kvs = []\<rparr> | Some v \<Rightarrow> \<lparr>Count = 1, Kvs = [v]\<rparr>)))"

text \<open>A write that reports an error or never comes back may or may not have happened.\<close>

definition law_put :: "'w etcd \<Rightarrow> ('w \<Rightarrow> string \<rightharpoonup> string) \<Rightarrow> bool" where
  "law_put E kv \<longleftrightarrow> (\<forall>k v l w r w'. KvPut E k v l w = (r, w') \<longrightarrow>
     kv w' = (kv w)(k \<mapsto> v) \<or> \<not> returned r \<and> kv w' = kv w)"

definition law_delete :: "'w etcd \<Rightarrow> ('w \<Rightarrow> string \<rightharpoonup> string) \<Rightarrow> bool" where
  "law_delete E kv \<longleftrightarrow> (\<forall>k w r w'. KvDelete E k w = (r, w') \<longrightarrow>
     kv w' = (kv w)(k := None) \<or> r \<noteq> None \<and> kv w' = kv w)"

text \<open>Sessions, mutexes, leases and contexts do not change the other entries by themselves.\<close>

definition law_quiet :: "'w etcd \<Rightarrow> ('w \<Rightarrow> string \<rightharpoonup> string) \<Rightarrow> bool" where
  "law_quiet E kv \<longleftrightarrow>
     (\<forall>w. kv (snd (NewConcSession E w)) = kv w) \<and> (\<forall>s k w. kv (snd (MutexLock E s k w)) = kv w)
     \<and> (\<forall>s k w. kv (MutexUnlock E s k w) = kv w) \<and> (\<forall>t w. kv (snd (Grant E t w)) = kv w)
     \<and> (\<forall>l w. kv (snd (KeepAlive E l w)) = kv w) \<and> (\<forall>l w. kv (leaseCancel E l w) = kv w)
     \<and> (\<forall>w. kv (ctxDone E w) = kv w)"

definition etcd_laws :: "'w etcd \<Rightarrow> ('w \<Rightarrow> string \<rightharpoonup> string) \<Rightarrow> bool" where
  "etcd_laws E kv \<longleftrightarrow> law_get E kv \<and> law_put E kv \<and> law_delete E kv \<and> law_quiet E kv"

text \<open>A service in which no call fails.\<close>

definition etcd_up :: "'w etcd \<Rightarrow> bool" where
  "etcd_up E \<longleftrightarrow>
     (\<forall>w. \<exists>s w'. NewConcSession E w = (Inr s, w')) \<and> (\<forall>s k w. \<exists>w'. MutexLock E s k w = (None, w'))
     \<and> (\<forall>k w. \<exists>gr w'. KvGet E k w = (Inr gr, w')) \<and> (\<forall>t w. \<exists>l w'. Grant E t w = (Inr l, w'))
     \<and> (\<forall>l w. \<exists>err w'. KeepAlive E l w = ((err, True), w'))
     \<and> (\<forall>k v l w. \<exists>w'. KvPut E k v l w = (Ret (), w')) \<and> (\<forall>k w. \<exists>w'. KvDelete E k w = (None, w'))"

lemma quiet_simps:
  assumes "etcd_laws E kv"
  shows "NewConcSession E w = (r1, w') \<Longrightarrow> kv w' = kv w" "MutexLock E s k w = (r2, w') \<Longrightarrow> kv w' = kv w"
    "kv (MutexUnlock E s k w) = kv w" "Grant E t w = (r3, w') \<Longrightarrow> kv w' = kv w"
    "KeepAlive E l w = (r4, w') \<Longrightarrow> kv w' = kv w" "kv (leaseCancel E l w) = kv w" "kv (ctxDone E w) = kv w"
  using assms unfolding etcd_laws_def law_quiet_def by (metis snd_conv)+

lemma getD:
  assumes "etcd_laws E kv" and "slash_free sid" and "KvGet E (session_key sid) w = (r, w')"
  shows "kv w' = kv w" and "r = Inr gr \<Longrightarrow> gr = (case kv w (session_key sid) of
    None \<Rightarrow> \<lparr>Count = 0, Kvs = []\<rparr> | Some v \<Rightarrow> \<lparr>Count = 1, Kvs = [v]\<rparr>)"
  using assms unfolding etcd_laws_def law_get_def by blast+

lemma putD:
  assumes "etcd_laws E kv" and "KvPut E k v l w = (r, w')"
  shows "kv w' = (kv w)(k \<mapsto> v) \<or> \<not> returned r \<and> kv w' = kv w"
  using assms unfolding etcd_laws_def law_put_def by blast

lemma deleteD:
  assumes "etcd_laws E kv" and "KvDelete E k w = (r, w')"
  shows "kv w' = (kv w)(k := None) \<or> r \<noteq> None \<and> kv w' = kv w"
  using assms unfolding etcd_laws_def law_delete_def by blast

lemma session_key_inject [simp]: "session_key a = session_key b \<longleftrightarrow> a = b"
  by (simp add: session_key_def)

section \<open>Claiming a session\<close>

definition own_meta :: "etcdCoordinator \<Rightarrow> string \<Rightarrow> sessionMeta" where
  "own_meta e sid =
     \<lparr>SessionID = sid, NodeID = ec_nodeID e, NodeEndpoint = ec_nodeEndpoint e, Redirect = False\<rparr>"

lemma take_session_spec:
  assumes "etcd_laws E kv" and "take_session E sid e w = (r, e', w')"
  shows "kv w' = (kv w)(session_key sid \<mapsto> marshal_meta (own_meta e sid)) \<or> \<not> returned r \<and> kv w' = kv w"
    and "returned r \<Longrightarrow> r = Ret (own_meta e sid) \<and> (\<exists>l. sessionLeases e' = (sessionLeases e)(sid \<mapsto> l))"
    and "\<exists>ls. e' = e\<lparr>sessionLeases := ls\<rparr>"
proof -
  show "kv w' = (kv w)(session_key sid \<mapsto> marshal_meta (own_meta e sid)) \<or> \<not> returned r \<and> kv w' = kv w"
    and "returned r \<Longrightarrow> r = Ret (own_meta e sid) \<and> (\<exists>l. sessionLeases e' = (sessionLeases e)(sid \<mapsto> l))"
    using assms(2)
    by (auto simp: take_session_def own_meta_def Let_def split: prod.splits sum.splits bool.splits outcome.splits
        dest!: quiet_simps(4,5) [OF assms(1)] putD [OF assms(1)])
qed (rule take_session_leases [OF assms(2)])

text \<open>
  The whole call, by what the store holds for the session: an entry is returned as it is,
  with the redirect flag set from the owner; a missing entry is claimed.
\<close>

lemma getOrCreate_found:
  assumes laws: "etcd_laws E kv" and "slash_free sid" and key: "kv w (session_key sid) = Some v"
    and call: "etcd_getOrCreateSession E sid ((e, w), m) = (r, ((e', w'), m'))"
  shows "kv w' = kv w" "e' = e" "m' = m"
    "r = Ret meta \<Longrightarrow> \<exists>mt. unmarshal_meta v = Some mt \<and> meta = mt\<lparr>Redirect := (NodeID mt \<noteq> ec_nodeID e)\<rparr>"
proof -
  note quiet = quiet_simps [OF laws]
  note get = getD [OF laws assms(2)]
  have "kv w' = kv w \<and> e' = e \<and> m' = m \<and> (\<forall>meta. r = Ret meta \<longrightarrow>
    (\<exists>mt. unmarshal_meta v = Some mt \<and> meta = mt\<lparr>Redirect := (NodeID mt \<noteq> ec_nodeID e)\<rparr>))"
  proof (cases "NewConcSession E w")
    case (Pair r1 w1)
    then have w1: "kv w1 = kv w" by (rule quiet)
    show ?thesis
    proof (cases r1)
      case (Inl err)
      with call Pair w1 show ?thesis by (auto simp: etcd_getOrCreateSession_def Let_def quiet)
    next
      case (Inr s)
      obtain r2 w2 where lock: "MutexLock E s (session_key sid) w1 = (r2, w2)" by fastforce
      obtain r3 w3 where gets: "KvGet E (session_key sid) w2 = (r3, w3)" by fastforce
      have w2: "kv w2 = kv w" using quiet(2) [OF lock] w1 by simp
      have w3: "kv w3 = kv w" using get(1) [OF gets] w2 by simp
      have "r3 = Inr gr \<Longrightarrow> gr = \<lparr>Count = 1, Kvs = [v]\<rparr>" for gr
        using get(2) [OF gets] w2 key by simp
      with call Pair Inr lock gets w2 w3 show ?thesis
        by (auto simp: etcd_getOrCreateSession_def Let_def quiet found_session_def
            split: sum.splits option.splits)
    qed
  qed
  then show "kv w' = kv w" "e' = e" "m' = m"
    "r = Ret meta \<Longrightarrow> \<exists>mt. unmarshal_meta v = Some mt \<and> meta = mt\<lparr>Redirect := (NodeID mt \<noteq> ec_nodeID e)\<rparr>"
    by auto
qed

lemma getOrCreate_absent:
  assumes laws: "etcd_laws E kv" and "slash_free sid" and key: "kv w (session_key sid) = None"
    and call: "etcd_getOrCreateSession E sid ((e, w), m) = (r, ((e', w'), m'))"
  shows "kv w' = (kv w)(session_key sid \<mapsto> marshal_meta (own_meta e sid)) \<or> \<not> returned r \<and> kv w' = kv w"
    and "returned r \<Longrightarrow> r = Ret (own_meta e sid) \<and> (\<exists>l. sessionLeases e' = (sessionLeases e)(sid \<mapsto> l))"
    and "\<exists>ls. e' = e\<lparr>sessionLeases := ls\<rparr>" and "m' = m"
proof -
  note quiet = quiet_simps [OF laws]
  note get = getD [OF laws assms(2)]
  have "(kv w' = (kv w)(session_key sid \<mapsto> marshal_meta (own_meta e sid)) \<or> \<not> returned r \<and> kv w' = kv w)
    \<and> (returned r \<longrightarrow> r = Ret (own_meta e sid) \<and> (\<exists>l. sessionLeases e' = (sessionLeases e)(sid \<mapsto> l)))
    \<and> (\<exists>ls. e' = e\<lparr>sessionLeases := ls\<rparr>) \<and> m' = m"
  proof (cases "NewConcSession E w")
    case (Pair r1 w1)
    then have w1: "kv w1 = kv w" by (rule quiet)
    show ?thesis
    proof (cases r1)
      case (Inl err)
      with call Pair w1 show ?thesis by (auto simp: etcd_getOrCreateSession_def Let_def quiet)
    next
      case (Inr s)
      obtain r2 w2 where lock: "MutexLock E s (session_key sid) w1 = (r2, w2)" by fastforce
      obtain r3 w3 where gets: "KvGet E (session_key sid) w2 = (r3, w3)" by fastforce
      obtain r4 e4 w4 where taken: "take_session E sid e w3 = (r4, e4, w4)" by (cases "take_session E sid e w3")
      have w2: "kv w2 = kv w" using quiet(2) [OF lock] w1 by simp
      have w3: "kv w3 = kv w" using get(1) [OF gets] w2 by simp
      have "r3 = Inr gr \<Longrightarrow> gr = \<lparr>Count = 0, Kvs = []\<rparr>" for gr
        using get(2) [OF gets] w2 key by simp
      with call Pair Inr lock gets w2 w3 taken take_session_spec [OF laws taken] show ?thesis
        by (auto simp: etcd_getOrCreateSession_def Let_def quiet split: sum.splits option.splits if_splits)
    qed
  qed
  then show "kv w' = (kv w)(session_key sid \<mapsto> marshal_meta (own_meta e sid)) \<or> \<not> returned r \<and> kv w' = kv w"
    and "returned r \<Longrightarrow> r = Ret (own_meta e sid) \<and> (\<exists>l. sessionLeases e' = (sessionLeases e)(sid \<mapsto> l))"
    and "\<exists>ls. e' = e\<lparr>sessionLeases := ls\<rparr>" and "m' = m"
    by auto
qed

section \<open>Properties of the choice of a coordinator\<close>

text \<open>
  Which coordinator a node gets depends only on which sections the configuration has, etcd
  before local: the \<open>Enabled\<close> flags of the sections do not matter, and with neither section
  the result is an error.
\<close>

lemma coordinator_choice_ignores_enabled:
  "NewCoordinator dial label uuid (conf\<lparr>Coordinator := \<lparr>Local = l, Etcd = Some \<lparr>etcd_Enabled = b, Hosts = hs\<rparr>\<rparr>\<rparr>)
      = NewCoordinator dial label uuid (conf\<lparr>Coordinator := \<lparr>Local = None, Etcd = Some \<lparr>etcd_Enabled = b', Hosts = hs\<rparr>\<rparr>\<rparr>)
    \<and> NewCoordinator dial label uuid (conf\<lparr>Coordinator := \<lparr>Local = Some \<lparr>local_Enabled = b\<rparr>, Etcd = None\<rparr>\<rparr>)
      = NewCoordinator dial label uuid (conf\<lparr>Coordinator := \<lparr>Local = Some \<lparr>local_Enabled = b'\<rparr>, Etcd = None\<rparr>\<rparr>)
    \<and> NewCoordinator dial label uuid (conf\<lparr>Coordinator := \<lparr>Local = None, Etcd = None\<rparr>\<rparr>)
      = Err ''error no coodinator configured''"
proof -
  have "Endpoint (conf\<lparr>Coordinator := x, SFU := y\<rparr>) = Endpoint conf" for x y
    by (simp add: Endpoint_def split: list.splits)
  then show ?thesis
    by (cases "dial hs") (simp_all add: NewCoordinator_def newCoordinatorEtcd_def newCoordinatorLocal_def Let_def)
qed

end
