(* ===== verification/Cluster.thy ===== *)
theory Cluster
  imports Coordinator_Etcd
begin

text \<open>
  Several nodes on one etcd: the abstract directory of session owners that the etcd
  coordinators maintain, the proof that they refine it, and the state machine of a cluster
  with the invariant that redirects always lead to the owner.
\<close>

section \<open>The directory of owners\<close>

text \<open>
  The contract of the coordinators, seen from outside: a session has at most one owner, a
  node and its endpoint; the first node that asks becomes the owner.
\<close>

type_synonym owner = "string \<times> string"
type_synonym directory = "string \<rightharpoonup> owner"

definition claim :: "owner \<Rightarrow> string \<Rightarrow> directory \<Rightarrow> owner \<times> directory" where
  "claim me sid d = (case d sid of Some ow \<Rightarrow> (ow, d) | None \<Rightarrow> (me, d(sid \<mapsto> me)))"

definition owner_of :: "sessionMeta \<Rightarrow> owner" where
  "owner_of mt = (NodeID mt, NodeEndpoint mt)"

definition self_owner :: "etcdCoordinator \<Rightarrow> owner" where
  "self_owner e = (ec_nodeID e, ec_nodeEndpoint e)"

text \<open>The directory that the entries of the store represent.\<close>

definition directory_of :: "(string \<rightharpoonup> string) \<Rightarrow> directory" where
  "directory_of kv sid =
     (case kv (session_key sid) of
        None \<Rightarrow> None
      | Some v \<Rightarrow> map_option owner_of (unmarshal_meta v))"

text \<open>
  Node ids, endpoints and session ids that JSON can represent: \<open>json.Marshal\<close> replaces
  bytes that are not UTF-8.
\<close>

definition utf8_node :: "etcdCoordinator \<Rightarrow> bool" where
  "utf8_node e \<longleftrightarrow> valid_utf8 (ec_nodeID e) \<and> valid_utf8 (ec_nodeEndpoint e)"

definition good_sid :: "string \<Rightarrow> bool" where
  "good_sid sid \<longleftrightarrow> slash_free sid \<and> valid_utf8 sid"

lemma unmarshal_own:
  "utf8_node e \<Longrightarrow> valid_utf8 sid \<Longrightarrow> unmarshal_meta (marshal_meta (own_meta e sid)) = Some (own_meta e sid)"
  by (rule unmarshal_marshal_meta) (simp add: utf8_node_def utf8_meta_def own_meta_def)

lemma owner_of_own [simp]: "owner_of (own_meta e sid) = self_owner e"
  by (simp add: owner_of_def own_meta_def self_owner_def)

lemma directory_of_put:
  assumes "utf8_node e" and "valid_utf8 sid"
  shows "directory_of (kv(session_key sid \<mapsto> marshal_meta (own_meta e sid)))
    = (directory_of kv)(sid \<mapsto> self_owner e)"
  using unmarshal_own [OF assms] by (auto simp: fun_eq_iff directory_of_def)

lemma directory_of_delete:
  "directory_of (kv(session_key sid := None)) = (directory_of kv)(sid := None)"
  by (auto simp: fun_eq_iff directory_of_def)

text \<open>Every call of \<open>getOrCreateSession\<close> that returns is one \<open>claim\<close>.\<close>

lemma getOrCreate_claims:
  assumes laws: "etcd_laws E kv" and sid: "good_sid sid" and "utf8_node e"
    and call: "etcd_getOrCreateSession E sid ((e, w), m) = (Ret meta, ((e', w'), m'))"
  shows "claim (self_owner e) sid (directory_of (kv w)) = (owner_of meta, directory_of (kv w'))"
    and "Redirect meta \<longleftrightarrow> NodeID meta \<noteq> ec_nodeID e"
proof -
  have sf: "slash_free sid" and u: "valid_utf8 sid" using sid by (simp_all add: good_sid_def)
  have "claim (self_owner e) sid (directory_of (kv w)) = (owner_of meta, directory_of (kv w'))
    \<and> (Redirect meta \<longleftrightarrow> NodeID meta \<noteq> ec_nodeID e)"
  proof (cases "kv w (session_key sid)")
    case None
    note abs = getOrCreate_absent [OF laws sf None call]
    have "meta = own_meta e sid" using abs(2) by simp
    moreover have "kv w' = (kv w)(session_key sid \<mapsto> marshal_meta (own_meta e sid))" using abs(1) by simp
    moreover have "directory_of (kv w) sid = None" using None by (simp add: directory_of_def)
    ultimately show ?thesis
      by (simp add: claim_def directory_of_put [OF assms(3) u]) (simp add: own_meta_def)
  next
    case (Some v)
    note fnd = getOrCreate_found [OF laws sf Some call]
    obtain mt where mt: "unmarshal_meta v = Some mt" "meta = mt\<lparr>Redirect := (NodeID mt \<noteq> ec_nodeID e)\<rparr>"
      using fnd(4) by blast
    then have "directory_of (kv w) sid = Some (owner_of meta)"
      using Some by (simp add: directory_of_def owner_of_def)
    with fnd(1) mt(2) show ?thesis by (simp add: claim_def)
  qed
  then show "claim (self_owner e) sid (directory_of (kv w)) = (owner_of meta, directory_of (kv w'))"
    and "Redirect meta \<longleftrightarrow> NodeID meta \<noteq> ec_nodeID e"
    by simp_all
qed

text \<open>A call that does not return leaves the directory alone or claims the session all the same.\<close>

lemma getOrCreate_failed:
  assumes laws: "etcd_laws E kv" and sid: "good_sid sid" and "utf8_node e" and "\<not> returned r"
    and call: "etcd_getOrCreateSession E sid ((e, w), m) = (r, ((e', w'), m'))"
  shows "directory_of (kv w') = directory_of (kv w)
    \<or> directory_of (kv w) sid = None \<and> directory_of (kv w') = (directory_of (kv w))(sid \<mapsto> self_owner e)"
proof -
  have sf: "slash_free sid" and u: "valid_utf8 sid" using sid by (simp_all add: good_sid_def)
  show ?thesis
  proof (cases "kv w (session_key sid)")
    case None
    with getOrCreate_absent(1) [OF laws sf None call] show ?thesis
      by (auto simp: directory_of_put [OF assms(3) u] directory_of_def)
  next
    case (Some v)
    with getOrCreate_found(1) [OF laws sf Some call] show ?thesis by simp
  qed
qed

text \<open>When no etcd call fails, the call returns.\<close>

lemma getOrCreate_returns:
  assumes up: "etcd_up E" and laws: "etcd_laws E kv" and "slash_free sid"
    and entry: "\<And>v. kv w (session_key sid) = Some v \<Longrightarrow> unmarshal_meta v \<noteq> None"
  shows "\<exists>meta. fst (etcd_getOrCreateSession E sid ((e, w), m)) = Ret meta"
proof -
  let ?k = "session_key sid"
  obtain s w1 where s: "NewConcSession E w = (Inr s, w1)" using up by (meson etcd_up_def)
  obtain w2 where l: "MutexLock E s ?k w1 = (None, w2)" using up by (meson etcd_up_def)
  obtain gr w3 where g: "KvGet E ?k w2 = (Inr gr, w3)" using up by (meson etcd_up_def)
  obtain ls w4 where gt: "Grant E 1 w3 = (Inr ls, w4)" using up by (meson etcd_up_def)
  obtain ke w5 where ka: "KeepAlive E ls w4 = ((ke, True), w5)" using up by (meson etcd_up_def)
  obtain w6 where put: "KvPut E ?k (marshal_meta (own_meta e sid)) ls w5 = (Ret (), w6)"
    using up by (meson etcd_up_def)
  have kv2: "kv w2 = kv w" using quiet_simps(1,2) [OF laws] s l by metis
  have gr: "gr = (case kv w ?k of None \<Rightarrow> \<lparr>Count = 0, Kvs = []\<rparr> | Some v \<Rightarrow> \<lparr>Count = 1, Kvs = [v]\<rparr>)"
    using getD(2) [OF laws assms(3) g] kv2 by simp
  have "take_session E sid e w3 = (Ret (own_meta e sid), e\<lparr>sessionLeases := (sessionLeases e)(sid \<mapsto> ls)\<rparr>, w6)"
    using gt ka put by (simp add: take_session_def own_meta_def Let_def)
  then show ?thesis
    using s l g gr entry
    by (auto simp: etcd_getOrCreateSession_def Let_def found_session_def split: option.splits)
qed

text \<open>Closing a session removes the owner, or leaves the directory alone.\<close>

lemma onSessionClosed_kv:
  assumes laws: "etcd_laws E kv" and call: "etcd_onSessionClosed E sid ((e, w), m) = ((e', w'), m')"
  shows "kv w' = (kv w)(session_key sid := None) \<or> kv w' = kv w \<and> localSessions e' = localSessions e \<and> m' = m"
    and "ec_nodeID e' = ec_nodeID e" "ec_nodeEndpoint e' = ec_nodeEndpoint e"
  using call
  by (auto simp: etcd_onSessionClosed_def Let_def quiet_simps(3,6,7) [OF laws]
      split: prod.splits sum.splits option.splits
      dest!: quiet_simps(1,2) [OF laws] deleteD [OF laws])

section \<open>The state machine of a cluster\<close>

text \<open>
  Besides the nodes and etcd the state remembers two things of each node: the sessions that
  the coordinator has given to one of its requests without a redirect, and those it has made
  locally. The handlers look up only the former (\<open>join\<close>, and \<open>presence_set\<close> on a joined
  connection), possibly much later; the callback that closes a session belongs to one of the
  latter.
\<close>

record 'w cluster =
  cl_node :: "nat \<Rightarrow> etcdCoordinator"
  cl_world :: 'w
  cl_given :: "nat \<Rightarrow> string set"
  cl_made :: "nat \<Rightarrow> string set"

definition gives :: "sessionMeta outcome \<Rightarrow> bool" where
  "gives r = (case r of Ret meta \<Rightarrow> \<not> Redirect meta | _ \<Rightarrow> False)"

definition put_node :: "nat \<Rightarrow> etcdCoordinator \<Rightarrow> 'w \<Rightarrow> 'w cluster \<Rightarrow> 'w cluster" where
  "put_node i e w c = c\<lparr>cl_node := (cl_node c)(i := e), cl_world := w\<rparr>"

text \<open>
  One step: a node asks for a session, a session of a node closes, a node looks a session up
  locally, or etcd drops entries because their leases expired. A node's call is one step:
  the etcd mutex of the session's key orders the calls of different nodes on one session,
  and calls on different sessions touch different keys.
\<close>

inductive cluster_step :: "'w etcd \<Rightarrow> ('w \<Rightarrow> string \<rightharpoonup> string) \<Rightarrow> 'w cluster \<Rightarrow> 'w cluster \<Rightarrow> bool"
  for E kv where
  ask: "good_sid sid \<Longrightarrow>
    etcd_getOrCreateSession E sid ((cl_node c i, cl_world c), m) = (r, ((e', w'), m')) \<Longrightarrow>
    cluster_step E kv c
      ((put_node i e' w' c)\<lparr>cl_given := (cl_given c)(i := if gives r then insert sid (cl_given c i) else cl_given c i)\<rparr>)"
| closed: "sid \<in> cl_made c i \<Longrightarrow>
    etcd_onSessionClosed E sid ((cl_node c i, cl_world c), m) = ((e', w'), m') \<Longrightarrow>
    cluster_step E kv c (put_node i e' w' c)"
| lookup: "sid \<in> cl_given c i \<Longrightarrow>
    etcd_ensureSession sid ((cl_node c i, cl_world c), m) = (a, ((e', w'), m')) \<Longrightarrow>
    cluster_step E kv c ((put_node i e' w' c)\<lparr>cl_made := (cl_made c)(i := insert sid (cl_made c i))\<rparr>)"
| expire: "kv w' \<subseteq>\<^sub>m kv (cl_world c) \<Longrightarrow> cluster_step E kv c (c\<lparr>cl_world := w'\<rparr>)"

lemma put_node_simps [simp]:
  "cl_node (put_node i e w c) = (cl_node c)(i := e)" "cl_world (put_node i e w c) = w"
  "cl_given (put_node i e w c) = cl_given c" "cl_made (put_node i e w c) = cl_made c"
  by (simp_all add: put_node_def)

definition cluster_init :: "('w \<Rightarrow> string \<rightharpoonup> string) \<Rightarrow> 'w cluster \<Rightarrow> bool" where
  "cluster_init kv c \<longleftrightarrow>
     kv (cl_world c) = Map.empty \<and> (\<forall>i. utf8_node (cl_node c i)) \<and> (\<forall>i. cl_given c i = {} \<and> cl_made c i = {})"

definition cluster_reach :: "'w etcd \<Rightarrow> ('w \<Rightarrow> string \<rightharpoonup> string) \<Rightarrow> 'w cluster \<Rightarrow> bool" where
  "cluster_reach E kv c \<longleftrightarrow> (\<exists>c0. cluster_init kv c0 \<and> (cluster_step E kv)\<^sup>*\<^sup>* c0 c)"

text \<open>Every entry is the metadata of its session and names a node of the cluster.\<close>

definition entry_ok :: "'w cluster \<Rightarrow> string \<Rightarrow> string \<Rightarrow> bool" where
  "entry_ok c sid v \<longleftrightarrow>
     (\<exists>i mt. unmarshal_meta v = Some mt \<and> SessionID mt = sid \<and> owner_of mt = self_owner (cl_node c i))"

definition cluster_inv :: "('w \<Rightarrow> string \<rightharpoonup> string) \<Rightarrow> 'w cluster \<Rightarrow> bool" where
  "cluster_inv kv c \<longleftrightarrow>
     (\<forall>i. utf8_node (cl_node c i))
     \<and> (\<forall>sid v. kv (cl_world c) (session_key sid) = Some v \<longrightarrow> entry_ok c sid v)"

text \<open>Steps keep the identity of every node.\<close>

lemma getOrCreate_identity:
  assumes "etcd_getOrCreateSession E sid ((e, w), m) = (r, ((e', w'), m'))"
  shows "self_owner e' = self_owner e"
  using assms
  by (auto simp: etcd_getOrCreateSession_def self_owner_def Let_def
      split: prod.splits sum.splits option.splits if_splits dest!: take_session_leases)

lemma ensureSession_identity:
  assumes "etcd_ensureSession sid ((e, w), m) = (a, ((e', w'), m'))"
  shows "self_owner e' = self_owner e" and "w' = w"
  using assms
  by (auto simp: etcd_ensureSession_def self_owner_def new_session_def Let_def split: option.splits)

lemma utf8_node_identity: "self_owner e' = self_owner e \<Longrightarrow> utf8_node e' = utf8_node e"
  by (simp add: self_owner_def utf8_node_def)

lemma step_identity:
  assumes "etcd_laws E kv" and "cluster_step E kv c c'"
  shows "self_owner (cl_node c' i) = self_owner (cl_node c i)"
  using assms(2)
proof cases
  case (ask sid j m r e' w' m')
  then show ?thesis using getOrCreate_identity [OF ask(3)] by simp
next
  case (closed sid j m e' w' m')
  then show ?thesis using onSessionClosed_kv(2,3) [OF assms(1) closed(3)] by (simp add: self_owner_def)
next
  case (lookup sid j m a e' w' m')
  then show ?thesis using ensureSession_identity(1) [OF lookup(3)] by simp
qed simp

lemma step_entry_ok:
  assumes "etcd_laws E kv" and "cluster_step E kv c c'" and "entry_ok c sid v"
  shows "entry_ok c' sid v"
  using assms(3) step_identity [OF assms(1,2)] by (auto simp: entry_ok_def)

text \<open>The entries after a step: old ones, or the new entry of the node that asked.\<close>

lemma step_entries:
  assumes laws: "etcd_laws E kv" and step: "cluster_step E kv c c'" and inv: "cluster_inv kv c"
    and entry: "kv (cl_world c') (session_key sid) = Some v"
  shows "kv (cl_world c) (session_key sid) = Some v
    \<or> (\<exists>i. v = marshal_meta (own_meta (cl_node c i) sid) \<and> valid_utf8 sid)"
  using step
proof cases
  case (ask sid' i m r e' w' m')
  then have sf: "slash_free sid'" and "valid_utf8 sid'" by (simp_all add: good_sid_def)
  show ?thesis
  proof (cases "kv (cl_world c) (session_key sid')")
    case None
    with getOrCreate_absent(1) [OF laws sf None ask(3)] ask(1) entry \<open>valid_utf8 sid'\<close> show ?thesis
      by (auto split: if_splits)
  next
    case (Some u)
    with getOrCreate_found(1) [OF laws sf Some ask(3)] ask(1) entry show ?thesis by simp
  qed
next
  case (closed sid' i m e' w' m')
  with onSessionClosed_kv(1) [OF laws closed(3)] entry show ?thesis by (auto split: if_splits)
next
  case (lookup sid' i m a e' w' m')
  with ensureSession_identity(2) [OF lookup(3)] entry show ?thesis by simp
next
  case (expire w')
  with entry show ?thesis by (auto simp: map_le_def dom_def)
qed

lemma step_inv:
  assumes laws: "etcd_laws E kv" and step: "cluster_step E kv c c'" and inv: "cluster_inv kv c"
  shows "cluster_inv kv c'"
proof -
  have utf8: "utf8_node (cl_node c' i)" for i
    using inv utf8_node_identity [OF step_identity [OF laws step]] by (simp add: cluster_inv_def)
  have "entry_ok c' sid v" if "kv (cl_world c') (session_key sid) = Some v" for sid v
    using step_entries [OF laws step inv that]
  proof
    assume "kv (cl_world c) (session_key sid) = Some v"
    with inv have "entry_ok c sid v" by (simp add: cluster_inv_def)
    then show ?thesis by (rule step_entry_ok [OF laws step])
  next
    assume "\<exists>i. v = marshal_meta (own_meta (cl_node c i) sid) \<and> valid_utf8 sid"
    then obtain i where v: "v = marshal_meta (own_meta (cl_node c i) sid)" "valid_utf8 sid" by blast
    moreover have "utf8_node (cl_node c i)" using inv by (simp add: cluster_inv_def)
    ultimately have "unmarshal_meta v = Some (own_meta (cl_node c i) sid)" by (simp add: unmarshal_own)
    then have "entry_ok c sid v" by (auto simp: entry_ok_def own_meta_def owner_of_def self_owner_def)
    then show ?thesis by (rule step_entry_ok [OF laws step])
  qed
  with utf8 show ?thesis by (simp add: cluster_inv_def)
qed

lemma reach_inv:
  assumes laws: "etcd_laws E kv" and "cluster_reach E kv c"
  shows "cluster_inv kv c"
proof -
  from assms(2) obtain c0 where "cluster_init kv c0" "(cluster_step E kv)\<^sup>*\<^sup>* c0 c"
    by (auto simp: cluster_reach_def)
  from this(2,1) show ?thesis
  proof (induction rule: rtranclp_induct)
    case base
    then show ?case by (simp add: cluster_init_def cluster_inv_def)
  next
    case (step c1 c2)
    then show ?case using step_inv [OF laws] by blast
  qed
qed

section \<open>Redirects lead to the owner\<close>

lemma asked_owner:
  assumes laws: "etcd_laws E kv" and inv: "cluster_inv kv c" and sid: "good_sid sid"
    and call: "etcd_getOrCreateSession E sid ((cl_node c i, cl_world c), m) = (Ret meta, ((e', w'), m'))"
  shows "SessionID meta = sid" and "\<exists>j. owner_of meta = self_owner (cl_node c j)"
proof -
  have sf: "slash_free sid" using sid by (simp add: good_sid_def)
  have "SessionID meta = sid \<and> (\<exists>j. owner_of meta = self_owner (cl_node c j))"
  proof (cases "kv (cl_world c) (session_key sid)")
    case None
    with getOrCreate_absent(2) [OF laws sf None call] show ?thesis
      by (auto simp: own_meta_def owner_of_def self_owner_def)
  next
    case (Some v)
    then have "entry_ok c sid v" using inv by (simp add: cluster_inv_def)
    with getOrCreate_found(4) [OF laws sf Some call] show ?thesis
      by (auto simp: entry_ok_def owner_of_def)
  qed
  then show "SessionID meta = sid" and "\<exists>j. owner_of meta = self_owner (cl_node c j)" by simp_all
qed

lemma claimed_owner_stays:
  assumes laws: "etcd_laws E kv" and sid: "good_sid sid" and "utf8_node e1" and "utf8_node e2"
    and first: "etcd_getOrCreateSession E sid ((e1, w), m) = (Ret meta1, ((e1', w1), m1))"
    and second: "etcd_getOrCreateSession E sid ((e2, w1'), m2) = (Ret meta2, ((e2', w2), m2'))"
    and same: "kv w1' (session_key sid) = kv w1 (session_key sid)"
  shows "owner_of meta2 = owner_of meta1" and "Redirect meta2 \<longleftrightarrow> NodeID meta1 \<noteq> ec_nodeID e2"
proof -
  have "directory_of (kv w1) sid = Some (owner_of meta1)"
    using getOrCreate_claims(1) [OF laws sid assms(3) first]
    by (auto simp: claim_def split: option.splits dest: fun_cong [of _ _ sid])
  then have "directory_of (kv w1') sid = Some (owner_of meta1)"
    using same by (simp add: directory_of_def)
  then show owner: "owner_of meta2 = owner_of meta1"
    using getOrCreate_claims(1) [OF laws sid assms(4) second] by (simp add: claim_def)
  then show "Redirect meta2 \<longleftrightarrow> NodeID meta1 \<noteq> ec_nodeID e2"
    using getOrCreate_claims(2) [OF laws sid assms(4) second] by (simp add: owner_of_def)
qed

text \<open>After a call has returned, the owner it named gets the session without a redirect.\<close>

lemma owner_asked_again:
  assumes laws: "etcd_laws E kv" and up: "etcd_up E" and reach: "cluster_reach E kv c" and sid: "good_sid sid"
    and call: "etcd_getOrCreateSession E sid ((cl_node c i, cl_world c), m) = (Ret meta, ((e', w'), m'))"
    and own: "self_owner e2 = owner_of meta"
  shows "\<exists>meta2. fst (etcd_getOrCreateSession E sid ((e2, w'), m2)) = Ret meta2
    \<and> \<not> Redirect meta2 \<and> owner_of meta2 = owner_of meta"
proof -
  note inv = reach_inv [OF laws reach]
  have sf: "slash_free sid" using sid by (simp add: good_sid_def)
  have "cluster_inv kv ((put_node i e' w' c)\<lparr>cl_given := (cl_given c)(i := if gives (Ret meta) then insert sid (cl_given c i) else cl_given c i)\<rparr>)"
    by (rule step_inv [OF laws cluster_step.ask [OF sid call] inv])
  then have "kv w' (session_key sid) = Some v \<Longrightarrow> unmarshal_meta v \<noteq> None" for v
    unfolding cluster_inv_def entry_ok_def by fastforce
  then obtain meta2 where "fst (etcd_getOrCreateSession E sid ((e2, w'), m2)) = Ret meta2"
    using getOrCreate_returns [OF up laws sf, of w' e2 m2] by blast
  then obtain e2' w2 m2' where second: "etcd_getOrCreateSession E sid ((e2, w'), m2) = (Ret meta2, ((e2', w2), m2'))"
    by (metis prod.collapse)
  have u1: "utf8_node (cl_node c i)" using inv by (simp add: cluster_inv_def)
  obtain j where "owner_of meta = self_owner (cl_node c j)" using asked_owner(2) [OF laws inv sid call] by blast
  then have u2: "utf8_node e2" using own inv utf8_node_identity [of e2 "cl_node c j"] by (simp add: cluster_inv_def)
  have "owner_of meta2 = owner_of meta" "Redirect meta2 \<longleftrightarrow> NodeID meta \<noteq> ec_nodeID e2"
    using claimed_owner_stays [OF laws sid u1 u2 call second] by simp_all
  with second own show ?thesis by (simp add: owner_of_def self_owner_def)
qed

text \<open>A session the directory gives to another node is found there, and nothing changes.\<close>

lemma foreign_session_found:
  assumes laws: "etcd_laws E kv" and up: "etcd_up E" and reach: "cluster_reach E kv c" and sid: "good_sid sid"
    and dir: "directory_of (kv (cl_world c)) sid = Some (nid, ep)" and other: "nid \<noteq> ec_nodeID (cl_node c i)"
  obtains w' meta where
    "etcd_getOrCreateSession E sid ((cl_node c i, cl_world c), m) = (Ret meta, ((cl_node c i, w'), m))"
    and "kv w' = kv (cl_world c)" and "SessionID meta = sid" and "owner_of meta = (nid, ep)" and "Redirect meta"
proof -
  note inv = reach_inv [OF laws reach]
  have sf: "slash_free sid" using sid by (simp add: good_sid_def)
  obtain v where v: "kv (cl_world c) (session_key sid) = Some v" "unmarshal_meta v \<noteq> None"
    using dir by (auto simp: directory_of_def split: option.splits)
  then obtain meta where "fst (etcd_getOrCreateSession E sid ((cl_node c i, cl_world c), m)) = Ret meta"
    using getOrCreate_returns [OF up laws sf, of "cl_world c" "cl_node c i" m] by auto
  then obtain e' w' m' where
    call: "etcd_getOrCreateSession E sid ((cl_node c i, cl_world c), m) = (Ret meta, ((e', w'), m'))"
    by (metis prod.collapse)
  have u: "utf8_node (cl_node c i)" using inv by (simp add: cluster_inv_def)
  have "owner_of meta = (nid, ep)"
    using getOrCreate_claims(1) [OF laws sid u call] dir by (simp add: claim_def)
  moreover from this have "Redirect meta"
    using getOrCreate_claims(2) [OF laws sid u call] other by (simp add: owner_of_def)
  ultimately show ?thesis
    using that call getOrCreate_found(1-3) [OF laws sf v(1) call] asked_owner(1) [OF laws inv sid call] by simp
qed

section \<open>Closing a session\<close>

lemma closed_effect:
  assumes up: "etcd_up E" and laws: "etcd_laws E kv"
    and call: "etcd_onSessionClosed E sid ((e, w), m) = ((e', w'), m')"
  shows "kv w' = (kv w)(session_key sid := None)" and "localSessions e' = (localSessions e)(sid := None)"
    and "sessionLeases e' = (sessionLeases e)(sid := None)" and "m' = gauge_op (Dec GaugeSessions) m"
    and "self_owner e' = self_owner e"
proof -
  let ?k = "session_key sid"
  obtain s w1 where s: "NewConcSession E w = (Inr s, w1)" using up by (meson etcd_up_def)
  obtain w2 where l: "MutexLock E s ?k w1 = (None, w2)" using up by (meson etcd_up_def)
  have kv2: "kv w2 = kv w" using quiet_simps(1,2) [OF laws] s l by metis
  define w3 where "w3 = (case sessionLeases e sid of Some lease \<Rightarrow> leaseCancel E lease w2 | None \<Rightarrow> w2)"
  have kv3: "kv w3 = kv w" using kv2 by (simp add: w3_def quiet_simps(6) [OF laws] split: option.splits)
  obtain w4 where d: "KvDelete E ?k w3 = (None, w4)" using up by (meson etcd_up_def)
  have kv4: "kv w4 = (kv w)(?k := None)" using deleteD [OF laws d] kv3 by simp
  have eq: "e' = e\<lparr>sessionLeases := (sessionLeases e)(sid := None), localSessions := (localSessions e)(sid := None)\<rparr>"
    "w' = ctxDone E (MutexUnlock E s ?k w4)" "m' = gauge_op (Dec GaugeSessions) m"
    using call s l d by (auto simp: etcd_onSessionClosed_def Let_def w3_def fun_upd_idem split: option.splits)
  then show "kv w' = (kv w)(?k := None)" "localSessions e' = (localSessions e)(sid := None)"
    "sessionLeases e' = (sessionLeases e)(sid := None)" "m' = gauge_op (Dec GaugeSessions) m"
    "self_owner e' = self_owner e"
    using kv4 by (simp_all add: quiet_simps(3,7) [OF laws] self_owner_def)
qed

end
