(* ===== verification/Cluster_Locks.thy ===== *)
theory Cluster_Locks
  imports Cluster
begin

text \<open>
  The two locks of \<open>pkg/coordinator_etcd.go\<close>: the mutex \<open>e.mu\<close> of a node and the lock of a
  session in etcd. \<open>getOrCreateSession\<close> takes the session's lock first and the mutex second,
  \<open>onSessionClosed\<close> the other way round; only the waits for etcd have a timeout. The calls
  that run at the same time on all nodes are a list of threads, each at a point of its code,
  and the locks it holds are determined by that point. Calls of \<open>KeepAlive\<close> are taken to
  answer.
\<close>

section \<open>Threads and their moves\<close>

datatype lock_call = Ask | Close | Ensure

text \<open>
  The points of the code: before the first lock, holding the session's lock, holding it and
  waiting for the mutex to take the session, holding the mutex, holding both, returned.
\<close>

datatype lock_point = Start | Looking | Taking | Guarded | Both | Done

record thread =
  th_node :: nat
  th_call :: lock_call
  th_sid :: string
  th_at :: lock_point

definition holds_mu :: "thread \<Rightarrow> bool" where
  "holds_mu t \<longleftrightarrow> th_at t = Guarded \<or> th_at t = Both"

definition holds_etcd :: "thread \<Rightarrow> bool" where
  "holds_etcd t \<longleftrightarrow> th_at t = Looking \<or> th_at t = Taking \<or> th_at t = Both"

definition mu_free :: "nat \<Rightarrow> thread list \<Rightarrow> bool" where
  "mu_free n ts \<longleftrightarrow> list_all (\<lambda>t. th_node t = n \<longrightarrow> \<not> holds_mu t) ts"

definition etcd_free :: "string \<Rightarrow> thread list \<Rightarrow> bool" where
  "etcd_free sid ts \<longleftrightarrow> list_all (\<lambda>t. th_sid t = sid \<longrightarrow> \<not> holds_etcd t) ts"

text \<open>A move goes on to the next point, or gives up, at the latest after the five seconds of the context.\<close>

datatype move = Go (point_of: lock_point) | Timeout (point_of: lock_point)

text \<open>
  \<open>getOrCreateSession\<close>: lock the session; return when it is found or a call fails; otherwise
  lock the mutex, write the entry, and release both by the deferred calls.
\<close>

fun ask_moves :: "bool \<Rightarrow> bool \<Rightarrow> lock_point \<Rightarrow> move list" where
  "ask_moves mu etcd Start = Timeout Done # (if etcd then [Go Looking] else [])"
| "ask_moves mu etcd Looking = [Go Done, Go Taking]"
| "ask_moves mu etcd Taking = (if mu then [Go Both] else [])"
| "ask_moves mu etcd Both = [Go Done]"
| "ask_moves mu etcd _ = []"

text \<open>\<open>onSessionClosed\<close>: lock the mutex, then the session; return on every error.\<close>

fun close_moves :: "bool \<Rightarrow> bool \<Rightarrow> lock_point \<Rightarrow> move list" where
  "close_moves mu etcd Start = (if mu then [Go Guarded] else [])"
| "close_moves mu etcd Guarded = Timeout Done # (if etcd then [Go Both] else [])"
| "close_moves mu etcd Both = [Go Done]"
| "close_moves mu etcd _ = []"

text \<open>\<open>ensureSession\<close> needs the mutex only.\<close>

fun ensure_moves :: "bool \<Rightarrow> lock_point \<Rightarrow> move list" where
  "ensure_moves mu Start = (if mu then [Go Guarded] else [])"
| "ensure_moves mu Guarded = [Go Done]"
| "ensure_moves mu _ = []"

definition moves :: "thread list \<Rightarrow> thread \<Rightarrow> move list" where
  "moves ts t =
     (let mu = mu_free (th_node t) ts; etcd = etcd_free (th_sid t) ts in
      case th_call t of
        Ask \<Rightarrow> ask_moves mu etcd (th_at t)
      | Close \<Rightarrow> close_moves mu etcd (th_at t)
      | Ensure \<Rightarrow> ensure_moves mu (th_at t))"

inductive lock_run :: "thread list \<Rightarrow> nat \<Rightarrow> thread list \<Rightarrow> bool" for ts0 where
  init: "list_all (\<lambda>t. th_at t = Start) ts0 \<Longrightarrow> lock_run ts0 0 ts0"
| move: "lock_run ts0 k ts \<Longrightarrow> i < length ts \<Longrightarrow> mv \<in> set (moves ts (ts ! i))
    \<Longrightarrow> lock_run ts0 (Suc k) (ts[i := (ts ! i)\<lparr>th_at := point_of mv\<rparr>])"

section \<open>Invariants of a run\<close>











definition inversion :: "lock_point \<Rightarrow> lock_point \<Rightarrow> thread list" where
  "inversion p q =
     [\<lparr>th_node = 0, th_call = Ask, th_sid = ''room'', th_at = p\<rparr>,
      \<lparr>th_node = 0, th_call = Close, th_sid = ''room'', th_at = q\<rparr>]"

lemma inversion_run: "lock_run (inversion Start Start) 3 (inversion Taking Guarded)"
proof -
  let ?t0 = "inversion Start Start"
  have "lock_run ?t0 0 ?t0" by (rule lock_run.init) (simp add: inversion_def)
  from lock_run.move [OF this, of 0 "Go Looking"]
  have "lock_run ?t0 (Suc 0) (inversion Looking Start)"
    by (simp add: inversion_def moves_def etcd_free_def holds_etcd_def)
  from lock_run.move [OF this, of 0 "Go Taking"]
  have "lock_run ?t0 (Suc (Suc 0)) (inversion Taking Start)" by (simp add: inversion_def moves_def)
  from lock_run.move [OF this, of 1 "Go Guarded"]
  show ?thesis by (simp add: inversion_def moves_def mu_free_def holds_mu_def eval_nat_numeral)
qed


text \<open>
  C28. The locks are taken in opposite orders, and only the timeout resolves it. When a call of
  \<open>getOrCreateSession\<close> has found no entry and is about to take a session that the same node is
  closing, the first cannot move at all and the second can only give up: the close fails, and
  as its mutex lock failed, the closed session stays in the node's table and in the gauge. Such
  a state is reached in three moves.
\<close>

theorem close_gives_up_to_ask:
  assumes "i < length ts" and "j < length ts"
    and "th_call (ts ! i) = Ask" and "th_at (ts ! i) = Taking"
    and "th_call (ts ! j) = Close" and "th_at (ts ! j) = Guarded"
    and "th_node (ts ! i) = th_node (ts ! j)" and "th_sid (ts ! i) = th_sid (ts ! j)"
    and "NewConcSession E w = (Inr s, w1)" and "MutexLock E s (session_key (th_sid (ts ! j))) w1 = (Some err, w2)"
  shows "moves ts (ts ! i) = [] \<and> moves ts (ts ! j) = [Timeout Done]
    \<and> etcd_onSessionClosed E (th_sid (ts ! j)) ((e, w), m) = ((e, ctxDone E w2), m)"
proof -
  have "holds_mu (ts ! j)" "holds_etcd (ts ! i)" using assms by (simp_all add: holds_mu_def holds_etcd_def)
  then have "\<not> mu_free (th_node (ts ! j)) ts" "\<not> etcd_free (th_sid (ts ! i)) ts"
    using assms(1,2) by (auto simp: mu_free_def etcd_free_def list_all_length)
  then show ?thesis using assms by (simp add: moves_def etcd_onSessionClosed_def)
qed

definition busy_etcd :: "unit etcd" where
  "busy_etcd =
     \<lparr>NewConcSession = \<lambda>w. (Inr 0, w), MutexLock = \<lambda>s k w. (Some ''context deadline exceeded'', w), MutexUnlock = \<lambda>s k w. w,
      KvGet = \<lambda>k w. (Inr \<lparr>Count = 0, Kvs = []\<rparr>, w), Grant = \<lambda>t w. (Inr 7, w), KeepAlive = \<lambda>l w. ((None, True), w),
      KvPut = \<lambda>k v l w. (Ret (), w), KvDelete = \<lambda>k w. (None, w), leaseCancel = \<lambda>l w. w, ctxDone = \<lambda>w. w\<rparr>"

theorem close_gives_up_to_ask_witness:
  "lock_run (inversion Start Start) 3 (inversion Taking Guarded)
    \<and> moves (inversion Taking Guarded) (inversion Taking Guarded ! 0) = []
    \<and> moves (inversion Taking Guarded) (inversion Taking Guarded ! 1) = [Timeout Done]"
  using inversion_run close_gives_up_to_ask [where ts = "inversion Taking Guarded" and i = 0 and j = 1 and E = busy_etcd
      and w = "()" and ?w1.0 = "()" and ?w2.0 = "()" and s = 0 and err = "''context deadline exceeded''"]
  by (simp add: inversion_def busy_etcd_def)

end
