(* ===== verification/Cluster_Homes.thy ===== *)
theory Cluster_Homes
  imports Cluster
begin

text \<open>
  Where the sessions of a cluster live: which operations of the etcd coordinators keep the
  sessions in the tables of the nodes that the directory names, and under which conditions
  exactly, for the operations of \<open>pkg/coordinator_etcd.go\<close> one by one. Nothing is assumed of the
  order in which the handlers call them.
\<close>

section \<open>At home\<close>

text \<open>
  Every session in the table of a node is that node's in the directory. Different nodes have
  different ids, which are UUIDs.
\<close>

definition at_home :: "(nat \<Rightarrow> etcdCoordinator) \<Rightarrow> directory \<Rightarrow> bool" where
  "at_home nodes d \<longleftrightarrow>
     inj (\<lambda>i. ec_nodeID (nodes i))
     \<and> (\<forall>i sid. localSessions (nodes i) sid \<noteq> None \<longrightarrow> d sid = Some (self_owner (nodes i)))"

lemma at_homeD:
  assumes "at_home nodes d" and "localSessions (nodes i) sid \<noteq> None"
  shows "d sid = Some (self_owner (nodes i))"
  using assms by (simp add: at_home_def)

lemma at_home_self:
  assumes "at_home nodes d" and "self_owner (nodes i) = self_owner (nodes j)"
  shows "i = j"
  using assms injD [of "\<lambda>i. ec_nodeID (nodes i)" i j] by (simp add: at_home_def self_owner_def)

text \<open>So a session is in one table only.\<close>

lemma at_home_one:
  assumes "at_home nodes d" and "localSessions (nodes i) sid \<noteq> None" and "localSessions (nodes j) sid \<noteq> None"
  shows "i = j"
  using at_home_self [OF assms(1)] at_homeD [OF assms(1,2)] at_homeD [OF assms(1,3)] by simp

text \<open>After an operation of node \<open>i\<close> only its own table and the directory have to be looked at.\<close>

lemma at_home_update:
  assumes "at_home nodes d" and "self_owner e' = self_owner (nodes i)"
  shows "at_home (nodes(i := e')) d' \<longleftrightarrow>
    (\<forall>j sid. localSessions ((nodes(i := e')) j) sid \<noteq> None \<longrightarrow> d' sid = Some (self_owner (nodes j)))"
proof -
  have same: "self_owner ((nodes(i := e')) j) = self_owner (nodes j)" for j using assms(2) by simp
  then have "ec_nodeID ((nodes(i := e')) j) = ec_nodeID (nodes j)" for j by (metis self_owner_def prod.inject)
  with assms(1) same show ?thesis by (simp add: at_home_def)
qed

lemma at_home_start:
  assumes "inj (\<lambda>i. ec_nodeID (nodes i))" and "\<And>i. localSessions (nodes i) = Map.empty"
  shows "at_home nodes d"
  using assms by (simp add: at_home_def)

section \<open>Asking\<close>

text \<open>An asking node, whatever comes of it, leaves the owner of every session.\<close>

lemma ask_keeps_owner:
  assumes "etcd_laws E kv" and "good_sid sid" and "utf8_node e"
    and "etcd_getOrCreateSession E sid ((e, w), m) = (r, ((e', w'), m'))" and "directory_of (kv w) sid' = Some ow"
  shows "directory_of (kv w') sid' = Some ow"
proof (cases "returned r")
  case True
  then obtain meta where "r = Ret meta" by (auto simp: returned_iff)
  with assms(4) have "directory_of (kv w') = snd (claim (self_owner e) sid (directory_of (kv w)))"
    using getOrCreate_claims(1) [OF assms(1-3), of w m meta e' w' m'] by simp
  with assms(5) show ?thesis by (auto simp: claim_def split: option.splits)
next
  case False
  with getOrCreate_failed [OF assms(1-3) False assms(4)] assms(5) show ?thesis by auto
qed

lemma ask_keeps_home:
  assumes "etcd_laws E kv" and "good_sid sid" and "utf8_node (nodes i)" and home: "at_home nodes (directory_of (kv w))"
    and call: "etcd_getOrCreateSession E sid ((nodes i, w), m) = (r, ((e', w'), m'))"
  shows "at_home (nodes(i := e')) (directory_of (kv w'))"
proof -
  have "localSessions e' = localSessions (nodes i)"
    using etcd_getOrCreate_table(1) [of E sid "((nodes i, w), m)"] call by simp
  then show ?thesis
    unfolding at_home_update [OF home getOrCreate_identity [OF call]]
    using at_homeD [OF home] ask_keeps_owner [OF assms(1-3) call] by auto
qed

lemma told_home:
  assumes laws: "etcd_laws E kv" and sid: "good_sid sid" and "utf8_node (nodes i)" and home: "at_home nodes (directory_of (kv w))"
    and call: "etcd_getOrCreateSession E sid ((nodes i, w), m) = (Ret meta, ((e', w'), m'))"
    and k: "localSessions (nodes k) sid \<noteq> None"
  shows "owner_of meta = self_owner (nodes k)" and "Redirect meta \<longleftrightarrow> i \<noteq> k"
proof -
  show own: "owner_of meta = self_owner (nodes k)"
    using getOrCreate_claims(1) [OF laws sid assms(3) call] at_homeD [OF home k] by (simp add: claim_def)
  have "NodeID meta = ec_nodeID (nodes i) \<longleftrightarrow> i = k"
    using own home by (auto simp: owner_of_def self_owner_def at_home_def dest: injD)
  then show "Redirect meta \<longleftrightarrow> i \<noteq> k" using getOrCreate_claims(2) [OF laws sid assms(3) call] by simp
qed

section \<open>Looking up\<close>

lemma ensureSession_table:
  assumes "etcd_ensureSession sid ((e, w), m) = (a, ((e', w'), m'))"
  shows "localSessions e' sid' \<noteq> None \<longleftrightarrow> sid' = sid \<or> localSessions e sid' \<noteq> None"
  using assms by (auto simp: etcd_ensureSession_def new_session_def Let_def split: option.splits if_splits)

text \<open>A lookup keeps the sessions at home exactly if the directory names the node that looks.\<close>

lemma lookup_home_iff:
  assumes home: "at_home nodes (directory_of (kv w))"
    and look: "etcd_ensureSession sid ((nodes i, w), m) = (a, ((e', w'), m'))"
  shows "at_home (nodes(i := e')) (directory_of (kv w')) \<longleftrightarrow>
    directory_of (kv w) sid = Some (self_owner (nodes i))"
  unfolding at_home_update [OF home ensureSession_identity(1) [OF look]] ensureSession_identity(2) [OF look]
  using at_homeD [OF home] ensureSession_table [OF look] by (auto split: if_splits)

section \<open>Closing\<close>

lemma onSessionClosed_table:
  assumes "etcd_onSessionClosed E sid ((e, w), m) = ((e', w'), m')"
  shows "localSessions e' = (localSessions e)(sid := None) \<or> localSessions e' = localSessions e"
  using assms by (auto simp: etcd_onSessionClosed_def Let_def split: prod.splits sum.splits option.splits)

text \<open>A close keeps them at home exactly if the entry stays or no table has the session afterwards.\<close>

lemma close_home_iff:
  assumes laws: "etcd_laws E kv" and home: "at_home nodes (directory_of (kv w))"
    and call: "etcd_onSessionClosed E sid ((nodes i, w), m) = ((e', w'), m')"
  shows "at_home (nodes(i := e')) (directory_of (kv w')) \<longleftrightarrow>
    kv w' = kv w \<or> (\<forall>k. localSessions ((nodes(i := e')) k) sid = None)"
proof -
  have same: "self_owner e' = self_owner (nodes i)"
    using onSessionClosed_kv(2,3) [OF laws call] by (simp add: self_owner_def)
  have sub: "localSessions ((nodes(i := e')) j) s \<noteq> None \<Longrightarrow> localSessions (nodes j) s \<noteq> None" for j s
    using onSessionClosed_table [OF call] by (auto split: if_splits)
  show ?thesis
  proof (cases "kv w' = kv w")
    case True
    then show ?thesis unfolding at_home_update [OF home same] using at_homeD [OF home] sub by auto
  next
    case False
    then have "kv w' = (kv w)(session_key sid := None)" using onSessionClosed_kv(1) [OF laws call] by auto
    then have "directory_of (kv w') = (directory_of (kv w))(sid := None)" by (simp add: directory_of_delete)
    with False show ?thesis unfolding at_home_update [OF home same] using at_homeD [OF home] sub by (auto 4 3)
  qed
qed

section \<open>Losing entries\<close>

text \<open>When entries expire, the sessions stay at home exactly if none of theirs was among them.\<close>

lemma expire_home_iff:
  assumes home: "at_home nodes (directory_of d)" and sub: "d' \<subseteq>\<^sub>m d"
  shows "at_home nodes (directory_of d') \<longleftrightarrow>
    (\<forall>i sid. localSessions (nodes i) sid \<noteq> None \<longrightarrow> d' (session_key sid) \<noteq> None)"
proof -
  have "directory_of d' sid = (if d' (session_key sid) = None then None else directory_of d sid)" for sid
    using sub by (auto simp: directory_of_def map_le_def dom_def split: option.splits)
  then show ?thesis
    using home unfolding at_home_def by (metis (no_types, lifting) option.distinct(1))
qed

text \<open>
  What the next node that is asked does with a session another node has: it is redirected as
  long as the entry is there; once it is lost it takes the session.
\<close>

lemma asked_after_loss:
  assumes laws: "etcd_laws E kv" and up: "etcd_up E" and sid: "good_sid sid" and u: "utf8_node e" "utf8_node e0"
    and dir: "directory_of d sid = Some (self_owner e0)" and other: "ec_nodeID e \<noteq> ec_nodeID e0"
    and w: "kv w = d \<or> kv w = d(session_key sid := None)"
  obtains meta e1 w1 m1 where "etcd_getOrCreateSession E sid ((e, w), m) = (Ret meta, ((e1, w1), m1))"
    and "Redirect meta \<longleftrightarrow> kv w (session_key sid) \<noteq> None" and "localSessions e1 = localSessions e"
    and "owner_of meta = (if Redirect meta then self_owner e0 else self_owner e)"
    and "directory_of (kv w1) sid = Some (owner_of meta)"
proof -
  have sf: "slash_free sid" using sid by (simp add: good_sid_def)
  have dirw: "directory_of (kv w) sid = (if kv w (session_key sid) = None then None else Some (self_owner e0))"
    using dir w by (auto simp: directory_of_def)
  then have "kv w (session_key sid) = Some v \<Longrightarrow> unmarshal_meta v \<noteq> None" for v
    by (auto simp: directory_of_def)
  then obtain meta where "fst (etcd_getOrCreateSession E sid ((e, w), m)) = Ret meta"
    using getOrCreate_returns [OF up laws sf, of w e m] by blast
  then obtain e1 w1 m1 where call: "etcd_getOrCreateSession E sid ((e, w), m) = (Ret meta, ((e1, w1), m1))"
    by (metis prod.collapse)
  note claims = getOrCreate_claims [OF laws sid u(1) call]
  have own: "owner_of meta = (if kv w (session_key sid) = None then self_owner e else self_owner e0)"
    and dir1: "directory_of (kv w1) sid = Some (owner_of meta)"
    using claims(1) dirw by (auto simp: claim_def split: if_splits dest: fun_cong [of _ _ sid])
  have "Redirect meta \<longleftrightarrow> kv w (session_key sid) \<noteq> None"
    using claims(2) own other by (auto simp: owner_of_def self_owner_def split: if_splits)
  moreover from this own have "owner_of meta = (if Redirect meta then self_owner e0 else self_owner e)" by simp
  moreover have "localSessions e1 = localSessions e"
    using etcd_getOrCreate_table(1) [of E sid "((e, w), m)"] call by simp
  ultimately show thesis using that call dir1 by blast
qed

end
