(* ===== verification/Server_Jsonrpc.thy ===== *)
theory Server_Jsonrpc
  imports Coordinator_Etcd
begin

text \<open>
  \<open>pkg/server_jsonrpc.go\<close>: the messages of the signalling protocol and the handler of a
  connection. The peer (\<open>sfu.PeerLocal\<close>) is ion-sfu's and the parameter \<open>sfu_peer\<close>;
  the descriptions and candidates of WebRTC are the types \<open>'d\<close> and \<open>'i\<close> with their
  decoders in \<open>wire\<close>. What the handler writes to the connection is recorded in order.
\<close>

section \<open>Messages\<close>

record 'd Join =
  join_SID :: string
  join_UID :: string
  join_Offer :: 'd

record 'd Negotiation =
  neg_Desc :: 'd

record 'i Trickle =
  trickle_Target :: int
  trickle_Candidate :: 'i

text \<open>How \<open>encoding/json\<close> decodes the WebRTC types (their own decoders are pion's).\<close>

record ('d, 'i) wire =
  zero_desc :: 'd
  dec_desc :: "json \<Rightarrow> 'd \<Rightarrow> 'd option"
  zero_cand :: 'i
  dec_cand :: "json \<Rightarrow> 'i \<Rightarrow> 'i option"

definition join_fields :: "('d, 'i) wire \<Rightarrow> 'd Join field list" where
  "join_fields W =
     [(''sid'', \<lambda>j r. map_option (\<lambda>v. r\<lparr>join_SID := v\<rparr>) (dec_string j (join_SID r))),
      (''uid'', \<lambda>j r. map_option (\<lambda>v. r\<lparr>join_UID := v\<rparr>) (dec_string j (join_UID r))),
      (''offer'', \<lambda>j r. map_option (\<lambda>v. r\<lparr>join_Offer := v\<rparr>) (dec_desc W j (join_Offer r)))]"

definition unmarshal_Join :: "('d, 'i) wire \<Rightarrow> json \<Rightarrow> 'd Join option" where
  "unmarshal_Join W j =
     decode_struct (join_fields W) j \<lparr>join_SID = [], join_UID = [], join_Offer = zero_desc W\<rparr>"

definition unmarshal_Negotiation :: "('d, 'i) wire \<Rightarrow> json \<Rightarrow> 'd Negotiation option" where
  "unmarshal_Negotiation W j =
     decode_struct [(''desc'', \<lambda>v r. map_option (\<lambda>x. r\<lparr>neg_Desc := x\<rparr>) (dec_desc W v (neg_Desc r)))]
       j \<lparr>neg_Desc = zero_desc W\<rparr>"

definition unmarshal_Trickle :: "('d, 'i) wire \<Rightarrow> json \<Rightarrow> 'i Trickle option" where
  "unmarshal_Trickle W j =
     decode_struct
       [(''target'', \<lambda>v r. map_option (\<lambda>x. r\<lparr>trickle_Target := x\<rparr>) (dec_int v (trickle_Target r))),
        (''candidate'', \<lambda>v r. map_option (\<lambda>x. r\<lparr>trickle_Candidate := x\<rparr>) (dec_cand W v (trickle_Candidate r)))]
       j \<lparr>trickle_Target = 0, trickle_Candidate = zero_cand W\<rparr>"

text \<open>
  Decoding into a \<open>map[string]interface{}\<close>: \<open>null\<close> leaves the map nil, and a later
  duplicate of a key replaces the earlier one.
\<close>

definition unmarshal_map :: "json \<Rightarrow> (string \<times> json) list option option" where
  "unmarshal_map j =
     (case j of
        JNull \<Rightarrow> Some None
      | JObj kvs \<Rightarrow> Some (Some (fold (\<lambda>(k, v). AList.update k v) kvs []))
      | _ \<Rightarrow> None)"

section \<open>The connection and the peer\<close>

text \<open>A request: \<open>None\<close> as parameters is a nil \<open>*json.RawMessage\<close>, no \<open>params\<close> member.\<close>

record rpc_req =
  rq_ID :: nat
  rq_Method :: string
  rq_Params :: "json option"

datatype ('d, 'i) rpc_out =
    ReplyDesc nat 'd
  | ReplyText nat string
  | ReplyError nat int string
  | NotifyOffer 'd
  | NotifyTrickle "'i Trickle"
  | NotifyBroadcast Broadcast
  | ConnClose

text \<open>
  The methods of the peer. \<open>Join\<close> looks the session up through the provider it was
  made with, so it gets the coordinator's \<open>GetSession\<close> and may change the node.
  \<open>Close\<close> leaves the session, which may run the close callback of the coordinator.
\<close>

record ('p, 'c, 'd, 'i) sfu_peer =
  peer_Join :: "(string \<Rightarrow> 'c \<times> mem \<Rightarrow> (nat \<times> transportConfig) \<times> ('c \<times> mem)) \<Rightarrow> string \<Rightarrow> string
    \<Rightarrow> 'p \<Rightarrow> 'c \<times> mem \<Rightarrow> string option \<times> 'p \<times> ('c \<times> mem)"
  peer_Answer :: "'d \<Rightarrow> 'p \<Rightarrow> (string + 'd) \<times> 'p"
  peer_SetRemoteDescription :: "'d \<Rightarrow> 'p \<Rightarrow> string option \<times> 'p"
  peer_Trickle :: "'i \<Rightarrow> int \<Rightarrow> 'p \<Rightarrow> string option \<times> 'p"
  peer_Close :: "(string \<Rightarrow> 'c \<times> mem \<Rightarrow> 'c \<times> mem) \<Rightarrow> 'p \<Rightarrow> 'c \<times> mem \<Rightarrow> 'p \<times> ('c \<times> mem)"
  peer_ID :: "'p \<Rightarrow> string"

text \<open>
  The state of one connection: \<open>JSONSignal\<close> (the peer, the session id, whether the
  peer's callbacks are set), the listener goroutines it has started (session and channel),
  what was written, and the node it runs on.
\<close>

record ('p, 'c, 'd, 'i) signal =
  js_peer :: 'p
  js_sid :: string
  js_hooks :: bool
  js_listening :: "(nat \<times> nat) list"
  js_out :: "('d, 'i) rpc_out list"
  js_node :: "'c \<times> mem"

record ('p, 'c, 'd, 'i) sig_env =
  se_sess :: sess_env
  se_coord :: "'c coordinator"
  se_peer :: "('p, 'c, 'd, 'i) sfu_peer"
  se_wire :: "('d, 'i) wire"

definition emit :: "('d, 'i) rpc_out \<Rightarrow> ('p, 'c, 'd, 'i) signal \<Rightarrow> ('p, 'c, 'd, 'i) signal" where
  "emit o' g = g\<lparr>js_out := js_out g @ [o']\<rparr>"

definition replyError :: "rpc_req \<Rightarrow> string \<Rightarrow> ('p, 'c, 'd, 'i) signal \<Rightarrow> ('p, 'c, 'd, 'i) signal" where
  "replyError req err g = emit (ReplyError (rq_ID req) 500 err) g"

definition nil_deref :: string where
  "nil_deref = ''invalid memory address or nil pointer dereference''"

section \<open>Handling a request\<close>

text \<open>The rest of \<open>join\<close> once the peer has joined and answered: callbacks, listener, reply.\<close>

definition join_listen ::
  "('p, 'c, 'd, 'i) sig_env \<Rightarrow> rpc_req \<Rightarrow> string \<Rightarrow> 'd \<Rightarrow> ('p, 'c, 'd, 'i) signal \<Rightarrow> ('p, 'c, 'd, 'i) signal" where
  "join_listen S req sid answer g =
     (let ((a, _), (c, m1)) = GetSession (se_coord S) sid (js_node g);
          (ch, m2) = new_chan 32 m1;
          m3 = mem_AddListener a (peer_ID (se_peer S) (js_peer g)) ch m2
      in emit (ReplyDesc (rq_ID req) answer)
           (g\<lparr>js_hooks := True, js_node := (c, m3), js_sid := sid,
              js_listening := (a, ch) # js_listening g\<rparr>))"

definition handle_join ::
  "('p, 'c, 'd, 'i) sig_env \<Rightarrow> rpc_req \<Rightarrow> json \<Rightarrow> ('p, 'c, 'd, 'i) signal
    \<Rightarrow> unit outcome \<times> ('p, 'c, 'd, 'i) signal" where
  "handle_join S req params g =
     (case unmarshal_Join (se_wire S) params of
        None \<Rightarrow> (Ret (), replyError req ''json: cannot unmarshal'' g)
      | Some join \<Rightarrow>
          (case getOrCreateSession (se_coord S) (join_SID join) (js_node g) of
             (Panic p, n1) \<Rightarrow> (Panic p, g\<lparr>js_node := n1\<rparr>)
           | (Block, n1) \<Rightarrow> (Block, g\<lparr>js_node := n1\<rparr>)
           | (Err err, n1) \<Rightarrow> (Ret (), replyError req err (g\<lparr>js_node := n1\<rparr>))
           | (Ret meta, n1) \<Rightarrow>
               (if Redirect meta then
                  (Ret (), emit (ReplyError (rq_ID req) 302 (marshal_meta meta)) (g\<lparr>js_node := n1\<rparr>))
                else
                  (case peer_Join (se_peer S) (GetSession (se_coord S)) (join_SID join) (join_UID join)
                     (js_peer g) n1 of
                     (Some err, p2, n2) \<Rightarrow>
                       (Ret (), replyError req err (g\<lparr>js_peer := p2, js_node := n2\<rparr>))
                   | (None, p2, n2) \<Rightarrow>
                       (case peer_Answer (se_peer S) (join_Offer join) p2 of
                          (Inl err, p3) \<Rightarrow>
                            (Ret (), replyError req err (g\<lparr>js_peer := p3, js_node := n2\<rparr>))
                        | (Inr answer, p3) \<Rightarrow>
                            (Ret (), join_listen S req (join_SID join) answer
                               (g\<lparr>js_peer := p3, js_node := n2\<rparr>)))))))"

definition handle_offer ::
  "('p, 'c, 'd, 'i) sig_env \<Rightarrow> rpc_req \<Rightarrow> json \<Rightarrow> ('p, 'c, 'd, 'i) signal
    \<Rightarrow> unit outcome \<times> ('p, 'c, 'd, 'i) signal" where
  "handle_offer S req params g =
     (case unmarshal_Negotiation (se_wire S) params of
        None \<Rightarrow> (Ret (), replyError req ''json: cannot unmarshal'' g)
      | Some neg \<Rightarrow>
          (case peer_Answer (se_peer S) (neg_Desc neg) (js_peer g) of
             (Inl err, p') \<Rightarrow> (Ret (), replyError req err (g\<lparr>js_peer := p'\<rparr>))
           | (Inr answer, p') \<Rightarrow> (Ret (), emit (ReplyDesc (rq_ID req) answer) (g\<lparr>js_peer := p'\<rparr>))))"

definition handle_answer ::
  "('p, 'c, 'd, 'i) sig_env \<Rightarrow> rpc_req \<Rightarrow> json \<Rightarrow> ('p, 'c, 'd, 'i) signal
    \<Rightarrow> unit outcome \<times> ('p, 'c, 'd, 'i) signal" where
  "handle_answer S req params g =
     (case unmarshal_Negotiation (se_wire S) params of
        None \<Rightarrow> (Ret (), replyError req ''json: cannot unmarshal'' g)
      | Some neg \<Rightarrow>
          (case peer_SetRemoteDescription (se_peer S) (neg_Desc neg) (js_peer g) of
             (Some err, p') \<Rightarrow> (Ret (), replyError req err (g\<lparr>js_peer := p'\<rparr>))
           | (None, p') \<Rightarrow> (Ret (), g\<lparr>js_peer := p'\<rparr>)))"

definition handle_trickle ::
  "('p, 'c, 'd, 'i) sig_env \<Rightarrow> rpc_req \<Rightarrow> json \<Rightarrow> ('p, 'c, 'd, 'i) signal
    \<Rightarrow> unit outcome \<times> ('p, 'c, 'd, 'i) signal" where
  "handle_trickle S req params g =
     (case unmarshal_Trickle (se_wire S) params of
        None \<Rightarrow> (Ret (), replyError req ''json: cannot unmarshal'' g)
      | Some t \<Rightarrow>
          (case peer_Trickle (se_peer S) (trickle_Candidate t) (trickle_Target t) (js_peer g) of
             (Some err, p') \<Rightarrow> (Ret (), replyError req err (g\<lparr>js_peer := p'\<rparr>))
           | (None, p') \<Rightarrow> (Ret (), g\<lparr>js_peer := p'\<rparr>)))"

definition handle_presence_set ::
  "('p, 'c, 'd, 'i) sig_env \<Rightarrow> rpc_req \<Rightarrow> json \<Rightarrow> ('p, 'c, 'd, 'i) signal
    \<Rightarrow> unit outcome \<times> ('p, 'c, 'd, 'i) signal" where
  "handle_presence_set S req params g =
     (case unmarshal_map params of
        None \<Rightarrow> (Ret (), replyError req ''json: cannot unmarshal'' g)
      | Some meta \<Rightarrow>
          (let ((a, _), (c, m)) = GetSession (se_coord S) (js_sid g) (js_node g) in
           (Ret (), g\<lparr>js_node := (c, mem_UpdatePresence (se_sess S) a
              (peer_ID (se_peer S) (js_peer g)) (IMap meta) m)\<rparr>)))"

text \<open>
  \<open>json.Unmarshal(*req.Params, ...)\<close> dereferences the parameters; without them it
  panics.
\<close>

definition with_params ::
  "rpc_req \<Rightarrow> (json \<Rightarrow> 's \<Rightarrow> unit outcome \<times> 's) \<Rightarrow> 's \<Rightarrow> unit outcome \<times> 's" where
  "with_params req f g =
     (case rq_Params req of None \<Rightarrow> (Panic nil_deref, g) | Some j \<Rightarrow> f j g)"

definition Handle ::
  "('p, 'c, 'd, 'i) sig_env \<Rightarrow> rpc_req \<Rightarrow> ('p, 'c, 'd, 'i) signal \<Rightarrow> unit outcome \<times> ('p, 'c, 'd, 'i) signal" where
  "Handle S req g =
     (if rq_Method req = ''join'' then with_params req (handle_join S req) g
      else if rq_Method req = ''offer'' then with_params req (handle_offer S req) g
      else if rq_Method req = ''answer'' then with_params req (handle_answer S req) g
      else if rq_Method req = ''trickle'' then with_params req (handle_trickle S req) g
      else if rq_Method req = ''presence_set'' then
        (if js_sid g = [] then
           (Ret (), replyError req ''cannot update presence for peer not in any session'' g)
         else with_params req (handle_presence_set S req) g)
      else if rq_Method req = ''ping'' then (Ret (), emit (ReplyText (rq_ID req) ''pong'') g)
      else (Ret (), g))"

section \<open>Callbacks and the listener goroutine\<close>

datatype ice_state = ICENew | ICEChecking | ICEConnected | ICECompleted | ICEDisconnected | ICEFailed | ICEClosed

definition OnOffer :: "'d \<Rightarrow> ('p, 'c, 'd, 'i) signal \<Rightarrow> ('p, 'c, 'd, 'i) signal" where
  "OnOffer d g = (if js_hooks g then emit (NotifyOffer d) g else g)"

definition OnIceCandidate :: "'i \<Rightarrow> int \<Rightarrow> ('p, 'c, 'd, 'i) signal \<Rightarrow> ('p, 'c, 'd, 'i) signal" where
  "OnIceCandidate cand target g =
     (if js_hooks g then emit (NotifyTrickle \<lparr>trickle_Target = target, trickle_Candidate = cand\<rparr>) g else g)"

definition OnICEConnectionStateChange ::
  "('p, 'c, 'd, 'i) sig_env \<Rightarrow> (string \<Rightarrow> 'c \<times> mem \<Rightarrow> 'c \<times> mem) \<Rightarrow> ice_state
    \<Rightarrow> ('p, 'c, 'd, 'i) signal \<Rightarrow> ('p, 'c, 'd, 'i) signal" where
  "OnICEConnectionStateChange S onClosed st g =
     (if js_hooks g \<and> (st = ICEFailed \<or> st = ICEClosed) then
        (let (p', n') = peer_Close (se_peer S) onClosed (js_peer g) (js_node g) in
         emit ConnClose (g\<lparr>js_peer := p', js_node := n'\<rparr>))
      else g)"

text \<open>One iteration of the goroutine's loop: a broadcast is forwarded, or the stop is handled.\<close>

definition listener_recv :: "nat \<Rightarrow> ('p, 'c, 'd, 'i) signal \<Rightarrow> ('p, 'c, 'd, 'i) signal option" where
  "listener_recv ch g =
     (case chans (snd (js_node g)) ch of
        None \<Rightarrow> None
      | Some c \<Rightarrow>
          (case chan_recv c of
             None \<Rightarrow> None
           | Some (msg, c') \<Rightarrow>
               Some (emit (NotifyBroadcast msg)
                 (g\<lparr>js_node := apsnd (\<lambda>m. m\<lparr>chans := (chans m)(ch \<mapsto> c')\<rparr>) (js_node g)\<rparr>))))"

definition listener_stop ::
  "('p, 'c, 'd, 'i) sig_env \<Rightarrow> nat \<times> nat \<Rightarrow> ('p, 'c, 'd, 'i) signal \<Rightarrow> ('p, 'c, 'd, 'i) signal" where
  "listener_stop S l g =
     (let pid = peer_ID (se_peer S) (js_peer g);
          leave = (\<lambda>m. mem_UpdatePresence (se_sess S) (fst l) pid INil (mem_RemoveListener (fst l) pid m))
      in g\<lparr>js_node := apsnd leave (js_node g), js_listening := remove1 l (js_listening g)\<rparr>)"

section \<open>Replies\<close>

text \<open>The request a message answers, if it is an answer.\<close>

fun out_id :: "('d, 'i) rpc_out \<Rightarrow> nat option" where
  "out_id (ReplyDesc n _) = Some n"
| "out_id (ReplyText n _) = Some n"
| "out_id (ReplyError n _ _) = Some n"
| "out_id _ = None"

lemma emit_simps [simp]:
  "js_out (emit x g) = js_out g @ [x]" "js_peer (emit x g) = js_peer g" "js_sid (emit x g) = js_sid g"
  "js_hooks (emit x g) = js_hooks g" "js_listening (emit x g) = js_listening g" "js_node (emit x g) = js_node g"
  by (simp_all add: emit_def)

text \<open>One case of the handler answers at most once, under the id of the request.\<close>

definition answers_once :: "rpc_req \<Rightarrow> ('p, 'c, 'd, 'i) signal \<Rightarrow> ('p, 'c, 'd, 'i) signal \<Rightarrow> bool" where
  "answers_once req g g' \<longleftrightarrow>
     js_out g' = js_out g \<or> (\<exists>x. js_out g' = js_out g @ [x] \<and> out_id x = Some (rq_ID req))"

lemmas handler_defs = handle_join_def handle_offer_def handle_answer_def handle_trickle_def
  handle_presence_set_def join_listen_def replyError_def

lemma case_answers_once:
  "answers_once req g (snd (handle_join S req j g))"
  "answers_once req g (snd (handle_offer S req j g))"
  "answers_once req g (snd (handle_answer S req j g))"
  "answers_once req g (snd (handle_trickle S req j g))"
  "answers_once req g (snd (handle_presence_set S req j g))"
  by (auto simp: answers_once_def handler_defs Let_def
      split: option.splits prod.splits outcome.splits sum.splits)

lemma Handle_answers_once: "answers_once req g (snd (Handle S req g))"
proof -
  have "answers_once req g (snd (with_params req f g))"
    if "\<And>j. answers_once req g (snd (f j g))" for f
    using that by (simp add: with_params_def answers_once_def split: option.splits)
  then show ?thesis
    by (simp add: Handle_def case_answers_once) (simp add: answers_once_def replyError_def)
qed

section \<open>Panics\<close>

definition needs_params :: "rpc_req \<Rightarrow> ('p, 'c, 'd, 'i) signal \<Rightarrow> bool" where
  "needs_params req g \<longleftrightarrow>
     rq_Method req \<in> {''join'', ''offer'', ''answer'', ''trickle''}
     \<or> rq_Method req = ''presence_set'' \<and> js_sid g \<noteq> []"

lemma Handle_nil_params:
  "rq_Params req = None \<Longrightarrow> needs_params req g \<Longrightarrow> Handle S req g = (Panic nil_deref, g)"
  by (auto simp: Handle_def with_params_def needs_params_def)

text \<open>With parameters, or for a method that reads none, only the coordinator can fail to return.\<close>

lemma case_returns:
  "fst (handle_offer S req j g) = Ret ()" "fst (handle_answer S req j g) = Ret ()"
  "fst (handle_trickle S req j g) = Ret ()" "fst (handle_presence_set S req j g) = Ret ()"
  by (auto simp: handler_defs Let_def split: option.splits prod.splits sum.splits)

lemma join_returns:
  assumes "\<And>sid n. \<not> (\<exists>p. fst (getOrCreateSession (se_coord S) sid n) = Panic p)"
    and "\<And>sid n. fst (getOrCreateSession (se_coord S) sid n) \<noteq> Block"
  shows "fst (handle_join S req j g) = Ret ()"
proof -
  have no: "getOrCreateSession (se_coord S) sid n \<noteq> (Panic p, n')"
    "getOrCreateSession (se_coord S) sid n \<noteq> (Block, n')" for sid n p n'
    using assms [of sid n] by (metis fst_conv)+
  show ?thesis
    by (auto simp: handle_join_def no split: option.splits prod.splits outcome.splits sum.splits)
qed

lemma Handle_returns:
  assumes "\<And>sid n. \<not> (\<exists>p. fst (getOrCreateSession (se_coord S) sid n) = Panic p)"
    and "\<And>sid n. fst (getOrCreateSession (se_coord S) sid n) \<noteq> Block"
    and "rq_Params req \<noteq> None \<or> \<not> needs_params req g"
  shows "fst (Handle S req g) = Ret ()"
  using assms(3) join_returns [OF assms(1,2)]
  by (auto simp: Handle_def with_params_def needs_params_def case_returns)

section \<open>The handler on a coordinator that keeps its contract\<close>

text \<open>The peer reaches the node only through the provider it is given.\<close>

definition joins_via_provider :: "('p, 'c, 'd, 'i) sfu_peer \<Rightarrow> bool" where
  "joins_via_provider P \<longleftrightarrow>
     (\<forall>gs sid uid p n err p' n'. peer_Join P gs sid uid p n = (err, p', n') \<longrightarrow>
        n' = n \<or> n' = snd (gs sid n))"

context coordinator_contract
begin

lemma reach_ask:
  assumes "registry_reach get onClosed table snd s0 n"
  shows "registry_reach get onClosed table snd s0 (snd (getOrCreateSession C sid n))"
  using C_ask [of sid n]
proof
  assume "snd (getOrCreateSession C sid n) = snd (get sid n)"
  then show ?thesis using registry_reach.lookup [OF assms] by simp
next
  assume "table (snd (getOrCreateSession C sid n)) = table n \<and> snd (snd (getOrCreateSession C sid n)) = snd n"
  then show ?thesis using assms by (auto intro: registry_reach.other simp: frame_mem_def)
qed

lemma reach_get:
  "registry_reach get onClosed table snd s0 n
    \<Longrightarrow> registry_reach get onClosed table snd s0 (snd (GetSession C sid n))"
  by (simp add: C_get registry_reach.lookup)

lemma reach_store:
  assumes "registry_reach get onClosed table snd s0 (c, m)" and "frame_mem m m'"
  shows "registry_reach get onClosed table snd s0 (c, m')"
  using assms(1)
proof (rule registry_reach.other)
  show "table (c, m') = table (c, m)" by (rule table_coord) simp
  show "frame_mem (snd (c, m)) (snd (c, m'))" using assms(2) by simp
qed

lemma frame_update: "frame_mem m (mem_UpdatePresence E a p v m)"
  by (simp add: frame_mem_def)

lemma frame_listen: "frame_mem m (mem_AddListener a p ch (snd (new_chan k m)))"
  by (simp add: frame_mem_def)

lemma join_listen_node:
  assumes "se_coord S = C"
  shows "js_node (join_listen S req sid answer g) =
    (fst (snd (get sid (js_node g))),
     mem_AddListener (fst (get sid (js_node g))) (peer_ID (se_peer S) (js_peer g))
       (next_chan (snd (snd (get sid (js_node g))))) (snd (new_chan 32 (snd (snd (get sid (js_node g)))))))"
proof -
  obtain w where "GetSession C sid (js_node g) = ((fst (get sid (js_node g)), w), snd (get sid (js_node g)))"
    by (rule C_get_eq)
  then show ?thesis using assms by (simp add: join_listen_def case_prod_beta)
qed

lemma presence_set_node:
  assumes "se_coord S = C" and "unmarshal_map j = Some meta"
  shows "snd (handle_presence_set S req j g) =
    g\<lparr>js_node := (fst (snd (get (js_sid g) (js_node g))),
       mem_UpdatePresence (se_sess S) (fst (get (js_sid g) (js_node g))) (peer_ID (se_peer S) (js_peer g))
         (IMap meta) (snd (snd (get (js_sid g) (js_node g)))))\<rparr>"
proof -
  obtain w where "GetSession C (js_sid g) (js_node g)
      = ((fst (get (js_sid g) (js_node g)), w), snd (get (js_sid g) (js_node g)))"
    by (rule C_get_eq)
  then show ?thesis using assms by (simp add: handle_presence_set_def case_prod_beta)
qed

text \<open>Whatever a request does to the node, the registry stays in a reachable state.\<close>

lemma reach_join:
  assumes S: "se_coord S = C" and P: "joins_via_provider (se_peer S)"
    and reach: "registry_reach get onClosed table snd s0 (js_node g)"
  shows "registry_reach get onClosed table snd s0 (js_node (snd (handle_join S req j g)))"
proof (cases "unmarshal_Join (se_wire S) j")
  case None
  with reach show ?thesis by (simp add: handle_join_def replyError_def)
next
  case (Some join)
  let ?sid = "join_SID join"
  obtain r n1 where ask: "getOrCreateSession C ?sid (js_node g) = (r, n1)" by (meson surj_pair)
  have n1: "registry_reach get onClosed table snd s0 n1" using reach_ask [OF reach, of ?sid] ask by simp
  obtain err p2 n2 where join: "peer_Join (se_peer S) (GetSession C) ?sid (join_UID join) (js_peer g) n1
      = (err, p2, n2)"
    by (metis prod_cases3)
  have "n2 = n1 \<or> n2 = snd (GetSession C ?sid n1)"
    using P join unfolding joins_via_provider_def by blast
  then have n2: "registry_reach get onClosed table snd s0 n2" using n1 reach_get [OF n1, of ?sid] by metis
  obtain ans p3 where ans: "peer_Answer (se_peer S) (join_Offer join) p2 = (ans, p3)" by (meson surj_pair)
  have listen: "registry_reach get onClosed table snd s0
    (js_node (join_listen S req ?sid a (g\<lparr>js_peer := p3, js_node := n2\<rparr>)))" for a
    using registry_reach.lookup [OF n2, of ?sid]
    by (simp add: join_listen_node [OF S] reach_store [OF _ frame_listen])
  show ?thesis
    using S Some ask join ans n1 n2 listen
    by (simp add: handle_join_def replyError_def split: outcome.splits option.splits sum.splits)
qed

lemma reach_presence:
  assumes S: "se_coord S = C" and reach: "registry_reach get onClosed table snd s0 (js_node g)"
  shows "registry_reach get onClosed table snd s0 (js_node (snd (handle_presence_set S req j g)))"
proof (cases "unmarshal_map j")
  case None
  with reach show ?thesis by (simp add: handle_presence_set_def replyError_def)
next
  case (Some meta)
  with registry_reach.lookup [OF reach, of "js_sid g"] show ?thesis
    by (simp add: presence_set_node [OF S Some] reach_store [OF _ frame_update])
qed

lemma reach_Handle:
  assumes S: "se_coord S = C" and P: "joins_via_provider (se_peer S)"
    and reach: "registry_reach get onClosed table snd s0 (js_node g)"
  shows "registry_reach get onClosed table snd s0 (js_node (snd (Handle S req g)))"
proof -
  have "js_node (snd (handle_offer S req j g)) = js_node g"
    "js_node (snd (handle_answer S req j g)) = js_node g"
    "js_node (snd (handle_trickle S req j g)) = js_node g" for j
    by (auto simp: handler_defs split: option.splits prod.splits sum.splits)
  then show ?thesis
    using reach reach_join [OF S P reach] reach_presence [OF S reach]
    by (simp add: Handle_def with_params_def replyError_def split: option.splits)
qed

text \<open>What a completed join leaves behind: the session, its new listener, the session id.\<close>

lemma join_listen_effect:
  fixes S :: "('p, 'c, 'd, 'i) sig_env" and req sid answer and g :: "('p, 'c, 'd, 'i) signal"
  assumes S: "se_coord S = C" and wf: "wf_mem (snd (js_node g))"
    and ran: "ran (table (js_node g)) \<subseteq> dom (heap (snd (js_node g)))"
  defines "g' \<equiv> join_listen S req sid answer g"
  shows "\<exists>a ch s. table (js_node g') sid = Some a \<and> heap (snd (js_node g')) a = Some s
    \<and> map_of (broadcastListeners s) (peer_ID (se_peer S) (js_peer g)) = Some ch
    \<and> chans (snd (js_node g)) ch = None \<and> chans (snd (js_node g')) ch = Some (make_chan 32)
    \<and> js_listening g' = (a, ch) # js_listening g"
    and "js_sid g' = sid" and "js_hooks g'" and "js_out g' = js_out g @ [ReplyDesc (rq_ID req) answer]"
    and "wf_mem (snd (js_node g'))"
proof -
  let ?a = "fst (get sid (js_node g))" and ?n = "snd (get sid (js_node g))"
  let ?ch = "next_chan (snd ?n)" and ?pid = "peer_ID (se_peer S) (js_peer g)"
  let ?m2 = "snd (new_chan 32 (snd ?n))"
  note node = join_listen_node [OF S, of req sid answer g, folded g'_def]
  have wfn: "wf_mem (snd ?n)" by (rule get_store(1) [OF wf ran])
  obtain s where s: "heap (snd ?n) ?a = Some s" using get_store(2) [OF wf ran, of sid] by blast
  have fresh: "?ch \<notin> snd ` set (broadcastListeners s)" by (rule new_chan_fresh [OF wfn s])
  have chans: "chans (snd ?n) = chans (snd (js_node g))"
    using get_miss [of "js_node g" sid ?a ?n] get_hit [of "js_node g" sid]
    by (cases "table (js_node g) sid") simp_all
  have "chans (snd ?n) ?ch = None"
    using wfn by (auto simp: wf_mem_def)
  moreover have "table (js_node g') sid = Some ?a"
    using table_coord [of "js_node g'" ?n] get_table [of sid "js_node g"] node by simp
  moreover obtain w where "GetSession C sid (js_node g) = ((?a, w), ?n)" by (rule C_get_eq)
  then have "js_listening g' = (?a, ?ch) # js_listening g"
    using S by (simp add: g'_def join_listen_def case_prod_beta)
  ultimately have "table (js_node g') sid = Some ?a \<and> heap (snd (js_node g')) ?a = Some (BroadcastAddListener ?pid ?ch s)
    \<and> map_of (broadcastListeners (BroadcastAddListener ?pid ?ch s)) ?pid = Some ?ch
    \<and> chans (snd (js_node g)) ?ch = None \<and> chans (snd (js_node g')) ?ch = Some (make_chan 32)
    \<and> js_listening g' = (?a, ?ch) # js_listening g"
    using s chans node by (simp add: mem_AddListener_heap BroadcastAddListener_def)
  then show "\<exists>a ch s. table (js_node g') sid = Some a \<and> heap (snd (js_node g')) a = Some s
    \<and> map_of (broadcastListeners s) (peer_ID (se_peer S) (js_peer g)) = Some ch
    \<and> chans (snd (js_node g)) ch = None \<and> chans (snd (js_node g')) ch = Some (make_chan 32)
    \<and> js_listening g' = (a, ch) # js_listening g"
    by blast
  show "js_sid g' = sid" "js_hooks g'" "js_out g' = js_out g @ [ReplyDesc (rq_ID req) answer]"
    by (simp_all add: g'_def join_listen_def case_prod_beta Let_def)
  show "wf_mem (snd (js_node g'))"
    using node s fresh by (auto intro!: wf_mem_AddListener wf_new_chan [OF wfn] simp: dom_def)
qed

text \<open>Setting presence in a session that exists: the entry, the revision, the messages.\<close>

lemma presence_set_effect:
  assumes S: "se_coord S = C" and j: "unmarshal_map j = Some meta"
    and tab: "table (js_node g) (js_sid g) = Some a" and s: "heap (snd (js_node g)) a = Some s"
  shows "snd (handle_presence_set S req j g) =
    g\<lparr>js_node := apsnd (mem_UpdatePresence (se_sess S) a (peer_ID (se_peer S) (js_peer g)) (IMap meta)) (js_node g)\<rparr>"
  using presence_set_node [OF S j] get_hit [OF tab] by (simp add: apsnd_def map_prod_def case_prod_beta)

text \<open>A listener of the session whose channel was empty forwards exactly that message.\<close>

lemma presence_delivered:
  fixes S :: "('p, 'c, 'd, 'i) sig_env" and req and gA :: "('p, 'c, 'd, 'i) signal" and meta s
  assumes S: "se_coord S = C" and j: "unmarshal_map j = Some meta"
    and tab: "table (js_node gA) (js_sid gA) = Some a" and s: "heap (snd (js_node gA)) a = Some s"
    and wf: "wf_session s (chans (snd (js_node gA)))" and perm: "range_permutes (se_sess S)"
    and lst: "(q, ch) \<in> set (broadcastListeners s)"
    and buf: "chans (snd (js_node gA)) ch = Some c" "chan_buf c = []" "0 < chan_cap c"
  defines "n' \<equiv> js_node (snd (handle_presence_set S req j gA))"
    and "s' \<equiv> set_presence (peer_ID (se_peer S) (js_peer gA)) (IMap meta) s"
  shows "\<exists>gB'. listener_recv ch (gB\<lparr>js_node := n'\<rparr>) = Some gB'
    \<and> js_out gB' = js_out gB @ [NotifyBroadcast (presence_msg (se_sess S) s')]"
proof -
  let ?msg = "presence_msg (se_sess S) s'"
  have n': "snd n' = mem_UpdatePresence (se_sess S) a (peer_ID (se_peer S) (js_peer gA)) (IMap meta) (snd (js_node gA))"
    using presence_set_effect [OF S j tab s] by (simp add: n'_def)
  have "chans (snd n') = Broadcast_send (se_sess S) ?msg s' (chans (snd (js_node gA)))"
    using mem_UpdatePresence_apply(2) [OF s] n' by (simp add: s'_def)
  moreover have "wf_session s' (chans (snd (js_node gA)))" using wf by (simp add: s'_def)
  moreover have "ch \<in> snd ` set (broadcastListeners s')" using lst by (force simp: s'_def)
  ultimately have "chans (snd n') ch = Some (chan_send ?msg c)"
    using perm buf(1) by (simp add: Broadcast_send_apply)
  moreover have "chan_buf (chan_send ?msg c) = [?msg]"
    using buf(2,3) by (simp add: chan_buf_send chan_room_def)
  ultimately show ?thesis by (simp add: listener_recv_def chan_recv_def)
qed

end

section \<open>The local coordinator under a join\<close>

text \<open>The lookups before the listener is registered keep store and table well-formed.\<close>

lemma local_ensure_store:
  assumes "wf_mem (snd n)" and "wf_registry (lc_sessions (fst n)) (snd n)"
  shows "wf_mem (snd (snd (local_ensureSession sid n)))"
    and "wf_registry (lc_sessions (fst (snd (local_ensureSession sid n)))) (snd (snd (local_ensureSession sid n)))"
    and "chans (snd (snd (local_ensureSession sid n))) = chans (snd n)"
proof -
  have "ran (lc_sessions (fst n)) \<subseteq> dom (heap (snd n))" using assms(2) by (simp add: wf_registry_def)
  then show "wf_mem (snd (snd (local_ensureSession sid n)))"
    by (rule local_coord.get_store(1) [OF assms(1)])
  show "wf_registry (lc_sessions (fst (snd (local_ensureSession sid n)))) (snd (snd (local_ensureSession sid n)))"
    by (rule local_reg.get_wf [OF assms(2)])
  show "chans (snd (snd (local_ensureSession sid n))) = chans (snd n)"
    using local_reg.get_hit [of n sid] local_reg.get_miss [OF _ prod.collapse [symmetric], of n sid]
    by (cases "lc_sessions (fst n) sid") simp_all
qed

lemma local_join_store:
  assumes "joins_via_provider P"
    and "peer_Join P local_GetSession sid uid p (snd (local_getOrCreateSession sid n)) = (err, p', n')"
    and "wf_mem (snd n)" and "wf_registry (lc_sessions (fst n)) (snd n)"
  shows "wf_mem (snd n')" and "wf_registry (lc_sessions (fst n')) (snd n')" and "chans (snd n') = chans (snd n)"
proof -
  let ?n1 = "snd (local_ensureSession sid n)"
  note n1 = local_ensure_store [OF assms(3,4), of sid]
  have "n' = snd (local_getOrCreateSession sid n) \<or> n' = snd (local_GetSession sid (snd (local_getOrCreateSession sid n)))"
    using assms(1,2) unfolding joins_via_provider_def by blast
  then have "n' = ?n1 \<or> n' = snd (local_ensureSession sid ?n1)"
    by (simp add: local_getOrCreateSession_result(2) local_GetSession_result)
  then show "wf_mem (snd n')" and "wf_registry (lc_sessions (fst n')) (snd n')" and "chans (snd n') = chans (snd n)"
    using n1 local_ensure_store [OF n1(1,2), of sid] by auto
qed

end
