(* ===== verification/Client_Signal.thy ===== *)
theory Client_Signal
  imports Server_Jsonrpc
begin

text \<open>
  \<open>pkg/client/signal.go\<close>: the JSON-RPC client of the signalling protocol. The websocket
  dialer and the JSON-RPC connection are third-party code, the parameters \<open>dial\<close> and
  \<open>rpc_conn\<close> over a connection state \<open>'j\<close>. Callbacks are kept as values of abstract
  types; calling one is the action that \<open>sc_Handle\<close> returns.
\<close>

section \<open>The wire format on the client side\<close>

text \<open>\<open>json.Marshal\<close> of the messages, with pion's encoders of the WebRTC types.\<close>

record ('d, 'i) enc_wire =
  enc_desc :: "'d \<Rightarrow> json"
  enc_cand :: "'i \<Rightarrow> json"

definition marshal_Join :: "('d, 'i) enc_wire \<Rightarrow> 'd Join \<Rightarrow> json" where
  "marshal_Join W m =
     JObj [(''sid'', JStr (join_SID m)), (''uid'', JStr (join_UID m)), (''offer'', enc_desc W (join_Offer m))]"

definition marshal_Negotiation :: "('d, 'i) enc_wire \<Rightarrow> 'd Negotiation \<Rightarrow> json" where
  "marshal_Negotiation W m = JObj [(''desc'', enc_desc W (neg_Desc m))]"

definition int_text :: "int \<Rightarrow> string" where
  "int_text n = (if n < 0 then ''-'' @ go_itoa (nat (- n)) else go_itoa (nat n))"

definition marshal_Trickle :: "('d, 'i) enc_wire \<Rightarrow> 'i Trickle \<Rightarrow> json" where
  "marshal_Trickle W m =
     JObj [(''target'', JNum (int_text (trickle_Target m))), (''candidate'', enc_cand W (trickle_Candidate m))]"

section \<open>The client\<close>

record 'j rpc_conn =
  jc_Call :: "string \<Rightarrow> json \<Rightarrow> 'j \<Rightarrow> (string + json) \<times> 'j"
  jc_Notify :: "string \<Rightarrow> json \<Rightarrow> 'j \<Rightarrow> string option \<times> 'j"
  jc_Close :: "'j \<Rightarrow> string option \<times> 'j"

record ('j, 'n, 't) JSONRPCSignalClient =
  sc_jc :: "'j option"
  sc_onNegotiate :: "'n option"
  sc_onTrickle :: "'t option"

definition errNotConnected :: string where
  "errNotConnected = ''error no connection established''"

definition NewJSONRPCSignalClient :: "('j, 'n, 't) JSONRPCSignalClient" where
  "NewJSONRPCSignalClient = \<lparr>sc_jc = None, sc_onNegotiate = None, sc_onTrickle = None\<rparr>"

definition sc_Open ::
  "(string \<Rightarrow> string + 'j) \<Rightarrow> string \<Rightarrow> ('j, 'n, 't) JSONRPCSignalClient
    \<Rightarrow> unit outcome \<times> ('j, 'n, 't) JSONRPCSignalClient" where
  "sc_Open dial url c =
     (case dial url of
        Inl err \<Rightarrow> (Err err, c)
      | Inr conn \<Rightarrow> (Ret (), c\<lparr>sc_jc := Some conn\<rparr>))"

text \<open>\<open>Close\<close> calls a method of the connection; on a nil connection that dereferences nil.\<close>

definition sc_Close ::
  "'j rpc_conn \<Rightarrow> ('j, 'n, 't) JSONRPCSignalClient \<Rightarrow> unit outcome \<times> ('j, 'n, 't) JSONRPCSignalClient" where
  "sc_Close J c =
     (case sc_jc c of
        None \<Rightarrow> (Panic nil_deref, c)
      | Some j \<Rightarrow>
          (case jc_Close J j of
             (Some err, j') \<Rightarrow> (Err err, c\<lparr>sc_jc := Some j'\<rparr>)
           | (None, j') \<Rightarrow> (Ret (), c\<lparr>sc_jc := Some j'\<rparr>)))"

text \<open>
  A call whose result is decoded into a \<open>*webrtc.SessionDescription\<close>: the result
  \<open>null\<close> leaves the pointer nil, the value \<open>None\<close>.
\<close>

definition dec_desc_ptr :: "('d, 'i) wire \<Rightarrow> json \<Rightarrow> 'd option outcome" where
  "dec_desc_ptr W j =
     (case j of
        JNull \<Rightarrow> Ret None
      | _ \<Rightarrow> (case dec_desc W j (zero_desc W) of
                None \<Rightarrow> Err ''json: cannot unmarshal'' | Some d \<Rightarrow> Ret (Some d)))"

definition call_desc ::
  "('d, 'i) wire \<Rightarrow> 'j rpc_conn \<Rightarrow> string \<Rightarrow> json \<Rightarrow> ('j, 'n, 't) JSONRPCSignalClient
    \<Rightarrow> 'd option outcome \<times> ('j, 'n, 't) JSONRPCSignalClient" where
  "call_desc W J mth params c =
     (case sc_jc c of
        None \<Rightarrow> (Err errNotConnected, c)
      | Some j \<Rightarrow>
          (case jc_Call J mth params j of
             (Inl err, j') \<Rightarrow> (Err err, c\<lparr>sc_jc := Some j'\<rparr>)
           | (Inr res, j') \<Rightarrow> (dec_desc_ptr W res, c\<lparr>sc_jc := Some j'\<rparr>)))"

definition sc_Join ::
  "('d, 'i) wire \<Rightarrow> ('d, 'i) enc_wire \<Rightarrow> 'j rpc_conn \<Rightarrow> string \<Rightarrow> 'd \<Rightarrow> ('j, 'n, 't) JSONRPCSignalClient
    \<Rightarrow> 'd option outcome \<times> ('j, 'n, 't) JSONRPCSignalClient" where
  "sc_Join W EW J sid offer c =
     call_desc W J ''join'' (marshal_Join EW \<lparr>join_SID = sid, join_UID = [], join_Offer = offer\<rparr>) c"

definition sc_Offer ::
  "('d, 'i) wire \<Rightarrow> ('d, 'i) enc_wire \<Rightarrow> 'j rpc_conn \<Rightarrow> 'd \<Rightarrow> ('j, 'n, 't) JSONRPCSignalClient
    \<Rightarrow> 'd option outcome \<times> ('j, 'n, 't) JSONRPCSignalClient" where
  "sc_Offer W EW J offer c = call_desc W J ''offer'' (marshal_Negotiation EW \<lparr>neg_Desc = offer\<rparr>) c"

definition notify ::
  "'j rpc_conn \<Rightarrow> string \<Rightarrow> json \<Rightarrow> ('j, 'n, 't) JSONRPCSignalClient
    \<Rightarrow> unit outcome \<times> ('j, 'n, 't) JSONRPCSignalClient" where
  "notify J mth params c =
     (case sc_jc c of
        None \<Rightarrow> (Err errNotConnected, c)
      | Some j \<Rightarrow>
          (case jc_Notify J mth params j of
             (Some err, j') \<Rightarrow> (Err err, c\<lparr>sc_jc := Some j'\<rparr>)
           | (None, j') \<Rightarrow> (Ret (), c\<lparr>sc_jc := Some j'\<rparr>)))"

definition sc_Answer ::
  "('d, 'i) enc_wire \<Rightarrow> 'j rpc_conn \<Rightarrow> 'd \<Rightarrow> ('j, 'n, 't) JSONRPCSignalClient
    \<Rightarrow> unit outcome \<times> ('j, 'n, 't) JSONRPCSignalClient" where
  "sc_Answer EW J answer c = notify J ''answer'' (marshal_Negotiation EW \<lparr>neg_Desc = answer\<rparr>) c"

definition sc_Trickle ::
  "('d, 'i) enc_wire \<Rightarrow> 'j rpc_conn \<Rightarrow> int \<Rightarrow> 'i \<Rightarrow> ('j, 'n, 't) JSONRPCSignalClient
    \<Rightarrow> unit outcome \<times> ('j, 'n, 't) JSONRPCSignalClient" where
  "sc_Trickle EW J target trickle c =
     notify J ''trickle'' (marshal_Trickle EW \<lparr>trickle_Target = target, trickle_Candidate = trickle\<rparr>) c"

definition sc_Ping ::
  "'j rpc_conn \<Rightarrow> ('j, 'n, 't) JSONRPCSignalClient \<Rightarrow> unit outcome \<times> ('j, 'n, 't) JSONRPCSignalClient" where
  "sc_Ping J c =
     (case sc_jc c of
        None \<Rightarrow> (Err errNotConnected, c)
      | Some j \<Rightarrow>
          (case jc_Call J ''ping'' JNull j of
             (Inl err, j') \<Rightarrow> (Err err, c\<lparr>sc_jc := Some j'\<rparr>)
           | (Inr _, j') \<Rightarrow> (Ret (), c\<lparr>sc_jc := Some j'\<rparr>)))"

definition sc_OnNegotiate :: "'n \<Rightarrow> ('j, 'n, 't) JSONRPCSignalClient \<Rightarrow> ('j, 'n, 't) JSONRPCSignalClient" where
  "sc_OnNegotiate cb c = c\<lparr>sc_onNegotiate := Some cb\<rparr>"

definition sc_OnTrickle :: "'t \<Rightarrow> ('j, 'n, 't) JSONRPCSignalClient \<Rightarrow> ('j, 'n, 't) JSONRPCSignalClient" where
  "sc_OnTrickle cb c = c\<lparr>sc_onTrickle := Some cb\<rparr>"

section \<open>Messages from the server\<close>

datatype ('n, 't, 'd, 'i) callback = NoCallback | RunNegotiate 'n 'd | RunTrickle 't int 'i

definition sc_Handle ::
  "('d, 'i) wire \<Rightarrow> rpc_req \<Rightarrow> ('j, 'n, 't) JSONRPCSignalClient \<Rightarrow> ('n, 't, 'd, 'i) callback outcome" where
  "sc_Handle W req c =
     (if rq_Method req = ''offer'' then
        (case rq_Params req of
           None \<Rightarrow> Panic nil_deref
         | Some j \<Rightarrow>
             (case dec_desc W j (zero_desc W) of
                None \<Rightarrow> Ret NoCallback
              | Some offer \<Rightarrow>
                  Ret (case sc_onNegotiate c of None \<Rightarrow> NoCallback | Some cb \<Rightarrow> RunNegotiate cb offer)))
      else if rq_Method req = ''trickle'' then
        (case rq_Params req of
           None \<Rightarrow> Panic nil_deref
         | Some j \<Rightarrow>
             (case unmarshal_Trickle W j of
                None \<Rightarrow> Ret NoCallback
              | Some t \<Rightarrow>
                  Ret (case sc_onTrickle c of None \<Rightarrow> NoCallback
                       | Some cb \<Rightarrow> RunTrickle cb (trickle_Target t) (trickle_Candidate t))))
      else Ret NoCallback)"

section \<open>Client and server understand each other\<close>

text \<open>pion's decoders invert its encoders, and what it encodes can be printed.\<close>

definition wire_laws :: "('d, 'i) wire \<Rightarrow> ('d, 'i) enc_wire \<Rightarrow> bool" where
  "wire_laws W EW \<longleftrightarrow>
     (\<forall>d z. dec_desc W (enc_desc EW d) z = Some d) \<and> (\<forall>i z. dec_cand W (enc_cand EW i) z = Some i)
     \<and> (\<forall>d. wf_json (enc_desc EW d)) \<and> (\<forall>i. wf_json (enc_cand EW i))"

lemma unmarshal_marshal_Join:
  "wire_laws W EW \<Longrightarrow> unmarshal_Join W (marshal_Join EW m) = Some m"
  by (cases m)
    (simp add: wire_laws_def unmarshal_Join_def marshal_Join_def join_fields_def decode_struct_def
      select_field_def dec_string_def)

lemma unmarshal_marshal_Negotiation:
  "wire_laws W EW \<Longrightarrow> unmarshal_Negotiation W (marshal_Negotiation EW m) = Some m"
  by (cases m)
    (simp add: wire_laws_def unmarshal_Negotiation_def marshal_Negotiation_def decode_struct_def select_field_def)

text \<open>The decimal text of a number is a JSON number literal and reads back.\<close>

lemma itoa_nonempty: "go_itoa n \<noteq> []"
  by (subst go_itoa.simps) simp

lemma hd_itoa: "0 < n \<Longrightarrow> hd (go_itoa n) \<noteq> CHR ''0''"
proof (induction n rule: go_itoa.induct)
  case (1 n)
  show ?case
  proof (cases "n < 10")
    case True
    with 1 have "(of_char (hd (go_itoa n)) :: nat) \<noteq> of_char CHR ''0''"
      by (subst go_itoa.simps) (simp add: of_digit_char)
    then show ?thesis by metis
  next
    case False
    with 1 have "hd (go_itoa (n div 10)) \<noteq> CHR ''0''" by simp
    with False itoa_nonempty show ?thesis by (subst go_itoa.simps) simp
  qed
qed

lemma num_int_itoa: "num_int (go_itoa n) = Some (go_itoa n, [])"
proof (cases "n = 0")
  case True
  have "go_itoa 0 = [CHR ''0'']" by code_simp
  with True show ?thesis by (simp add: num_int_def)
next
  case False
  then have "hd (go_itoa n) \<noteq> CHR ''0''" by (simp add: hd_itoa)
  moreover have "takeWhile is_digit (go_itoa n) = go_itoa n" "dropWhile is_digit (go_itoa n) = []"
    using go_itoa_digits by (simp_all add: takeWhile_eq_all_conv)
  ultimately show ?thesis
    using itoa_nonempty [of n] by (auto simp: num_int_def digits1_def split: list.splits)
qed

lemma num_sign_itoa: "num_sign (go_itoa n) = ([], go_itoa n)"
proof -
  have "hd (go_itoa n) \<noteq> CHR ''-''"
    using go_itoa_digits [of "hd (go_itoa n)" n] itoa_nonempty [of n] by (auto simp: is_digit_def)
  then show ?thesis using itoa_nonempty [of n] by (auto simp: num_sign_def split: list.splits)
qed

lemma num_sign_int_text:
  "num_sign (int_text n) = (if n < 0 then ''-'' else [], go_itoa (nat \<bar>n\<bar>))"
  using num_sign_itoa by (auto simp: int_text_def) (auto simp: num_sign_def)

lemma valid_int_text: "valid_num (int_text n)"
  by (auto simp: valid_num_def num_lit_def num_sign_int_text num_int_itoa num_frac_def num_exp_def)
    (auto simp: int_text_def)

lemma parse_int_text: "- (2 ^ 63) \<le> n \<Longrightarrow> n < 2 ^ 63 \<Longrightarrow> parse_int64 (int_text n) = Some n"
  using go_itoa_digits itoa_nonempty
  by (auto simp: parse_int64_def num_sign_int_text digits_val_itoa list_all_iff)

lemma unmarshal_marshal_Trickle:
  assumes "wire_laws W EW" and "- (2 ^ 63) \<le> trickle_Target m" and "trickle_Target m < 2 ^ 63"
  shows "unmarshal_Trickle W (marshal_Trickle EW m) = Some m"
  using assms parse_int_text [OF assms(2,3)]
  by (cases m)
    (simp add: wire_laws_def unmarshal_Trickle_def marshal_Trickle_def decode_struct_def select_field_def dec_int_def)

lemma wf_marshal:
  assumes "wire_laws W EW"
  shows "valid_utf8 (join_SID m) \<Longrightarrow> valid_utf8 (join_UID m) \<Longrightarrow> wf_json (marshal_Join EW m)"
    and "wf_json (marshal_Negotiation EW k)" and "wf_json (marshal_Trickle EW t)"
  using assms valid_int_text
  by (simp_all add: wire_laws_def marshal_Join_def marshal_Negotiation_def marshal_Trickle_def utf8_len_def byte_def)

text \<open>The three messages of the client, as formats.\<close>

interpretation join_format: wire_format "marshal_Join EW" "unmarshal_Join W"
    "\<lambda>m. wire_laws W EW \<and> valid_utf8 (join_SID m) \<and> valid_utf8 (join_UID m)" for W EW
  by unfold_locales (auto intro: wf_marshal(1) unmarshal_marshal_Join)

interpretation negotiation_format: wire_format "marshal_Negotiation EW" "unmarshal_Negotiation W" "\<lambda>m. wire_laws W EW" for W EW
  by unfold_locales (auto intro: wf_marshal(2) unmarshal_marshal_Negotiation)

interpretation trickle_format: wire_format "marshal_Trickle EW" "unmarshal_Trickle W"
    "\<lambda>m. wire_laws W EW \<and> - (2 ^ 63) \<le> trickle_Target m \<and> trickle_Target m < 2 ^ 63" for W EW
  by unfold_locales (auto intro: wf_marshal(3) unmarshal_marshal_Trickle)

text \<open>
  C25. What the client writes for each message, the server reads back as the same message:
  marshalling, printing as text, parsing and decoding are inverse, for every session id of
  UTF-8, every description and candidate, and every target that fits a Go \<open>int\<close>.
\<close>

theorem client_messages_understood:
  assumes "wire_laws W EW" and "valid_utf8 sid" and "- (2 ^ 63) \<le> target" and "target < 2 ^ 63"
  shows "Option.bind (json_parse (json_print (marshal_Join EW \<lparr>join_SID = sid, join_UID = [], join_Offer = d\<rparr>)))
      (unmarshal_Join W) = Some \<lparr>join_SID = sid, join_UID = [], join_Offer = d\<rparr>
    \<and> Option.bind (json_parse (json_print (marshal_Negotiation EW \<lparr>neg_Desc = d\<rparr>)))
      (unmarshal_Negotiation W) = Some \<lparr>neg_Desc = d\<rparr>
    \<and> Option.bind (json_parse (json_print (marshal_Trickle EW \<lparr>trickle_Target = target, trickle_Candidate = i\<rparr>)))
      (unmarshal_Trickle W) = Some \<lparr>trickle_Target = target, trickle_Candidate = i\<rparr>"
  using assms
  by (intro conjI join_format.read_back negotiation_format.read_back trickle_format.read_back) simp_all

definition bool_wire :: "(bool, bool) wire" where
  "bool_wire =
     (let dec = (\<lambda>j _. case j of JBool b \<Rightarrow> Some b | _ \<Rightarrow> None)
      in \<lparr>zero_desc = False, dec_desc = dec, zero_cand = False, dec_cand = dec\<rparr>)"

definition bool_enc :: "(bool, bool) enc_wire" where
  "bool_enc = \<lparr>enc_desc = JBool, enc_cand = JBool\<rparr>"

theorem client_messages_understood_witness:
  "Option.bind (json_parse (json_print (marshal_Trickle bool_enc \<lparr>trickle_Target = 1, trickle_Candidate = True\<rparr>)))
    (unmarshal_Trickle bool_wire) = Some \<lparr>trickle_Target = 1, trickle_Candidate = True\<rparr>"
  using client_messages_understood [of bool_wire bool_enc "''room''" 1 True True]
  by (simp add: wire_laws_def bool_wire_def bool_enc_def Let_def utf8_len_def byte_def)

end
