(* ===== verification/Client.thy ===== *)
theory Client
  imports Client_Signal
begin

text \<open>
  \<open>pkg/client/client.go\<close> and \<open>pkg/client/mediaengine.go\<close>: the client's two peer
  connections, joining, publishing, renegotiation, and the buffering of ICE candidates that
  arrive before a remote description. The peer connection and the media engine are pion's:
  the parameters \<open>pc_api\<close> and \<open>me_api\<close>. The \<open>Signal\<close> interface is the record
  \<open>signal_api\<close>; \<open>jsonrpc_signal\<close> is the implementation of the repository.
\<close>

section \<open>The media engine\<close>

datatype codec_type = RTPCodecTypeAudio | RTPCodecTypeVideo

record codec =
  MimeType :: string
  ClockRate :: nat
  Channels :: nat
  SDPFmtpLine :: string
  RTCPFeedback :: "(string \<times> string) list"
  PayloadType :: nat

text \<open>The two registration methods of \<open>webrtc.MediaEngine\<close>, over its state \<open>'e\<close>.\<close>

record 'e me_api =
  RegisterCodec :: "codec \<Rightarrow> codec_type \<Rightarrow> 'e \<Rightarrow> string option \<times> 'e"
  RegisterHeaderExtension :: "string \<Rightarrow> codec_type \<Rightarrow> 'e \<Rightarrow> string option \<times> 'e"

definition mimeTypeH264 :: string where "mimeTypeH264 = ''video/h264''"
definition mimeTypeOpus :: string where "mimeTypeOpus = ''audio/opus''"

definition opus_codec :: codec where
  "opus_codec =
     \<lparr>MimeType = mimeTypeOpus, ClockRate = 48000, Channels = 2,
      SDPFmtpLine = ''minptime=10;useinbandfec=1'', RTCPFeedback = [], PayloadType = 111\<rparr>"

definition videoRTCPFeedback :: "(string \<times> string) list" where
  "videoRTCPFeedback = [(''goog-remb'', []), (''ccm'', ''fir''), (''nack'', []), (''nack'', ''pli'')]"

definition video_codecs :: "codec list" where
  "video_codecs =
     [\<lparr>MimeType = mimeTypeH264, ClockRate = 90000, Channels = 0,
       SDPFmtpLine = ''level-asymmetry-allowed=1;packetization-mode=1;profile-level-id=42001f'',
       RTCPFeedback = videoRTCPFeedback, PayloadType = 102\<rparr>]"

fun register_codecs :: "'e me_api \<Rightarrow> codec list \<Rightarrow> 'e \<Rightarrow> string option \<times> 'e" where
  "register_codecs M [] e = (None, e)"
| "register_codecs M (c # cs) e =
     (case RegisterCodec M c RTPCodecTypeVideo e of
        (Some err, e') \<Rightarrow> (Some err, e')
      | (None, e') \<Rightarrow> register_codecs M cs e')"

text \<open>The extension loop; \<open>twcc\<close> is \<open>sdp.TransportCCURI\<close>, registered for video only.\<close>

fun register_extensions :: "'e me_api \<Rightarrow> string \<Rightarrow> string list \<Rightarrow> 'e \<Rightarrow> string option \<times> 'e" where
  "register_extensions M twcc [] e = (None, e)"
| "register_extensions M twcc (x # xs) e =
     (case RegisterHeaderExtension M x RTPCodecTypeVideo e of
        (Some err, e1) \<Rightarrow> (Some err, e1)
      | (None, e1) \<Rightarrow>
          if x = twcc then register_extensions M twcc xs e1
          else
            (case RegisterHeaderExtension M x RTPCodecTypeAudio e1 of
               (Some err, e2) \<Rightarrow> (Some err, e2)
             | (None, e2) \<Rightarrow> register_extensions M twcc xs e2))"

text \<open>The constants of \<open>pion/sdp\<close> are the arguments \<open>mid\<close>, \<open>rid\<close> and \<open>twcc\<close>.\<close>

definition getProducerMediaEngine :: "'e me_api \<Rightarrow> string \<Rightarrow> string \<Rightarrow> string \<Rightarrow> 'e \<Rightarrow> 'e outcome" where
  "getProducerMediaEngine M mid rid twcc e0 =
     (case RegisterCodec M opus_codec RTPCodecTypeAudio e0 of
        (Some err, _) \<Rightarrow> Err err
      | (None, e1) \<Rightarrow>
          (case register_codecs M video_codecs e1 of
             (Some err, _) \<Rightarrow> Err err
           | (None, e2) \<Rightarrow>
               (case register_extensions M twcc [mid, rid, twcc] e2 of
                  (Some err, _) \<Rightarrow> Err err
                | (None, e3) \<Rightarrow> Ret e3)))"

section \<open>Transports\<close>

definition rolePublish :: int where "rolePublish = 0"
definition roleSubscribe :: int where "roleSubscribe = 1"

text \<open>
  The methods of \<open>webrtc.PeerConnection\<close> the client calls. \<open>NewPeer\<close> is the whole
  construction from a media engine; tracks and data channels are abstract.
\<close>

record ('pc, 'e, 'd, 'i, 'tr, 'dc) pc_api =
  RegisterDefaultInterceptors :: "'e option \<Rightarrow> unit outcome"
  NewPeerConnection :: "'e option \<Rightarrow> string + 'pc"
  CreateDataChannel :: "string \<Rightarrow> 'pc \<Rightarrow> (string + 'dc) \<times> 'pc"
  CreateOffer :: "'pc \<Rightarrow> (string + 'd) \<times> 'pc"
  CreateAnswer :: "'pc \<Rightarrow> (string + 'd) \<times> 'pc"
  SetLocalDescription :: "'d \<Rightarrow> 'pc \<Rightarrow> string option \<times> 'pc"
  SetRemoteDescription :: "'d \<Rightarrow> 'pc \<Rightarrow> string option \<times> 'pc"
  RemoteDescription :: "'pc \<Rightarrow> 'd option"
  AddICECandidate :: "'i \<Rightarrow> 'pc \<Rightarrow> string option \<times> 'pc"
  AddTrack :: "'tr \<Rightarrow> 'pc \<Rightarrow> string option \<times> 'pc"

record ('pc, 'dc, 'i) transport =
  tr_role :: int
  tr_api :: "'dc option"
  tr_pc :: 'pc
  candidates :: "'i list"

definition ignore_err :: "'a outcome \<Rightarrow> 'a option" where
  "ignore_err r = (case r of Ret v \<Rightarrow> Some v | _ \<Rightarrow> None)"

text \<open>The error of \<open>getProducerMediaEngine\<close> is dropped, which leaves a nil media engine.\<close>

definition newTransport ::
  "('pc, 'e, 'd, 'i, 'tr, 'dc) pc_api \<Rightarrow> 'e outcome \<Rightarrow> int \<Rightarrow> ('pc, 'dc, 'i) transport outcome" where
  "newTransport A engine role =
     (let me = ignore_err engine in
      case RegisterDefaultInterceptors A me of
        Err err \<Rightarrow> Err err | Panic p \<Rightarrow> Panic p | Block \<Rightarrow> Block
      | Ret _ \<Rightarrow>
          (case NewPeerConnection A me of
             Inl err \<Rightarrow> Err err
           | Inr pc \<Rightarrow>
               (if role = rolePublish then
                  (case CreateDataChannel A ''ion-sfu'' pc of
                     (Inl _, pc') \<Rightarrow> Ret \<lparr>tr_role = role, tr_api = None, tr_pc = pc', candidates = []\<rparr>
                   | (Inr dc, pc') \<Rightarrow> Ret \<lparr>tr_role = role, tr_api = Some dc, tr_pc = pc', candidates = []\<rparr>)
                else Ret \<lparr>tr_role = role, tr_api = None, tr_pc = pc, candidates = []\<rparr>)))"

section \<open>The client\<close>

text \<open>The \<open>Signal\<close> interface over the state \<open>'s\<close> of an implementation.\<close>

record ('s, 'd, 'i) signal_api =
  api_Join :: "string \<Rightarrow> 'd \<Rightarrow> 's \<Rightarrow> 'd option outcome \<times> 's"
  api_Offer :: "'d \<Rightarrow> 's \<Rightarrow> 'd option outcome \<times> 's"
  api_Answer :: "'d \<Rightarrow> 's \<Rightarrow> unit outcome \<times> 's"
  api_Trickle :: "int \<Rightarrow> 'i \<Rightarrow> 's \<Rightarrow> unit outcome \<times> 's"
  api_OnNegotiate :: "'s \<Rightarrow> 's"
  api_OnTrickle :: "'s \<Rightarrow> 's"

definition jsonrpc_signal ::
  "('d, 'i) wire \<Rightarrow> ('d, 'i) enc_wire \<Rightarrow> 'j rpc_conn \<Rightarrow> (('j, unit, unit) JSONRPCSignalClient, 'd, 'i) signal_api" where
  "jsonrpc_signal W EW J =
     \<lparr>api_Join = sc_Join W EW J, api_Offer = sc_Offer W EW J, api_Answer = sc_Answer EW J,
      api_Trickle = sc_Trickle EW J, api_OnNegotiate = sc_OnNegotiate (), api_OnTrickle = sc_OnTrickle ()\<rparr>"

text \<open>
  \<open>cl_onTrack\<close> says whether the field \<open>OnTrack\<close> is set; \<open>cl_trackHook\<close> and
  \<open>cl_negotiationHook\<close> whether the handlers of the two peer connections are installed.
\<close>

record ('s, 'pc, 'dc, 'i) Client =
  cl_signal :: 's
  pub :: "('pc, 'dc, 'i) transport"
  sub :: "('pc, 'dc, 'i) transport"
  cl_onTrack :: bool
  cl_trackHook :: bool
  cl_negotiationHook :: bool

definition NewClient ::
  "('pc, 'e, 'd, 'i, 'tr, 'dc) pc_api \<Rightarrow> 'e outcome \<Rightarrow> 's \<Rightarrow> ('s, 'pc, 'dc, 'i) Client outcome" where
  "NewClient A engine sig =
     (case newTransport A engine rolePublish of
        Ret p \<Rightarrow>
          (case newTransport A engine roleSubscribe of
             Ret s \<Rightarrow>
               Ret \<lparr>cl_signal = sig, pub = p, sub = s, cl_onTrack = False, cl_trackHook = False,
                    cl_negotiationHook = False\<rparr>
           | Err e \<Rightarrow> Err e | Panic p' \<Rightarrow> Panic p' | Block \<Rightarrow> Block)
      | Err e \<Rightarrow> Err e | Panic p' \<Rightarrow> Panic p' | Block \<Rightarrow> Block)"

definition add_candidates ::
  "('pc, 'e, 'd, 'i, 'tr, 'dc) pc_api \<Rightarrow> 'i list \<Rightarrow> 'pc \<Rightarrow> 'pc" where
  "add_candidates A cs pc = fold (\<lambda>c p. snd (AddICECandidate A c p)) cs pc"

text \<open>
  The exchange both \<open>Join\<close> and \<open>pubNegotiationNeeded\<close> make on the publishing
  connection: create an offer, set it, send it, set the answer. While the call waits for the
  answer the connection's reader runs the callbacks; \<open>meanwhile\<close> is what they did to the
  client. A nil answer is dereferenced.
\<close>

definition put_pc :: "'pc \<Rightarrow> ('s, 'pc, 'dc, 'i) Client \<Rightarrow> ('s, 'pc, 'dc, 'i) Client" where
  "put_pc p c = c\<lparr>pub := (pub c)\<lparr>tr_pc := p\<rparr>\<rparr>"

definition exchange ::
  "('pc, 'e, 'd, 'i, 'tr, 'dc) pc_api \<Rightarrow> ('d \<Rightarrow> 's \<Rightarrow> 'd option outcome \<times> 's)
    \<Rightarrow> (('s, 'pc, 'dc, 'i) Client \<Rightarrow> ('s, 'pc, 'dc, 'i) Client)
    \<Rightarrow> ('s, 'pc, 'dc, 'i) Client \<Rightarrow> unit outcome \<times> ('s, 'pc, 'dc, 'i) Client" where
  "exchange A send meanwhile c =
     (case CreateOffer A (tr_pc (pub c)) of
        (Inl err, p1) \<Rightarrow> (Err err, put_pc p1 c)
      | (Inr offer, p1) \<Rightarrow>
          (case SetLocalDescription A offer p1 of
             (Some err, p2) \<Rightarrow> (Err err, put_pc p2 c)
           | (None, p2) \<Rightarrow>
               (let (r, s') = send offer (cl_signal c);
                    c3 = meanwhile ((put_pc p2 c)\<lparr>cl_signal := s'\<rparr>)
                in case r of
                     Err err \<Rightarrow> (Err err, c3)
                   | Panic p \<Rightarrow> (Panic p, c3)
                   | Block \<Rightarrow> (Block, c3)
                   | Ret None \<Rightarrow> (Panic nil_deref, c3)
                   | Ret (Some answer) \<Rightarrow>
                       (case SetRemoteDescription A answer (tr_pc (pub c3)) of
                          (Some err, p4) \<Rightarrow> (Err err, put_pc p4 c3)
                        | (None, p4) \<Rightarrow> (Ret (), put_pc p4 c3)))))"

definition Client_Join ::
  "('pc, 'e, 'd, 'i, 'tr, 'dc) pc_api \<Rightarrow> ('s, 'd, 'i) signal_api
    \<Rightarrow> (('s, 'pc, 'dc, 'i) Client \<Rightarrow> ('s, 'pc, 'dc, 'i) Client) \<Rightarrow> string
    \<Rightarrow> ('s, 'pc, 'dc, 'i) Client \<Rightarrow> unit outcome \<times> ('s, 'pc, 'dc, 'i) Client" where
  "Client_Join A G meanwhile sid c =
     (let c1 = c\<lparr>cl_signal := api_OnTrickle G (api_OnNegotiate G (cl_signal c)), cl_trackHook := True\<rparr> in
      case exchange A (api_Join G sid) meanwhile c1 of
        (Ret _, c2) \<Rightarrow>
          (Ret (), (put_pc (add_candidates A (candidates (pub c2)) (tr_pc (pub c2))) c2)\<lparr>cl_negotiationHook := True\<rparr>)
      | (r, c2) \<Rightarrow> (r, c2))"

text \<open>The renegotiation reports its errors to the log only.\<close>

definition pubNegotiationNeeded ::
  "('pc, 'e, 'd, 'i, 'tr, 'dc) pc_api \<Rightarrow> ('s, 'd, 'i) signal_api
    \<Rightarrow> (('s, 'pc, 'dc, 'i) Client \<Rightarrow> ('s, 'pc, 'dc, 'i) Client)
    \<Rightarrow> ('s, 'pc, 'dc, 'i) Client \<Rightarrow> unit outcome \<times> ('s, 'pc, 'dc, 'i) Client" where
  "pubNegotiationNeeded A G meanwhile c =
     (case exchange A (api_Offer G) meanwhile c of
        (Err _, c') \<Rightarrow> (Ret (), c')
      | (r, c') \<Rightarrow> (r, c'))"

text \<open>
  \<open>Publish\<close>: the deferred renegotiation runs only when both tracks were added. The flag of
  the result says whether the producer's goroutine was started.
\<close>

definition Publish ::
  "('pc, 'e, 'd, 'i, 'tr, 'dc) pc_api \<Rightarrow> ('s, 'd, 'i) signal_api
    \<Rightarrow> (('s, 'pc, 'dc, 'i) Client \<Rightarrow> ('s, 'pc, 'dc, 'i) Client) \<Rightarrow> 'tr \<Rightarrow> 'tr
    \<Rightarrow> ('s, 'pc, 'dc, 'i) Client \<Rightarrow> unit outcome \<times> bool \<times> ('s, 'pc, 'dc, 'i) Client" where
  "Publish A G meanwhile video audio c =
     (case AddTrack A video (tr_pc (pub c)) of
        (Some err, p1) \<Rightarrow> (Err err, False, put_pc p1 c)
      | (None, p1) \<Rightarrow>
          (case AddTrack A audio p1 of
             (Some err, p2) \<Rightarrow> (Err err, False, put_pc p2 c)
           | (None, p2) \<Rightarrow>
               (let (r, c') = pubNegotiationNeeded A G meanwhile (put_pc p2 c) in (r, True, c'))))"

text \<open>One of the two goroutines that drain RTCP: it reads until the first error.\<close>

fun drain_rtcp :: "string option list \<Rightarrow> nat outcome" where
  "drain_rtcp [] = Block"
| "drain_rtcp (Some err # rs) = Ret 0"
| "drain_rtcp (None # rs) = (case drain_rtcp rs of Ret n \<Rightarrow> Ret (Suc n) | r \<Rightarrow> r)"

definition CreateDatachannel ::
  "('pc, 'e, 'd, 'i, 'tr, 'dc) pc_api \<Rightarrow> string \<Rightarrow> ('s, 'pc, 'dc, 'i) Client
    \<Rightarrow> 'dc outcome \<times> ('s, 'pc, 'dc, 'i) Client" where
  "CreateDatachannel A label c =
     (case CreateDataChannel A label (tr_pc (pub c)) of
        (Inl err, p') \<Rightarrow> (Err err, c\<lparr>pub := (pub c)\<lparr>tr_pc := p'\<rparr>\<rparr>)
      | (Inr dc, p') \<Rightarrow> (Ret dc, c\<lparr>pub := (pub c)\<lparr>tr_pc := p'\<rparr>\<rparr>))"

section \<open>Messages from the server\<close>

definition signalOnNegotiate ::
  "('pc, 'e, 'd, 'i, 'tr, 'dc) pc_api \<Rightarrow> ('s, 'd, 'i) signal_api \<Rightarrow> 'd
    \<Rightarrow> ('s, 'pc, 'dc, 'i) Client \<Rightarrow> ('s, 'pc, 'dc, 'i) Client" where
  "signalOnNegotiate A G desc c =
     (case SetRemoteDescription A desc (tr_pc (sub c)) of
        (Some _, p1) \<Rightarrow> c\<lparr>sub := (sub c)\<lparr>tr_pc := p1\<rparr>\<rparr>
      | (None, p1) \<Rightarrow>
          (let p2 = add_candidates A (candidates (sub c)) p1;
               c2 = c\<lparr>sub := (sub c)\<lparr>tr_pc := p2, candidates := []\<rparr>\<rparr>
           in case CreateAnswer A p2 of
                (Inl _, p3) \<Rightarrow> c2\<lparr>sub := (sub c2)\<lparr>tr_pc := p3\<rparr>\<rparr>
              | (Inr answer, p3) \<Rightarrow>
                  (case SetLocalDescription A answer p3 of
                     (Some _, p4) \<Rightarrow> c2\<lparr>sub := (sub c2)\<lparr>tr_pc := p4\<rparr>\<rparr>
                   | (None, p4) \<Rightarrow>
                       c2\<lparr>sub := (sub c2)\<lparr>tr_pc := p4\<rparr>, cl_signal := snd (api_Answer G answer (cl_signal c))\<rparr>)))"

definition trickle_to ::
  "('pc, 'e, 'd, 'i, 'tr, 'dc) pc_api \<Rightarrow> 'i \<Rightarrow> ('pc, 'dc, 'i) transport \<Rightarrow> ('pc, 'dc, 'i) transport" where
  "trickle_to A cand t =
     (if RemoteDescription A (tr_pc t) \<noteq> None then t\<lparr>tr_pc := snd (AddICECandidate A cand (tr_pc t))\<rparr>
      else t\<lparr>candidates := candidates t @ [cand]\<rparr>)"

text \<open>A role that is neither leaves the target nil; its peer connection is dereferenced.\<close>

definition signalOnTrickle ::
  "('pc, 'e, 'd, 'i, 'tr, 'dc) pc_api \<Rightarrow> int \<Rightarrow> 'i \<Rightarrow> ('s, 'pc, 'dc, 'i) Client
    \<Rightarrow> unit outcome \<times> ('s, 'pc, 'dc, 'i) Client" where
  "signalOnTrickle A role cand c =
     (if role = rolePublish then (Ret (), c\<lparr>pub := trickle_to A cand (pub c)\<rparr>)
      else if role = roleSubscribe then (Ret (), c\<lparr>sub := trickle_to A cand (sub c)\<rparr>)
      else (Panic nil_deref, c))"

text \<open>The callback of a transport's own candidates; the nil candidate that ends them is skipped.\<close>

definition onICECandidate ::
  "('s, 'd, 'i) signal_api \<Rightarrow> int \<Rightarrow> 'i option \<Rightarrow> 's \<Rightarrow> 's" where
  "onICECandidate G role cand s =
     (case cand of None \<Rightarrow> s | Some i \<Rightarrow> snd (api_Trickle G role i s))"

definition onDataChannel :: "'dc \<Rightarrow> ('pc, 'dc, 'i) transport \<Rightarrow> ('pc, 'dc, 'i) transport" where
  "onDataChannel ch t = t\<lparr>tr_api := Some ch\<rparr>"

section \<open>Candidates are neither lost nor reordered\<close>

text \<open>
  What the theorems rely on of a peer connection: it remembers in \<open>added\<close> the candidates it
  was given, in order; a remote description is there once one was set without an error; the
  other calls change neither.
\<close>

definition same_remote :: "('pc, 'e, 'd, 'i, 'tr, 'dc) pc_api \<Rightarrow> ('pc \<Rightarrow> 'i list) \<Rightarrow> 'pc \<Rightarrow> 'pc \<Rightarrow> bool" where
  "same_remote A added p p' \<longleftrightarrow>
     added p' = added p \<and> (RemoteDescription A p' = None \<longleftrightarrow> RemoteDescription A p = None)"

definition pc_laws :: "('pc, 'e, 'd, 'i, 'tr, 'dc) pc_api \<Rightarrow> ('pc \<Rightarrow> 'i list) \<Rightarrow> bool" where
  "pc_laws A added \<longleftrightarrow>
     (\<forall>i p. added (snd (AddICECandidate A i p)) = added p @ [i]
        \<and> (RemoteDescription A (snd (AddICECandidate A i p)) = None \<longleftrightarrow> RemoteDescription A p = None))
     \<and> (\<forall>d p r p'. SetRemoteDescription A d p = (r, p') \<longrightarrow>
          (if r = None then added p' = added p \<and> RemoteDescription A p' \<noteq> None else same_remote A added p p'))
     \<and> (\<forall>d p. same_remote A added p (snd (SetLocalDescription A d p)))
     \<and> (\<forall>p. same_remote A added p (snd (CreateOffer A p)))
     \<and> (\<forall>p. same_remote A added p (snd (CreateAnswer A p)))"

text \<open>The candidates a transport has been given so far, added or still waiting.\<close>

definition received :: "('pc \<Rightarrow> 'i list) \<Rightarrow> ('pc, 'dc, 'i) transport \<Rightarrow> 'i list" where
  "received added t = added (tr_pc t) @ candidates t"

text \<open>No candidate waits once a remote description is set.\<close>

definition flushed :: "('pc, 'e, 'd, 'i, 'tr, 'dc) pc_api \<Rightarrow> ('pc, 'dc, 'i) transport \<Rightarrow> bool" where
  "flushed A t \<longleftrightarrow> (RemoteDescription A (tr_pc t) \<noteq> None \<longrightarrow> candidates t = [])"

datatype ('d, 'i) srv_msg = ServerOffer 'd | ServerTrickle int 'i

definition on_msg ::
  "('pc, 'e, 'd, 'i, 'tr, 'dc) pc_api \<Rightarrow> ('s, 'd, 'i) signal_api \<Rightarrow> ('d, 'i) srv_msg
    \<Rightarrow> ('s, 'pc, 'dc, 'i) Client \<Rightarrow> ('s, 'pc, 'dc, 'i) Client" where
  "on_msg A G msg c =
     (case msg of
        ServerOffer d \<Rightarrow> signalOnNegotiate A G d c
      | ServerTrickle role i \<Rightarrow> snd (signalOnTrickle A role i c))"

fun trickled :: "int \<Rightarrow> ('d, 'i) srv_msg list \<Rightarrow> 'i list" where
  "trickled role [] = []"
| "trickled role (ServerOffer d # ms) = trickled role ms"
| "trickled role (ServerTrickle r i # ms) = (if r = role then i # trickled role ms else trickled role ms)"

lemma pc_lawsD:
  assumes "pc_laws A added"
  shows "added (snd (AddICECandidate A i p)) = added p @ [i]"
    and "RemoteDescription A (snd (AddICECandidate A i p)) = None \<longleftrightarrow> RemoteDescription A p = None"
    and "SetRemoteDescription A d p = (None, p') \<Longrightarrow> added p' = added p \<and> RemoteDescription A p' \<noteq> None"
    and "SetRemoteDescription A d p = (Some err, p') \<Longrightarrow> same_remote A added p p'"
    and "same_remote A added p (snd (SetLocalDescription A d p))" "same_remote A added p (snd (CreateOffer A p))"
    and "same_remote A added p (snd (CreateAnswer A p))"
  using assms unfolding pc_laws_def by (metis, metis, metis, metis option.distinct(1), metis, metis, metis)

lemma add_candidates_laws:
  assumes "pc_laws A added"
  shows "added (add_candidates A cs p) = added p @ cs"
    and "RemoteDescription A (add_candidates A cs p) = None \<longleftrightarrow> RemoteDescription A p = None"
proof -
  have "added (add_candidates A cs p) = added p @ cs
    \<and> (RemoteDescription A (add_candidates A cs p) = None \<longleftrightarrow> RemoteDescription A p = None)"
    by (induction cs arbitrary: p) (simp_all add: add_candidates_def pc_lawsD(1,2) [OF assms])
  then show "added (add_candidates A cs p) = added p @ cs"
    and "RemoteDescription A (add_candidates A cs p) = None \<longleftrightarrow> RemoteDescription A p = None"
    by simp_all
qed

lemma trickle_to_laws:
  assumes "pc_laws A added" and "flushed A t"
  shows "received added (trickle_to A i t) = received added t @ [i]" and "flushed A (trickle_to A i t)"
    and "RemoteDescription A (tr_pc (trickle_to A i t)) = None \<longleftrightarrow> RemoteDescription A (tr_pc t) = None"
  using assms(2) by (auto simp: received_def trickle_to_def flushed_def pc_lawsD(1,2) [OF assms(1)])

lemma negotiate_laws:
  assumes laws: "pc_laws A added" and fl: "flushed A (sub c)"
  shows "received added (sub (signalOnNegotiate A G d c)) = received added (sub c)"
    and "flushed A (sub (signalOnNegotiate A G d c))" and "pub (signalOnNegotiate A G d c) = pub c"
proof -
  obtain r p1 where set: "SetRemoteDescription A d (tr_pc (sub c)) = (r, p1)" by (meson surj_pair)
  let ?p2 = "add_candidates A (candidates (sub c)) p1"
  obtain ans p3 where ans: "CreateAnswer A ?p2 = (ans, p3)" by (meson surj_pair)
  have p3: "same_remote A added ?p2 p3" using pc_lawsD(7) [OF laws, of ?p2] ans by simp
  have p4: "same_remote A added p3 (snd (SetLocalDescription A x p3))" for x by (rule pc_lawsD(5) [OF laws])
  have "received added (sub (signalOnNegotiate A G d c)) = received added (sub c)
    \<and> flushed A (sub (signalOnNegotiate A G d c)) \<and> pub (signalOnNegotiate A G d c) = pub c"
  proof (cases r)
    case None
    have "added ?p2 = received added (sub c)"
      using pc_lawsD(3) [OF laws set [unfolded None]] by (simp add: add_candidates_laws [OF laws] received_def)
    with None set ans p3 p4 show ?thesis
      by (auto simp: signalOnNegotiate_def received_def flushed_def same_remote_def Let_def
          split: sum.split prod.split option.split) (metis snd_conv)+
  next
    case (Some err)
    with pc_lawsD(4) [OF laws set [unfolded Some]] set fl show ?thesis
      by (auto simp: signalOnNegotiate_def received_def flushed_def same_remote_def)
  qed
  then show "received added (sub (signalOnNegotiate A G d c)) = received added (sub c)"
    and "flushed A (sub (signalOnNegotiate A G d c))" and "pub (signalOnNegotiate A G d c) = pub c"
    by simp_all
qed

lemma on_msgs_laws:
  assumes laws: "pc_laws A added" and "flushed A (pub c)" and "flushed A (sub c)"
  shows "received added (sub (fold (on_msg A G) ms c)) = received added (sub c) @ trickled roleSubscribe ms"
    and "received added (pub (fold (on_msg A G) ms c)) = received added (pub c) @ trickled rolePublish ms"
    and "flushed A (pub (fold (on_msg A G) ms c))" and "flushed A (sub (fold (on_msg A G) ms c))"
    and "RemoteDescription A (tr_pc (pub (fold (on_msg A G) ms c))) = None
      \<longleftrightarrow> RemoteDescription A (tr_pc (pub c)) = None"
proof -
  have "received added (sub (fold (on_msg A G) ms c)) = received added (sub c) @ trickled roleSubscribe ms
    \<and> received added (pub (fold (on_msg A G) ms c)) = received added (pub c) @ trickled rolePublish ms
    \<and> flushed A (pub (fold (on_msg A G) ms c)) \<and> flushed A (sub (fold (on_msg A G) ms c))
    \<and> (RemoteDescription A (tr_pc (pub (fold (on_msg A G) ms c))) = None
      \<longleftrightarrow> RemoteDescription A (tr_pc (pub c)) = None)"
    using assms(2,3)
  proof (induction ms arbitrary: c)
    case (Cons m ms)
    show ?case
    proof (cases m)
      case (ServerOffer d)
      with Cons negotiate_laws [OF laws Cons.prems(2), of G d] show ?thesis by (simp add: on_msg_def)
    next
      case (ServerTrickle role i)
      with Cons trickle_to_laws [OF laws] show ?thesis
        by (auto simp: on_msg_def signalOnTrickle_def rolePublish_def roleSubscribe_def)
    qed
  qed simp
  then show "received added (sub (fold (on_msg A G) ms c)) = received added (sub c) @ trickled roleSubscribe ms"
    and "received added (pub (fold (on_msg A G) ms c)) = received added (pub c) @ trickled rolePublish ms"
    and "flushed A (pub (fold (on_msg A G) ms c))" and "flushed A (sub (fold (on_msg A G) ms c))"
    and "RemoteDescription A (tr_pc (pub (fold (on_msg A G) ms c))) = None
      \<longleftrightarrow> RemoteDescription A (tr_pc (pub c)) = None"
    by simp_all
qed

text \<open>
  The two transports apart. The subscribing one does not depend on the publishing one, whose list
  of waiting candidates \<open>Join\<close> leaves as it is; and once the publishing one has a remote
  description it gets its candidates at once.
\<close>

lemma sub_msgs_laws:
  assumes "pc_laws A added" and "flushed A (sub c)"
  shows "received added (sub (fold (on_msg A G) ms c)) = received added (sub c) @ trickled roleSubscribe ms
    \<and> flushed A (sub (fold (on_msg A G) ms c))"
  using assms(2)
proof (induction ms arbitrary: c)
  case (Cons m ms)
  show ?case
  proof (cases m)
    case (ServerOffer d)
    with Cons negotiate_laws(1,2) [OF assms(1) Cons.prems, of G d] show ?thesis by (simp add: on_msg_def)
  next
    case (ServerTrickle role i)
    with Cons trickle_to_laws(1,2) [OF assms(1)] show ?thesis
      by (auto simp: on_msg_def signalOnTrickle_def rolePublish_def roleSubscribe_def)
  qed
qed simp

lemma negotiate_pub: "pub (signalOnNegotiate A G d c) = pub c"
  by (auto simp: signalOnNegotiate_def Let_def split: prod.split option.split sum.split)

lemma pub_msg_laws:
  assumes "pc_laws A added" and "RemoteDescription A (tr_pc (pub c)) \<noteq> None"
  shows "RemoteDescription A (tr_pc (pub (on_msg A G m c))) \<noteq> None
    \<and> added (tr_pc (pub (on_msg A G m c))) = added (tr_pc (pub c)) @ trickled rolePublish [m]"
proof (cases m)
  case (ServerOffer d)
  with assms(2) show ?thesis by (simp add: on_msg_def negotiate_pub)
next
  case (ServerTrickle role i)
  with assms(2) pc_lawsD(1,2) [OF assms(1)] show ?thesis
    by (auto simp: on_msg_def signalOnTrickle_def trickle_to_def rolePublish_def roleSubscribe_def simp del: not_None_eq)
qed

lemma pub_msgs_laws:
  assumes "pc_laws A added" and "RemoteDescription A (tr_pc (pub c)) \<noteq> None"
  shows "added (tr_pc (pub (fold (on_msg A G) ms c))) = added (tr_pc (pub c)) @ trickled rolePublish ms"
  using assms(2)
proof (induction ms arbitrary: c)
  case (Cons m ms)
  have "trickled rolePublish (m # ms) = trickled rolePublish [m] @ trickled rolePublish ms" by (cases m) simp_all
  with Cons.IH [of "on_msg A G m c"] pub_msg_laws [OF assms(1) Cons.prems, of G m] show ?case by simp
qed simp

lemma exchange_ok:
  assumes laws: "pc_laws A added" and ok: "exchange A send (fold (on_msg A G) ms) c = (Ret (), c')"
    and fl: "flushed A (pub c)" "flushed A (sub c)"
  shows "received added (pub c') = received added (pub c) @ trickled rolePublish ms"
    and "received added (sub c') = received added (sub c) @ trickled roleSubscribe ms"
    and "RemoteDescription A (tr_pc (pub c')) \<noteq> None"
proof -
  obtain offer p1 where offer: "CreateOffer A (tr_pc (pub c)) = (Inr offer, p1)"
    using ok by (auto simp: exchange_def split: prod.splits sum.splits)
  obtain p2 where local: "SetLocalDescription A offer p1 = (None, p2)"
    using ok offer by (auto simp: exchange_def split: prod.splits option.splits)
  obtain r s' where sent: "send offer (cl_signal c) = (r, s')" by (meson surj_pair)
  let ?c2 = "(put_pc p2 c)\<lparr>cl_signal := s'\<rparr>"
  let ?c3 = "fold (on_msg A G) ms ?c2"
  obtain answer where r: "r = Ret (Some answer)"
    using ok offer local sent by (auto simp: exchange_def Let_def split: outcome.splits option.splits)
  obtain p4 where remote: "SetRemoteDescription A answer (tr_pc (pub ?c3)) = (None, p4)" and c': "c' = put_pc p4 ?c3"
    using ok offer local sent r by (auto simp: exchange_def Let_def split: prod.splits option.splits)
  have p2: "same_remote A added (tr_pc (pub c)) p2"
    using pc_lawsD(5) [OF laws, of p1 offer] pc_lawsD(6) [OF laws, of "tr_pc (pub c)"] offer local
    by (simp add: same_remote_def)
  then have "flushed A (pub ?c2)" "flushed A (sub ?c2)" "received added (pub ?c2) = received added (pub c)"
    "sub ?c2 = sub c"
    using fl by (simp_all add: flushed_def put_pc_def same_remote_def received_def)
  note msgs = on_msgs_laws [OF laws this(1,2), of G ms] this(3,4)
  show "received added (pub c') = received added (pub c) @ trickled rolePublish ms"
    using msgs pc_lawsD(3) [OF laws remote] c' by (simp add: put_pc_def received_def)
  show "received added (sub c') = received added (sub c) @ trickled roleSubscribe ms"
    using msgs c' by (simp add: put_pc_def received_def)
  show "RemoteDescription A (tr_pc (pub c')) \<noteq> None"
    using pc_lawsD(3) [OF laws remote] c' by (simp add: put_pc_def)
qed

text \<open>
  C20. A successful join gives the publishing connection every candidate the server sent for
  it, in the order they arrived, none missing and none waiting: also those that arrived while
  the client was waiting for the answer, mixed with the server's own offers. The candidates
  for the subscribing connection are kept the same way.
\<close>

theorem join_delivers_candidates:
  assumes "pc_laws A added" and "flushed A (pub c)" and "flushed A (sub c)"
    and "Client_Join A G (fold (on_msg A G) ms) sid c = (Ret (), c')"
  shows "added (tr_pc (pub c')) = received added (pub c) @ trickled rolePublish ms
    \<and> received added (sub c') = received added (sub c) @ trickled roleSubscribe ms
    \<and> RemoteDescription A (tr_pc (pub c')) \<noteq> None \<and> cl_negotiationHook c'"
proof -
  let ?c1 = "c\<lparr>cl_signal := api_OnTrickle G (api_OnNegotiate G (cl_signal c)), cl_trackHook := True\<rparr>"
  obtain c2 where ex: "exchange A (api_Join G sid) (fold (on_msg A G) ms) ?c1 = (Ret (), c2)"
    and c': "c' = (put_pc (add_candidates A (candidates (pub c2)) (tr_pc (pub c2))) c2)\<lparr>cl_negotiationHook := True\<rparr>"
    using assms(4) by (auto simp: Client_Join_def Let_def split: prod.splits outcome.splits)
  have "flushed A (pub ?c1)" "flushed A (sub ?c1)" using assms(2,3) by simp_all
  note ok = exchange_ok [OF assms(1) ex this]
  show ?thesis
    using ok c' by (simp add: put_pc_def add_candidates_laws [OF assms(1)] received_def)
qed

text \<open>
  C22. Between a join and the end of the connection, whatever offers and candidates the server
  sends: the subscribing connection has been given all its candidates in the order they
  arrived as soon as it has a remote description, and until then they wait in that order; the
  publishing connection, which has a remote description since the join, is given each of its
  candidates at once; a candidate for a role the client does not know panics.
\<close>

theorem server_messages_keep_candidates:
  assumes "pc_laws A added" and "flushed A (sub c)" and "c' = fold (on_msg A G) ms c"
  shows "added (tr_pc (sub c')) @ candidates (sub c') = received added (sub c) @ trickled roleSubscribe ms
    \<and> (RemoteDescription A (tr_pc (sub c')) \<noteq> None \<longrightarrow>
         added (tr_pc (sub c')) = received added (sub c) @ trickled roleSubscribe ms)
    \<and> (RemoteDescription A (tr_pc (pub c)) \<noteq> None \<longrightarrow>
         added (tr_pc (pub c')) = added (tr_pc (pub c)) @ trickled rolePublish ms)
    \<and> (fst (signalOnTrickle A role i c) = Panic nil_deref \<longleftrightarrow> role \<noteq> rolePublish \<and> role \<noteq> roleSubscribe)"
  using sub_msgs_laws [OF assms(1,2), of G ms] pub_msgs_laws [OF assms(1), of c G ms] assms(3)
  by (auto simp: received_def flushed_def signalOnTrickle_def)

text \<open>A peer connection that remembers whether it has a remote description, and its candidates.\<close>

definition log_pc :: "(bool \<times> nat list, unit, unit, nat, unit, unit) pc_api" where
  "log_pc =
     \<lparr>RegisterDefaultInterceptors = \<lambda>_. Ret (), NewPeerConnection = \<lambda>_. Inr (False, []),
      CreateDataChannel = \<lambda>l p. (Inr (), p), CreateOffer = \<lambda>p. (Inr (), p), CreateAnswer = \<lambda>p. (Inr (), p),
      SetLocalDescription = \<lambda>d p. (None, p), SetRemoteDescription = \<lambda>d p. (None, (True, snd p)),
      RemoteDescription = \<lambda>p. if fst p then Some () else None,
      AddICECandidate = \<lambda>i p. (None, (fst p, snd p @ [i])), AddTrack = \<lambda>t p. (None, p)\<rparr>"

definition unit_signal :: "(unit, unit, nat) signal_api" where
  "unit_signal =
     \<lparr>api_Join = \<lambda>sid d s. (Ret (Some ()), s), api_Offer = \<lambda>d s. (Ret (Some ()), s), api_Answer = \<lambda>d s. (Ret (), s),
      api_Trickle = \<lambda>t i s. (Ret (), s), api_OnNegotiate = id, api_OnTrickle = id\<rparr>"

lemma log_pc_laws: "pc_laws log_pc snd"
  by (simp add: pc_laws_def same_remote_def log_pc_def)

definition fresh_client :: "(unit, bool \<times> nat list, unit, nat) Client" where
  "fresh_client =
     \<lparr>cl_signal = (), pub = \<lparr>tr_role = 0, tr_api = Some (), tr_pc = (False, []), candidates = []\<rparr>,
      sub = \<lparr>tr_role = 1, tr_api = None, tr_pc = (False, []), candidates = []\<rparr>,
      cl_onTrack = False, cl_trackHook = False, cl_negotiationHook = False\<rparr>"

lemma fresh_client_new: "NewClient log_pc (Ret ()) () = Ret fresh_client"
  by (simp add: NewClient_def newTransport_def log_pc_def fresh_client_def rolePublish_def roleSubscribe_def ignore_err_def)

lemma fresh_client_flushed: "flushed A (pub fresh_client)" "flushed A (sub fresh_client)"
  by (simp_all add: flushed_def fresh_client_def)

definition demo_msgs :: "(unit, nat) srv_msg list" where
  "demo_msgs = [ServerTrickle 0 5, ServerTrickle 1 6, ServerOffer (), ServerTrickle 0 7, ServerTrickle 1 8]"

lemma demo_msgs_trickled: "trickled rolePublish demo_msgs = [5, 7]" "trickled roleSubscribe demo_msgs = [6, 8]"
  by (simp_all add: demo_msgs_def rolePublish_def roleSubscribe_def)

lemma demo_join: "fst (Client_Join log_pc unit_signal (fold (on_msg log_pc unit_signal) demo_msgs) ''room'' fresh_client) = Ret ()"
  by (simp add: Client_Join_def exchange_def log_pc_def unit_signal_def Let_def)

theorem join_delivers_candidates_witness:
  "snd (tr_pc (pub (snd (Client_Join log_pc unit_signal (fold (on_msg log_pc unit_signal) demo_msgs) ''room'' fresh_client))))
    = [5, 7]"
  using join_delivers_candidates [OF log_pc_laws fresh_client_flushed, of unit_signal demo_msgs "''room''"
      "snd (Client_Join log_pc unit_signal (fold (on_msg log_pc unit_signal) demo_msgs) ''room'' fresh_client)"]
    demo_join demo_msgs_trickled
  by (simp add: prod_eq_iff received_def) (simp add: fresh_client_def)

theorem server_messages_keep_candidates_witness:
  "snd (tr_pc (sub (fold (on_msg log_pc unit_signal) demo_msgs fresh_client)))
     @ candidates (sub (fold (on_msg log_pc unit_signal) demo_msgs fresh_client)) = [6, 8]"
  using server_messages_keep_candidates [OF log_pc_laws fresh_client_flushed(2) refl, of unit_signal demo_msgs]
    demo_msgs_trickled
  by (simp add: received_def) (simp add: fresh_client_def)

section \<open>What the media engine registers\<close>

text \<open>A registration that succeeds is the last entry of the engine's \<open>items\<close>.\<close>

definition me_laws :: "'e me_api \<Rightarrow> ('e \<Rightarrow> (codec + string) list) \<Rightarrow> ('e \<Rightarrow> codec_type list) \<Rightarrow> bool" where
  "me_laws M items kinds \<longleftrightarrow>
     (\<forall>c k e e'. RegisterCodec M c k e = (None, e') \<longrightarrow> items e' = items e @ [Inl c] \<and> kinds e' = kinds e @ [k])
     \<and> (\<forall>x k e e'. RegisterHeaderExtension M x k e = (None, e') \<longrightarrow> items e' = items e @ [Inr x] \<and> kinds e' = kinds e @ [k])"

lemma register_extensions_log:
  assumes "me_laws M items kinds" and "register_extensions M twcc xs e = (None, e')"
  shows "items e' = items e @ concat (map (\<lambda>x. if x = twcc then [Inr x] else [Inr x, Inr x]) xs)
    \<and> kinds e' = kinds e @ concat (map (\<lambda>x. if x = twcc then [RTPCodecTypeVideo]
        else [RTPCodecTypeVideo, RTPCodecTypeAudio]) xs)"
  using assms(2)
proof (induction xs arbitrary: e)
  case (Cons x xs)
  obtain e1 where e1: "RegisterHeaderExtension M x RTPCodecTypeVideo e = (None, e1)"
    using Cons.prems by (auto split: prod.splits option.splits)
  show ?case
  proof (cases "x = twcc")
    case True
    with Cons e1 assms(1) show ?thesis by (simp add: me_laws_def)
  next
    case False
    obtain e2 where "RegisterHeaderExtension M x RTPCodecTypeAudio e1 = (None, e2)"
      using Cons.prems e1 False by (auto split: prod.splits option.splits)
    with False Cons e1 assms(1) show ?thesis by (simp add: me_laws_def)
  qed
qed simp

text \<open>
  A media engine built without an error has exactly one audio codec (Opus, payload type
  111) and one video codec (H.264, payload type 102), the stream id extensions for video and
  for audio, and the transport-wide congestion control extension for video only.
\<close>

lemma media_engine_registers:
  assumes "me_laws M items kinds" and "getProducerMediaEngine M mid rid twcc e0 = Ret e"
    and "mid \<noteq> twcc" and "rid \<noteq> twcc"
  shows "items e = items e0 @ [Inl opus_codec] @ map Inl video_codecs @ [Inr mid, Inr mid, Inr rid, Inr rid, Inr twcc]
    \<and> kinds e = kinds e0 @ [RTPCodecTypeAudio, RTPCodecTypeVideo, RTPCodecTypeVideo, RTPCodecTypeAudio,
        RTPCodecTypeVideo, RTPCodecTypeAudio, RTPCodecTypeVideo]"
proof -
  obtain e1 where e1: "RegisterCodec M opus_codec RTPCodecTypeAudio e0 = (None, e1)"
    using assms(2) by (auto simp: getProducerMediaEngine_def split: prod.splits option.splits)
  obtain e2 where e2: "register_codecs M video_codecs e1 = (None, e2)"
    using assms(2) e1 by (auto simp: getProducerMediaEngine_def split: prod.splits option.splits)
  have e3: "register_extensions M twcc [mid, rid, twcc] e2 = (None, e)"
    using assms(2) e1 e2
    by (auto simp: getProducerMediaEngine_def simp del: register_extensions.simps split: prod.splits option.splits)
  have "items e2 = items e1 @ map Inl video_codecs \<and> kinds e2 = kinds e1 @ [RTPCodecTypeVideo]"
    using e2 assms(1) by (auto simp: video_codecs_def me_laws_def split: prod.splits option.splits)
  moreover have "items e1 = items e0 @ [Inl opus_codec] \<and> kinds e1 = kinds e0 @ [RTPCodecTypeAudio]"
    using e1 assms(1) by (simp add: me_laws_def)
  ultimately show ?thesis
    using register_extensions_log [OF assms(1) e3] assms(3,4) by simp
qed

definition log_me :: "((codec + string) \<times> codec_type) list me_api" where
  "log_me = \<lparr>RegisterCodec = \<lambda>c k e. (None, e @ [(Inl c, k)]), RegisterHeaderExtension = \<lambda>x k e. (None, e @ [(Inr x, k)])\<rparr>"

lemma log_me_laws: "me_laws log_me (map fst) (map snd)"
  by (simp add: me_laws_def log_me_def)

end
