(* ===== verification/Server_Auth.thy ===== *)
theory Server_Auth
  imports Config
begin

text \<open>
  \<open>pkg/server_auth.go\<close>: the claims of an access token and the token check. Parsing and
  verifying a JWT is the third-party package jwt-go: the parameter \<open>jwtParse\<close> is
  \<open>jwt.ParseWithClaims\<close>, \<open>scValid\<close> is \<open>StandardClaims.Valid\<close>, and the
  type \<open>'sc\<close> the standard claims.
\<close>

record 'sc authToken =
  SID :: string
  StandardClaims :: "'sc option"

definition errorTokenClaimsInvalid :: string where
  "errorTokenClaimsInvalid = ''Token claims invalid: must have SID''"

text \<open>The method \<open>Valid\<close>: \<open>None\<close> is the nil error.\<close>

definition authToken_Valid :: "('sc \<Rightarrow> string option) \<Rightarrow> 'sc authToken \<Rightarrow> string option" where
  "authToken_Valid scValid t =
     (if SID t = [] then Some errorTokenClaimsInvalid
      else (case StandardClaims t of
              Some sc \<Rightarrow> scValid sc
            | None \<Rightarrow> None))"

type_synonym 'sc jwt_parser =
  "string \<Rightarrow> (unit \<Rightarrow> string outcome) \<Rightarrow> string + 'sc authToken"

text \<open>The query parameters of the request are the map \<open>r.URL.Query()\<close>.\<close>

definition authGetAndValidateToken ::
  "'sc jwt_parser \<Rightarrow> AuthConfig \<Rightarrow> (string \<rightharpoonup> string list) \<Rightarrow> 'sc authToken outcome" where
  "authGetAndValidateToken jwtParse config vars =
     (case vars ''access_token'' of
        None \<Rightarrow> Err ''no token''
      | Some [] \<Rightarrow> Err ''no token''
      | Some (tokenStr # _) \<Rightarrow>
          (case jwtParse tokenStr (keyFunc config) of
             Inl err \<Rightarrow> Err err
           | Inr token \<Rightarrow> Ret token))"

text \<open>
  The documented behaviour of the parser: a token it returns without an error has passed
  its own \<open>Valid\<close> method.
\<close>

definition jwt_checks_claims :: "('sc \<Rightarrow> string option) \<Rightarrow> 'sc jwt_parser \<Rightarrow> bool" where
  "jwt_checks_claims scValid jwtParse \<longleftrightarrow>
     (\<forall>s kf t. jwtParse s kf = Inr t \<longrightarrow> authToken_Valid scValid t = None)"

lemma authToken_Valid_None:
  "authToken_Valid scValid t = None \<longleftrightarrow>
     SID t \<noteq> [] \<and> (\<forall>sc. StandardClaims t = Some sc \<longrightarrow> scValid sc = None)"
  by (auto simp: authToken_Valid_def split: option.splits)

lemma auth_success:
  assumes "authGetAndValidateToken jwtParse config vars = Ret t" and "jwt_checks_claims scValid jwtParse"
  obtains s rest where "vars ''access_token'' = Some (s # rest)" and "jwtParse s (keyFunc config) = Inr t"
    and "SID t \<noteq> []" and "\<And>sc. StandardClaims t = Some sc \<Longrightarrow> scValid sc = None"
proof -
  from assms(1) obtain s rest where s: "vars ''access_token'' = Some (s # rest)"
    "jwtParse s (keyFunc config) = Inr t"
    by (auto simp: authGetAndValidateToken_def split: option.splits list.splits sum.splits)
  with assms(2) have "authToken_Valid scValid t = None" unfolding jwt_checks_claims_def by blast
  with that s show ?thesis by (auto simp: authToken_Valid_None)
qed

lemma auth_no_panic:
  "authGetAndValidateToken jwtParse config vars \<noteq> Panic p" "authGetAndValidateToken jwtParse config vars \<noteq> Block"
  by (auto simp: authGetAndValidateToken_def split: option.splits list.splits sum.splits)

end
