(* ===== verification/Server.thy ===== *)
theory Server
  imports Server_Jsonrpc Server_Auth
begin

text \<open>
  \<open>pkg/server.go\<close>: the HTTP handler of \<open>/session/{id}\<close> (token check, lookup, proxy
  or upgrade), the lifetime of a websocket connection, and the server as a state machine in
  which the handlers, the callbacks of the peers and the listener goroutines of all
  connections interleave. Third-party parts are parameters: the router's match, the query
  parser's result, \<open>url.Parse\<close>, the websocket upgrade, the proxy and the peer.
\<close>

section \<open>The signalling server\<close>

record 'c SignalServer =
  sg_c :: "'c coordinator"
  sg_config :: SignalConfig

text \<open>The error channel \<open>NewSignal\<close> makes has no buffer.\<close>

definition NewSignal :: "'c coordinator \<Rightarrow> SignalConfig \<Rightarrow> 'c SignalServer \<times> string chan" where
  "NewSignal c conf = (\<lparr>sg_c = c, sg_config = conf\<rparr>, make_chan 0)"

text \<open>Which listener the server starts, with its arguments in the order of the call.\<close>

datatype listen_call =
    ListenAndServeTLS string string string
  | ListenAndServe string

definition start_listener :: "SignalConfig \<Rightarrow> listen_call" where
  "start_listener conf =
     (if uses_tls conf then ListenAndServeTLS (HTTPAddr conf) (Cert conf) (Key conf)
      else ListenAndServe (HTTPAddr conf))"

section \<open>The session handler\<close>

text \<open>
  A request: the route variable \<open>id\<close> and the query parameters. What the handler does
  before a websocket exists: an HTTP answer, a return without writing anything, the
  proxy, or the upgrade.
\<close>

record http_req =
  hr_id :: string
  hr_query :: "string \<rightharpoonup> string list"

datatype admission =
    HttpError nat string
  | HttpNothing
  | ProxyTo string
  | UpgradeHere

definition check_token :: "'sc jwt_parser \<Rightarrow> SignalConfig \<Rightarrow> http_req \<Rightarrow> admission option" where
  "check_token jwtParse conf r =
     (if Enabled (Auth conf) then
        (case authGetAndValidateToken jwtParse (Auth conf) (hr_query r) of
           Ret token \<Rightarrow> if SID token \<noteq> hr_id r then Some (HttpError 403 ''Invalid Token'') else None
         | _ \<Rightarrow> Some (HttpError 403 ''Invalid Token''))
      else None)"

definition proxy_endpoint :: "sessionMeta \<Rightarrow> string" where
  "proxy_endpoint meta = NodeEndpoint meta @ ''/session/'' @ SessionID meta"

definition admit ::
  "'sc jwt_parser \<Rightarrow> (string \<Rightarrow> bool) \<Rightarrow> 'c SignalServer \<Rightarrow> http_req \<Rightarrow> 'c \<times> mem
    \<Rightarrow> admission outcome \<times> ('c \<times> mem)" where
  "admit jwtParse urlOk s r n =
     (case check_token jwtParse (sg_config s) r of
        Some refusal \<Rightarrow> (Ret refusal, n)
      | None \<Rightarrow>
          (case getOrCreateSession (sg_c s) (hr_id r) n of
             (Panic p, n') \<Rightarrow> (Panic p, n')
           | (Block, n') \<Rightarrow> (Block, n')
           | (Err _, n') \<Rightarrow> (Ret (HttpError 500 []), n')
           | (Ret meta, n') \<Rightarrow>
               if Redirect meta then
                 (Ret (if urlOk (proxy_endpoint meta) then ProxyTo (proxy_endpoint meta) else HttpNothing), n')
               else (Ret UpgradeHere, n')))"

section \<open>A connection\<close>

text \<open>
  A fresh \<open>JSONSignal\<close> around a fresh peer, counted in the clients gauge. \<open>upgrade\<close>
  is the error of the websocket upgrade, if any: the handler panics with it.
\<close>

definition accept_conn ::
  "string option \<Rightarrow> 'p \<Rightarrow> 'c \<times> mem \<Rightarrow> ('p, 'c, 'd, 'i) signal outcome" where
  "accept_conn upgrade peer n =
     (case upgrade of
        Some err \<Rightarrow> Panic err
      | None \<Rightarrow>
          Ret \<lparr>js_peer = peer, js_sid = [], js_hooks = False, js_listening = [], js_out = [],
               js_node = apsnd (gauge_op (Inc GaugeClients)) n\<rparr>)"

text \<open>What can happen on an accepted connection while it is served.\<close>

datatype ('d, 'i) conn_event =
    Incoming rpc_req
  | PeerOffer 'd
  | PeerCandidate 'i int
  | PeerICEState ice_state
  | ListenerReady nat

definition conn_step ::
  "('p, 'c, 'd, 'i) sig_env \<Rightarrow> (string \<Rightarrow> 'c \<times> mem \<Rightarrow> 'c \<times> mem) \<Rightarrow> ('d, 'i) conn_event
    \<Rightarrow> ('p, 'c, 'd, 'i) signal \<Rightarrow> unit outcome \<times> ('p, 'c, 'd, 'i) signal" where
  "conn_step S onClosed ev g =
     (case ev of
        Incoming req \<Rightarrow> Handle S req g
      | PeerOffer d \<Rightarrow> (Ret (), OnOffer d g)
      | PeerCandidate i t \<Rightarrow> (Ret (), OnIceCandidate i t g)
      | PeerICEState st \<Rightarrow> (Ret (), OnICEConnectionStateChange S onClosed st g)
      | ListenerReady ch \<Rightarrow> (case listener_recv ch g of None \<Rightarrow> (Block, g) | Some g' \<Rightarrow> (Ret (), g')))"

text \<open>
  The end of the handler, in two parts between which others may run: the clients gauge, after
  the disconnect, and the deferred \<open>p.Close()\<close>.
\<close>

definition count_out :: "('p, 'c, 'd, 'i) signal \<Rightarrow> ('p, 'c, 'd, 'i) signal" where
  "count_out g = g\<lparr>js_node := apsnd (gauge_op (Dec GaugeClients)) (js_node g)\<rparr>"

definition close_conn ::
  "('p, 'c, 'd, 'i) sig_env \<Rightarrow> (string \<Rightarrow> 'c \<times> mem \<Rightarrow> 'c \<times> mem)
    \<Rightarrow> ('p, 'c, 'd, 'i) signal \<Rightarrow> ('p, 'c, 'd, 'i) signal" where
  "close_conn S onClosed g =
     (let (p', n') = peer_Close (se_peer S) onClosed (js_peer g) (js_node g) in g\<lparr>js_peer := p', js_node := n'\<rparr>)"

section \<open>The server as a state machine\<close>

text \<open>
  A connection is served, has been disconnected, has been counted out, or its handler has
  returned, in this order; listener goroutines may outlive the handler. All connections of a
  server run on one node, so the node of a connection's record is replaced by the server's when
  it takes a step.
\<close>

datatype phase = Served | Disconnected | CountedOut | Returned

fun phase_number :: "phase \<Rightarrow> nat" where
  "phase_number Served = 0"
| "phase_number Disconnected = 1"
| "phase_number CountedOut = 2"
| "phase_number Returned = 3"

instantiation phase :: linorder
begin

definition less_eq_phase :: "phase \<Rightarrow> phase \<Rightarrow> bool" where
  "less_eq_phase x y \<longleftrightarrow> phase_number x \<le> phase_number y"

definition less_phase :: "phase \<Rightarrow> phase \<Rightarrow> bool" where
  "less_phase x y \<longleftrightarrow> phase_number x < phase_number y"

instance
proof
  fix x y z :: phase
  show "x < y \<longleftrightarrow> x \<le> y \<and> \<not> y \<le> x" by (auto simp: less_eq_phase_def less_phase_def)
  show "x \<le> x" by (simp add: less_eq_phase_def)
  show "x \<le> z" if "x \<le> y" "y \<le> z" using that by (simp add: less_eq_phase_def)
  show "x = y" if "x \<le> y" "y \<le> x" using that by (cases x; cases y) (simp_all add: less_eq_phase_def)
  show "x \<le> y \<or> y \<le> x" by (auto simp: less_eq_phase_def)
qed

end

lemma phase_le [simp]:
  "Served \<le> Disconnected" "\<not> CountedOut \<le> Disconnected" "\<not> Returned \<le> Disconnected"
  by (simp_all add: less_eq_phase_def)

record ('p, 'c, 'd, 'i) server =
  sv_node :: "'c \<times> mem"
  sv_conns :: "nat \<rightharpoonup> phase \<times> ('p, 'c, 'd, 'i) signal"
  sv_proxies :: "nat \<rightharpoonup> string"

definition put_conn ::
  "nat \<Rightarrow> phase \<Rightarrow> ('p, 'c, 'd, 'i) signal \<Rightarrow> ('p, 'c, 'd, 'i) server \<Rightarrow> ('p, 'c, 'd, 'i) server" where
  "put_conn i ph g sv = sv\<lparr>sv_node := js_node g, sv_conns := (sv_conns sv)(i \<mapsto> (ph, g))\<rparr>"

definition on_node ::
  "('p, 'c, 'd, 'i) server \<Rightarrow> ('p, 'c, 'd, 'i) signal \<Rightarrow> ('p, 'c, 'd, 'i) signal" where
  "on_node sv g = g\<lparr>js_node := sv_node sv\<rparr>"

text \<open>
  Requests, callbacks and listener goroutines of a connection may run in every phase: in which
  order a library delivers them and the disconnect is not relied on.
\<close>

inductive server_step ::
  "'sc jwt_parser \<Rightarrow> (string \<Rightarrow> bool) \<Rightarrow> ('p, 'c, 'd, 'i) sig_env
    \<Rightarrow> (string \<Rightarrow> 'c \<times> mem \<Rightarrow> 'c \<times> mem) \<Rightarrow> SignalConfig
    \<Rightarrow> ('p, 'c, 'd, 'i) server \<Rightarrow> ('p, 'c, 'd, 'i) server \<Rightarrow> bool"
  for jwtParse urlOk S onClosed conf where
  refuse: "admit jwtParse urlOk \<lparr>sg_c = se_coord S, sg_config = conf\<rparr> r (sv_node sv) = (res, n')
    \<Longrightarrow> \<not> (\<exists>e. res = Ret (ProxyTo e)) \<Longrightarrow> res \<noteq> Ret UpgradeHere
    \<Longrightarrow> server_step jwtParse urlOk S onClosed conf sv (sv\<lparr>sv_node := n'\<rparr>)"
| proxy: "admit jwtParse urlOk \<lparr>sg_c = se_coord S, sg_config = conf\<rparr> r (sv_node sv) = (Ret (ProxyTo e), n')
    \<Longrightarrow> sv_proxies sv i = None
    \<Longrightarrow> server_step jwtParse urlOk S onClosed conf sv
          (sv\<lparr>sv_node := apsnd (gauge_op (Inc GaugeProxyClients)) n', sv_proxies := (sv_proxies sv)(i \<mapsto> e)\<rparr>)"
| proxy_done: "sv_proxies sv i = Some e
    \<Longrightarrow> server_step jwtParse urlOk S onClosed conf sv
          (sv\<lparr>sv_node := apsnd (gauge_op (Dec GaugeProxyClients)) (sv_node sv),
              sv_proxies := (sv_proxies sv)(i := None)\<rparr>)"
| upgrade_fails: "admit jwtParse urlOk \<lparr>sg_c = se_coord S, sg_config = conf\<rparr> r (sv_node sv) = (Ret UpgradeHere, n')
    \<Longrightarrow> server_step jwtParse urlOk S onClosed conf sv (sv\<lparr>sv_node := n'\<rparr>)"
| accept: "admit jwtParse urlOk \<lparr>sg_c = se_coord S, sg_config = conf\<rparr> r (sv_node sv) = (Ret UpgradeHere, n')
    \<Longrightarrow> sv_conns sv i = None \<Longrightarrow> accept_conn None peer n' = Ret g
    \<Longrightarrow> server_step jwtParse urlOk S onClosed conf sv (put_conn i Served g sv)"
| event: "sv_conns sv i = Some (ph, g)
    \<Longrightarrow> conn_step S onClosed ev (on_node sv g) = (Ret (), g')
    \<Longrightarrow> server_step jwtParse urlOk S onClosed conf sv (put_conn i ph g' sv)"
| disconnect: "sv_conns sv i = Some (Served, g)
    \<Longrightarrow> server_step jwtParse urlOk S onClosed conf sv (put_conn i Disconnected (on_node sv g) sv)"
| count: "sv_conns sv i = Some (Disconnected, g)
    \<Longrightarrow> server_step jwtParse urlOk S onClosed conf sv (put_conn i CountedOut (count_out (on_node sv g)) sv)"
| close: "sv_conns sv i = Some (CountedOut, g)
    \<Longrightarrow> server_step jwtParse urlOk S onClosed conf sv (put_conn i Returned (close_conn S onClosed (on_node sv g)) sv)"
| listener_stops: "sv_conns sv i = Some (ph, g) \<Longrightarrow> ph \<noteq> Served \<Longrightarrow> l \<in> set (js_listening g)
    \<Longrightarrow> server_step jwtParse urlOk S onClosed conf sv (put_conn i ph (listener_stop S l (on_node sv g)) sv)"

inductive server_reach ::
  "'sc jwt_parser \<Rightarrow> (string \<Rightarrow> bool) \<Rightarrow> ('p, 'c, 'd, 'i) sig_env
    \<Rightarrow> (string \<Rightarrow> 'c \<times> mem \<Rightarrow> 'c \<times> mem) \<Rightarrow> SignalConfig \<Rightarrow> 'c \<times> mem
    \<Rightarrow> ('p, 'c, 'd, 'i) server \<Rightarrow> bool"
  for jwtParse urlOk S onClosed conf n0 where
  start: "server_reach jwtParse urlOk S onClosed conf n0
    \<lparr>sv_node = n0, sv_conns = Map.empty, sv_proxies = Map.empty\<rparr>"
| step: "server_reach jwtParse urlOk S onClosed conf n0 sv \<Longrightarrow> server_step jwtParse urlOk S onClosed conf sv sv'
    \<Longrightarrow> server_reach jwtParse urlOk S onClosed conf n0 sv'"

section \<open>Admission\<close>

lemma check_token_None:
  assumes "check_token jwtParse conf r = None" and "Enabled (Auth conf)" and "jwt_checks_claims scValid jwtParse"
  obtains s rest t where "hr_query r ''access_token'' = Some (s # rest)"
    and "jwtParse s (keyFunc (Auth conf)) = Inr t" and "SID t = hr_id r" and "hr_id r \<noteq> []"
    and "\<And>sc. StandardClaims t = Some sc \<Longrightarrow> scValid sc = None"
proof -
  from assms(1,2) obtain t where t: "authGetAndValidateToken jwtParse (Auth conf) (hr_query r) = Ret t"
    and sid: "SID t = hr_id r"
    by (auto simp: check_token_def split: outcome.splits if_splits)
  from auth_success [OF t assms(3)] that sid show ?thesis by metis
qed

lemma admit_allowed:
  assumes "admit jwtParse urlOk s r n = (Ret a, n')" and "a = UpgradeHere \<or> (\<exists>e. a = ProxyTo e)"
  shows "check_token jwtParse (sg_config s) r = None"
proof -
  have "check_token jwtParse (sg_config s) r \<noteq> Some UpgradeHere"
    "check_token jwtParse (sg_config s) r \<noteq> Some (ProxyTo e)" for e
    by (auto simp: check_token_def split: outcome.splits)
  with assms show ?thesis by (auto simp: admit_def split: option.splits)
qed

lemma admit_refused:
  assumes "check_token jwtParse (sg_config s) r = Some a"
  shows "admit jwtParse urlOk s r n = (Ret (HttpError 403 ''Invalid Token''), n)"
  using assms by (auto simp: admit_def check_token_def split: outcome.splits if_splits)

text \<open>Where the proxy connects is what the coordinator returned for the session of the request.\<close>

lemma admit_asked:
  assumes "check_token jwtParse (sg_config s) r = None"
    and "getOrCreateSession (sg_c s) (hr_id r) n = (Ret meta, n')"
  shows "admit jwtParse urlOk s r n =
    (Ret (if \<not> Redirect meta then UpgradeHere
          else if urlOk (proxy_endpoint meta) then ProxyTo (proxy_endpoint meta) else HttpNothing), n')"
  using assms by (simp add: admit_def)

lemma admit_node:
  "snd (admit jwtParse urlOk s r n) = n \<or> snd (admit jwtParse urlOk s r n) = snd (getOrCreateSession (sg_c s) (hr_id r) n)"
  by (auto simp: admit_def split: option.splits outcome.splits prod.splits)

section \<open>Invariant of the server\<close>

text \<open>
  Leaving changes the node at most by the close callback of a session of the table, which
  ion-sfu runs when the last peer has left.
\<close>

definition closes_via_callback ::
  "('p, 'c, 'd, 'i) sfu_peer \<Rightarrow> (string \<Rightarrow> 'c \<times> mem \<Rightarrow> 'c \<times> mem) \<Rightarrow> ('c \<times> mem \<Rightarrow> string \<rightharpoonup> nat) \<Rightarrow> bool" where
  "closes_via_callback P onClosed table \<longleftrightarrow>
     (\<forall>p n p' n'. peer_Close P onClosed p n = (p', n') \<longrightarrow>
        n' = n \<or> (\<exists>sid a. table n sid = Some a \<and> n' = onClosed sid n))"

text \<open>The connections whose handler is running and has not been counted out.\<close>

definition open_conns :: "('p, 'c, 'd, 'i) server \<Rightarrow> nat set" where
  "open_conns sv = {i. \<exists>ph g. sv_conns sv i = Some (ph, g) \<and> ph \<le> Disconnected}"

definition server_inv :: "('c \<times> mem \<Rightarrow> string \<rightharpoonup> nat) \<Rightarrow> ('p, 'c, 'd, 'i) server \<Rightarrow> bool" where
  "server_inv table sv \<longleftrightarrow>
     wf_registry (table (sv_node sv)) (snd (sv_node sv))
     \<and> net GaugeSessions (gauges (snd (sv_node sv))) = int (card (dom (table (sv_node sv))))
     \<and> finite (dom (sv_conns sv)) \<and> net GaugeClients (gauges (snd (sv_node sv))) = int (card (open_conns sv))
     \<and> finite (dom (sv_proxies sv)) \<and> net GaugeProxyClients (gauges (snd (sv_node sv))) = int (card (dom (sv_proxies sv)))"

lemma finite_open_conns: "finite (dom (sv_conns sv)) \<Longrightarrow> finite (open_conns sv)"
  by (erule rev_finite_subset) (auto simp: open_conns_def)

lemma open_conns_put:
  "open_conns (put_conn i ph g sv) = (if ph \<le> Disconnected then insert i (open_conns sv) else open_conns sv - {i})"
  by (auto simp: open_conns_def put_conn_def split: if_splits)

lemma open_conns_node [simp]:
  "open_conns (sv\<lparr>sv_node := n\<rparr>) = open_conns sv" "open_conns (sv\<lparr>sv_node := n, sv_proxies := q\<rparr>) = open_conns sv"
  by (simp_all add: open_conns_def)

lemma put_conn_simps [simp]:
  "sv_node (put_conn i ph g sv) = js_node g" "sv_proxies (put_conn i ph g sv) = sv_proxies sv"
  "sv_conns (put_conn i ph g sv) = (sv_conns sv)(i \<mapsto> (ph, g))"
  by (simp_all add: put_conn_def)

lemma on_node_simps [simp]:
  "js_node (on_node sv g) = sv_node sv" "js_peer (on_node sv g) = js_peer g"
  "js_listening (on_node sv g) = js_listening g" "js_sid (on_node sv g) = js_sid g"
  by (simp_all add: on_node_def)

context coordinator_contract
begin

text \<open>A step of the registry, with a gauge of the server counted or not.\<close>

lemma reach_count:
  assumes "registry_reach get onClosed table snd n n1"
    and "wf_registry (table n) (snd n)" and "net GaugeSessions (gauges (snd n)) = int (card (dom (table n)))"
  shows "wf_registry (table n1) (snd n1)" and "net GaugeSessions (gauges (snd n1)) = int (card (dom (table n1)))"
    and "net GaugeClients (gauges (snd n1)) = net GaugeClients (gauges (snd n))"
    and "net GaugeProxyClients (gauges (snd n1)) = net GaugeProxyClients (gauges (snd n))"
  using reach_registry [OF assms] reach_other_gauge [OF assms(1)] by simp_all

lemma reach_admit:
  assumes "admit jwtParse urlOk \<lparr>sg_c = C, sg_config = conf\<rparr> r n = (res, n')"
  shows "registry_reach get onClosed table snd n n'"
  using admit_node [of jwtParse urlOk "\<lparr>sg_c = C, sg_config = conf\<rparr>" r n] assms
    reach_ask [OF registry_reach.start, of n "hr_id r"] registry_reach.start
  by auto

lemma reach_peer_Close:
  assumes "closes_via_callback P onClosed table" and "peer_Close P onClosed p n = (p', n')"
  shows "registry_reach get onClosed table snd n n'"
  using assms unfolding closes_via_callback_def
  by (metis registry_reach.close registry_reach.start)

lemma reach_ice:
  assumes "se_coord S = C" and "closes_via_callback (se_peer S) onClosed table"
  shows "registry_reach get onClosed table snd (js_node g) (js_node (OnICEConnectionStateChange S onClosed st g))"
  using reach_peer_Close [OF assms(2)] registry_reach.start
  by (auto simp: OnICEConnectionStateChange_def split: prod.split)

lemma reach_listener_recv:
  assumes "listener_recv ch g = Some g'"
  shows "registry_reach get onClosed table snd (js_node g) (js_node g')"
proof (rule registry_reach.other [OF registry_reach.start])
  obtain c' where n': "js_node g' = apsnd (\<lambda>m. m\<lparr>chans := (chans m)(ch \<mapsto> c')\<rparr>) (js_node g)"
    using assms by (auto simp: listener_recv_def split: option.splits prod.splits)
  then show "table (js_node g') = table (js_node g)" by (intro table_coord) simp
  show "frame_mem (snd (js_node g)) (snd (js_node g'))" using n' by (simp add: frame_mem_def)
qed

lemma reach_listener_stop:
  "registry_reach get onClosed table snd (js_node g) (js_node (listener_stop S l g))"
proof (rule registry_reach.other [OF registry_reach.start])
  show "table (js_node (listener_stop S l g)) = table (js_node g)"
    by (intro table_coord) (simp add: listener_stop_def Let_def)
  show "frame_mem (snd (js_node g)) (snd (js_node (listener_stop S l g)))"
    by (simp add: frame_mem_def listener_stop_def Let_def)
qed

lemma reach_conn_step:
  assumes S: "se_coord S = C" and P: "joins_via_provider (se_peer S)" "closes_via_callback (se_peer S) onClosed table"
    and "conn_step S onClosed ev g = (Ret (), g')"
  shows "registry_reach get onClosed table snd (js_node g) (js_node g')"
proof (cases ev)
  case (Incoming req)
  then show ?thesis
    using assms(4) reach_Handle [OF S P(1) registry_reach.start, of g req] by (simp add: conn_step_def)
next
  case (PeerICEState st)
  then show ?thesis using assms(4) reach_ice [OF S P(2), of g st] by (simp add: conn_step_def)
next
  case (ListenerReady ch)
  then show ?thesis using assms(4) reach_listener_recv [of ch g g']
    by (auto simp: conn_step_def split: option.splits)
qed (use assms(4) registry_reach.start in
    \<open>auto simp: conn_step_def OnOffer_def OnIceCandidate_def split: if_splits\<close>)

lemma inv_gauge:
  assumes "server_inv table sv"
  shows "wf_registry (table (apsnd (gauge_op c) (sv_node sv))) (snd (apsnd (gauge_op c) (sv_node sv)))"
    and "table (apsnd (gauge_op c) n) = table n"
  using assms table_coord [of "apsnd (gauge_op c) (sv_node sv)" "sv_node sv"]
    table_coord [of "apsnd (gauge_op c) n" n]
  by (simp_all add: server_inv_def)

text \<open>A step that only moves the node inside the registry's histories keeps the invariant.\<close>

lemma inv_same_conns:
  assumes inv: "server_inv table sv" and reach: "registry_reach get onClosed table snd (sv_node sv) n'"
    and "sv_node sv' = n'" and "open_conns sv' = open_conns sv" and "finite (dom (sv_conns sv'))"
    and "sv_proxies sv' = sv_proxies sv"
  shows "server_inv table sv'"
  using inv assms(3-6) reach_count [OF reach] by (simp add: server_inv_def)

lemma inv_put_same:
  assumes inv: "server_inv table sv" and i: "sv_conns sv i = Some (ph, g)" and ph: "ph' \<le> Disconnected \<longleftrightarrow> ph \<le> Disconnected"
    and reach: "registry_reach get onClosed table snd (sv_node sv) (js_node g')"
  shows "server_inv table (put_conn i ph' g' sv)"
proof (rule inv_same_conns [OF inv reach])
  show "open_conns (put_conn i ph' g' sv) = open_conns sv"
    using i ph by (auto simp: open_conns_put) (auto simp: open_conns_def)
qed (use inv in \<open>simp_all add: server_inv_def\<close>)

lemma inv_proxy:
  assumes inv: "server_inv table sv" and reach: "registry_reach get onClosed table snd (sv_node sv) n'"
    and fresh: "sv_proxies sv i = None"
  shows "server_inv table (sv\<lparr>sv_node := apsnd (gauge_op (Inc GaugeProxyClients)) n',
    sv_proxies := (sv_proxies sv)(i \<mapsto> e)\<rparr>)"
  using inv reach_count [OF reach] card_dom_fresh [of "sv_proxies sv" i e] fresh inv_gauge(2) [OF inv]
  by (auto simp: server_inv_def gauge_op_def wf_registry_gauge [unfolded gauge_op_def] finite_dom_upd
      simp del: dom_fun_upd)

lemma inv_proxy_done:
  assumes inv: "server_inv table sv" and i: "sv_proxies sv i = Some e"
  shows "server_inv table (sv\<lparr>sv_node := apsnd (gauge_op (Dec GaugeProxyClients)) (sv_node sv),
    sv_proxies := (sv_proxies sv)(i := None)\<rparr>)"
proof -
  have fin: "finite (dom (sv_proxies sv))" using inv by (simp add: server_inv_def)
  then have "int (card (dom (sv_proxies sv)) - 1) = int (card (dom (sv_proxies sv))) - 1"
    using card_dom_pos [OF fin i] by (simp add: of_nat_diff)
  then show ?thesis
    using inv card_dom_delete [OF fin i] inv_gauge [OF inv]
    by (auto simp: server_inv_def gauge_op_def wf_registry_gauge [unfolded gauge_op_def] finite_dom_upd
      simp del: dom_fun_upd)
qed

lemma inv_accept:
  assumes inv: "server_inv table sv" and reach: "registry_reach get onClosed table snd (sv_node sv) n'"
    and fresh: "sv_conns sv i = None" and g: "accept_conn None peer n' = Ret g"
  shows "server_inv table (put_conn i Served g sv)"
proof -
  have node: "js_node g = apsnd (gauge_op (Inc GaugeClients)) n'" using g by (auto simp: accept_conn_def)
  have "i \<notin> open_conns sv" using fresh by (simp add: open_conns_def)
  moreover have "finite (open_conns sv)" using inv by (simp add: server_inv_def finite_open_conns)
  ultimately have "card (open_conns (put_conn i Served g sv)) = Suc (card (open_conns sv))"
    by (simp add: open_conns_put)
  then show ?thesis
    using inv reach_count [OF reach] node inv_gauge(2) [OF inv]
    by (auto simp: server_inv_def gauge_op_def wf_registry_gauge [unfolded gauge_op_def])
qed

lemma inv_count:
  assumes inv: "server_inv table sv" and i: "sv_conns sv i = Some (Disconnected, g)"
  shows "server_inv table (put_conn i CountedOut (count_out (on_node sv g)) sv)"
proof -
  have "i \<in> open_conns sv" using i by (simp add: open_conns_def)
  moreover have fin: "finite (open_conns sv)" using inv by (simp add: server_inv_def finite_open_conns)
  ultimately have "int (card (open_conns sv - {i})) = int (card (open_conns sv)) - 1"
    by (metis card_Suc_Diff1 add_diff_cancel_left' of_nat_Suc plus_1_eq_Suc)
  then show ?thesis
    using inv inv_gauge [OF inv, of "Dec GaugeClients"]
    by (auto simp: server_inv_def open_conns_put gauge_op_def count_out_def)
qed

lemma inv_close:
  assumes inv: "server_inv table sv" and i: "sv_conns sv i = Some (CountedOut, g)"
    and P: "closes_via_callback (se_peer S) onClosed table"
  shows "server_inv table (put_conn i Returned (close_conn S onClosed (on_node sv g)) sv)"
proof (rule inv_put_same [OF inv i])
  show "registry_reach get onClosed table snd (sv_node sv) (js_node (close_conn S onClosed (on_node sv g)))"
    using reach_peer_Close [OF P] by (simp add: close_conn_def split: prod.split)
qed simp

lemma server_step_inv:
  assumes step: "server_step jwtParse urlOk S onClosed conf sv sv'" and inv: "server_inv table sv"
    and S: "se_coord S = C" and P: "joins_via_provider (se_peer S)" "closes_via_callback (se_peer S) onClosed table"
  shows "server_inv table sv'"
  using step
proof cases
  case (refuse r res n')
  with inv S show ?thesis
    by (intro inv_same_conns [OF inv reach_admit]) (auto simp: server_inv_def)
next
  case (proxy r e n' i)
  with S show ?thesis using inv_proxy [OF inv reach_admit] by metis
next
  case (proxy_done i e)
  then show ?thesis using inv_proxy_done [OF inv] by simp
next
  case (upgrade_fails r n')
  with inv S show ?thesis
    by (intro inv_same_conns [OF inv reach_admit]) (auto simp: server_inv_def)
next
  case (accept r n' i peer g)
  with S show ?thesis using inv_accept [OF inv reach_admit] by metis
next
  case (event i ph g ev g')
  then show ?thesis using inv_put_same [OF inv event(2)] reach_conn_step [OF S P event(3)] by simp
next
  case (disconnect i g)
  then show ?thesis
    using inv_put_same [OF inv disconnect(2), of Disconnected "on_node sv g"]
    by (simp add: registry_reach.start)
next
  case (count i g)
  then show ?thesis using inv_count [OF inv count(2)] by simp
next
  case (close i g)
  then show ?thesis using inv_close [OF inv close(2) P(2)] by simp
next
  case (listener_stops i ph g l)
  then show ?thesis
    using inv_put_same [OF inv listener_stops(2)] reach_listener_stop [of "on_node sv g" S l] by simp
qed

lemma server_reach_inv:
  assumes "server_reach jwtParse urlOk S onClosed conf n0 sv"
    and "wf_registry (table n0) (snd n0)" and "net GaugeSessions (gauges (snd n0)) = int (card (dom (table n0)))"
    and "net GaugeClients (gauges (snd n0)) = 0" and "net GaugeProxyClients (gauges (snd n0)) = 0"
    and "se_coord S = C" and "joins_via_provider (se_peer S)" and "closes_via_callback (se_peer S) onClosed table"
  shows "server_inv table sv"
  using assms
proof (induction rule: server_reach.induct)
  case start
  then show ?case by (simp add: server_inv_def open_conns_def)
next
  case (step sv sv')
  then show ?case using server_step_inv by blast
qed

end

section \<open>The advertised scheme\<close>

text \<open>
  The endpoint a node gives to the cluster has the scheme of the listener it starts:
  \<open>wss\<close> exactly when the server listens with TLS, on the same listen address.
\<close>

lemma endpoint_scheme_matches_listener:
  assumes "Endpoint c = Ret ep"
  shows "(if \<exists>cert key. start_listener (Signal c) = ListenAndServeTLS (HTTPAddr (Signal c)) cert key
          then \<exists>rest. ep = ''wss://'' @ rest
          else start_listener (Signal c) = ListenAndServe (HTTPAddr (Signal c)) \<and> (\<exists>rest. ep = ''ws://'' @ rest))"
  using assms by (auto simp: Endpoint_def start_listener_def split: list.splits)

end
