(* ===== verification/Instances.thy ===== *)
theory Instances
  imports Cluster_Homes Server
begin

text \<open>
  Concrete instances of the parameters: an etcd service that keeps its entries in a map, a
  JWT parser, a peer and decoders of the WebRTC types. Each is proved to have the documented
  behaviour that the theorems assume of the third-party code, so the hypotheses of the
  theorems can hold together.
\<close>

section \<open>An etcd service\<close>

definition map_etcd :: "(string \<rightharpoonup> string) etcd" where
  "map_etcd =
     \<lparr>NewConcSession = \<lambda>w. (Inr 0, w), MutexLock = \<lambda>s k w. (None, w), MutexUnlock = \<lambda>s k w. w,
      KvGet = \<lambda>k w. (Inr (case w k of None \<Rightarrow> \<lparr>Count = 0, Kvs = []\<rparr> | Some v \<Rightarrow> \<lparr>Count = 1, Kvs = [v]\<rparr>), w),
      Grant = \<lambda>t w. (Inr 7, w), KeepAlive = \<lambda>l w. ((None, True), w),
      KvPut = \<lambda>k v l w. (Ret (), w(k \<mapsto> v)), KvDelete = \<lambda>k w. (None, w(k := None)),
      leaseCancel = \<lambda>l w. w, ctxDone = \<lambda>w. w\<rparr>"

lemma map_etcd_laws: "etcd_laws map_etcd id"
  by (simp add: etcd_laws_def law_get_def law_put_def law_delete_def law_quiet_def map_etcd_def)

lemma map_etcd_up: "etcd_up map_etcd"
  by (simp add: etcd_up_def map_etcd_def)

text \<open>A service that is down: nothing can be started on it.\<close>

definition down_etcd :: "(string \<rightharpoonup> string) etcd" where
  "down_etcd = map_etcd\<lparr>NewConcSession := \<lambda>w. (Inl ''context deadline exceeded'', w)\<rparr>"

lemma down_etcd_laws: "etcd_laws down_etcd id"
  using map_etcd_laws by (simp add: etcd_laws_def law_get_def law_put_def law_delete_def law_quiet_def down_etcd_def)

section \<open>A configuration and coordinators\<close>

definition demo_conf :: RootConfig where
  "demo_conf =
     \<lparr>Signal = \<lparr>FQDN = ''a.example'', Key = [], Cert = [], HTTPAddr = '':7000'', GRPCAddr = [],
                Auth = \<lparr>Enabled = True, auth_Key = ''k'', KeyType = []\<rparr>\<rparr>,
      SFU = \<lparr>BufferFactory = None, MaxPacketTrack = 500, ICEPortRange = [], NAT1To1IPs = [],
             Ballast = 0, TurnEnabled = False\<rparr>,
      Coordinator = \<lparr>Local = Some \<lparr>local_Enabled = True\<rparr>, Etcd = None\<rparr>\<rparr>"

definition demo_local :: localCoordinator where
  "demo_local =
     \<lparr>lc_nodeID = ''node'', lc_nodeEndpoint = ''ws://a.example:7000/ws'',
      lc_w = NewWebRTCTransportConfig (default_buffers (SFU demo_conf)), lc_sessions = Map.empty,
      lc_datachannels = [api_datachannel ''ion-sfu'']\<rparr>"

lemma demo_local_new: "newCoordinatorLocal ''ion-sfu'' ''node'' demo_conf = Ret demo_local"
  by (simp add: newCoordinatorLocal_def demo_conf_def demo_local_def default_buffers_def Endpoint_def uses_tls_def)

definition demo_etcd_node :: "string \<Rightarrow> etcdCoordinator" where
  "demo_etcd_node name =
     \<lparr>ec_nodeID = name, ec_nodeEndpoint = ''ws://'' @ name @ '':7000/ws'',
      ec_w = NewWebRTCTransportConfig (default_buffers (SFU demo_conf)),
      ec_datachannels = [api_datachannel ''ion-sfu''], localSessions = Map.empty, sessionLeases = Map.empty\<rparr>"

lemma utf8_demo: "utf8_node (demo_etcd_node ''n1'')" "utf8_node (demo_etcd_node ''n2'')"
  by (simp_all add: utf8_node_def demo_etcd_node_def utf8_len_def byte_def)

lemma good_demo: "good_sid ''room''" "good_sid ''hall''"
  by (simp_all add: good_sid_def slash_free_def utf8_len_def byte_def)

section \<open>A peer, its wire format, a token parser\<close>

text \<open>Descriptions and candidates are JSON values as they are; a peer is its id.\<close>

definition demo_wire :: "(json, json) wire" where
  "demo_wire = \<lparr>zero_desc = JNull, dec_desc = \<lambda>j _. Some j, zero_cand = JNull, dec_cand = \<lambda>j _. Some j\<rparr>"

definition demo_peer :: "(string, 'c, json, json) sfu_peer" where
  "demo_peer =
     \<lparr>peer_Join = \<lambda>gs sid uid p n. (None, uid, snd (gs sid n)),
      peer_Answer = \<lambda>d p. (Inr d, p),
      peer_SetRemoteDescription = \<lambda>d p. (None, p),
      peer_Trickle = \<lambda>i t p. (None, p),
      peer_Close = \<lambda>f p n. (p, n),
      peer_ID = id\<rparr>"

lemma demo_peer_laws: "joins_via_provider demo_peer" "closes_via_callback demo_peer onClosed table"
  by (simp_all add: joins_via_provider_def closes_via_callback_def demo_peer_def)

definition demo_sess :: sess_env where
  "demo_sess = \<lparr>rangeOrder = rev, deepcopy = id, podName = ''pod-0''\<rparr>"

lemma demo_sess_permutes: "range_permutes demo_sess"
  by (simp add: range_permutes_def demo_sess_def)

definition demo_env :: "'c coordinator \<Rightarrow> (string, 'c, json, json) sig_env" where
  "demo_env c = \<lparr>se_sess = demo_sess, se_coord = c, se_peer = demo_peer, se_wire = demo_wire\<rparr>"

lemma demo_env_simps [simp]:
  "se_sess (demo_env c) = demo_sess" "se_coord (demo_env c) = c" "se_peer (demo_env c) = demo_peer"
  "se_wire (demo_env c) = demo_wire"
  by (simp_all add: demo_env_def)

text \<open>A parser that accepts a token that is the name of the session.\<close>

definition demo_jwt :: "unit jwt_parser" where
  "demo_jwt tok kf =
     (if tok = [] then Inl ''token contains an invalid number of segments''
      else Inr \<lparr>SID = tok, StandardClaims = None\<rparr>)"

lemma demo_jwt_checks: "jwt_checks_claims (\<lambda>_. None) demo_jwt"
  by (simp add: jwt_checks_claims_def demo_jwt_def authToken_Valid_def)

section \<open>Two nodes and a session\<close>

definition room_entry :: "string \<Rightarrow> string \<rightharpoonup> string" where
  "room_entry name = [session_key ''room'' \<mapsto> marshal_meta (own_meta (demo_etcd_node name) ''room'')]"

lemma demo_claim:
  "etcd_getOrCreateSession map_etcd ''room'' ((demo_etcd_node name, Map.empty), m) =
    (Ret (own_meta (demo_etcd_node name) ''room''),
     (((demo_etcd_node name)\<lparr>sessionLeases := [''room'' \<mapsto> 7]\<rparr>, room_entry name), m))"
  by (simp add: etcd_getOrCreateSession_def take_session_def map_etcd_def room_entry_def Let_def)
    (simp add: own_meta_def demo_etcd_node_def)

definition demo_cluster :: "(string \<rightharpoonup> string) cluster" where
  "demo_cluster =
     \<lparr>cl_node = (\<lambda>i. demo_etcd_node (if i = 0 then ''n1'' else ''n2'')), cl_world = Map.empty,
      cl_given = (\<lambda>_. {}), cl_made = (\<lambda>_. {})\<rparr>"

lemma demo_cluster_reach: "cluster_reach map_etcd id demo_cluster"
proof -
  have "cluster_init id demo_cluster" using utf8_demo by (simp add: cluster_init_def demo_cluster_def)
  then show ?thesis unfolding cluster_reach_def by blast
qed

lemma demo_cluster_claim:
  "etcd_getOrCreateSession map_etcd ''room'' ((cl_node demo_cluster i, cl_world demo_cluster), mem0) =
    (Ret (own_meta (cl_node demo_cluster i) ''room''),
     (((cl_node demo_cluster i)\<lparr>sessionLeases := [''room'' \<mapsto> 7]\<rparr>,
       room_entry (if i = 0 then ''n1'' else ''n2'')), mem0))"
  by (simp add: demo_cluster_def demo_claim)

lemma owner_of_demo [simp]: "cl_node demo_cluster 0 = demo_etcd_node ''n1''"
  by (simp add: demo_cluster_def)

lemma found_demo:
  "etcd_getOrCreateSession map_etcd ''room'' ((demo_etcd_node ''n2'', room_entry ''n1''), m) =
    (Ret ((own_meta (demo_etcd_node ''n1'') ''room'')\<lparr>Redirect := True\<rparr>),
     ((demo_etcd_node ''n2'', room_entry ''n1''), m))"
proof -
  have "unmarshal_meta (marshal_meta (own_meta (demo_etcd_node ''n1'') ''room''))
      = Some (own_meta (demo_etcd_node ''n1'') ''room'')"
    using unmarshal_own [OF utf8_demo(1)] good_demo by (simp add: good_sid_def)
  then show ?thesis
    by (simp add: etcd_getOrCreateSession_def map_etcd_def room_entry_def Let_def found_session_def)
      (simp add: own_meta_def demo_etcd_node_def)
qed

section \<open>A server with one connection, and one that proxies\<close>

definition room_request :: http_req where
  "room_request = \<lparr>hr_id = ''room'', hr_query = [''access_token'' \<mapsto> [''room'']]\<rparr>"

definition demo_node :: "localCoordinator \<times> mem" where
  "demo_node = snd (local_getOrCreateSession ''room'' (demo_local, mem0))"

lemma room_admitted:
  "check_token demo_jwt (Signal demo_conf) room_request = None"
  "admit demo_jwt (\<lambda>_. True) \<lparr>sg_c = local_coordinator, sg_config = Signal demo_conf\<rparr> room_request (demo_local, mem0)
    = (Ret UpgradeHere, demo_node)"
proof -
  show tok: "check_token demo_jwt (Signal demo_conf) room_request = None"
    by (simp add: check_token_def authGetAndValidateToken_def demo_jwt_def room_request_def)
  have "getOrCreateSession local_coordinator ''room'' (demo_local, mem0)
    = (Ret \<lparr>SessionID = ''room'', NodeID = ''node'', NodeEndpoint = ''ws://a.example:7000/ws'', Redirect = False\<rparr>, demo_node)"
    using local_getOrCreateSession_result(1) [of "''room''" "(demo_local, mem0)"]
    by (simp add: local_coordinator_def demo_node_def prod_eq_iff) (simp add: demo_local_def)
  then show "admit demo_jwt (\<lambda>_. True) \<lparr>sg_c = local_coordinator, sg_config = Signal demo_conf\<rparr> room_request (demo_local, mem0)
    = (Ret UpgradeHere, demo_node)"
    by (simp add: admit_def tok) (simp add: room_request_def)
qed

definition demo_conn :: "(string, localCoordinator, json, json) signal" where
  "demo_conn =
     \<lparr>js_peer = [], js_sid = [], js_hooks = False, js_listening = [], js_out = [],
      js_node = apsnd (gauge_op (Inc GaugeClients)) demo_node\<rparr>"

definition demo_server :: "(string, localCoordinator, json, json) server" where
  "demo_server =
     put_conn 0 Served demo_conn \<lparr>sv_node = (demo_local, mem0), sv_conns = Map.empty, sv_proxies = Map.empty\<rparr>"

lemma demo_server_reach:
  "server_reach demo_jwt (\<lambda>_. True) (demo_env local_coordinator) local_onSessionClosed (Signal demo_conf)
    (demo_local, mem0) demo_server"
  unfolding demo_server_def
proof (rule server_reach.step [OF server_reach.start], rule server_step.accept)
  show "admit demo_jwt (\<lambda>_. True) \<lparr>sg_c = se_coord (demo_env local_coordinator), sg_config = Signal demo_conf\<rparr>
      room_request (sv_node \<lparr>sv_node = (demo_local, mem0), sv_conns = Map.empty, sv_proxies = Map.empty\<rparr>)
    = (Ret UpgradeHere, demo_node)"
    by (simp add: room_admitted)
  show "accept_conn None [] demo_node = Ret demo_conn" by (simp add: accept_conn_def demo_conn_def)
qed simp

lemma demo_server_sets:
  "open_conns demo_server = {0}" "sv_proxies demo_server = Map.empty"
  "dom (lc_sessions (fst (sv_node demo_server))) = {''room''}"
  by (auto simp: open_conns_def demo_server_def demo_conn_def demo_node_def put_conn_def
      local_getOrCreateSession_def local_ensureSession_def demo_local_def new_session_def Let_def split: if_splits)

definition demo_etcd_conf :: RootConfig where
  "demo_etcd_conf = demo_conf\<lparr>Signal := (Signal demo_conf)\<lparr>FQDN := ''n2''\<rparr>,
     Coordinator := \<lparr>Local = None, Etcd = Some \<lparr>etcd_Enabled = True, Hosts = [''e:2379'']\<rparr>\<rparr>\<rparr>"

lemma demo_etcd_new:
  "newCoordinatorEtcd (\<lambda>_. Inr (room_entry ''n1'')) ''ion-sfu'' ''n2'' \<lparr>etcd_Enabled = True, Hosts = [''e:2379'']\<rparr>
    demo_etcd_conf = Ret (demo_etcd_node ''n2'', room_entry ''n1'')"
  by (simp add: newCoordinatorEtcd_def demo_etcd_conf_def demo_conf_def demo_etcd_node_def
      default_buffers_def Endpoint_def uses_tls_def)

definition room_at_n1 :: string where
  "room_at_n1 = ''ws://n1:7000/ws/session/room''"

lemma room_proxied:
  "admit demo_jwt (\<lambda>_. True) \<lparr>sg_c = etcd_coordinator map_etcd, sg_config = Signal demo_etcd_conf\<rparr> room_request
      ((demo_etcd_node ''n2'', room_entry ''n1''), mem0)
    = (Ret (ProxyTo room_at_n1), ((demo_etcd_node ''n2'', room_entry ''n1''), mem0))"
proof -
  have "check_token demo_jwt (Signal demo_etcd_conf) room_request = None"
    by (simp add: check_token_def authGetAndValidateToken_def demo_jwt_def room_request_def)
  then show ?thesis
    using found_demo [of mem0]
    by (simp add: admit_def etcd_coordinator_def room_request_def)
      (simp add: proxy_endpoint_def own_meta_def demo_etcd_node_def room_at_n1_def)
qed

definition demo_proxying :: "(string, etcdCoordinator \<times> (string \<rightharpoonup> string), json, json) server" where
  "demo_proxying =
     \<lparr>sv_node = apsnd (gauge_op (Inc GaugeProxyClients)) ((demo_etcd_node ''n2'', room_entry ''n1''), mem0),
      sv_conns = Map.empty, sv_proxies = [0 \<mapsto> room_at_n1]\<rparr>"

lemma demo_proxying_reach:
  "server_reach demo_jwt (\<lambda>_. True) (demo_env (etcd_coordinator map_etcd)) (etcd_onSessionClosed map_etcd)
    (Signal demo_etcd_conf) ((demo_etcd_node ''n2'', room_entry ''n1''), mem0) demo_proxying"
proof -
  let ?sv = "\<lparr>sv_node = ((demo_etcd_node ''n2'', room_entry ''n1''), mem0), sv_conns = Map.empty,
    sv_proxies = Map.empty\<rparr>"
  have "server_step demo_jwt (\<lambda>_. True) (demo_env (etcd_coordinator map_etcd)) (etcd_onSessionClosed map_etcd)
    (Signal demo_etcd_conf) ?sv demo_proxying"
    using server_step.proxy [of demo_jwt "\<lambda>_. True" "demo_env (etcd_coordinator map_etcd)" "Signal demo_etcd_conf"
        room_request ?sv room_at_n1 "((demo_etcd_node ''n2'', room_entry ''n1''), mem0)" 0 "etcd_onSessionClosed map_etcd"]
    by (simp add: room_proxied demo_proxying_def)
  then show ?thesis by (rule server_reach.step [OF server_reach.start])
qed

lemma demo_proxying_sets:
  "open_conns demo_proxying = {}" "dom (sv_proxies demo_proxying) = {0}"
  "localSessions (fst (fst (sv_node demo_proxying))) = Map.empty"
  by (simp_all add: open_conns_def demo_proxying_def demo_etcd_node_def)

section \<open>A cluster in which the first node owns the session\<close>

definition owned_cluster :: "(string \<rightharpoonup> string) cluster" where
  "owned_cluster = demo_cluster\<lparr>cl_node := (cl_node demo_cluster)(0 := (demo_etcd_node ''n1'')\<lparr>sessionLeases := [''room'' \<mapsto> 7]\<rparr>),
     cl_world := room_entry ''n1'', cl_given := (\<lambda>_. {})(0 := {''room''})\<rparr>"

lemma owned_cluster_reach: "cluster_reach map_etcd id owned_cluster"
proof -
  have "cluster_step map_etcd id demo_cluster owned_cluster"
    using cluster_step.ask [OF good_demo(1) demo_cluster_claim [of 0], of id]
    by (simp add: owned_cluster_def put_node_def gives_def own_meta_def) (simp add: demo_cluster_def)
  moreover obtain c0 where "cluster_init id c0" "(cluster_step map_etcd id)\<^sup>*\<^sup>* c0 demo_cluster"
    using demo_cluster_reach unfolding cluster_reach_def by blast
  ultimately show ?thesis unfolding cluster_reach_def by (meson rtranclp.rtrancl_into_rtrancl)
qed

lemma owned_cluster_node: "cl_node owned_cluster (Suc 0) = demo_etcd_node ''n2''" "ec_nodeID (demo_etcd_node ''n2'') = ''n2''"
  by (simp_all add: owned_cluster_def demo_cluster_def demo_etcd_node_def)

lemma owned_cluster_owner: "directory_of (cl_world owned_cluster) ''room'' = Some (''n1'', ''ws://n1:7000/ws'')"
  using unmarshal_own [OF utf8_demo(1)] good_demo
  by (simp add: directory_of_def owned_cluster_def room_entry_def good_sid_def self_owner_def)
    (simp add: demo_etcd_node_def)

section \<open>A join request\<close>

definition join_room :: "nat \<Rightarrow> rpc_req" where
  "join_room n = \<lparr>rq_ID = n, rq_Method = ''join'',
     rq_Params = Some (JObj [(''sid'', JStr ''room''), (''uid'', JStr ''alice''), (''offer'', JStr ''sdp'')])\<rparr>"

definition idle_conn :: "'c \<times> mem \<Rightarrow> (string, 'c, json, json) signal" where
  "idle_conn n = \<lparr>js_peer = [], js_sid = [], js_hooks = False, js_listening = [], js_out = [], js_node = n\<rparr>"

lemma join_room_decodes:
  "unmarshal_Join demo_wire (JObj [(''sid'', JStr ''room''), (''uid'', JStr ''alice''), (''offer'', JStr ''sdp'')])
    = Some \<lparr>join_SID = ''room'', join_UID = ''alice'', join_Offer = JStr ''sdp''\<rparr>"
  by (simp add: unmarshal_Join_def join_fields_def decode_struct_def select_field_def dec_string_def demo_wire_def)

definition room_join :: "json Join" where
  "room_join = \<lparr>join_SID = ''room'', join_UID = ''alice'', join_Offer = JStr ''sdp''\<rparr>"

definition room_params :: json where
  "room_params = JObj [(''sid'', JStr ''room''), (''uid'', JStr ''alice''), (''offer'', JStr ''sdp'')]"

lemma demo_fields [simp]:
  "rq_ID (join_room n) = n" "rq_Method (join_room n) = ''join''" "rq_Params (join_room n) = Some room_params"
  "join_SID room_join = ''room''" "join_UID room_join = ''alice''" "join_Offer room_join = JStr ''sdp''"
  "unmarshal_Join demo_wire room_params = Some room_join"
  "js_node (idle_conn nd) = nd" "js_peer (idle_conn nd) = []" "js_out (idle_conn nd) = []"
  "js_listening (idle_conn nd) = []" "js_sid (idle_conn nd) = []"
  "peer_Join demo_peer gs sid uid p nd = (None, uid, snd (gs sid nd))" "peer_Answer demo_peer d p = (Inr d, p)"
  "peer_ID demo_peer p = p"
  by (simp_all add: join_room_def room_params_def room_join_def join_room_decodes idle_conn_def demo_peer_def)

lemma utf8_room_meta: "utf8_meta ((own_meta (demo_etcd_node ''n1'') ''room'')\<lparr>Redirect := True\<rparr>)"
  using utf8_demo(1) good_demo(1) by (simp add: utf8_meta_def utf8_node_def good_sid_def own_meta_def)

lemma demo_local_empty: "lc_sessions demo_local = Map.empty"
  by (simp add: demo_local_def)

lemma demo_joined:
  "lc_sessions (fst (js_node (snd (Handle (demo_env local_coordinator) (join_room 1) (idle_conn (demo_local, mem0)))))) ''room'' = Some 0"
  by (simp add: Handle_def with_params_def handle_join_def join_room_def join_room_decodes idle_conn_def
      local_coordinator_def local_getOrCreateSession_def local_GetSession_def local_ensureSession_def demo_peer_def
      join_listen_def new_session_def gauge_op_def mem0_def demo_local_def Let_def new_chan_def)

section \<open>A connection that has joined\<close>

definition set_empty :: rpc_req where
  "set_empty = \<lparr>rq_ID = 2, rq_Method = ''presence_set'', rq_Params = Some (JObj [])\<rparr>"

definition joined_conn :: "(string, localCoordinator, json, json) signal" where
  "joined_conn = snd (Handle (demo_env local_coordinator) (join_room 1) (idle_conn (demo_local, mem0)))"

lemma joined_conn_state:
  "js_sid joined_conn = ''room''" "js_peer joined_conn = ''alice''"
  "lc_sessions (fst (js_node joined_conn)) ''room'' = Some 0"
  "heap (snd (js_node joined_conn)) 0
    = Some (BroadcastAddListener ''alice'' 0 (NewSession ''room'' (lc_datachannels demo_local) (lc_w demo_local)))"
  "chans (snd (js_node joined_conn)) 0 = Some (make_chan 32)"
  "wf_mem (snd (js_node joined_conn))"
  "gauges (snd (js_node joined_conn)) = [Inc GaugeSessions]"
proof -
  have conn: "joined_conn = join_listen (demo_env local_coordinator) (join_room 1) ''room'' (JStr ''sdp'')
    ((idle_conn (demo_local, mem0))\<lparr>js_peer := ''alice'',
      js_node := snd (local_GetSession ''room'' (snd (local_getOrCreateSession ''room'' (demo_local, mem0))))\<rparr>)"
    using local_getOrCreateSession_result(1) [of "''room''" "(demo_local, mem0)"]
    by (auto simp: joined_conn_def Handle_def with_params_def handle_join_def local_coordinator_def split: prod.splits)
  have node: "snd (local_GetSession ''room'' (snd (local_getOrCreateSession ''room'' (demo_local, mem0))))
    = (demo_local\<lparr>lc_sessions := [''room'' \<mapsto> 0]\<rparr>,
       \<lparr>heap = [0 \<mapsto> NewSession ''room'' (lc_datachannels demo_local) (lc_w demo_local)], next_session = 1,
        chans = Map.empty, next_chan = 0, gauges = [Inc GaugeSessions]\<rparr>)"
    by (simp add: local_GetSession_def local_getOrCreateSession_def local_ensureSession_def demo_local_empty
        new_session_def gauge_op_def mem0_def Let_def)
  note js = conn [unfolded node join_listen_def]
  show "js_sid joined_conn = ''room''" "js_peer joined_conn = ''alice''"
    by (simp_all add: conn join_listen_def case_prod_beta Let_def)
  show "lc_sessions (fst (js_node joined_conn)) ''room'' = Some 0"
    "heap (snd (js_node joined_conn)) 0
    = Some (BroadcastAddListener ''alice'' 0 (NewSession ''room'' (lc_datachannels demo_local) (lc_w demo_local)))"
    "chans (snd (js_node joined_conn)) 0 = Some (make_chan 32)"
    "gauges (snd (js_node joined_conn)) = [Inc GaugeSessions]"
    by (simp_all add: js local_coordinator_def local_GetSession_def local_ensureSession_def new_chan_def
        mem_AddListener_def)
  have "snd (js_node joined_conn) = mem_AddListener 0 ''alice'' 0 (snd (new_chan 32
      (snd (snd (local_ensureSession ''room'' (demo_local, mem0))))))"
    by (simp add: js local_coordinator_def local_GetSession_def local_ensureSession_def new_chan_def
        demo_local_empty new_session_def gauge_op_def mem0_def)
  moreover have wf: "wf_mem (snd (snd (local_ensureSession ''room'' (demo_local, mem0))))" (is "wf_mem ?m")
    using local_ensure_store(1) [of "(demo_local, mem0)"] by (simp add: wf_mem0 demo_local_empty wf_registry_empty)
  moreover have "next_chan ?m = 0"
    by (simp add: local_ensureSession_def demo_local_empty new_session_def gauge_op_def mem0_def)
  then have "wf_mem (mem_AddListener 0 ''alice'' 0 (snd (new_chan 32 ?m)))"
    using new_chan_fresh [OF wf] wf_new_chan [OF wf] by (intro wf_mem_AddListener) simp_all
  ultimately show "wf_mem (snd (js_node joined_conn))" by simp
qed

section \<open>A join of another session\<close>

definition join_hall :: rpc_req where
  "join_hall = \<lparr>rq_ID = 1, rq_Method = ''join'',
     rq_Params = Some (JObj [(''sid'', JStr ''hall''), (''uid'', JStr ''alice''), (''offer'', JStr ''sdp'')])\<rparr>"

definition hall_join :: "json Join" where
  "hall_join = \<lparr>join_SID = ''hall'', join_UID = ''alice'', join_Offer = JStr ''sdp''\<rparr>"

definition hall_params :: json where
  "hall_params = JObj [(''sid'', JStr ''hall''), (''uid'', JStr ''alice''), (''offer'', JStr ''sdp'')]"

lemma hall_fields:
  "rq_Method join_hall = ''join''" "rq_Params join_hall = Some hall_params" "unmarshal_Join demo_wire hall_params = Some hall_join"
  "join_SID hall_join = ''hall''" "join_UID hall_join = ''alice''" "join_Offer hall_join = JStr ''sdp''"
  by (simp_all add: join_hall_def hall_params_def hall_join_def unmarshal_Join_def join_fields_def decode_struct_def
      select_field_def dec_string_def demo_wire_def)

section \<open>A cluster of any number of nodes, one of which has a session\<close>

definition numbered_node :: "nat \<Rightarrow> etcdCoordinator" where
  "numbered_node i = demo_etcd_node (replicate i CHR ''n'')"

lemma numbered_utf8: "utf8_node (numbered_node i)"
proof -
  have "valid_utf8 (replicate i CHR ''n'')" by (rule valid_utf8_ascii) (auto simp: byte_def)
  moreover have "valid_utf8 (''ws://'' @ replicate i CHR ''n'' @ '':7000/ws'')"
    by (rule valid_utf8_ascii) (auto simp: byte_def)
  ultimately show ?thesis unfolding utf8_node_def numbered_node_def demo_etcd_node_def by simp
qed

lemma numbered_inj: "inj (\<lambda>i. ec_nodeID (numbered_node i))"
  by (rule injI) (metis demo_etcd_node_def etcdCoordinator.select_convs(1) length_replicate numbered_node_def)

definition empty_cluster :: "(string \<rightharpoonup> string) cluster" where
  "empty_cluster = \<lparr>cl_node = numbered_node, cl_world = Map.empty, cl_given = (\<lambda>_. {}), cl_made = (\<lambda>_. {})\<rparr>"

lemma empty_cluster_reach: "cluster_reach map_etcd id empty_cluster"
proof -
  have "cluster_init id empty_cluster" using numbered_utf8 by (simp add: cluster_init_def empty_cluster_def)
  then show ?thesis unfolding cluster_reach_def by blast
qed

text \<open>The first node after a \<open>join\<close>: it has asked for the session and looked it up.\<close>

definition home_entry :: "string \<rightharpoonup> string" where
  "home_entry = [session_key ''room'' \<mapsto> marshal_meta (own_meta (numbered_node 0) ''room'')]"

definition joined_cluster :: "(string \<rightharpoonup> string) cluster" where
  "joined_cluster =
     \<lparr>cl_node = numbered_node(0 := (numbered_node 0)\<lparr>sessionLeases := [''room'' \<mapsto> 7], localSessions := [''room'' \<mapsto> 0]\<rparr>),
      cl_world = home_entry, cl_given = (\<lambda>_. {})(0 := {''room''}), cl_made = (\<lambda>_. {})(0 := {''room''})\<rparr>"

lemma joined_cluster_reach: "cluster_reach map_etcd id joined_cluster"
proof -
  let ?e = "(numbered_node 0)\<lparr>sessionLeases := [''room'' \<mapsto> 7]\<rparr>"
  let ?c1 = "(put_node 0 ?e home_entry empty_cluster)\<lparr>cl_given := (\<lambda>_. {})(0 := {''room''})\<rparr>"
  have call: "etcd_getOrCreateSession map_etcd ''room'' ((cl_node empty_cluster 0, cl_world empty_cluster), mem0)
      = (Ret (own_meta (numbered_node 0) ''room''), ((?e, home_entry), mem0))"
    by (simp add: etcd_getOrCreateSession_def take_session_def map_etcd_def empty_cluster_def home_entry_def Let_def)
      (simp add: own_meta_def numbered_node_def demo_etcd_node_def)
  have "cluster_step map_etcd id empty_cluster ?c1"
    using cluster_step.ask [OF good_demo(1) call, of id] by (simp add: gives_def own_meta_def empty_cluster_def)
  moreover have "cluster_step map_etcd id ?c1 joined_cluster"
  proof -
    obtain m' where look: "etcd_ensureSession ''room'' ((cl_node ?c1 0, cl_world ?c1), mem0)
        = (0, ((?e\<lparr>localSessions := [''room'' \<mapsto> 0]\<rparr>, home_entry), m'))"
      by (simp add: etcd_ensureSession_def new_session_def mem0_def Let_def numbered_node_def demo_etcd_node_def)
    show ?thesis
      using cluster_step.lookup [OF _ look, of map_etcd id]
      by (simp add: joined_cluster_def put_node_def empty_cluster_def)
  qed
  ultimately show ?thesis using empty_cluster_reach unfolding cluster_reach_def by (meson rtranclp.rtrancl_into_rtrancl)
qed

lemma joined_cluster_simps:
  "localSessions (cl_node joined_cluster 0) ''room'' \<noteq> None" "cl_world joined_cluster = home_entry"
  "self_owner (cl_node joined_cluster i) = self_owner (numbered_node i)"
  "directory_of home_entry ''room'' = Some (self_owner (numbered_node 0))"
  using unmarshal_own [OF numbered_utf8, of "''room''" 0] good_demo(1)
  by (simp_all add: joined_cluster_def self_owner_def home_entry_def directory_of_def good_sid_def owner_of_def own_meta_def)

lemma joined_cluster_home: "at_home (cl_node joined_cluster) (directory_of (cl_world joined_cluster))"
proof -
  have room: "sid = ''room'' \<and> i = 0" if "localSessions (cl_node joined_cluster i) sid \<noteq> None" for i sid
    using that by (auto simp: joined_cluster_def numbered_node_def demo_etcd_node_def split: if_splits)
  have "(\<lambda>i. ec_nodeID (cl_node joined_cluster i)) = (\<lambda>i. ec_nodeID (numbered_node i))"
    by (auto simp: joined_cluster_def)
  then show ?thesis
    unfolding at_home_def joined_cluster_simps(2,3) using numbered_inj room joined_cluster_simps(4) by auto
qed

end
