(* ===== verification/End_To_End.thy ===== *)
theory End_To_End
  imports Client Instances
begin

text \<open>
  The client of \<open>pkg/client\<close> and the handler of \<open>pkg/server_jsonrpc.go\<close> joined by a
  JSON-RPC connection. The connection is third-party code: it prints a call, the other side
  parses it, handles it and answers, and the call returns that answer. This documented
  behaviour is \<open>link_laws\<close>, where \<open>srv\<close> is the server side of a connection's state.
\<close>

text \<open>
  The value a call returns for what the handler wrote while it handled the request. An error
  reply comes back as an error of the library with a code and a message; \<open>et\<close> is the text of
  such an error, which is what the client's callers see.
\<close>

definition reply_of :: "('d, 'i) enc_wire \<Rightarrow> (int \<Rightarrow> string \<Rightarrow> string) \<Rightarrow> ('d, 'i) rpc_out list \<Rightarrow> (string + json) option" where
  "reply_of EW et outs =
     (case outs of
        [ReplyDesc _ d] \<Rightarrow> Some (Inr (enc_desc EW d))
      | [ReplyText _ t] \<Rightarrow> Some (Inr (JStr t))
      | [ReplyError _ code msg] \<Rightarrow> Some (Inl (et code msg))
      | _ \<Rightarrow> None)"

text \<open>The documented text: a prefix that tells the code, then the message as it is.\<close>

definition error_text_laws :: "(int \<Rightarrow> string \<Rightarrow> string) \<Rightarrow> bool" where
  "error_text_laws et \<longleftrightarrow> (\<forall>code. \<exists>pre. \<forall>msg. et code msg = pre @ msg)"

definition link_laws ::
  "('d, 'i) enc_wire \<Rightarrow> (int \<Rightarrow> string \<Rightarrow> string) \<Rightarrow> ('p, 'c, 'd, 'i) sig_env \<Rightarrow> 'j rpc_conn \<Rightarrow> ('j \<Rightarrow> ('p, 'c, 'd, 'i) signal) \<Rightarrow> bool" where
  "link_laws EW et S J srv \<longleftrightarrow>
     (\<forall>mth params j. \<exists>n.
        (let req = \<lparr>rq_ID = n, rq_Method = mth, rq_Params = json_parse (json_print params)\<rparr>;
             (r, g') = Handle S req (srv j);
             (res, j') = jc_Call J mth params j
         in r = Ret () \<longrightarrow>
              srv j' = g' \<and> (\<forall>v. reply_of EW et (drop (length (js_out (srv j))) (js_out g')) = Some v \<longrightarrow> res = v)))"

lemma link_call:
  assumes "link_laws EW et S J srv" and "\<And>n. Handle S \<lparr>rq_ID = n, rq_Method = mth, rq_Params = json_parse (json_print params)\<rparr> (srv j)
      = (Ret (), h n)"
    and "\<And>n. reply_of EW et (drop (length (js_out (srv j))) (js_out (h n))) = Some v"
  obtains n j' where "jc_Call J mth params j = (v, j')" and "srv j' = h n"
proof -
  obtain n where n: "let req = \<lparr>rq_ID = n, rq_Method = mth, rq_Params = json_parse (json_print params)\<rparr>;
      (r, g') = Handle S req (srv j); (res, j') = jc_Call J mth params j
    in r = Ret () \<longrightarrow> srv j' = g' \<and> (\<forall>v. reply_of EW et (drop (length (js_out (srv j))) (js_out g')) = Some v \<longrightarrow> res = v)"
    using assms(1) unfolding link_laws_def by blast
  obtain res j' where call: "jc_Call J mth params j = (res, j')" by (meson surj_pair)
  from n have "srv j' = h n \<and> res = v" using assms(2,3) [of n] call by simp
  with call that show ?thesis by blast
qed

section \<open>Joining\<close>

lemma parsed_join:
  assumes "wire_laws W EW" and "valid_utf8 sid"
  shows "json_parse (json_print (marshal_Join EW \<lparr>join_SID = sid, join_UID = [], join_Offer = offer\<rparr>))
      = Some (marshal_Join EW \<lparr>join_SID = sid, join_UID = [], join_Offer = offer\<rparr>)"
  by (rule join_format.parsed [of W]) (simp add: assms)

lemma call_desc_reply:
  assumes "wire_laws W EW" and "enc_desc EW d \<noteq> JNull" and "sc_jc c = Some j" and "jc_Call J mth params j = (Inr (enc_desc EW d), j')"
  shows "call_desc W J mth params c = (Ret (Some d), c\<lparr>sc_jc := Some j'\<rparr>)"
proof -
  have "dec_desc_ptr W (enc_desc EW d) = Ret (Some d)"
    using assms(1,2) by (cases "enc_desc EW d") (auto simp: dec_desc_ptr_def wire_laws_def dest: spec [of _ d])
  with assms(3,4) show ?thesis by (simp add: call_desc_def)
qed

text \<open>
  The \<open>Join\<close> of the signalling client over such a connection to a local node whose peer
  accepts returns the answer of that peer.
\<close>

lemma signal_join_answered:
  assumes "link_laws EW et S J srv" and "wire_laws (se_wire S) EW" and "valid_utf8 sid"
    and "sc_jc c = Some j" and "se_coord S = local_coordinator"
    and "peer_Join (se_peer S) local_GetSession sid [] (js_peer (srv j))
      (snd (local_getOrCreateSession sid (js_node (srv j)))) = (None, p2, n2)"
    and "peer_Answer (se_peer S) offer p2 = (Inr answer, p3)" and "enc_desc EW answer \<noteq> JNull"
  shows "\<exists>j'. sc_Join (se_wire S) EW J sid offer c = (Ret (Some answer), c\<lparr>sc_jc := Some j'\<rparr>)
    \<and> js_sid (srv j') = sid \<and> lc_sessions (fst (js_node (srv j'))) sid \<noteq> None"
proof -
  let ?m = "\<lparr>join_SID = sid, join_UID = [], join_Offer = offer\<rparr>"
  let ?req = "\<lambda>n. \<lparr>rq_ID = n, rq_Method = ''join'', rq_Params = json_parse (json_print (marshal_Join EW ?m))\<rparr>"
  let ?g2 = "(srv j)\<lparr>js_peer := p3, js_node := n2\<rparr>"
  let ?h = "\<lambda>n. join_listen S (?req n) sid answer ?g2"
  have handled: "Handle S (?req n) (srv j) = (Ret (), ?h n)" for n
    using assms(5-7) parsed_join [OF assms(2,3)] unmarshal_marshal_Join [OF assms(2)]
      local_getOrCreateSession_result(1) [of sid "js_node (srv j)"]
    by (auto simp: Handle_def with_params_def handle_join_def local_coordinator_def split: prod.splits)
  have out: "js_out (?h n) = js_out (srv j) @ [ReplyDesc n answer]" for n
    by (simp add: join_listen_def case_prod_beta Let_def)
  obtain n j' where call: "jc_Call J ''join'' (marshal_Join EW ?m) j = (Inr (enc_desc EW answer), j')" "srv j' = ?h n"
    by (rule link_call [OF assms(1) handled, of "Inr (enc_desc EW answer)"]) (simp_all add: out reply_of_def)
  have "sc_Join (se_wire S) EW J sid offer c = (Ret (Some answer), c\<lparr>sc_jc := Some j'\<rparr>)"
    using call_desc_reply [OF assms(2,8,4) call(1)] by (simp add: sc_Join_def)
  moreover have "js_sid (srv j') = sid" by (simp add: call(2) join_listen_def case_prod_beta Let_def)
  moreover have "lc_sessions (fst (js_node (srv j'))) sid = Some (fst (local_ensureSession sid n2))"
    using local_coord.join_listen_node [OF assms(5), of "?req n" sid answer ?g2] local_reg.get_table [of sid n2]
    by (simp add: call(2))
  ultimately show ?thesis by (intro exI [of _ j']) simp
qed

text \<open>
  C10. From the client's peer connection to the server's: over such a connection to a local
  node whose peer accepts, the client's \<open>Join\<close> succeeds, the publishing connection has the
  answer of the server's peer as its remote description and then the candidates that waited,
  renegotiation is on, and the server side of the connection is in the session the client asked
  for, which is in the node's table.
\<close>

theorem client_join_end_to_end:
  assumes "link_laws EW et S J srv" and "wire_laws (se_wire S) EW" and "valid_utf8 sid"
    and "sc_jc (cl_signal cl) = Some j" and "se_coord S = local_coordinator"
    and "peer_Join (se_peer S) local_GetSession sid [] (js_peer (srv j))
      (snd (local_getOrCreateSession sid (js_node (srv j)))) = (None, p2, n2)"
    and "peer_Answer (se_peer S) offer p2 = (Inr answer, p3)" and "enc_desc EW answer \<noteq> JNull"
    and "CreateOffer A (tr_pc (pub cl)) = (Inr offer, pc1)" and "SetLocalDescription A offer pc1 = (None, pc2)"
    and "SetRemoteDescription A answer pc2 = (None, pc3)"
  shows "\<exists>cl' j'. Client_Join A (jsonrpc_signal (se_wire S) EW J) id sid cl = (Ret (), cl')
    \<and> tr_pc (pub cl') = add_candidates A (candidates (pub cl)) pc3 \<and> cl_negotiationHook cl'
    \<and> sc_jc (cl_signal cl') = Some j' \<and> js_sid (srv j') = sid \<and> lc_sessions (fst (js_node (srv j'))) sid \<noteq> None"
proof -
  let ?sig = "sc_OnTrickle () (sc_OnNegotiate () (cl_signal cl))"
  have "sc_jc ?sig = Some j" using assms(4) by (simp add: sc_OnTrickle_def sc_OnNegotiate_def)
  from signal_join_answered [OF assms(1-3) this assms(5-8)]
  obtain j' where "sc_Join (se_wire S) EW J sid offer ?sig = (Ret (Some answer), ?sig\<lparr>sc_jc := Some j'\<rparr>)"
    and "js_sid (srv j') = sid" and "lc_sessions (fst (js_node (srv j'))) sid \<noteq> None" by blast
  then show ?thesis
    using assms(9-11) by (simp add: Client_Join_def exchange_def jsonrpc_signal_def put_pc_def Let_def)
qed

text \<open>
  C11. When the session belongs to another node, the client's \<open>Join\<close> fails with the error of
  code 302, whose text is the prefix the JSON-RPC library puts before every message of that
  code, followed by the metadata of the session: decoding what follows the prefix gives the
  owner's endpoint to connect to. The server side of the connection stays in its session.
\<close>

theorem client_join_redirected:
  assumes "link_laws EW et S J srv" and "wire_laws (se_wire S) EW" and "valid_utf8 sid" and "sc_jc c = Some j"
    and "getOrCreateSession (se_coord S) sid (js_node (srv j)) = (Ret meta, n')" and "Redirect meta" and "utf8_meta meta"
    and "error_text_laws et"
  shows "\<exists>pre text j'. (\<forall>msg. et 302 msg = pre @ msg)
    \<and> sc_Join (se_wire S) EW J sid offer c = (Err (pre @ text), c\<lparr>sc_jc := Some j'\<rparr>)
    \<and> unmarshal_meta text = Some meta \<and> js_sid (srv j') = js_sid (srv j)"
proof -
  let ?m = "\<lparr>join_SID = sid, join_UID = [], join_Offer = offer\<rparr>"
  let ?h = "\<lambda>n. emit (ReplyError n 302 (marshal_meta meta)) ((srv j)\<lparr>js_node := n'\<rparr>)"
  have handled: "Handle S \<lparr>rq_ID = n, rq_Method = ''join'', rq_Params = json_parse (json_print (marshal_Join EW ?m))\<rparr> (srv j)
      = (Ret (), ?h n)" for n
    using assms(5,6) parsed_join [OF assms(2,3)] unmarshal_marshal_Join [OF assms(2)]
    by (simp add: Handle_def with_params_def handle_join_def)
  obtain n j' where call: "jc_Call J ''join'' (marshal_Join EW ?m) j = (Inl (et 302 (marshal_meta meta)), j')" "srv j' = ?h n"
    by (rule link_call [OF assms(1) handled, of "Inl (et 302 (marshal_meta meta))"]) (simp_all add: reply_of_def)
  have "sc_Join (se_wire S) EW J sid offer c = (Err (et 302 (marshal_meta meta)), c\<lparr>sc_jc := Some j'\<rparr>)"
    using call(1) assms(4) by (simp add: sc_Join_def call_desc_def)
  moreover obtain pre where "\<And>msg. et 302 msg = pre @ msg" using assms(8) unfolding error_text_laws_def by blast
  ultimately show ?thesis using unmarshal_marshal_meta [OF assms(7)] call(2) by auto
qed

section \<open>An ideal connection\<close>

text \<open>The connection whose state is the server side itself.\<close>

definition ideal_link :: "('d, 'i) enc_wire \<Rightarrow> (int \<Rightarrow> string \<Rightarrow> string) \<Rightarrow> ('p, 'c, 'd, 'i) sig_env \<Rightarrow> ('p, 'c, 'd, 'i) signal rpc_conn" where
  "ideal_link EW et S =
     \<lparr>jc_Call = (\<lambda>mth params g.
        (let (r, g') = Handle S \<lparr>rq_ID = 0, rq_Method = mth, rq_Params = json_parse (json_print params)\<rparr> g
         in (case reply_of EW et (drop (length (js_out g)) (js_out g')) of Some v \<Rightarrow> v | None \<Rightarrow> Inl ''no reply'', g'))),
      jc_Notify = (\<lambda>mth params g.
        (None, snd (Handle S \<lparr>rq_ID = 0, rq_Method = mth, rq_Params = json_parse (json_print params)\<rparr> g))),
      jc_Close = (\<lambda>g. (None, g))\<rparr>"

definition code_text :: "int \<Rightarrow> string \<Rightarrow> string" where
  "code_text code msg = ''jsonrpc2: code '' @ go_itoa (nat code) @ '' message: '' @ msg"

lemma code_text_laws: "error_text_laws code_text"
  unfolding error_text_laws_def code_text_def by (metis append_assoc)

lemma ideal_link_laws: "link_laws EW et S (ideal_link EW et S) id"
  unfolding link_laws_def by (intro allI exI [of _ 0]) (simp add: ideal_link_def case_prod_beta Let_def)

definition bool_peer :: "(string, 'c, bool, bool) sfu_peer" where
  "bool_peer =
     \<lparr>peer_Join = \<lambda>gs sid uid p n. (None, uid, snd (gs sid n)), peer_Answer = \<lambda>d p. (Inr (\<not> d), p),
      peer_SetRemoteDescription = \<lambda>d p. (None, p), peer_Trickle = \<lambda>i t p. (None, p),
      peer_Close = \<lambda>f p n. (p, n), peer_ID = id\<rparr>"

definition bool_env :: "'c coordinator \<Rightarrow> (string, 'c, bool, bool) sig_env" where
  "bool_env c = \<lparr>se_sess = demo_sess, se_coord = c, se_peer = bool_peer, se_wire = bool_wire\<rparr>"

definition bool_conn :: "'c \<times> mem \<Rightarrow> (string, 'c, bool, bool) signal" where
  "bool_conn n = \<lparr>js_peer = [], js_sid = [], js_hooks = False, js_listening = [], js_out = [], js_node = n\<rparr>"

definition bool_client :: "'c \<times> mem \<Rightarrow> ((string, 'c, bool, bool) signal, unit, unit) JSONRPCSignalClient" where
  "bool_client n = \<lparr>sc_jc = Some (bool_conn n), sc_onNegotiate = None, sc_onTrickle = None\<rparr>"

lemma bool_wire_laws: "wire_laws (se_wire (bool_env c)) bool_enc"
  by (simp add: wire_laws_def bool_env_def bool_wire_def bool_enc_def Let_def)

lemma bool_env_simps [simp]:
  "se_coord (bool_env c) = c" "se_peer (bool_env c) = bool_peer"
  "peer_Join bool_peer gs sid uid p n = (None, uid, snd (gs sid n))" "peer_Answer bool_peer d p = (Inr (\<not> d), p)"
  "sc_jc (bool_client n) = Some (bool_conn n)" "js_node (bool_conn n) = n"
  by (simp_all add: bool_env_def bool_peer_def bool_client_def bool_conn_def)

lemma room_utf8: "valid_utf8 ''room''"
  using good_demo(1) by (simp only: good_sid_def)

definition bool_pc :: "(bool option \<times> bool list, unit, bool, bool, unit, unit) pc_api" where
  "bool_pc =
     \<lparr>RegisterDefaultInterceptors = \<lambda>_. Ret (), NewPeerConnection = \<lambda>_. Inr (None, []),
      CreateDataChannel = \<lambda>l p. (Inr (), p), CreateOffer = \<lambda>p. (Inr True, p), CreateAnswer = \<lambda>p. (Inr True, p),
      SetLocalDescription = \<lambda>d p. (None, p), SetRemoteDescription = \<lambda>d p. (None, (Some d, snd p)),
      RemoteDescription = fst, AddICECandidate = \<lambda>i p. (None, (fst p, snd p @ [i])), AddTrack = \<lambda>t p. (None, p)\<rparr>"

definition bool_web_client :: "'c \<times> mem \<Rightarrow>
    (((string, 'c, bool, bool) signal, unit, unit) JSONRPCSignalClient, bool option \<times> bool list, unit, bool) Client" where
  "bool_web_client n =
     \<lparr>cl_signal = bool_client n, pub = \<lparr>tr_role = 0, tr_api = None, tr_pc = (None, []), candidates = [True]\<rparr>,
      sub = \<lparr>tr_role = 1, tr_api = None, tr_pc = (None, []), candidates = []\<rparr>, cl_onTrack = False,
      cl_trackHook = False, cl_negotiationHook = False\<rparr>"

theorem client_join_end_to_end_witness:
  "\<exists>cl' j'. Client_Join bool_pc (jsonrpc_signal (se_wire (bool_env local_coordinator)) bool_enc
      (ideal_link bool_enc code_text (bool_env local_coordinator))) id ''room'' (bool_web_client (demo_local, mem0)) = (Ret (), cl')
    \<and> tr_pc (pub cl') = (Some False, [True]) \<and> sc_jc (cl_signal cl') = Some j' \<and> js_sid j' = ''room''"
proof -
  let ?n2 = "snd (local_GetSession ''room'' (snd (local_getOrCreateSession ''room'' (demo_local, mem0))))"
  let ?cl = "bool_web_client (demo_local, mem0)"
  have jc: "sc_jc (cl_signal ?cl) = Some (bool_conn (demo_local, mem0))" by (simp add: bool_web_client_def)
  have joined: "peer_Join (se_peer (bool_env local_coordinator)) local_GetSession ''room'' [] (js_peer (id (bool_conn (demo_local, mem0))))
      (snd (local_getOrCreateSession ''room'' (js_node (id (bool_conn (demo_local, mem0)))))) = (None, [], ?n2)"
    by simp
  have answered: "peer_Answer (se_peer (bool_env local_coordinator)) True [] = (Inr False, [])" by simp
  have desc: "enc_desc bool_enc False \<noteq> JNull" by (simp add: bool_enc_def)
  have "CreateOffer bool_pc (tr_pc (pub ?cl)) = (Inr True, (None, []))" "SetLocalDescription bool_pc True (None, []) = (None, (None, []))"
    "SetRemoteDescription bool_pc False (None, []) = (None, (Some False, []))"
    by (simp_all add: bool_pc_def bool_web_client_def)
  from client_join_end_to_end [OF ideal_link_laws [of bool_enc code_text] bool_wire_laws room_utf8 jc bool_env_simps(1) joined answered desc this]
  show ?thesis by (auto simp: add_candidates_def bool_pc_def bool_web_client_def)
qed

theorem client_join_redirected_witness:
  "\<exists>text j'. sc_Join (se_wire (bool_env (etcd_coordinator map_etcd))) bool_enc
      (ideal_link bool_enc code_text (bool_env (etcd_coordinator map_etcd))) ''room'' True
      (bool_client ((demo_etcd_node ''n2'', room_entry ''n1''), mem0))
      = (Err (''jsonrpc2: code 302 message: '' @ text), (bool_client ((demo_etcd_node ''n2'', room_entry ''n1''), mem0))\<lparr>sc_jc := Some j'\<rparr>)
    \<and> unmarshal_meta text = Some ((own_meta (demo_etcd_node ''n1'') ''room'')\<lparr>Redirect := True\<rparr>)"
proof -
  let ?n = "((demo_etcd_node ''n2'', room_entry ''n1''), mem0)"
  have "getOrCreateSession (se_coord (bool_env (etcd_coordinator map_etcd))) ''room'' (js_node (id (bool_conn ?n)))
      = (Ret ((own_meta (demo_etcd_node ''n1'') ''room'')\<lparr>Redirect := True\<rparr>), ?n)"
    by (simp add: etcd_coordinator_def found_demo)
  from client_join_redirected [where offer = True, OF ideal_link_laws bool_wire_laws room_utf8 bool_env_simps(5) this _ utf8_room_meta code_text_laws]
  obtain pre msg j' where p: "\<forall>t. code_text 302 t = pre @ t"
    and jn: "sc_Join (se_wire (bool_env (etcd_coordinator map_etcd))) bool_enc
      (ideal_link bool_enc code_text (bool_env (etcd_coordinator map_etcd))) ''room'' True (bool_client ?n)
      = (Err (pre @ msg), (bool_client ?n)\<lparr>sc_jc := Some j'\<rparr>)"
    and mt: "unmarshal_meta msg = Some ((own_meta (demo_etcd_node ''n1'') ''room'')\<lparr>Redirect := True\<rparr>)"
    by auto
  have "go_itoa 302 = ''302''" by code_simp
  then have "pre = ''jsonrpc2: code 302 message: ''" using p [THEN spec, of "[]"] by (simp add: code_text_def)
  with jn mt show ?thesis by blast
qed

end
