(* ===== verification/Client_Race.thy ===== *)
theory Client_Race
  imports Client
begin

text \<open>
  The two goroutines of \<open>pkg/client/client.go\<close> that share the publishing transport: \<open>Join\<close>,
  after its answer has come, sets the remote description and then ranges over the waiting
  candidates; the reader of the connection runs \<open>signalOnTrickle\<close>, which looks for the remote
  description and then adds the candidate or appends it. Neither takes a lock, so the reader
  may be between its look and its append while \<open>Join\<close> goes on. With \<open>locked\<close> the two parts
  of the reader are one step, as a mutex around both would make them.
\<close>

section \<open>Steps\<close>

datatype 'i join_point =
    Answered          \<comment> \<open>before \<open>SetRemoteDescription\<close>\<close>
  | JoinFailed
  | Described         \<comment> \<open>before \<open>range\<close> reads the slice\<close>
  | Adding "'i list"  \<comment> \<open>in the loop, with what is left of the slice\<close>

record ('pc, 'i) race =
  rc_pc :: 'pc
  rc_cands :: "'i list"
  rc_join :: "'i join_point"
  rc_msgs :: "'i list"
  rc_held :: "'i option"

inductive race_step ::
  "('pc, 'e, 'd, 'i, 'tr, 'dc) pc_api \<Rightarrow> 'd \<Rightarrow> bool \<Rightarrow> ('pc, 'i) race \<Rightarrow> ('pc, 'i) race \<Rightarrow> bool"
  for A answer locked where
  set_remote: "rc_join s = Answered \<Longrightarrow> SetRemoteDescription A answer (rc_pc s) = (r, p')
    \<Longrightarrow> race_step A answer locked s
          (s\<lparr>rc_pc := p', rc_join := (case r of None \<Rightarrow> Described | Some _ \<Rightarrow> JoinFailed)\<rparr>)"
| range_slice: "rc_join s = Described \<Longrightarrow> race_step A answer locked s (s\<lparr>rc_join := Adding (rc_cands s)\<rparr>)"
| add_next: "rc_join s = Adding (i # is)
    \<Longrightarrow> race_step A answer locked s (s\<lparr>rc_pc := snd (AddICECandidate A i (rc_pc s)), rc_join := Adding is\<rparr>)"
| look_set: "rc_held s = None \<Longrightarrow> rc_msgs s = i # ms \<Longrightarrow> RemoteDescription A (rc_pc s) \<noteq> None
    \<Longrightarrow> race_step A answer locked s (s\<lparr>rc_pc := snd (AddICECandidate A i (rc_pc s)), rc_msgs := ms\<rparr>)"
| look_nil: "\<not> locked \<Longrightarrow> rc_held s = None \<Longrightarrow> rc_msgs s = i # ms \<Longrightarrow> RemoteDescription A (rc_pc s) = None
    \<Longrightarrow> race_step A answer locked s (s\<lparr>rc_held := Some i, rc_msgs := ms\<rparr>)"
| append: "rc_held s = Some i
    \<Longrightarrow> race_step A answer locked s (s\<lparr>rc_cands := rc_cands s @ [i], rc_held := None\<rparr>)"
| look_append: "locked \<Longrightarrow> rc_held s = None \<Longrightarrow> rc_msgs s = i # ms \<Longrightarrow> RemoteDescription A (rc_pc s) = None
    \<Longrightarrow> race_step A answer locked s (s\<lparr>rc_cands := rc_cands s @ [i], rc_msgs := ms\<rparr>)"

definition race_start :: "('pc, 'dc, 'i) transport \<Rightarrow> 'i list \<Rightarrow> ('pc, 'i) race" where
  "race_start t ms = \<lparr>rc_pc = tr_pc t, rc_cands = candidates t, rc_join = Answered, rc_msgs = ms, rc_held = None\<rparr>"

text \<open>Both goroutines are through: the loop has ended and no message is left.\<close>

definition race_over :: "('pc, 'i) race \<Rightarrow> bool" where
  "race_over s \<longleftrightarrow> rc_join s = Adding [] \<and> rc_msgs s = [] \<and> rc_held s = None"

section \<open>Accounting for candidates\<close>

definition held_mset :: "('pc, 'i) race \<Rightarrow> 'i multiset" where
  "held_mset s = (case rc_held s of None \<Rightarrow> {#} | Some i \<Rightarrow> {#i#})"

text \<open>
  Until the slice is read a candidate is added, waiting, held by the reader or still to come;
  afterwards it may also be \<open>late\<close>: appended when nobody looks any more. The reader holds at
  most one, and takes no new one once the description is set.
\<close>

definition race_inv ::
  "('pc, 'e, 'd, 'i, 'tr, 'dc) pc_api \<Rightarrow> ('pc \<Rightarrow> 'i list) \<Rightarrow> bool \<Rightarrow> 'i multiset \<Rightarrow> ('pc, 'i) race \<Rightarrow> bool" where
  "race_inv A added locked given s \<longleftrightarrow>
     (locked \<longrightarrow> rc_held s = None) \<and>
     (case rc_join s of
        Adding is \<Rightarrow> RemoteDescription A (rc_pc s) \<noteq> None \<and>
          (\<exists>late. size late + size (held_mset s) \<le> (if locked then 0 else 1) \<and>
             mset (added (rc_pc s)) + mset is + late + held_mset s + mset (rc_msgs s) = given)
      | jp \<Rightarrow> (RemoteDescription A (rc_pc s) = None \<longleftrightarrow> jp \<noteq> Described) \<and>
          mset (added (rc_pc s)) + mset (rc_cands s) + held_mset s + mset (rc_msgs s) = given)"

lemma race_step_inv:
  assumes laws: "pc_laws A added" and "race_step A answer locked s s'" and inv: "race_inv A added locked given s"
  shows "race_inv A added locked given s'"
  using assms(2)
proof cases
  case (set_remote r p')
  then show ?thesis
    using inv pc_lawsD(3,4) [OF laws, of answer "rc_pc s"]
    by (cases r) (auto simp: race_inv_def held_mset_def same_remote_def)
next
  case range_slice
  have "size (held_mset s) \<le> (if locked then 0 else 1)"
    using inv by (auto simp: held_mset_def race_inv_def split: option.splits)
  with range_slice inv show ?thesis
    by (auto simp: race_inv_def held_mset_def intro!: exI [of _ "{#}"] split: option.splits)
next
  case (add_next i "is")
  then show ?thesis using inv pc_lawsD(1,2) [OF laws] by (auto simp: race_inv_def held_mset_def ac_simps)
next
  case (look_set i ms)
  then show ?thesis
    using inv pc_lawsD(1,2) [OF laws] by (auto simp: race_inv_def held_mset_def ac_simps split: join_point.splits)
next
  case (look_nil i ms)
  then show ?thesis using inv by (auto simp: race_inv_def held_mset_def ac_simps split: join_point.splits)
next
  case (append i)
  then show ?thesis
  proof (cases "rc_join s")
    case (Adding "is")
    then obtain late where late: "size late + size (held_mset s) \<le> (if locked then 0 else 1)"
      "mset (added (rc_pc s)) + mset is + late + held_mset s + mset (rc_msgs s) = given"
      using inv by (auto simp: race_inv_def)
    then have "size (late + {#i#}) \<le> (if locked then 0 else 1)
        \<and> mset (added (rc_pc s)) + mset is + (late + {#i#}) + mset (rc_msgs s) = given"
      using append(2) by (auto simp: held_mset_def ac_simps)
    then show ?thesis using append inv Adding by (auto simp: race_inv_def held_mset_def)
  qed (use inv append in \<open>auto simp: race_inv_def held_mset_def ac_simps\<close>)
next
  case (look_append i ms)
  then show ?thesis using inv by (auto simp: race_inv_def held_mset_def ac_simps split: join_point.splits)
qed

lemma race_steps_inv:
  assumes "pc_laws A added" and "(race_step A answer locked)\<^sup>*\<^sup>* s s'" and "race_inv A added locked given s"
  shows "race_inv A added locked given s'"
  using assms(2,3) by (induction rule: rtranclp_induct) (auto intro: race_step_inv [OF assms(1)])

lemma race_start_inv:
  assumes "RemoteDescription A (tr_pc t) = None"
  shows "race_inv A added locked (mset (received added t @ ms)) (race_start t ms)"
  using assms by (simp add: race_inv_def race_start_def held_mset_def received_def)

section \<open>The run that loses a candidate\<close>

lemma add_rest:
  assumes "rc_join s = Adding is"
  shows "(race_step A answer locked)\<^sup>*\<^sup>* s (s\<lparr>rc_pc := add_candidates A is (rc_pc s), rc_join := Adding []\<rparr>)"
  using assms
proof (induction "is" arbitrary: s)
  case Nil
  then have "s\<lparr>rc_join := Adding []\<rparr> = s" by (cases s) simp
  then show ?case by (simp add: add_candidates_def)
next
  case (Cons i "is")
  let ?s1 = "s\<lparr>rc_pc := snd (AddICECandidate A i (rc_pc s)), rc_join := Adding is\<rparr>"
  have "race_step A answer locked s ?s1" by (rule race_step.add_next [OF Cons.prems])
  also have "(race_step A answer locked)\<^sup>*\<^sup>* ?s1 (?s1\<lparr>rc_pc := add_candidates A is (rc_pc ?s1), rc_join := Adding []\<rparr>)"
    by (rule Cons.IH) simp
  finally show ?case by (simp add: add_candidates_def)
qed

lemma losing_run:
  assumes "SetRemoteDescription A answer (tr_pc t) = (None, p')" and "RemoteDescription A (tr_pc t) = None"
  shows "(race_step A answer False)\<^sup>*\<^sup>* (race_start t [i])
    \<lparr>rc_pc = add_candidates A (candidates t) p', rc_cands = candidates t @ [i], rc_join = Adding [], rc_msgs = [], rc_held = None\<rparr>"
proof -
  let ?at = "\<lambda>p cs j h. \<lparr>rc_pc = p, rc_cands = cs, rc_join = j, rc_msgs = [], rc_held = h\<rparr>"
  have "(race_step A answer False)\<^sup>*\<^sup>* (race_start t [i]) (?at (tr_pc t) (candidates t) Answered (Some i))"
    using race_step.look_nil [of False "race_start t [i]" i "[]" A answer] assms(2)
    by (intro r_into_rtranclp) (simp add: race_start_def)
  also have "race_step A answer False (?at (tr_pc t) (candidates t) Answered (Some i)) (?at p' (candidates t) Described (Some i))"
    using race_step.set_remote [of "?at (tr_pc t) (candidates t) Answered (Some i)" A answer None p' False] assms(1) by simp
  also have "race_step A answer False (?at p' (candidates t) Described (Some i)) (?at p' (candidates t) (Adding (candidates t)) (Some i))"
    using race_step.range_slice [of "?at p' (candidates t) Described (Some i)" A answer False] by simp
  also have "(race_step A answer False)\<^sup>*\<^sup>* (?at p' (candidates t) (Adding (candidates t)) (Some i))
      (?at (add_candidates A (candidates t) p') (candidates t) (Adding []) (Some i))"
    using add_rest [of "?at p' (candidates t) (Adding (candidates t)) (Some i)" "candidates t" A answer False] by simp
  also have "race_step A answer False (?at (add_candidates A (candidates t) p') (candidates t) (Adding []) (Some i))
      (?at (add_candidates A (candidates t) p') (candidates t @ [i]) (Adding []) None)"
    using race_step.append [of "?at (add_candidates A (candidates t) p') (candidates t) (Adding []) (Some i)" i A answer False] by simp
  finally show ?thesis .
qed

section \<open>Properties\<close>

text \<open>
  C21. The candidates of the publishing connection when messages arrive while \<open>Join\<close> finishes,
  for every interleaving: once both goroutines are through, the connection has been given every
  candidate received, except for at most one; with a lock around the look and the append it has
  been given them all; and without it there is a run that loses a candidate for every transport
  that has no description yet and accepts the answer.
\<close>

theorem join_race_loses_at_most_one:
  assumes "pc_laws A added" and "RemoteDescription A (tr_pc t) = None"
  shows "((race_step A answer locked)\<^sup>*\<^sup>* (race_start t ms) s \<and> race_over s \<longrightarrow>
      (\<exists>lost. size lost \<le> (if locked then 0 else 1) \<and> mset (added (rc_pc s)) + lost = mset (received added t @ ms)))
    \<and> (SetRemoteDescription A answer (tr_pc t) = (None, p') \<longrightarrow>
      (\<exists>s. (race_step A answer False)\<^sup>*\<^sup>* (race_start t [i]) s \<and> race_over s \<and> added (rc_pc s) = received added t))"
proof (intro conjI impI)
  assume run: "(race_step A answer locked)\<^sup>*\<^sup>* (race_start t ms) s \<and> race_over s"
  have "race_inv A added locked (mset (received added t @ ms)) s"
    using race_steps_inv [OF assms(1)] race_start_inv [OF assms(2)] run by blast
  with run show "\<exists>lost. size lost \<le> (if locked then 0 else 1) \<and> mset (added (rc_pc s)) + lost = mset (received added t @ ms)"
    by (auto simp: race_inv_def race_over_def held_mset_def)
next
  assume set: "SetRemoteDescription A answer (tr_pc t) = (None, p')"
  then have "added p' = added (tr_pc t)" using pc_lawsD(3) [OF assms(1)] by blast
  then show "\<exists>s. (race_step A answer False)\<^sup>*\<^sup>* (race_start t [i]) s \<and> race_over s \<and> added (rc_pc s) = received added t"
    using losing_run [OF set assms(2), of i] add_candidates_laws(1) [OF assms(1), of "candidates t" p']
    by (intro exI conjI) (assumption, simp_all add: race_over_def received_def)
qed

theorem join_race_loses_at_most_one_witness:
  "\<exists>s. (race_step log_pc () False)\<^sup>*\<^sup>* (race_start (pub fresh_client) [5]) s \<and> race_over s \<and> snd (rc_pc s) = []"
  using join_race_loses_at_most_one [OF log_pc_laws, of "pub fresh_client" "()" False "[]" _ "(True, [])" 5]
  by (simp add: received_def log_pc_def fresh_client_def)

end
