(* ===== verification/Cmd_Root.thy ===== *)
theory Cmd_Root
  imports Config
begin

text \<open>
  \<open>cmd/root.go\<close>: which configuration keys are bound to environment variables, the external
  address of a Kubernetes node, and loading the configuration. Viper, the home directory and
  the Kubernetes client are third-party code: their results are arguments.
\<close>

section \<open>Binding environment variables\<close>

text \<open>
  A value as \<open>reflect\<close> sees it: a struct with its fields (name, \<open>mapstructure\<close> tag,
  value), or a value of another kind. A pointer to a struct is of another kind.
\<close>

datatype rvalue = RStruct "(string \<times> string option \<times> rvalue) list" | ROther

definition field_key :: "string \<Rightarrow> string option \<Rightarrow> string" where
  "field_key name tag = (case tag of None \<Rightarrow> go_toLower name | Some tv \<Rightarrow> tv)"

text \<open>The keys passed to \<open>viper.BindEnv\<close>, in order.\<close>

fun bindConfigEnvs :: "(string \<times> string option \<times> rvalue) list \<Rightarrow> string list \<Rightarrow> string list" where
  "bindConfigEnvs [] parts = []"
| "bindConfigEnvs ((name, tag, RStruct fs) # rest) parts =
     bindConfigEnvs fs (parts @ [field_key name tag]) @ bindConfigEnvs rest parts"
| "bindConfigEnvs ((name, tag, ROther) # rest) parts =
     go_join ''.'' (parts @ [field_key name tag]) # bindConfigEnvs rest parts"

text \<open>The fields of \<open>RootConfig\<close>; those of \<open>sfu.Config\<close> are ion-sfu's.\<close>

definition root_fields :: "(string \<times> string option \<times> rvalue) list \<Rightarrow> (string \<times> string option \<times> rvalue) list" where
  "root_fields sfu =
     [(''Signal'', None, RStruct
         [(''FQDN'', None, ROther), (''Key'', None, ROther), (''Cert'', None, ROther),
          (''HTTPAddr'', None, ROther), (''GRPCAddr'', None, ROther),
          (''Auth'', None, RStruct [(''Enabled'', None, ROther), (''Key'', None, ROther), (''KeyType'', None, ROther)])]),
      (''SFU'', None, RStruct sfu),
      (''Coordinator'', None, RStruct [(''Local'', None, ROther), (''Etcd'', None, ROther)])]"

section \<open>The external address of the node\<close>

datatype addr_type = NodeInternalIP | NodeExternalIP | NodeOtherAddress

type_synonym node_addresses = "(addr_type \<times> string) list"

definition node_matches :: "string \<Rightarrow> node_addresses \<Rightarrow> bool" where
  "node_matches internalIP addrs = list_ex (\<lambda>a. fst a = NodeInternalIP \<and> snd a = internalIP) addrs"

definition node_external :: "node_addresses \<Rightarrow> string \<Rightarrow> string" where
  "node_external addrs old =
     (case find (\<lambda>a. fst a = NodeExternalIP) addrs of None \<Rightarrow> old | Some a \<Rightarrow> snd a)"

definition scan_nodes :: "string \<Rightarrow> node_addresses list \<Rightarrow> string" where
  "scan_nodes internalIP nodes =
     foldl (\<lambda>ext addrs. if node_matches internalIP addrs then node_external addrs ext else ext) [] nodes"

text \<open>\<open>kube\<close> is the cluster's list of nodes, or \<open>None\<close> outside a cluster or without a client.\<close>

definition kubeConfigureExternalIP :: "node_addresses list option \<Rightarrow> RootConfig \<Rightarrow> RootConfig" where
  "kubeConfigureExternalIP kube conf =
     (case kube of
        None \<Rightarrow> conf
      | Some nodes \<Rightarrow>
          (let ext = scan_nodes (FQDN (Signal conf)) nodes in
           if ext \<noteq> [] then conf\<lparr>SFU := (SFU conf)\<lparr>NAT1To1IPs := [ext]\<rparr>\<rparr> else conf))"

section \<open>Loading the configuration\<close>

datatype config_source = ConfigFile string string | ConfigSearch string string

datatype 'a run = Continue 'a | OsExit nat

text \<open>
  \<open>load\<close> is viper: the configuration that unmarshalling what it reads from a source and the
  bound keys makes of the present one. A config file that cannot be read is not an error.
\<close>

definition initConfig ::
  "(config_source \<Rightarrow> string list \<Rightarrow> RootConfig \<Rightarrow> string + RootConfig) \<Rightarrow> string + string
    \<Rightarrow> node_addresses list option \<Rightarrow> (string \<times> string option \<times> rvalue) list \<Rightarrow> string \<Rightarrow> RootConfig \<Rightarrow> RootConfig run" where
  "initConfig load home kube sfu cfgFile conf0 =
     (case (if cfgFile \<noteq> [] then Inr (ConfigFile cfgFile ''toml'')
            else (case home of Inl err \<Rightarrow> Inl err | Inr dir \<Rightarrow> Inr (ConfigSearch dir ''.ioncluster''))) of
        Inl err \<Rightarrow> OsExit 1
      | Inr src \<Rightarrow>
          (case load src (bindConfigEnvs (root_fields sfu) []) conf0 of
             Inl err \<Rightarrow> OsExit 1
           | Inr conf \<Rightarrow>
               if length (ICEPortRange (SFU conf)) > 2 then OsExit 1
               else Continue (kubeConfigureExternalIP kube conf)))"

section \<open>Properties\<close>

text \<open>
  The keys that can be set from the environment: every setting of the signalling section
  and of its token check, the settings of the SFU below their prefix, and for the coordinator
  only the two section names, because its sections are pointers. No key below
  \<open>coordinator.etcd\<close> is bound, so the etcd hosts cannot come from the environment.
\<close>

lemma env_keys_of_root_config:
  "bindConfigEnvs (root_fields sfu) [] =
     [''signal.fqdn'', ''signal.key'', ''signal.cert'', ''signal.httpaddr'', ''signal.grpcaddr'',
      ''signal.auth.enabled'', ''signal.auth.key'', ''signal.auth.keytype'']
     @ bindConfigEnvs sfu [''sfu''] @ [''coordinator.local'', ''coordinator.etcd'']"
proof -
  have "map go_toLower [''FQDN'', ''Key'', ''Cert'', ''HTTPAddr'', ''GRPCAddr'', ''Enabled'', ''KeyType'', ''Signal'',
      ''Auth'', ''SFU'', ''Coordinator'', ''Local'', ''Etcd'']
    = [''fqdn'', ''key'', ''cert'', ''httpaddr'', ''grpcaddr'', ''enabled'', ''keytype'', ''signal'', ''auth'', ''sfu'',
       ''coordinator'', ''local'', ''etcd'']"
    by code_simp
  then show ?thesis by (simp add: root_fields_def field_key_def)
qed

lemma scan_nodes_none:
  "(\<And>n. n \<in> set nodes \<Longrightarrow> \<not> node_matches ip n) \<Longrightarrow> foldl (\<lambda>ext addrs. if node_matches ip addrs then node_external addrs ext else ext) ext nodes = ext"
  by (induction nodes arbitrary: ext) auto

text \<open>
  C35. The address a node announces for its media: inside a cluster in which exactly one node
  has the configured internal address, the first external address of that node; and nothing is
  changed outside a cluster or when no node has it. Everything else of the configuration
  stays.
\<close>

theorem external_address_of_own_node:
  assumes "nodes = before @ own # after" and "node_matches (FQDN (Signal conf)) own"
    and "\<And>n. n \<in> set before \<union> set after \<Longrightarrow> \<not> node_matches (FQDN (Signal conf)) n"
    and "find (\<lambda>a. fst a = NodeExternalIP) own = Some (NodeExternalIP, ip)" and "ip \<noteq> []"
  shows "kubeConfigureExternalIP (Some nodes) conf = conf\<lparr>SFU := (SFU conf)\<lparr>NAT1To1IPs := [ip]\<rparr>\<rparr>
    \<and> kubeConfigureExternalIP (Some (before @ after)) conf = conf \<and> kubeConfigureExternalIP None conf = conf"
proof -
  have "scan_nodes (FQDN (Signal conf)) nodes = ip"
    using assms(1-4) scan_nodes_none [of before] scan_nodes_none [of after]
    by (simp add: scan_nodes_def node_external_def)
  moreover have "scan_nodes (FQDN (Signal conf)) (before @ after) = []"
    using assms(3) scan_nodes_none [of "before @ after"] by (simp add: scan_nodes_def)
  ultimately show ?thesis using assms(5) by (simp add: kubeConfigureExternalIP_def Let_def)
qed

definition kube_conf :: RootConfig where
  "kube_conf =
     \<lparr>Signal = \<lparr>FQDN = ''10.0.0.2'', Key = [], Cert = [], HTTPAddr = '':7000'', GRPCAddr = [],
        Auth = \<lparr>Enabled = False, auth_Key = [], KeyType = []\<rparr>\<rparr>,
      SFU = \<lparr>BufferFactory = None, MaxPacketTrack = 0, ICEPortRange = [], NAT1To1IPs = [], Ballast = 0, TurnEnabled = False\<rparr>,
      Coordinator = \<lparr>Local = None, Etcd = None\<rparr>\<rparr>"

theorem external_address_of_own_node_witness:
  "NAT1To1IPs (SFU (kubeConfigureExternalIP (Some [[(NodeInternalIP, ''10.0.0.1''), (NodeExternalIP, ''1.1.1.1'')],
     [(NodeInternalIP, ''10.0.0.2''), (NodeExternalIP, ''2.2.2.2'')]]) kube_conf)) = [''2.2.2.2'']"
  using external_address_of_own_node [of _ "[[(NodeInternalIP, ''10.0.0.1''), (NodeExternalIP, ''1.1.1.1'')]]"
      "[(NodeInternalIP, ''10.0.0.2''), (NodeExternalIP, ''2.2.2.2'')]" "[]" kube_conf "''2.2.2.2''"]
  by (simp add: node_matches_def kube_conf_def)

text \<open>
  Loading the configuration ends the process with status 1 exactly when no source is
  known (no file given and no home directory), the configuration cannot be decoded, or the
  port range has more than two numbers; otherwise the loaded configuration is used, with only
  the announced address replaced.
\<close>

lemma init_config_exits:
  "initConfig load home kube sfu cfgFile conf0 = OsExit n \<longleftrightarrow> n = 1 \<and>
     (cfgFile = [] \<and> (\<exists>err. home = Inl err)
      \<or> (\<exists>src. (src = ConfigFile cfgFile ''toml'' \<and> cfgFile \<noteq> []
                 \<or> cfgFile = [] \<and> (\<exists>dir. home = Inr dir \<and> src = ConfigSearch dir ''.ioncluster''))
           \<and> (case load src (bindConfigEnvs (root_fields sfu) []) conf0 of
                Inl err \<Rightarrow> True | Inr conf \<Rightarrow> length (ICEPortRange (SFU conf)) > 2)))"
  by (auto simp: initConfig_def split: sum.splits)

end
