(* ===== verification/Net_Url.thy ===== *)
theory Net_Url
  imports Json_Strings "HOL-Library.Sublist"
begin

text \<open>
  The parts of \<open>net/url\<close>, \<open>path\<close> and \<open>net/http\<close> of Go 1.17 that decide which handler a
  request reaches: splitting and decoding a request target, decoding a query, cleaning a path
  and the matching of \<open>ServeMux\<close>.
\<close>

section \<open>Decoding\<close>

text \<open>\<open>unescape\<close> of a path, or with \<open>query\<close> of a component of a query.\<close>

fun url_unescape :: "bool \<Rightarrow> string \<Rightarrow> string option" where
  "url_unescape query [] = Some []"
| "url_unescape query (c # cs) =
     (if c = CHR ''%'' then
        (case cs of
           a # b # rest \<Rightarrow>
             (case (hex_val a, hex_val b) of
                (Some x, Some y) \<Rightarrow> map_option ((#) (char_of (16 * x + y))) (url_unescape query rest)
              | _ \<Rightarrow> None)
         | _ \<Rightarrow> None)
      else map_option ((#) (if query \<and> c = CHR ''+'' then CHR '' '' else c)) (url_unescape query cs))"

text \<open>The text before the first separator, and the text after it.\<close>

fun cut :: "char \<Rightarrow> string \<Rightarrow> string \<times> string" where
  "cut sep [] = ([], [])"
| "cut sep (c # cs) = (if c = sep then ([], cs) else apfst ((#) c) (cut sep cs))"

text \<open>
  \<open>parseQuery\<close>: pairs that are empty, contain a semicolon or cannot be decoded are left out,
  and \<open>r.URL.Query()\<close> drops the error.
\<close>

definition query_pair :: "string \<Rightarrow> (string \<times> string) option" where
  "query_pair kv =
     (if kv = [] \<or> CHR '';'' \<in> set kv then None
      else (case (url_unescape True (fst (cut (CHR ''='') kv)), url_unescape True (snd (cut (CHR ''='') kv))) of
              (Some k, Some v) \<Rightarrow> Some (k, v)
            | _ \<Rightarrow> None))"

definition parse_query :: "string \<Rightarrow> string \<rightharpoonup> string list" where
  "parse_query q =
     (\<lambda>k. case [snd kv. kv \<leftarrow> List.map_filter query_pair (go_split (CHR ''&'') q), fst kv = k] of
            [] \<Rightarrow> None | vs \<Rightarrow> Some vs)"

text \<open>
  \<open>ParseRequestURI\<close> on a target in origin form, one that starts with a slash, which is what
  clients of an origin server send: the decoded path and the raw query. Control characters and
  bad escapes are errors. Nothing is said of targets of other forms.
\<close>

definition parse_origin_form :: "string \<Rightarrow> (string \<times> string) option" where
  "parse_origin_form t =
     (if list_ex (\<lambda>c. (of_char c :: nat) < 32 \<or> (of_char c :: nat) = 127) t \<or> take 1 t \<noteq> ''/'' then None
      else map_option (\<lambda>path. (path, snd (cut (CHR ''?'') t))) (url_unescape False (fst (cut (CHR ''?'') t))))"

section \<open>Cleaning a path\<close>

text \<open>\<open>path.Clean\<close> of a rooted path, on its elements; \<open>acc\<close> is the result so far, reversed.\<close>

fun clean_elems :: "string list \<Rightarrow> string list \<Rightarrow> string list" where
  "clean_elems [] acc = rev acc"
| "clean_elems (s # ss) acc =
     (if s = [] \<or> s = ''.'' then clean_elems ss acc
      else if s = ''..'' then clean_elems ss (tl acc)
      else clean_elems ss (s # acc))"

definition clean_path :: "string \<Rightarrow> string" where
  "clean_path p =
     (if p = [] then ''/''
      else (let p1 = (if hd p = CHR ''/'' then p else CHR ''/'' # p);
                np = CHR ''/'' # go_join ''/'' (clean_elems (go_split (CHR ''/'') p1) [])
            in if last p1 = CHR ''/'' \<and> np \<noteq> ''/'' then np @ ''/'' else np))"

section \<open>The multiplexer\<close>

text \<open>
  A pattern that ends in a slash is a subtree; an exact pattern wins, then the longest
  subtree. A path that is not clean is redirected, as is the root of a subtree without its
  slash.
\<close>

datatype mux_match = MuxMoved string | MuxHandler string | MuxNotFound

definition longest_subtree :: "string list \<Rightarrow> string \<Rightarrow> string option" where
  "longest_subtree pats path =
     find (\<lambda>p. prefix p path) (rev (sort_key length (filter (\<lambda>p. p \<noteq> [] \<and> last p = CHR ''/'') pats)))"

definition serve_mux :: "string list \<Rightarrow> string \<Rightarrow> mux_match" where
  "serve_mux pats path =
     (let cp = clean_path path in
      if cp \<notin> set pats \<and> last cp \<noteq> CHR ''/'' \<and> cp @ ''/'' \<in> set pats then MuxMoved (cp @ ''/'')
      else if cp \<noteq> path then MuxMoved cp
      else if path \<in> set pats then MuxHandler path
      else (case longest_subtree pats path of None \<Rightarrow> MuxNotFound | Some p \<Rightarrow> MuxHandler p))"

section \<open>Lemmas\<close>

lemma cut_none: "sep \<notin> set s \<Longrightarrow> cut sep s = (s, [])"
  by (induction s) auto

lemma cut_first: "sep \<notin> set h \<Longrightarrow> cut sep (h @ sep # t) = (h, t)"
  by (induction h) auto

text \<open>Text without escapes is decoded to itself.\<close>

lemma url_unescape_plain:
  assumes "CHR ''%'' \<notin> set s" and "query \<longrightarrow> CHR ''+'' \<notin> set s"
  shows "url_unescape query s = Some s"
  using assms by (induction s) auto

lemma parse_empty_query [simp]: "parse_query [] = Map.empty"
  by (simp add: parse_query_def query_pair_def map_filter_simps fun_eq_iff)

lemma parse_query_single:
  assumes "CHR ''&'' \<notin> set (k @ v)" and "CHR ''='' \<notin> set k" and "CHR '';'' \<notin> set (k @ v)"
    and "CHR ''%'' \<notin> set (k @ v)" and "CHR ''+'' \<notin> set (k @ v)"
  shows "parse_query (k @ CHR ''='' # v) = [k \<mapsto> [v]]"
proof -
  have "query_pair (k @ CHR ''='' # v) = Some (k, v)"
    using assms by (simp add: query_pair_def cut_first url_unescape_plain)
  moreover have "go_split (CHR ''&'') (k @ CHR ''='' # v) = [k @ CHR ''='' # v]"
    using assms(1) by (intro go_split_none) auto
  ultimately show ?thesis by (auto simp: parse_query_def map_filter_simps fun_eq_iff)
qed

text \<open>A rooted path of proper elements is clean.\<close>

definition proper_elem :: "string \<Rightarrow> bool" where
  "proper_elem s \<longleftrightarrow> s \<noteq> [] \<and> s \<noteq> ''.'' \<and> s \<noteq> ''..''"

lemma clean_elems_proper: "list_all proper_elem ss \<Longrightarrow> clean_elems ss acc = rev acc @ ss"
  by (induction ss arbitrary: acc) (auto simp: proper_elem_def)

lemma set_clean_elems: "set (clean_elems ss acc) \<subseteq> set acc \<union> {s \<in> set ss. proper_elem s}"
proof (induction ss arbitrary: acc)
  case (Cons x ss)
  have "set (tl acc) \<subseteq> set acc" by (cases acc) auto
  with Cons [of acc] Cons [of "tl acc"] Cons [of "x # acc"] show ?case by (auto simp: proper_elem_def)
qed simp

lemma go_split_join:
  assumes "\<And>s. s \<in> set ws \<Longrightarrow> sep \<notin> set s" and "ws \<noteq> []"
  shows "go_split sep (go_join [sep] ws) = ws"
  using assms
proof (induction ws)
  case (Cons w ws)
  show ?case
  proof (cases "ws = []")
    case True
    with Cons show ?thesis by (simp add: go_split_none)
  next
    case False
    then have "go_join [sep] (w # ws) = w @ sep # go_join [sep] ws" by (simp add: go_join_Cons)
    with Cons False show ?thesis by (simp add: go_split_first)
  qed
qed simp

text \<open>What \<open>clean_path\<close> returns, and that it is a projection.\<close>

definition clean_form :: "string list \<Rightarrow> bool" where
  "clean_form es \<longleftrightarrow> list_all (\<lambda>e. proper_elem e \<and> CHR ''/'' \<notin> set e) es"

lemma last_go_join:
  assumes "es \<noteq> []" and "last es \<noteq> []"
  shows "go_join sep es \<noteq> [] \<and> last (go_join sep es) = last (last es)"
  using assms by (induction sep es rule: go_join.induct) auto

lemma split_clean_form:
  assumes "clean_form es"
  shows "clean_elems (go_split (CHR ''/'') (CHR ''/'' # go_join ''/'' es)) [] = es"
    and "es \<noteq> [] \<Longrightarrow> clean_elems (go_split (CHR ''/'') (CHR ''/'' # go_join ''/'' es @ ''/'')) [] = es"
proof -
  have proper: "list_all proper_elem es" "\<And>e. e \<in> set es \<Longrightarrow> CHR ''/'' \<notin> set e"
    using assms by (auto simp: clean_form_def list_all_iff)
  show "clean_elems (go_split (CHR ''/'') (CHR ''/'' # go_join ''/'' es)) [] = es"
    using clean_elems_proper [OF proper(1), of "[]"] go_split_join [of es "CHR ''/''"] proper(2) by (cases "es = []") auto
  assume ne: "es \<noteq> []"
  have "go_join ''/'' es @ ''/'' = go_join ''/'' (es @ [[]])"
    using ne by (induction es rule: list_nonempty_induct) (simp_all add: go_join_Cons)
  moreover have "CHR ''/'' \<notin> set e" if "e \<in> set (es @ [[]])" for e using that proper(2) by auto
  ultimately have "go_split (CHR ''/'') (go_join ''/'' es @ ''/'') = es @ [[]]"
    using go_split_join [of "es @ [[]]" "CHR ''/''"] by simp
  moreover have "clean_elems (es @ [[]]) acc = rev acc @ es" for acc
    using proper(1) by (induction es arbitrary: acc) (auto simp: proper_elem_def)
  ultimately show "clean_elems (go_split (CHR ''/'') (CHR ''/'' # go_join ''/'' es @ ''/'')) [] = es" by simp
qed

lemma clean_path_form:
  assumes "clean_form es"
  shows "clean_path (CHR ''/'' # go_join ''/'' es) = CHR ''/'' # go_join ''/'' es"
    and "es \<noteq> [] \<Longrightarrow> clean_path (CHR ''/'' # go_join ''/'' es @ ''/'') = CHR ''/'' # go_join ''/'' es @ ''/''"
proof -
  have last: "go_join ''/'' es \<noteq> [] \<and> last (go_join ''/'' es) \<noteq> CHR ''/''" if "es \<noteq> []"
  proof -
    have "proper_elem (last es)" "CHR ''/'' \<notin> set (last es)"
      using assms that by (auto simp: clean_form_def list_all_iff)
    then have "last (last es) \<noteq> CHR ''/''" by (metis last_in_set proper_elem_def)
    with \<open>proper_elem (last es)\<close> show ?thesis
      using last_go_join [OF that, of "''/''"] by (auto simp: proper_elem_def)
  qed
  then show "clean_path (CHR ''/'' # go_join ''/'' es) = CHR ''/'' # go_join ''/'' es"
    using split_clean_form(1) [OF assms] by (cases "es = []") (auto simp: clean_path_def Let_def simp del: go_split.simps)
  assume "es \<noteq> []"
  with last split_clean_form(2) [OF assms]
  show "clean_path (CHR ''/'' # go_join ''/'' es @ ''/'') = CHR ''/'' # go_join ''/'' es @ ''/''"
    by (simp add: clean_path_def Let_def del: go_split.simps)
qed

lemma clean_path_cases:
  obtains es where "clean_form es" and "clean_path p = CHR ''/'' # go_join ''/'' es"
  | es where "clean_form es" and "es \<noteq> []" and "clean_path p = CHR ''/'' # go_join ''/'' es @ ''/''"
proof (cases "p = []")
  case True
  then have "clean_form []" "clean_path p = CHR ''/'' # go_join ''/'' []" by (simp_all add: clean_path_def clean_form_def)
  then show thesis by (rule that(1))
next
  case False
  define p1 where "p1 = (if hd p = CHR ''/'' then p else CHR ''/'' # p)"
  define es where "es = clean_elems (go_split (CHR ''/'') p1) []"
  have form: "clean_form es"
    using set_clean_elems [of "go_split (CHR ''/'') p1" "[]"] go_split_parts
    by (fastforce simp: clean_form_def es_def list_all_iff)
  have "clean_path p = (if last p1 = CHR ''/'' \<and> CHR ''/'' # go_join ''/'' es \<noteq> ''/''
      then CHR ''/'' # go_join ''/'' es @ ''/'' else CHR ''/'' # go_join ''/'' es)"
    using False by (simp add: clean_path_def p1_def es_def Let_def)
  then show thesis using that form by (cases "es = []") (auto split: if_splits)
qed

lemma clean_path_idem [simp]: "clean_path (clean_path p) = clean_path p"
  by (rule clean_path_cases [of p]) (simp_all add: clean_path_form)

lemma clean_path_slash: "last (clean_path p) \<noteq> CHR ''/'' \<Longrightarrow> clean_path (clean_path p @ ''/'') = clean_path p @ ''/''"
  by (rule clean_path_cases [of p]) (auto simp: clean_path_form(2) intro!: clean_path_form(2))

text \<open>A redirect of the multiplexer is the last one.\<close>

lemma serve_mux_moves_once:
  assumes "serve_mux pats path = MuxMoved u"
  shows "serve_mux pats u \<noteq> MuxMoved v"
proof (cases "clean_path path \<notin> set pats \<and> last (clean_path path) \<noteq> CHR ''/'' \<and> clean_path path @ ''/'' \<in> set pats")
  case True
  then have "u = clean_path path @ ''/''" using assms by (simp add: serve_mux_def Let_def)
  with True show ?thesis by (simp add: serve_mux_def Let_def clean_path_slash split: option.splits)
next
  case False
  then have "u = clean_path path" using assms by (auto simp: serve_mux_def Let_def split: if_splits option.splits)
  with False show ?thesis by (auto simp: serve_mux_def Let_def split: option.splits)
qed

end
