(* ===== verification/Server_Routes.thy ===== *)
theory Server_Routes
  imports Server Net_Url
begin

text \<open>
  \<open>ServeWebsocket\<close> of \<open>pkg/server.go\<close> as a whole: the routes, the handler of each, and the
  listener whose error is sent on the error channel. The router is the third-party package
  gorilla/mux: it is the parameter \<open>R\<close>, from the registered templates and a path to the index
  of the template that matched and its variables.
\<close>

section \<open>The routes\<close>

datatype route = RouteSession | RouteMetrics | RouteRoot

definition routes :: "(string \<times> route) list" where
  "routes = [(''/session/{id}'', RouteSession), (''/metrics'', RouteMetrics), (''/'', RouteRoot)]"

text \<open>
  The default multiplexer: the import of \<open>net/http/pprof\<close> registers its handlers on it, and
  \<open>ServeWebsocket\<close> the router.
\<close>

definition default_mux :: "string list" where
  "default_mux =
     [''/debug/pprof/'', ''/debug/pprof/cmdline'', ''/debug/pprof/profile'', ''/debug/pprof/symbol'', ''/debug/pprof/trace'', ''/'']"

type_synonym router = "string list \<Rightarrow> string \<Rightarrow> (nat \<times> (string \<rightharpoonup> string)) option"

text \<open>
  The documented matching of a template: element by element, where \<open>{name}\<close> matches any
  non-empty element and is a variable. Templates are tried in the order they were registered.
\<close>

definition variable_name :: "string \<Rightarrow> string option" where
  "variable_name t = (if 2 \<le> length t \<and> hd t = CHR ''{'' \<and> last t = CHR ''}'' then Some (butlast (tl t)) else None)"

fun match_elems :: "string list \<Rightarrow> string list \<Rightarrow> (string \<rightharpoonup> string) option" where
  "match_elems [] [] = Some Map.empty"
| "match_elems (t # ts) (s # ss) =
     (case variable_name t of
        None \<Rightarrow> if t = s then match_elems ts ss else None
      | Some v \<Rightarrow> if s \<noteq> [] then map_option (\<lambda>vars. vars(v \<mapsto> s)) (match_elems ts ss) else None)"
| "match_elems _ _ = None"

definition template_matches :: "string \<Rightarrow> string \<Rightarrow> (string \<rightharpoonup> string) option" where
  "template_matches t path = match_elems (go_split (CHR ''/'') t) (go_split (CHR ''/'') path)"

definition router_laws :: "router \<Rightarrow> bool" where
  "router_laws R \<longleftrightarrow>
     (\<forall>ts path i vars. R ts path = Some (i, vars) \<longrightarrow>
        i < length ts \<and> template_matches (ts ! i) path = Some vars \<and> (\<forall>j < i. template_matches (ts ! j) path = None))
     \<and> (\<forall>ts path. R ts path = None \<longrightarrow> (\<forall>t \<in> set ts. template_matches t path = None))"

section \<open>Serving a request\<close>

datatype http_reply =
    Moved string string        \<comment> \<open>status 301 to a path, with the query of the request\<close>
  | DebugPage string           \<comment> \<open>a handler of \<open>net/http/pprof\<close>\<close>
  | NotFound                   \<comment> \<open>status 404\<close>
  | MetricsPage                \<comment> \<open>the handler of \<open>metricsHandler\<close>\<close>
  | StatusOK                   \<comment> \<open>status 200 and an empty body\<close>
  | SessionReply admission

definition session_request :: "(string \<rightharpoonup> string) \<Rightarrow> string \<Rightarrow> http_req" where
  "session_request vars query =
     \<lparr>hr_id = (case vars ''id'' of None \<Rightarrow> [] | Some sid \<Rightarrow> sid), hr_query = parse_query query\<rparr>"

definition serve_route ::
  "router \<Rightarrow> 'sc jwt_parser \<Rightarrow> (string \<Rightarrow> bool) \<Rightarrow> 'c SignalServer \<Rightarrow> string \<Rightarrow> string \<Rightarrow> 'c \<times> mem
    \<Rightarrow> http_reply outcome \<times> ('c \<times> mem)" where
  "serve_route R jwtParse urlOk s path query n =
     (case R (map fst routes) path of
        None \<Rightarrow> (Ret NotFound, n)
      | Some (i, vars) \<Rightarrow>
          (case snd (routes ! i) of
             RouteSession \<Rightarrow> apfst (map_outcome SessionReply) (admit jwtParse urlOk s (session_request vars query) n)
           | RouteMetrics \<Rightarrow> (Ret MetricsPage, n)
           | RouteRoot \<Rightarrow> (Ret StatusOK, n)))"

text \<open>
  A request as \<open>net/http\<close> hands it to the multiplexer, with the decoded \<open>r.URL.Path\<close> and the
  \<open>r.URL.RawQuery\<close> of its URL, and a method other than \<open>CONNECT\<close>, for which \<open>ServeMux\<close> does not
  clean the path.
\<close>

definition serve_http ::
  "router \<Rightarrow> 'sc jwt_parser \<Rightarrow> (string \<Rightarrow> bool) \<Rightarrow> 'c SignalServer \<Rightarrow> string \<Rightarrow> string \<Rightarrow> 'c \<times> mem
    \<Rightarrow> http_reply outcome \<times> ('c \<times> mem)" where
  "serve_http R jwtParse urlOk s path query n =
     (case serve_mux default_mux path of
        MuxMoved u \<Rightarrow> (Ret (Moved u query), n)
      | MuxNotFound \<Rightarrow> (Ret NotFound, n)
      | MuxHandler p \<Rightarrow>
          if p = ''/'' then serve_route R jwtParse urlOk s path query n else (Ret (DebugPage p), n))"

text \<open>
  The end of \<open>ServeWebsocket\<close>: what \<open>listen\<close> returns, an error always, is sent on the
  error channel; on a channel without a buffer the send waits for its receiver.
\<close>

definition ServeWebsocket :: "(listen_call \<Rightarrow> string option) \<Rightarrow> 'c SignalServer \<Rightarrow> string option" where
  "ServeWebsocket listen s = listen (start_listener (sg_config s))"

section \<open>Which requests reach the session handler\<close>

lemma go_split_session:
  "go_split (CHR ''/'') ''/session/{id}'' = [[], ''session'', ''{id}'']" "go_split (CHR ''/'') ''/metrics'' = [[], ''metrics'']"
  "go_split (CHR ''/'') ''/'' = [[], []]"
  by simp_all

lemma match_elems_Some:
  "match_elems (t # ts) ss = Some vars \<longleftrightarrow>
     (\<exists>s rest. ss = s # rest \<and>
       (case variable_name t of
          None \<Rightarrow> s = t \<and> match_elems ts rest = Some vars
        | Some v \<Rightarrow> s \<noteq> [] \<and> (\<exists>vars'. match_elems ts rest = Some vars' \<and> vars = vars'(v \<mapsto> s))))"
  "match_elems [] ss = Some vars \<longleftrightarrow> ss = [] \<and> vars = Map.empty"
  by (cases ss; auto split: option.splits)+

lemma template_session:
  "template_matches ''/session/{id}'' path = Some vars \<longleftrightarrow>
     (\<exists>sid. path = ''/session/'' @ sid \<and> sid \<noteq> [] \<and> CHR ''/'' \<notin> set sid \<and> vars = [''id'' \<mapsto> sid])"
proof
  assume "template_matches ''/session/{id}'' path = Some vars"
  then obtain sid where split: "go_split (CHR ''/'') path = [[], ''session'', sid]" and sid: "sid \<noteq> []" "vars = [''id'' \<mapsto> sid]"
    by (auto simp: template_matches_def go_split_session match_elems_Some variable_name_def simp del: go_split.simps)
  have "path = ''/session/'' @ sid" using go_join_split [of "CHR ''/''" path] split by simp
  moreover have "CHR ''/'' \<notin> set sid" using go_split_parts [of sid "CHR ''/''" path] split by simp
  ultimately show "\<exists>sid. path = ''/session/'' @ sid \<and> sid \<noteq> [] \<and> CHR ''/'' \<notin> set sid \<and> vars = [''id'' \<mapsto> sid]"
    using sid by blast
next
  assume "\<exists>sid. path = ''/session/'' @ sid \<and> sid \<noteq> [] \<and> CHR ''/'' \<notin> set sid \<and> vars = [''id'' \<mapsto> sid]"
  then obtain sid where path: "path = ''/session/'' @ sid" "sid \<noteq> []" "CHR ''/'' \<notin> set sid" "vars = [''id'' \<mapsto> sid]" by blast
  then have "go_split (CHR ''/'') path = [[], ''session'', sid]"
    using go_split_none [of "CHR ''/''" sid] by simp
  with path show "template_matches ''/session/{id}'' path = Some vars"
    by (simp add: template_matches_def variable_name_def)
qed

lemma template_literal:
  assumes "list_all (\<lambda>e. variable_name e = None) (go_split (CHR ''/'') t)"
  shows "template_matches t path = Some vars \<longleftrightarrow> path = t \<and> vars = Map.empty"
proof -
  have "match_elems ts ss = Some vars \<longleftrightarrow> ss = ts \<and> vars = Map.empty" if "list_all (\<lambda>e. variable_name e = None) ts" for ts ss
    using that by (induction ts arbitrary: ss) (auto simp: match_elems_Some)
  from this [OF assms] have "template_matches t path = Some vars \<longleftrightarrow> go_split (CHR ''/'') path = go_split (CHR ''/'') t \<and> vars = Map.empty"
    by (simp add: template_matches_def)
  then show ?thesis by (metis go_join_split)
qed

text \<open>The route of a path.\<close>

lemma route_of_path:
  assumes "router_laws R"
  shows "R (map fst routes) path = (case template_matches ''/session/{id}'' path of
      Some vars \<Rightarrow> Some (0, vars)
    | None \<Rightarrow> if path = ''/metrics'' then Some (1, Map.empty) else if path = ''/'' then Some (2, Map.empty) else None)"
proof -
  have lit: "template_matches ''/metrics'' path = Some vars \<longleftrightarrow> path = ''/metrics'' \<and> vars = Map.empty"
    "template_matches ''/'' path = Some vars \<longleftrightarrow> path = ''/'' \<and> vars = Map.empty" for vars
    by (rule template_literal; simp add: variable_name_def)+
  show ?thesis
  proof (cases "R (map fst routes) path")
    case None
    then have "\<forall>t \<in> set (map fst routes). template_matches t path = None" using assms by (simp add: router_laws_def)
    then show ?thesis using None lit by (auto simp: routes_def)
  next
    case (Some r)
    obtain i vars where r: "r = (i, vars)" by (cases r)
    have *: "i < 3" "template_matches (map fst routes ! i) path = Some vars"
      "\<And>j. j < i \<Longrightarrow> template_matches (map fst routes ! j) path = None"
      using assms Some r unfolding router_laws_def by (fastforce simp: routes_def)+
    consider "i = 0" | "i = 1" | "i = 2" using *(1) by linarith
    then show ?thesis
      using *(2) *(3) [of 0] *(3) [of 1] Some r lit by cases (auto simp: routes_def)
  qed
qed

text \<open>The multiplexer gives a path to the router, or to the profiler, or redirects it.\<close>

lemma default_mux_handler:
  "serve_mux default_mux path = MuxHandler ''/'' \<longleftrightarrow>
     clean_path path = path \<and> \<not> prefix ''/debug/pprof/'' path \<and> path \<noteq> ''/debug/pprof''"
proof -
  have sub: "rev (sort_key length (filter (\<lambda>p. p \<noteq> [] \<and> last p = CHR ''/'') default_mux)) = [''/debug/pprof/'', ''/'']"
    by (simp add: default_mux_def)
  have pp: "p \<in> set default_mux \<Longrightarrow> p = ''/'' \<or> prefix ''/debug/pprof/'' p" for p
    by (auto simp: default_mux_def)
  have root: "prefix ''/'' path" if "clean_path path = path"
    by (rule clean_path_cases [of path]) (use that in \<open>auto simp: prefix_def\<close>)
  have moved: "p \<notin> set default_mux \<and> last p \<noteq> CHR ''/'' \<and> p @ ''/'' \<in> set default_mux \<longleftrightarrow> p = ''/debug/pprof''"
    if "p \<noteq> []" for p
    using that by (cases p rule: rev_cases) (auto simp: default_mux_def)
  have ne: "clean_path path \<noteq> []" by (rule clean_path_cases [of path]) simp_all
  show ?thesis
    using root pp [of path] moved [OF ne] ne
    by (auto simp: serve_mux_def Let_def longest_subtree_def sub)
qed

lemma session_path_clean:
  assumes "proper_elem sid" and "CHR ''/'' \<notin> set sid"
  shows "clean_path (''/session/'' @ sid) = ''/session/'' @ sid"
  using clean_path_form(1) [of "[''session'', sid]"] assms by (simp add: clean_form_def proper_elem_def)

lemma session_path_proper:
  assumes "clean_path (''/session/'' @ sid) = ''/session/'' @ sid" and "sid \<noteq> []"
  shows "proper_elem sid"
proof -
  have "sid \<noteq> ''.''" "sid \<noteq> ''..''" using assms(1) by (auto simp: clean_path_def Let_def)
  with assms(2) show ?thesis by (simp add: proper_elem_def)
qed

text \<open>The ids that the session handler can be given.\<close>

definition route_id :: "string \<Rightarrow> bool" where
  "route_id sid \<longleftrightarrow> proper_elem sid \<and> CHR ''/'' \<notin> set sid"

lemma serve_session:
  assumes "router_laws R" and "route_id sid"
  shows "serve_http R jwtParse urlOk s (''/session/'' @ sid) query n =
    apfst (map_outcome SessionReply) (admit jwtParse urlOk s \<lparr>hr_id = sid, hr_query = parse_query query\<rparr> n)"
proof -
  have id: "proper_elem sid" "CHR ''/'' \<notin> set sid" using assms(2) by (simp_all add: route_id_def)
  have "template_matches ''/session/{id}'' (''/session/'' @ sid) = Some [''id'' \<mapsto> sid]"
    unfolding template_session using id by (simp add: proper_elem_def)
  moreover have "serve_mux default_mux (''/session/'' @ sid) = MuxHandler ''/''"
    unfolding default_mux_handler using session_path_clean [OF id] by simp
  ultimately show ?thesis
    using route_of_path [OF assms(1)] by (simp add: serve_http_def serve_route_def session_request_def routes_def)
qed

lemma serve_other:
  assumes "router_laws R" and "\<And>sid. path = ''/session/'' @ sid \<Longrightarrow> \<not> route_id sid"
  shows "\<exists>reply. serve_http R jwtParse urlOk s path query n = (Ret reply, n) \<and> (\<forall>a. reply \<noteq> SessionReply a)"
proof (cases "serve_mux default_mux path = MuxHandler ''/''")
  case True
  then have clean: "clean_path path = path" by (simp add: default_mux_handler)
  have "template_matches ''/session/{id}'' path \<noteq> Some vars" for vars
    using assms(2) session_path_proper clean unfolding template_session by (auto simp: route_id_def)
  then have "template_matches ''/session/{id}'' path = None" by auto
  with True show ?thesis
    using route_of_path [OF assms(1)] by (simp add: serve_http_def serve_route_def routes_def)
next
  case False
  then show ?thesis by (cases "serve_mux default_mux path") (auto simp: serve_http_def)
qed

section \<open>Properties\<close>

text \<open>A router that tries the templates in order, and a parser that accepts no token.\<close>

definition first_match :: router where
  "first_match ts path =
     map_option (\<lambda>i. (i, the (template_matches (ts ! i) path)))
       (find (\<lambda>i. template_matches (ts ! i) path \<noteq> None) [0..<length ts])"

definition no_tokens :: "unit jwt_parser" where
  "no_tokens = (\<lambda>_ _. Inl ''no key'')"

lemma first_match_laws: "router_laws first_match"
proof -
  have "i < length ts \<and> template_matches (ts ! i) path = Some vars \<and> (\<forall>j < i. template_matches (ts ! j) path = None)"
    if "first_match ts path = Some (i, vars)" for ts path i vars
    using that by (auto simp: first_match_def find_Some_iff)
  moreover have "\<forall>t \<in> set ts. template_matches t path = None" if "first_match ts path = None" for ts path
    using that by (auto simp: first_match_def find_None_iff in_set_conv_nth)
  ultimately show ?thesis by (simp add: router_laws_def)
qed

text \<open>
  C6. Which requests reach the session handler, for every path and query of a request's URL:
  exactly those whose decoded path is \<open>/session/\<close> and one element that is not empty, \<open>.\<close> or
  \<open>..\<close>, and the handler gets that element as the session id, with the decoded query. Every
  other request is answered without a look at the coordinator: nothing of the node changes.
\<close>

theorem requests_routed:
  assumes "router_laws R"
  shows "(\<forall>sid. path = ''/session/'' @ sid \<and> route_id sid \<longrightarrow>
      serve_http R jwtParse urlOk s path query n =
        apfst (map_outcome SessionReply) (admit jwtParse urlOk s \<lparr>hr_id = sid, hr_query = parse_query query\<rparr> n))
    \<and> ((\<nexists>sid. path = ''/session/'' @ sid \<and> route_id sid) \<longrightarrow>
      (\<exists>reply. serve_http R jwtParse urlOk s path query n = (Ret reply, n) \<and> (\<forall>a. reply \<noteq> SessionReply a)))"
  using serve_session [OF assms] serve_other [OF assms, of path jwtParse urlOk s query n] by blast

theorem requests_routed_witness:
  "\<forall>c n. \<exists>reply. serve_http first_match no_tokens (\<lambda>_. True)
      \<lparr>sg_c = local_coordinator, sg_config = c\<rparr> ''/session/..'' [] n = (Ret reply, n) \<and> (\<forall>a. reply \<noteq> SessionReply a)"
proof -
  have "\<nexists>sid. ''/session/..'' = ''/session/'' @ sid \<and> route_id sid"
    by (auto simp: route_id_def proper_elem_def)
  then show ?thesis using requests_routed [OF first_match_laws, of "''/session/..''"] by blast
qed

text \<open>
  The profiler is reached by anybody, whatever the configuration of the token check, because
  its handlers are on the same multiplexer as the router.
\<close>

lemma profiler_needs_no_token:
  "serve_http R jwtParse urlOk s ''/debug/pprof/heap'' query n = (Ret (DebugPage ''/debug/pprof/''), n)"
proof -
  have "serve_mux default_mux ''/debug/pprof/heap'' = MuxHandler ''/debug/pprof/''" by code_simp
  then show ?thesis by (simp add: serve_http_def)
qed

end
