(* ===== verification/Cmd_Server.thy ===== *)
theory Cmd_Server
  imports Server_Routes
begin

text \<open>
  \<open>cmd/server.go\<close>: starting a node and the shutdown that waits for its clients. The
  \<open>select\<close> statements take the events in the order of a list; \<open>reading k\<close> is what the
  \<open>k\<close>-th call of \<open>MetricsGetActiveClientsCount\<close> returns.
\<close>

datatype sm_event = WsError string | OsSignal | Tick

datatype sm_end = Idle | Forced | Failed string | Waiting

text \<open>
  The inner loop. It does not select on the error channel, so an error of the websocket
  server is not noticed during a shutdown.
\<close>

fun shutdown_loop :: "(nat \<Rightarrow> int) \<Rightarrow> nat \<Rightarrow> sm_event list \<Rightarrow> sm_end" where
  "shutdown_loop reading k [] = (if reading k = 0 then Idle else Waiting)"
| "shutdown_loop reading k (Tick # evs) = (if reading k = 0 then Idle else shutdown_loop reading (Suc k) evs)"
| "shutdown_loop reading k (OsSignal # evs) = (if reading k = 0 then Idle else Forced)"
| "shutdown_loop reading k (WsError e # evs) = shutdown_loop reading k evs"

text \<open>The outer loop; the ticker does not exist before the first signal.\<close>

fun server_loop :: "(nat \<Rightarrow> int) \<Rightarrow> sm_event list \<Rightarrow> sm_end" where
  "server_loop reading [] = Waiting"
| "server_loop reading (WsError err # evs) = Failed err"
| "server_loop reading (OsSignal # evs) = shutdown_loop reading 0 evs"
| "server_loop reading (Tick # evs) = server_loop reading evs"

text \<open>Go's 64-bit product, and \<open>make([]byte, n)\<close>, which panics on a length out of range.\<close>

definition wrap64 :: "int \<Rightarrow> int" where
  "wrap64 n = (n + 2 ^ 63) mod 2 ^ 64 - 2 ^ 63"

definition make_bytes :: "int \<Rightarrow> int \<Rightarrow> unit outcome" where
  "make_bytes maxAlloc n =
     (if n < 0 \<or> maxAlloc < n then Panic ''runtime error: makeslice: len out of range'' else Ret ())"

text \<open>
  The flags of the command write their defaults into the configuration when the program
  starts; flags given on the command line replace them.
\<close>

definition server_init :: "RootConfig \<Rightarrow> RootConfig" where
  "server_init conf = conf\<lparr>Signal := (Signal conf)\<lparr>HTTPAddr := '':7000'', Cert := [], Key := []\<rparr>\<rparr>"

text \<open>
  \<open>serverMain\<close>: \<open>initTurn\<close> is the error of ion-sfu's TURN server, if any. The second
  result is the listener that the goroutine of \<open>ServeWebsocket\<close> opens.
\<close>

definition serverMain ::
  "int \<Rightarrow> (string list \<Rightarrow> string + 'w) \<Rightarrow> string \<Rightarrow> string \<Rightarrow> string option \<Rightarrow> (nat \<Rightarrow> int) \<Rightarrow> sm_event list
    \<Rightarrow> RootConfig \<Rightarrow> unit outcome \<times> listen_call option" where
  "serverMain maxAlloc dial label uuid initTurn reading evs conf =
     (case NewCoordinator dial label uuid conf of
        Err err \<Rightarrow> (Err err, None) | Panic p \<Rightarrow> (Panic p, None) | Block \<Rightarrow> (Block, None)
      | Ret c \<Rightarrow>
          (case make_bytes maxAlloc (wrap64 (wrap64 (Ballast (SFU conf) * 1024) * 1024)) of
             Panic p \<Rightarrow> (Panic p, None) | Err e \<Rightarrow> (Err e, None) | Block \<Rightarrow> (Block, None)
           | Ret _ \<Rightarrow>
               (let started = (if HTTPAddr (Signal conf) \<noteq> [] then Some (start_listener (Signal conf)) else None);
                    serve = (case server_loop reading evs of
                        Idle \<Rightarrow> (Ret (), started) | Forced \<Rightarrow> (Ret (), started)
                      | Failed err \<Rightarrow> (Err err, started) | Waiting \<Rightarrow> (Block, started))
                in if TurnEnabled (SFU conf)
                   then (case initTurn of Some err \<Rightarrow> (Err err, started) | None \<Rightarrow> serve)
                   else serve)))"

section \<open>Shutdown\<close>

lemma shutdown_idle:
  "shutdown_loop reading k evs = Idle \<Longrightarrow> \<exists>j \<ge> k. reading j = 0"
  by (induction reading k evs rule: shutdown_loop.induct) (auto split: if_splits intro: Suc_leD)

fun ticks_before_signal :: "sm_event list \<Rightarrow> nat" where
  "ticks_before_signal [] = 0"
| "ticks_before_signal (OsSignal # evs) = 0"
| "ticks_before_signal (Tick # evs) = Suc (ticks_before_signal evs)"
| "ticks_before_signal (WsError e # evs) = ticks_before_signal evs"

lemma shutdown_idle_iff:
  "shutdown_loop reading k evs = Idle \<longleftrightarrow> (\<exists>j. k \<le> j \<and> j \<le> k + ticks_before_signal evs \<and> reading j = 0)"
proof (induction reading k evs rule: shutdown_loop.induct)
  case (2 reading k evs)
  have "(\<exists>j. k \<le> j \<and> j \<le> k + Suc n \<and> reading j = 0)
    \<longleftrightarrow> reading k = 0 \<or> (\<exists>j. Suc k \<le> j \<and> j \<le> Suc k + n \<and> reading j = 0)" for n
    by (metis Suc_leD Suc_leI add_Suc_right add_Suc le_add1 le_eq_less_or_eq order_refl)
  with 2 show ?case by auto
qed (auto simp: le_antisym)

text \<open>
  After the first signal the node stops as idle exactly if one of the counts of active
  clients it takes, one at once and one per tick until a second signal, is zero; a second
  signal stops it at the latest; and before the first signal only an error of the websocket
  server ends it.
\<close>

lemma shutdown_waits_for_clients:
  "(server_loop reading (OsSignal # evs) = Idle \<longleftrightarrow> (\<exists>j \<le> ticks_before_signal evs. reading j = 0))
    \<and> (server_loop reading (OsSignal # evs) = Waiting \<longrightarrow> OsSignal \<notin> set evs)
    \<and> (server_loop reading evs = Failed err \<longrightarrow> (\<exists>before after. evs = before @ WsError err # after \<and> OsSignal \<notin> set before))"
proof -
  have wait: "shutdown_loop reading k evs = Waiting \<Longrightarrow> OsSignal \<notin> set evs" for k
    by (induction reading k evs rule: shutdown_loop.induct) (auto split: if_splits)
  have nofail: "shutdown_loop reading k es \<noteq> Failed err" for k es
    by (induction reading k es rule: shutdown_loop.induct) auto
  have "server_loop reading evs = Failed err \<Longrightarrow> \<exists>before after. evs = before @ WsError err # after \<and> OsSignal \<notin> set before"
  proof (induction evs)
    case (Cons ev evs)
    show ?case
    proof (cases ev)
      case (WsError e)
      with Cons.prems have "ev # evs = [] @ WsError err # evs" by simp
      then show ?thesis by (metis empty_iff empty_set)
    next
      case OsSignal
      with Cons.prems nofail show ?thesis by simp
    next
      case Tick
      with Cons obtain before after where "evs = before @ WsError err # after" "OsSignal \<notin> set before" by auto
      with Tick have "ev # evs = (Tick # before) @ WsError err # after" "OsSignal \<notin> set (Tick # before)" by simp_all
      then show ?thesis by blast
    qed
  qed simp
  then show ?thesis using wait shutdown_idle_iff [of reading 0 evs] by auto
qed

section \<open>Starting\<close>

lemma make_bytes_ballast:
  assumes "0 \<le> n" and "n * 1024 * 1024 \<le> maxAlloc" and "n * 1024 * 1024 < 2 ^ 63"
  shows "make_bytes maxAlloc (wrap64 (wrap64 (n * 1024) * 1024)) = Ret ()"
proof -
  have "wrap64 k = k" if "0 \<le> k" "k < 2 ^ 63" for k
    using that by (simp add: wrap64_def)
  then have "wrap64 (wrap64 (n * 1024) * 1024) = n * 1024 * 1024" using assms by simp
  then show ?thesis using assms by (simp add: make_bytes_def)
qed

text \<open>The loop of a node that gets exactly one signal and no error before it.\<close>

lemma server_loop_one_signal:
  assumes "list_all (\<lambda>ev. ev = Tick) before" and "OsSignal \<notin> set after"
  shows "server_loop reading (before @ OsSignal # after)
    = (if \<exists>j \<le> ticks_before_signal after. reading j = 0 then Idle else Waiting)"
proof -
  have "server_loop reading (before @ OsSignal # after) = shutdown_loop reading 0 after"
    using assms(1) by (induction before) auto
  moreover have "shutdown_loop reading k after \<in> {Idle, Waiting}" for k
    using assms(2) by (induction reading k after rule: shutdown_loop.induct) auto
  ultimately show ?thesis using shutdown_idle_iff [of reading 0 after] by auto
qed

text \<open>Without a port no coordinator can be made, so that a node panics before it listens.\<close>

lemma no_port_no_node:
  assumes "CHR '':'' \<notin> set (HTTPAddr (Signal conf))"
    and "Local (Coordinator conf) \<noteq> None \<or> Etcd (Coordinator conf) \<noteq> None"
    and "\<And>hosts. \<exists>w. dial hosts = Inr w"
  shows "\<exists>p. serverMain maxAlloc dial label uuid initTurn reading evs conf = (Panic p, None)"
proof -
  have panics: "\<exists>p. Endpoint (conf\<lparr>SFU := s\<rparr>) = Panic p" for s
    using go_split_none [OF assms(1)] by (simp add: Endpoint_def)
  have "\<exists>p. NewCoordinator dial label uuid conf = Panic p"
  proof (cases "Etcd (Coordinator conf)")
    case None
    then show ?thesis
      using assms(2) panics [of "default_buffers (SFU conf)"]
      by (auto simp: NewCoordinator_def newCoordinatorLocal_def Let_def)
  next
    case (Some ec)
    obtain w where "dial (Hosts ec) = Inr w" using assms(3) by blast
    with Some show ?thesis
      using panics [of "default_buffers (SFU conf)"]
      by (auto simp: NewCoordinator_def newCoordinatorEtcd_def Let_def)
  qed
  then show ?thesis by (auto simp: serverMain_def)
qed

lemma default_endpoint: "Endpoint (server_init conf) = Ret (''ws://'' @ FQDN (Signal conf) @ '':7000/ws'')"
  by (simp add: Endpoint_def server_init_def uses_tls_def)

end
