(* ===== verification/Gst.thy ===== *)
theory Gst
  imports Client
begin

text \<open>
  \<open>pkg/client/gst/gst.go\<close>: the texts of the GStreamer pipelines, the pipeline wrapper,
  and the hand-over of encoded samples to the WebRTC tracks. A call into the C layer is
  recorded with its arguments; whether GStreamer can build a pipeline from a text is the
  parameter \<open>launch\<close>, and a NULL pipeline is \<open>None\<close>.
\<close>

section \<open>Tracks, the C layer and the package state\<close>

record TrackLocal =
  tl_ID :: string
  tl_StreamID :: string
  tl_Mime :: string
  tl_Clock :: nat

record TrackRemote =
  rt_ID :: string
  rt_Mime :: string
  rt_PayloadType :: nat
  rt_Kind :: codec_type
  rt_SSRC :: nat

type_synonym handle = "nat option"
type_synonym bytes = "nat list"

datatype c_call =
    C_create_pipeline string
  | C_bind_appsink handle string string
  | C_start handle
  | C_play handle
  | C_pause handle
  | C_stop handle
  | C_seek handle int
  | C_push handle bytes string
  | C_add_input handle string string bool
  | C_remove_input handle handle bool
  | C_unref handle
  | C_free

record gst_state =
  boundTracks :: "string \<rightharpoonup> TrackLocal"
  keyframeCallbacks :: "string \<rightharpoonup> nat"
  c_calls :: "c_call list"
  next_handle :: nat
  samples :: "(string \<times> bytes \<times> int) list"

definition gst0 :: gst_state where
  "gst0 = \<lparr>boundTracks = Map.empty, keyframeCallbacks = Map.empty, c_calls = [], next_handle = 0, samples = []\<rparr>"

definition c_do :: "c_call \<Rightarrow> gst_state \<Rightarrow> gst_state" where
  "c_do x g = g\<lparr>c_calls := c_calls g @ [x]\<rparr>"

definition gstreamer_create_pipeline :: "(string \<Rightarrow> bool) \<Rightarrow> string \<Rightarrow> gst_state \<Rightarrow> handle \<times> gst_state" where
  "gstreamer_create_pipeline launch str g =
     (let g1 = c_do (C_create_pipeline str) g in
      if launch str then (Some (next_handle g1), g1\<lparr>next_handle := Suc (next_handle g1)\<rparr>) else (None, g1))"

text \<open>
  The main loop of GLib, which runs the bus callback on the messages of the pipelines: the end
  of a stream quits the loop, an error ends the process.
\<close>

datatype bus_msg = BusEOS | BusError string | BusOther

text \<open>How a program ends: as a Go call, or with \<open>os.Exit\<close>.\<close>

type_synonym ending = "unit outcome + nat"

definition gstreamer_bus_call :: "bus_msg \<Rightarrow> ending option" where
  "gstreamer_bus_call msg =
     (case msg of BusEOS \<Rightarrow> Some (Inl (Ret ())) | BusError err \<Rightarrow> Some (Inr 1) | BusOther \<Rightarrow> None)"

fun MainLoop :: "bus_msg list \<Rightarrow> ending" where
  "MainLoop [] = Inl Block"
| "MainLoop (msg # bus) = (case gstreamer_bus_call msg of None \<Rightarrow> MainLoop bus | Some e \<Rightarrow> e)"

lemma MainLoop_runs: "MainLoop bus = Inl Block \<longleftrightarrow> set bus \<subseteq> {BusOther}"
  by (induction bus) (auto simp: gstreamer_bus_call_def split: bus_msg.splits)

record Pipeline =
  pl_Pipeline :: handle
  inAudioTrack :: "TrackRemote option"
  inVideoTrack :: "TrackRemote option"

section \<open>Texts of pipelines\<close>

definition nl :: string where "nl = [CHR 0x0A]"
definition tabs :: "nat \<Rightarrow> string" where "tabs n = replicate n (CHR 0x09)"
definition dquote :: string where "dquote = [CHR 0x22]"

definition getEncoderString :: "string \<Rightarrow> string" where
  "getEncoderString GOOS =
     (if GOOS = ''darwin'' then
        ''vtenc_h264 realtime=true allow-frame-reordering=false max-keyframe-interval=60 ! video/x-h264, profile=baseline ! h264parse config-interval=1''
      else
        ''x264enc bframes=0 speed-preset=ultrafast key-int-max=60 ! video/x-h264, profile=baseline ! h264parse config-interval=1'')"

definition getDecoderString :: string where
  "getDecoderString = ''avdec_h264''"

definition player_pipeline_str :: "string \<Rightarrow> string \<Rightarrow> string \<Rightarrow> string \<Rightarrow> string" where
  "player_pipeline_str GOOS containerPath videoID audioID =
     nl @ tabs 2 @ ''filesrc location='' @ dquote @ containerPath @ dquote @ '' !''
     @ nl @ tabs 2 @ ''decodebin name=demux !''
     @ nl @ tabs 3 @ ''queue !''
     @ nl @ tabs 3 @ getEncoderString GOOS @ '' ! ''
     @ nl @ tabs 3 @ ''video/x-h264,stream-format=byte-stream,profile=baseline !''
     @ nl @ tabs 3 @ ''appsink name='' @ videoID
     @ nl @ tabs 2 @ ''demux. ! ''
     @ nl @ tabs 3 @ ''queue ! ''
     @ nl @ tabs 3 @ ''audioconvert ! ''
     @ nl @ tabs 3 @ ''audioresample ! ''
     @ nl @ tabs 3 @ ''audio/x-raw,rate=48000,channels=2 !''
     @ nl @ tabs 3 @ ''opusenc ! appsink name='' @ audioID
     @ nl @ tabs 1"

definition testsrc_pipeline_str :: "string \<Rightarrow> string \<Rightarrow> string \<Rightarrow> string" where
  "testsrc_pipeline_str GOOS videoID audioID =
     nl @ tabs 2 @ ''videotestsrc ! ''
     @ nl @ tabs 3 @ ''video/x-raw,width=1280,height=720 !''
     @ nl @ tabs 3 @ ''queue !''
     @ nl @ tabs 3 @ getEncoderString GOOS @ '' ! ''
     @ nl @ tabs 3 @ ''video/x-h264,stream-format=byte-stream,profile=baseline !''
     @ nl @ tabs 3 @ ''appsink name='' @ videoID @ '' ''
     @ nl @ tabs 2 @ ''audiotestsrc wave=6 ! ''
     @ nl @ tabs 3 @ ''queue ! ''
     @ nl @ tabs 3 @ ''audioconvert ! ''
     @ nl @ tabs 3 @ ''audioresample ! ''
     @ nl @ tabs 3 @ ''audio/x-raw,rate=48000,channels=2 !''
     @ nl @ tabs 3 @ ''opusenc ! appsink name='' @ audioID
     @ nl @ tabs 1"

definition codec_panic :: "string \<Rightarrow> string" where
  "codec_panic mime = ''couldn'' @ [CHR 0x27] @ ''t build gst pipeline for codec: '' @ mime @ '' ''"

definition audio_pipe :: "TrackRemote \<Rightarrow> string outcome" where
  "audio_pipe t =
     (let pipe = ''appsrc format=time is-live=true do-timestamp=true name='' @ rt_ID t @ '' ! application/x-rtp'';
          mime = go_toLower (rt_Mime t)
      in if mime = ''audio/opus'' then
           Ret (pipe @ '', encoding-name=OPUS, payload=96 ! rtpopusdepay ! decodebin ! autoaudiosink'')
         else if mime = ''audio/g722'' then
           Ret (pipe @ '' clock-rate=8000 ! rtpg722depay ! decodebin ! autoaudiosink'')
         else Panic (codec_panic (rt_Mime t)))"

definition video_pipe :: "TrackRemote \<Rightarrow> string outcome" where
  "video_pipe t =
     (let pipe = ''appsrc format=time is-live=true name='' @ rt_ID t @ '' ! application/x-rtp, payload=''
                 @ go_itoa (rt_PayloadType t);
          mime = go_toLower (rt_Mime t)
      in if mime = ''video/vp8'' then
           Ret (pipe @ '', encoding-name=VP8-DRAFT-IETF-01 ! rtpvp8depay ! decodebin ! autovideosink'')
         else if mime = ''viode/vp9'' then
           Ret (pipe @ '' ! rtpvp9depay ! decodebin ! autovideosink'')
         else if mime = ''video/h264'' then
           Ret (pipe @ '' ! rtph264depay ! h264parse config-interval=-1 ! '' @ getDecoderString @ '' ! glimagesink sync=false'')
         else Panic (codec_panic (rt_Mime t)))"

definition optional_pipe :: "(TrackRemote \<Rightarrow> string outcome) \<Rightarrow> TrackRemote option \<Rightarrow> string outcome" where
  "optional_pipe pipe track =
     (case track of
        None \<Rightarrow> Ret []
      | Some t \<Rightarrow> (case pipe t of Ret s \<Rightarrow> Ret (s @ nl) | r \<Rightarrow> r))"

definition client_pipeline_str :: "TrackRemote option \<Rightarrow> TrackRemote option \<Rightarrow> string outcome" where
  "client_pipeline_str audio video =
     (case optional_pipe audio_pipe audio of
        Ret a \<Rightarrow> (case optional_pipe video_pipe video of Ret v \<Rightarrow> Ret (a @ v) | r \<Rightarrow> r)
      | r \<Rightarrow> r)"

section \<open>Making and driving pipelines\<close>

definition new_pipeline ::
  "(string \<Rightarrow> bool) \<Rightarrow> string \<Rightarrow> TrackRemote option \<Rightarrow> TrackRemote option \<Rightarrow> gst_state \<Rightarrow> Pipeline \<times> gst_state" where
  "new_pipeline launch str audio video g =
     (let (h, g') = gstreamer_create_pipeline launch str g in
      (\<lparr>pl_Pipeline = h, inAudioTrack = audio, inVideoTrack = video\<rparr>, c_do C_free g'))"

definition CreatePipeline :: "(string \<Rightarrow> bool) \<Rightarrow> string \<Rightarrow> gst_state \<Rightarrow> Pipeline \<times> gst_state" where
  "CreatePipeline launch str g = new_pipeline launch str None None g"

definition CreatePlayerPipeline ::
  "(string \<Rightarrow> bool) \<Rightarrow> string \<Rightarrow> string \<Rightarrow> TrackLocal \<Rightarrow> TrackLocal \<Rightarrow> gst_state \<Rightarrow> Pipeline \<times> gst_state" where
  "CreatePlayerPipeline launch GOOS path audio video g =
     new_pipeline launch (player_pipeline_str GOOS path (tl_ID video) (tl_ID audio)) None None g"

definition CreateTestSrcPipeline ::
  "(string \<Rightarrow> bool) \<Rightarrow> string \<Rightarrow> TrackLocal \<Rightarrow> TrackLocal \<Rightarrow> gst_state \<Rightarrow> Pipeline \<times> gst_state" where
  "CreateTestSrcPipeline launch GOOS audio video g =
     new_pipeline launch (testsrc_pipeline_str GOOS (tl_ID video) (tl_ID audio)) None None g"

definition CreateClientPipeline ::
  "(string \<Rightarrow> bool) \<Rightarrow> TrackRemote option \<Rightarrow> TrackRemote option \<Rightarrow> gst_state \<Rightarrow> Pipeline outcome \<times> gst_state" where
  "CreateClientPipeline launch audio video g =
     (case client_pipeline_str audio video of
        Ret str \<Rightarrow> (let (p, g') = new_pipeline launch str audio video g in (Ret p, g'))
      | Err e \<Rightarrow> (Err e, g) | Panic e \<Rightarrow> (Panic e, g) | Block \<Rightarrow> (Block, g))"

definition BindAppsinkToTrack :: "Pipeline \<Rightarrow> TrackLocal \<Rightarrow> gst_state \<Rightarrow> gst_state" where
  "BindAppsinkToTrack p t g =
     c_do (C_bind_appsink (pl_Pipeline p) (tl_ID t) (tl_ID t)) (g\<lparr>boundTracks := (boundTracks g)(tl_ID t \<mapsto> t)\<rparr>)"

definition Pipeline_Start :: "Pipeline \<Rightarrow> gst_state \<Rightarrow> gst_state" where
  "Pipeline_Start p g = c_do (C_start (pl_Pipeline p)) g"

definition Pipeline_Play :: "Pipeline \<Rightarrow> gst_state \<Rightarrow> gst_state" where
  "Pipeline_Play p g = c_do (C_play (pl_Pipeline p)) g"

definition Pipeline_Pause :: "Pipeline \<Rightarrow> gst_state \<Rightarrow> gst_state" where
  "Pipeline_Pause p g = c_do (C_pause (pl_Pipeline p)) g"

definition SeekToTime :: "Pipeline \<Rightarrow> int \<Rightarrow> gst_state \<Rightarrow> gst_state" where
  "SeekToTime p pos g = c_do (C_seek (pl_Pipeline p) pos) g"

definition Push :: "Pipeline \<Rightarrow> bytes \<Rightarrow> string \<Rightarrow> gst_state \<Rightarrow> gst_state" where
  "Push p buf appsrc g = c_do C_free (c_do (C_push (pl_Pipeline p) buf appsrc) g)"

text \<open>
  The callback of an appsink: \<open>write\<close> is \<open>WriteSample\<close> of the track. The buffer is freed
  on the last line only, so neither when no track is bound nor when the write panics.
\<close>

definition ErrClosedPipe :: string where
  "ErrClosedPipe = ''io: read/write on closed pipe''"

definition goHandlePipelineBuffer ::
  "(TrackLocal \<Rightarrow> bytes \<Rightarrow> int \<Rightarrow> string option) \<Rightarrow> bytes \<Rightarrow> int \<Rightarrow> string \<Rightarrow> gst_state \<Rightarrow> unit outcome \<times> gst_state" where
  "goHandlePipelineBuffer write buf duration localTrackID g =
     (case boundTracks g localTrackID of
        None \<Rightarrow> (Ret (), g)
      | Some t \<Rightarrow>
          (let g1 = g\<lparr>samples := samples g @ [(tl_ID t, buf, duration)]\<rparr> in
           case write t buf duration of
             None \<Rightarrow> (Ret (), c_do C_free g1)
           | Some err \<Rightarrow> if err = ErrClosedPipe then (Ret (), c_do C_free g1) else (Panic err, g1)))"

section \<open>The producer\<close>

text \<open>
  \<open>pkg/client/producer.go\<close>. \<open>newTrack\<close> is \<open>webrtc.NewTrackLocalStaticSample\<close> on a
  mime type, a clock rate, a track id and a stream id; \<open>uid\<close>, \<open>vid\<close> and \<open>aid\<close> are the
  ids \<open>cuid.New\<close> returns. The fields \<open>name\<close> and \<open>paused\<close> are never set.
\<close>

record GSTProducer =
  gp_name :: string
  audioTrack :: TrackLocal
  videoTrack :: TrackLocal
  gp_pipeline :: Pipeline
  gp_paused :: bool

definition NewGSTProducer ::
  "(string \<Rightarrow> nat \<Rightarrow> string \<Rightarrow> string \<Rightarrow> string + TrackLocal) \<Rightarrow> (string \<Rightarrow> bool) \<Rightarrow> string
    \<Rightarrow> string \<Rightarrow> string \<Rightarrow> string \<Rightarrow> string \<Rightarrow> string \<Rightarrow> gst_state \<Rightarrow> GSTProducer outcome \<times> gst_state" where
  "NewGSTProducer newTrack launch GOOS uid vid aid kind path g =
     (let stream = ''gst-'' @ kind @ ''-'' @ uid in
      case newTrack ''video/h264'' 90000 vid stream of
        Inl err \<Rightarrow> (Panic err, g)
      | Inr video \<Rightarrow>
          (case newTrack ''audio/opus'' 48000 aid stream of
             Inl err \<Rightarrow> (Panic err, g)
           | Inr audio \<Rightarrow>
               (let (p, g1) = (if path \<noteq> [] then CreatePlayerPipeline launch GOOS path audio video g
                               else CreateTestSrcPipeline launch GOOS audio video g);
                    g2 = BindAppsinkToTrack p audio (BindAppsinkToTrack p video g1)
                in (Ret \<lparr>gp_name = [], audioTrack = audio, videoTrack = video, gp_pipeline = p, gp_paused = False\<rparr>, g2))))"

definition AudioTrack :: "GSTProducer \<Rightarrow> TrackLocal" where "AudioTrack p = audioTrack p"
definition VideoTrack :: "GSTProducer \<Rightarrow> TrackLocal" where "VideoTrack p = videoTrack p"

definition SeekP :: "GSTProducer \<Rightarrow> int \<Rightarrow> gst_state \<Rightarrow> gst_state" where
  "SeekP p ts g = SeekToTime (gp_pipeline p) ts g"

definition Producer_Pause :: "GSTProducer \<Rightarrow> bool \<Rightarrow> gst_state \<Rightarrow> gst_state" where
  "Producer_Pause p pause g = (if pause then Pipeline_Pause (gp_pipeline p) g else Pipeline_Play (gp_pipeline p) g)"

definition Producer_Stop :: "GSTProducer \<Rightarrow> gst_state \<Rightarrow> gst_state" where
  "Producer_Stop p g = g"

definition Producer_Start :: "GSTProducer \<Rightarrow> gst_state \<Rightarrow> gst_state" where
  "Producer_Start p g = Pipeline_Play (gp_pipeline p) (Pipeline_Start (gp_pipeline p) g)"

text \<open>
  A new producer binds both its tracks: the two appsinks named in the pipeline's text are
  the ids of its video and audio track, both are bound on that pipeline after it was created,
  and a buffer that arrives at either sink is written to that track and then freed.
\<close>

lemma producer_binds_both_sinks:
  assumes "\<And>mime rate tid stream t. newTrack mime rate tid stream = Inr t \<Longrightarrow> tl_ID t = tid"
    and "vid \<noteq> aid" and "\<And>t b d. write t b d = None"
    and "NewGSTProducer newTrack launch GOOS uid vid aid kind path g = (Ret p, g')"
  shows "boundTracks g' vid = Some (VideoTrack p) \<and> boundTracks g' aid = Some (AudioTrack p)
    \<and> c_calls g' = c_calls g @
        [C_create_pipeline (if path \<noteq> [] then player_pipeline_str GOOS path vid aid else testsrc_pipeline_str GOOS vid aid),
         C_free, C_bind_appsink (pl_Pipeline (gp_pipeline p)) vid vid, C_bind_appsink (pl_Pipeline (gp_pipeline p)) aid aid]
    \<and> goHandlePipelineBuffer write buf dur vid g' =
        (Ret (), c_do C_free (g'\<lparr>samples := samples g' @ [(vid, buf, dur)]\<rparr>))"
proof -
  obtain video audio where tracks: "newTrack ''video/h264'' 90000 vid (''gst-'' @ kind @ ''-'' @ uid) = Inr video"
    "newTrack ''audio/opus'' 48000 aid (''gst-'' @ kind @ ''-'' @ uid) = Inr audio"
    using assms(4) by (auto simp: NewGSTProducer_def Let_def split: sum.splits)
  have ids: "tl_ID video = vid" "tl_ID audio = aid" using tracks assms(1) by blast+
  obtain q g1 where made: "(if path \<noteq> [] then CreatePlayerPipeline launch GOOS path audio video g
      else CreateTestSrcPipeline launch GOOS audio video g) = (q, g1)" by (meson surj_pair)
  have res: "p = \<lparr>gp_name = [], audioTrack = audio, videoTrack = video, gp_pipeline = q, gp_paused = False\<rparr>"
    "g' = BindAppsinkToTrack q audio (BindAppsinkToTrack q video g1)"
    using assms(4) tracks made by (simp_all add: NewGSTProducer_def Let_def split: if_splits)
  have "c_calls g1 = c_calls g @
      [C_create_pipeline (if path \<noteq> [] then player_pipeline_str GOOS path vid aid else testsrc_pipeline_str GOOS vid aid), C_free]"
    using made ids
    by (auto simp: CreatePlayerPipeline_def CreateTestSrcPipeline_def new_pipeline_def gstreamer_create_pipeline_def
        c_do_def Let_def split: if_splits)
  then show ?thesis
    using res ids assms(2,3)
    by (simp add: BindAppsinkToTrack_def c_do_def VideoTrack_def AudioTrack_def goHandlePipelineBuffer_def)
qed

definition plain_track :: "string \<Rightarrow> nat \<Rightarrow> string \<Rightarrow> string \<Rightarrow> string + TrackLocal" where
  "plain_track mime rate tid stream = Inr \<lparr>tl_ID = tid, tl_StreamID = stream, tl_Mime = mime, tl_Clock = rate\<rparr>"

end
