(* ===== verification/Compositor.thy ===== *)
theory Compositor
  imports Gst
begin

text \<open>
  \<open>pkg/client/gst/compositor.go\<close>: decoding and mixing incoming tracks in one pipeline, as
  a state machine of the tracks' reader goroutines; and the layout of the videos from
  \<open>pkg/client/gst/gst.c\<close>. As in \<open>Gst\<close> a call into the C layer is recorded;
  \<open>parse_bin\<close> says whether GStreamer can build the bin of a track.
\<close>

section \<open>The compositor\<close>

record CompositorPipeline =
  cp_Pipeline :: handle
  trackBins :: "string \<rightharpoonup> handle"

definition compositor_pipeline_str :: "string \<Rightarrow> string" where
  "compositor_pipeline_str extra =
     nl @ tabs 2 @ ''compositor name=vmix background=black ! video/x-raw,width=1920,height=1080,framerate=30/1,format=UYVY ! queue ! tee name=vtee ''
     @ nl @ tabs 3 @ ''vtee. ! queue ! glimagesink sync=false ''
     @ nl @ tabs 2 @ ''audiomixer name=amix ! queue ! tee name=atee ''
     @ nl @ tabs 3 @ ''atee. ! queue ! audioconvert ! autoaudiosink''
     @ nl @ tabs 1 @ extra"

definition NewCompositorPipeline ::
  "(string \<Rightarrow> bool) \<Rightarrow> string \<Rightarrow> gst_state \<Rightarrow> CompositorPipeline \<times> gst_state" where
  "NewCompositorPipeline launch extra g =
     (let (h, g1) = gstreamer_create_pipeline launch (compositor_pipeline_str extra) g in
      (\<lparr>cp_Pipeline = h, trackBins = Map.empty\<rparr>, c_do C_free (c_do (C_start h) g1)))"

definition input_bin :: "TrackRemote \<Rightarrow> string outcome" where
  "input_bin t =
     (let bin = ''appsrc format=time is-live=true do-timestamp=true name='' @ rt_ID t @ '' ! application/x-rtp '';
          mime = go_toLower (rt_Mime t)
      in if mime = ''audio/opus'' then Ret (bin @ '', encoding-name=OPUS, payload=96 ! rtpopusdepay ! queue ! opusdec '')
         else if mime = ''audio/g722'' then Ret (bin @ '' clock-rate=8000 ! rtpg722depay ! decodebin '')
         else if mime = ''video/vp8'' then Ret (bin @ '', encoding-name=VP8-DRAFT-IETF-01 ! rtpvp8depay ! decodebin '')
         else if mime = ''viode/vp9'' then Ret (bin @ '' ! rtpvp9depay ! decodebin '')
         else if mime = ''video/h264'' then
           Ret (bin @ '', payload='' @ go_itoa (rt_PayloadType t) @ '' ! rtph264depay ! queue ! '' @ getDecoderString
                @ '' !  videoconvert ! queue '')
         else Panic (codec_panic (rt_Mime t)))"

text \<open>The C function returns NULL when the bin cannot be built.\<close>

definition compositor_add_input_track ::
  "(string \<Rightarrow> bool) \<Rightarrow> handle \<Rightarrow> string \<Rightarrow> string \<Rightarrow> bool \<Rightarrow> gst_state \<Rightarrow> handle \<times> gst_state" where
  "compositor_add_input_track parse_bin pipe bin tid isVideo g =
     (let g1 = c_do (C_add_input pipe bin tid isVideo) g in
      if parse_bin bin then (Some (next_handle g1), g1\<lparr>next_handle := Suc (next_handle g1)\<rparr>) else (None, g1))"

text \<open>The keyframe callback of a video track is represented by the SSRC it asks for.\<close>

definition AddInputTrack ::
  "(string \<Rightarrow> bool) \<Rightarrow> TrackRemote \<Rightarrow> CompositorPipeline \<times> gst_state \<Rightarrow> unit outcome \<times> (CompositorPipeline \<times> gst_state)" where
  "AddInputTrack parse_bin t st =
     (let (c, g) = st in
      case input_bin t of
        Ret bin \<Rightarrow>
          (let (h, g1) = compositor_add_input_track parse_bin (cp_Pipeline c) bin (rt_ID t) (rt_Kind t = RTPCodecTypeVideo) g;
               c1 = c\<lparr>trackBins := (trackBins c)(rt_ID t \<mapsto> h)\<rparr>;
               g2 = (if rt_Kind t = RTPCodecTypeVideo
                     then g1\<lparr>keyframeCallbacks := (keyframeCallbacks g1)(rt_ID t \<mapsto> rt_SSRC t)\<rparr> else g1)
           in (Ret (), (c1, g2)))
      | Panic p \<Rightarrow> (Panic p, (c, g)) | Err e \<Rightarrow> (Err e, (c, g)) | Block \<Rightarrow> (Block, (c, g)))"

definition Compositor_Play :: "CompositorPipeline \<Rightarrow> gst_state \<Rightarrow> gst_state" where
  "Compositor_Play c g = c_do (C_play (cp_Pipeline c)) g"

definition Compositor_Stop :: "CompositorPipeline \<Rightarrow> gst_state \<Rightarrow> gst_state" where
  "Compositor_Stop c g = c_do (C_stop (cp_Pipeline c)) g"

text \<open>The finalizer, given the bins in the order the range visits them.\<close>

definition destroy :: "handle list \<Rightarrow> gst_state \<Rightarrow> gst_state" where
  "destroy bins g = fold (\<lambda>b. c_do (C_unref b)) bins g"

definition pushAppsrc :: "CompositorPipeline \<Rightarrow> bytes \<Rightarrow> string \<Rightarrow> gst_state \<Rightarrow> gst_state" where
  "pushAppsrc c buf appsrc g = c_do C_free (c_do (C_push (cp_Pipeline c) buf appsrc) g)"

text \<open>
  The two branches of the reader loop: the end of the track, and a packet. \<open>Read\<close> fills a
  buffer of 1400 bytes, so it never returns more of a packet than that.
\<close>

definition track_ended :: "TrackRemote \<Rightarrow> CompositorPipeline \<times> gst_state \<Rightarrow> CompositorPipeline \<times> gst_state" where
  "track_ended t st =
     (let (c, g) = st;
          bin = (case trackBins c (rt_ID t) of None \<Rightarrow> None | Some h \<Rightarrow> h);
          g1 = c_do (C_remove_input (cp_Pipeline c) bin (rt_Kind t = RTPCodecTypeVideo)) g
      in (c\<lparr>trackBins := (trackBins c)(rt_ID t := None)\<rparr>,
          g1\<lparr>keyframeCallbacks := (keyframeCallbacks g1)(rt_ID t := None)\<rparr>))"

fun bindTrackToAppsrc ::
  "TrackRemote \<Rightarrow> (string + bytes) list \<Rightarrow> CompositorPipeline \<times> gst_state \<Rightarrow> unit outcome \<times> (CompositorPipeline \<times> gst_state)" where
  "bindTrackToAppsrc t [] st = (Block, st)"
| "bindTrackToAppsrc t (Inl readErr # rs) st = (Ret (), track_ended t st)"
| "bindTrackToAppsrc t (Inr buf # rs) st =
     bindTrackToAppsrc t rs (fst st, pushAppsrc (fst st) (take 1400 buf) (rt_ID t) (snd st))"

text \<open>A request for a key frame from inside the pipeline: the picture loss indication it sends, if any.\<close>

definition goHandleAppsrcForceKeyUnit :: "string \<Rightarrow> gst_state \<Rightarrow> nat option" where
  "goHandleAppsrcForceKeyUnit tid g = keyframeCallbacks g tid"

section \<open>Runs of the compositor\<close>

text \<open>
  The tracks whose reader goroutine is running, in the order in which they were added, the last
  one first. Track ids come from the other side of the peer connection and nothing compares
  them, so a track may be added with the id of a running one. The set of the ids for which this
  has happened is kept beside the state: an id leaves it when no running track has it any more.
\<close>

inductive comp_reach ::
  "(string \<Rightarrow> bool) \<Rightarrow> CompositorPipeline \<times> gst_state \<Rightarrow> TrackRemote list \<Rightarrow> string set
    \<Rightarrow> CompositorPipeline \<times> gst_state \<Rightarrow> bool"
  for parse_bin st0 where
  start: "comp_reach parse_bin st0 [] {} st0"
| add: "comp_reach parse_bin st0 ts shared st \<Longrightarrow> AddInputTrack parse_bin t st = (Ret (), st')
    \<Longrightarrow> comp_reach parse_bin st0 (t # ts) (if rt_ID t \<in> rt_ID ` set ts then insert (rt_ID t) shared else shared) st'"
| packet: "comp_reach parse_bin st0 ts shared st \<Longrightarrow> t \<in> set ts
    \<Longrightarrow> comp_reach parse_bin st0 ts shared (fst st, pushAppsrc (fst st) buf (rt_ID t) (snd st))"
| ended: "comp_reach parse_bin st0 ts shared st \<Longrightarrow> t \<in> set ts
    \<Longrightarrow> comp_reach parse_bin st0 (remove1 t ts) (shared \<inter> rt_ID ` set (remove1 t ts)) (track_ended t st)"

text \<open>
  What the compositor holds for an id: at most what one of the running tracks of that id put
  there; and if the id was not shared there is at most one such track, and all of its is there.
\<close>

definition callback_of :: "TrackRemote \<Rightarrow> nat option" where
  "callback_of t = (if rt_Kind t = RTPCodecTypeVideo then Some (rt_SSRC t) else None)"

definition tracks_of :: "string \<Rightarrow> TrackRemote list \<Rightarrow> TrackRemote list" where
  "tracks_of tid ts = filter (\<lambda>t. rt_ID t = tid) ts"

definition holds_for :: "TrackRemote list \<Rightarrow> string set \<Rightarrow> string \<Rightarrow> bool \<Rightarrow> nat option \<Rightarrow> bool" where
  "holds_for ts shared tid bin cb \<longleftrightarrow>
     (bin \<longrightarrow> tracks_of tid ts \<noteq> [])
     \<and> (\<forall>ssrc. cb = Some ssrc \<longrightarrow> (\<exists>t \<in> set (tracks_of tid ts). callback_of t = Some ssrc))
     \<and> (tid \<notin> shared \<longrightarrow> tracks_of tid ts = [] \<or> bin \<and> (\<exists>t. tracks_of tid ts = [t] \<and> cb = callback_of t))"

definition comp_inv :: "TrackRemote list \<Rightarrow> string set \<Rightarrow> CompositorPipeline \<times> gst_state \<Rightarrow> bool" where
  "comp_inv ts shared st \<longleftrightarrow>
     (\<forall>tid. holds_for ts shared tid (trackBins (fst st) tid \<noteq> None) (keyframeCallbacks (snd st) tid))"

lemma c_do_simps [simp]:
  "keyframeCallbacks (c_do x g) = keyframeCallbacks g" "boundTracks (c_do x g) = boundTracks g"
  "samples (c_do x g) = samples g" "c_calls (c_do x g) = c_calls g @ [x]" "next_handle (c_do x g) = next_handle g"
  by (simp_all add: c_do_def)

lemma add_effect:
  assumes "AddInputTrack parse_bin t st = (Ret (), st')"
  shows "trackBins (fst st') tid \<noteq> None \<longleftrightarrow> tid = rt_ID t \<or> trackBins (fst st) tid \<noteq> None"
    and "keyframeCallbacks (snd st') tid =
      (if tid = rt_ID t \<and> callback_of t \<noteq> None then callback_of t else keyframeCallbacks (snd st) tid)"
  using assms
  by (auto simp: AddInputTrack_def compositor_add_input_track_def callback_of_def Let_def
      split: outcome.splits prod.splits if_splits)

lemma tracks_of_simps [simp]:
  "tracks_of tid [] = []"
  "tracks_of tid (t # ts) = (if rt_ID t = tid then t # tracks_of tid ts else tracks_of tid ts)"
  by (simp_all add: tracks_of_def)

lemma tracks_of_other [simp]: "rt_ID t \<noteq> tid \<Longrightarrow> tracks_of tid (remove1 t ts) = tracks_of tid ts"
  by (induction ts) (auto simp: tracks_of_def)

lemma tracks_of_empty: "tracks_of tid ts = [] \<longleftrightarrow> tid \<notin> rt_ID ` set ts"
  by (auto simp: tracks_of_def filter_empty_conv)

lemma tracks_of_one:
  assumes "tracks_of (rt_ID t) ts = [u]" and "t \<in> set ts"
  shows "tracks_of (rt_ID t) (remove1 t ts) = []"
proof -
  have "t \<in> set (tracks_of (rt_ID t) ts)" using assms(2) by (simp add: tracks_of_def)
  with assms(1) have "tracks_of (rt_ID t) ts = [t]" by simp
  then show ?thesis by (simp add: tracks_of_def filter_remove1)
qed

lemma comp_inv_add:
  assumes "comp_inv ts shared st" and "AddInputTrack parse_bin t st = (Ret (), st')"
  shows "comp_inv (t # ts) (if rt_ID t \<in> rt_ID ` set ts then insert (rt_ID t) shared else shared) st'"
  unfolding comp_inv_def
proof
  fix tid
  have inv: "holds_for ts shared tid (trackBins (fst st) tid \<noteq> None) (keyframeCallbacks (snd st) tid)"
    using assms(1) by (simp add: comp_inv_def)
  show "holds_for (t # ts) (if rt_ID t \<in> rt_ID ` set ts then insert (rt_ID t) shared else shared) tid
      (trackBins (fst st') tid \<noteq> None) (keyframeCallbacks (snd st') tid)"
  proof (cases "tid = rt_ID t")
    case True
    have "tid \<notin> rt_ID ` set ts \<Longrightarrow> keyframeCallbacks (snd st) tid = None"
      using inv tracks_of_empty [of tid ts] by (cases "keyframeCallbacks (snd st) tid") (auto simp: holds_for_def)
    with True inv show ?thesis
      unfolding add_effect [OF assms(2)] holds_for_def by (auto simp: tracks_of_empty)
  next
    case False
    with inv show ?thesis
      unfolding add_effect [OF assms(2)] holds_for_def by (auto split: if_splits)
  qed
qed

lemma comp_inv_ended:
  assumes "comp_inv ts shared st" and "t \<in> set ts"
  shows "comp_inv (remove1 t ts) (shared \<inter> rt_ID ` set (remove1 t ts)) (track_ended t st)"
  unfolding comp_inv_def
proof
  fix tid
  have inv: "holds_for ts shared tid (trackBins (fst st) tid \<noteq> None) (keyframeCallbacks (snd st) tid)"
    using assms(1) by (simp add: comp_inv_def)
  have gone: "tracks_of tid (remove1 t ts) = [] \<longleftrightarrow> tid \<notin> rt_ID ` set (remove1 t ts)" by (rule tracks_of_empty)
  show "holds_for (remove1 t ts) (shared \<inter> rt_ID ` set (remove1 t ts)) tid
      (trackBins (fst (track_ended t st)) tid \<noteq> None) (keyframeCallbacks (snd (track_ended t st)) tid)"
  proof (cases "tid = rt_ID t")
    case True
    have "tracks_of tid ts \<noteq> []" using assms(2) True by (auto simp: tracks_of_empty)
    with True inv gone tracks_of_one [OF _ assms(2)] show ?thesis
      by (auto simp: holds_for_def track_ended_def Let_def case_prod_beta)
  next
    case False
    with inv gone show ?thesis
      by (auto simp: holds_for_def track_ended_def Let_def case_prod_beta)
  qed
qed

lemma comp_reach_inv:
  assumes "comp_reach parse_bin st0 ts shared st" and "comp_inv [] {} st0"
  shows "comp_inv ts shared st"
  using assms
proof (induction rule: comp_reach.induct)
  case (add ts shared st t st')
  then show ?case using comp_inv_add by blast
next
  case (packet ts shared st t buf)
  then show ?case by (simp add: comp_inv_def pushAppsrc_def)
next
  case (ended ts shared st t)
  then show ?case using comp_inv_ended by blast
qed simp

text \<open>
  C23. In every run of a compositor, with tracks arriving, sending and ending in any order and
  with any ids: nothing of a track that has ended is left, that is, every bin and every key
  frame callback it holds belongs to a running track. For an id that no two running tracks have
  shared since none had it, it holds the bin exactly if the track is running and forwards
  requests for a key frame, with the right SSRC, exactly if that track is a video.
\<close>

theorem compositor_holds_running_tracks:
  assumes "keyframeCallbacks g = Map.empty" and "NewCompositorPipeline launch extra g = (c0, g0)"
    and "comp_reach parse_bin (c0, g0) ts shared (c, g')"
  shows "dom (trackBins c) \<subseteq> rt_ID ` set ts
    \<and> (goHandleAppsrcForceKeyUnit tid g' = Some ssrc \<longrightarrow>
         (\<exists>t \<in> set ts. rt_ID t = tid \<and> rt_SSRC t = ssrc \<and> rt_Kind t = RTPCodecTypeVideo))
    \<and> (tid \<notin> shared \<longrightarrow>
         (tid \<in> dom (trackBins c) \<longleftrightarrow> tid \<in> rt_ID ` set ts)
         \<and> (goHandleAppsrcForceKeyUnit tid g' = Some ssrc \<longleftrightarrow>
              (\<exists>t \<in> set ts. rt_ID t = tid \<and> rt_SSRC t = ssrc \<and> rt_Kind t = RTPCodecTypeVideo)))"
proof -
  have "trackBins c0 = Map.empty" and "keyframeCallbacks g0 = Map.empty"
    using assms(1,2) by (auto simp: NewCompositorPipeline_def gstreamer_create_pipeline_def Let_def split: if_splits)
  then have "comp_inv [] {} (c0, g0)" by (simp add: comp_inv_def holds_for_def)
  from comp_reach_inv [OF assms(3) this]
  have inv: "holds_for ts shared tid (tid \<in> dom (trackBins c)) (goHandleAppsrcForceKeyUnit tid g')" for tid
    by (simp add: comp_inv_def goHandleAppsrcForceKeyUnit_def domIff)
  have video: "(\<exists>t \<in> set ts. rt_ID t = tid \<and> rt_SSRC t = ssrc \<and> rt_Kind t = RTPCodecTypeVideo)
      \<longleftrightarrow> (\<exists>t \<in> set (tracks_of tid ts). callback_of t = Some ssrc)"
    by (auto simp: tracks_of_def callback_of_def)
  have bins: "dom (trackBins c) \<subseteq> rt_ID ` set ts"
  proof
    fix x
    assume "x \<in> dom (trackBins c)"
    with inv [of x] show "x \<in> rt_ID ` set ts" by (simp add: holds_for_def tracks_of_empty)
  qed
  from inv [of tid] have "tid \<notin> shared \<Longrightarrow> tracks_of tid ts = []
      \<or> tid \<in> dom (trackBins c) \<and> (\<exists>t. tracks_of tid ts = [t] \<and> goHandleAppsrcForceKeyUnit tid g' = callback_of t)"
    and callback: "goHandleAppsrcForceKeyUnit tid g' = Some ssrc \<Longrightarrow> \<exists>t \<in> set (tracks_of tid ts). callback_of t = Some ssrc"
    by (simp_all add: holds_for_def)
  then have "tid \<notin> shared \<Longrightarrow> (tid \<in> dom (trackBins c) \<longleftrightarrow> tid \<in> rt_ID ` set ts)
      \<and> (goHandleAppsrcForceKeyUnit tid g' = Some ssrc \<longleftrightarrow> (\<exists>t \<in> set (tracks_of tid ts). callback_of t = Some ssrc))"
    using bins tracks_of_empty [of tid ts] by fastforce
  with bins callback show ?thesis unfolding video by blast
qed

definition demo_track :: TrackRemote where
  "demo_track = \<lparr>rt_ID = ''t1'', rt_Mime = ''video/H264'', rt_PayloadType = 102, rt_Kind = RTPCodecTypeVideo, rt_SSRC = 77\<rparr>"

theorem compositor_holds_running_tracks_witness:
  "goHandleAppsrcForceKeyUnit ''t1'' (snd (snd (AddInputTrack (\<lambda>_. True) demo_track (NewCompositorPipeline (\<lambda>_. True) [] gst0)))) = Some 77"
proof -
  let ?st = "NewCompositorPipeline (\<lambda>_. True) [] gst0"
  let ?st' = "snd (AddInputTrack (\<lambda>_. True) demo_track ?st)"
  have "go_toLower ''video/H264'' = ''video/h264''" by code_simp
  then have "AddInputTrack (\<lambda>_. True) demo_track ?st = (Ret (), ?st')"
    by (simp add: AddInputTrack_def input_bin_def demo_track_def Let_def case_prod_beta)
  from comp_reach.add [OF comp_reach.start this]
  have run: "comp_reach (\<lambda>_. True) (fst ?st, snd ?st) [demo_track] {} (fst ?st', snd ?st')" by simp
  have g0: "keyframeCallbacks gst0 = Map.empty" by (simp add: gst0_def)
  have "\<exists>t \<in> set [demo_track]. rt_ID t = ''t1'' \<and> rt_SSRC t = 77 \<and> rt_Kind t = RTPCodecTypeVideo"
    by (simp add: demo_track_def)
  with compositor_holds_running_tracks [OF g0 prod.collapse [symmetric] run, of "''t1''" 77]
  show ?thesis by blast
qed

text \<open>
  Which codecs can be shown, whatever the case of the mime type: Opus, G.722, VP8, H.264
  and the misspelt \<open>viode/vp9\<close>. So a VP9 track makes the compositor panic, before it has
  changed anything, and a client pipeline cannot be made for it either.
\<close>

lemma supported_codecs:
  "((\<exists>bin. input_bin t = Ret bin) \<longleftrightarrow>
      go_toLower (rt_Mime t) \<in> {''audio/opus'', ''audio/g722'', ''video/vp8'', ''viode/vp9'', ''video/h264''})
    \<and> (go_toLower (rt_Mime t) = ''video/vp9'' \<longrightarrow>
         AddInputTrack parse_bin t st = (Panic (codec_panic (rt_Mime t)), st)
         \<and> CreateClientPipeline launch None (Some t) g = (Panic (codec_panic (rt_Mime t)), g))"
  by (auto simp: input_bin_def AddInputTrack_def CreateClientPipeline_def client_pipeline_str_def
      optional_pipe_def video_pipe_def Let_def)

section \<open>The layout of the videos\<close>

text \<open>
  \<open>gstreamer_compositor_relayout_videos\<close>: the grid for a number of videos, and the loop
  over the pads. With more than 16 videos the C variables \<open>rows\<close> and \<open>cols\<close> are read
  uninitialised, the value \<open>None\<close>.
\<close>

definition grid :: "nat \<Rightarrow> (int \<times> int) option" where
  "grid num_videos =
     (if num_videos \<le> 1 then Some (1, 1)
      else if num_videos \<le> 4 then Some (2, 2)
      else if num_videos \<le> 9 then Some (3, 3)
      else if num_videos \<le> 16 then Some (4, 4)
      else None)"

fun place_pads :: "nat \<Rightarrow> int \<Rightarrow> int \<Rightarrow> int \<Rightarrow> int \<Rightarrow> (int \<times> int \<times> int \<times> int) list" where
  "place_pads 0 x y w h = []"
| "place_pads (Suc n) x y w h =
     (x, y, w, h) #
     (let x' = x + w in
      if x' \<ge> 1920 then place_pads n 0 (y + h) w h else place_pads n x' y w h)"

definition relayout_videos :: "nat \<Rightarrow> (int \<times> int \<times> int \<times> int) list option" where
  "relayout_videos num_videos =
     (case grid num_videos of
        None \<Rightarrow> None
      | Some (rows, cols) \<Rightarrow> Some (place_pads num_videos 0 0 (1920 div cols) (1080 div rows)))"

definition inside_canvas :: "int \<times> int \<times> int \<times> int \<Rightarrow> bool" where
  "inside_canvas r = (case r of (x, y, w, h) \<Rightarrow> 0 \<le> x \<and> 0 \<le> y \<and> 0 < w \<and> 0 < h \<and> x + w \<le> 1920 \<and> y + h \<le> 1080)"

definition apart :: "int \<times> int \<times> int \<times> int \<Rightarrow> int \<times> int \<times> int \<times> int \<Rightarrow> bool" where
  "apart r s = (case (r, s) of ((x, y, w, h), (x', y', w', h')) \<Rightarrow>
     x + w \<le> x' \<or> x' + w' \<le> x \<or> y + h \<le> y' \<or> y' + h' \<le> y)"

fun pairwise_apart :: "(int \<times> int \<times> int \<times> int) list \<Rightarrow> bool" where
  "pairwise_apart [] = True"
| "pairwise_apart (r # rs) = (list_all (apart r) rs \<and> pairwise_apart rs)"

lemma layouts_good:
  "list_all (\<lambda>n. case relayout_videos n of None \<Rightarrow> False
     | Some rs \<Rightarrow> length rs = n \<and> list_all inside_canvas rs \<and> pairwise_apart rs) [0..<17]"
  by code_simp

text \<open>
  C32. For up to 16 videos the layout gives every video its own rectangle inside the 1920 by
  1080 canvas, and no two of them overlap; for more than 16 the layout is undefined.
\<close>

theorem layout_tiles_canvas:
  "(n \<le> 16 \<longrightarrow> (\<exists>rs. relayout_videos n = Some rs \<and> length rs = n \<and> (\<forall>r \<in> set rs. inside_canvas r) \<and> pairwise_apart rs))
    \<and> (n > 16 \<longrightarrow> relayout_videos n = None)"
proof -
  have "n \<le> 16 \<Longrightarrow> n \<in> set [0..<17]" by simp
  then show ?thesis
    using layouts_good [unfolded list_all_iff]
    by (auto simp: relayout_videos_def grid_def list_all_iff split: option.splits if_splits)
qed

theorem layout_tiles_canvas_witness:
  "\<exists>rs. relayout_videos 5 = Some rs \<and> length rs = 5 \<and> pairwise_apart rs"
  using layout_tiles_canvas [of 5] by auto

end
