(* ===== verification/Cmd_Client.thy ===== *)
theory Cmd_Client
  imports Compositor Server_Routes
begin

text \<open>
  \<open>cmd/client.go\<close> and \<open>cmd/composite.go\<close>: the URL a client connects to, the text of the
  encoding pipeline, and the two command line clients, composed from the signalling client,
  the WebRTC client, the producer and the compositor. Events arrive in the order of a list.
\<close>

section \<open>The URL\<close>

definition endpoint :: "string \<Rightarrow> string \<Rightarrow> string \<Rightarrow> string" where
  "endpoint clientURL clientSID clientToken =
     (let url = clientURL @ ''/session/'' @ clientSID in
      if clientToken \<noteq> [] then url @ ''?access_token='' @ clientToken else url)"

section \<open>The two programs\<close>

datatype ct_event = CtTick | CtSignal | CtClosed | CtTrack TrackRemote

text \<open>
  The parameters of both programs: the peer connections, the wire formats, the JSON-RPC
  connection and the dialer, the tracks and pipelines, the media engine, and what the
  callbacks do while the client waits for an answer.
\<close>

type_synonym ('j, 'pc, 'dc) cli = "(('j, unit, unit) JSONRPCSignalClient, 'pc, 'dc, nat) Client"

record ('j, 'pc, 'e, 'd, 'dc) cli_env =
  ce_pc :: "('pc, 'e, 'd, nat, TrackLocal, 'dc) pc_api"
  ce_wire :: "('d, nat) wire"
  ce_enc :: "('d, nat) enc_wire"
  ce_rpc :: "'j rpc_conn"
  ce_dial :: "string \<Rightarrow> string + 'j"
  ce_track :: "string \<Rightarrow> nat \<Rightarrow> string \<Rightarrow> string \<Rightarrow> string + TrackLocal"
  ce_launch :: "string \<Rightarrow> bool"
  ce_parse_bin :: "string \<Rightarrow> bool"
  ce_GOOS :: string
  ce_engine :: "'e outcome"

definition ce_signal ::
  "('j, 'pc, 'e, 'd, 'dc) cli_env \<Rightarrow> (('j, unit, unit) JSONRPCSignalClient, 'd, nat) signal_api" where
  "ce_signal P = jsonrpc_signal (ce_wire P) (ce_enc P) (ce_rpc P)"

text \<open>
  The part both programs share: make the client, open the connection. The error of
  \<open>NewClient\<close> is only logged and leaves a nil client, the value \<open>None\<close>; setting its
  field \<open>OnTrack\<close> is then a panic.
\<close>

definition connect ::
  "('j, 'pc, 'e, 'd, 'dc) cli_env \<Rightarrow> string \<Rightarrow> (('j, 'pc, 'dc) cli option \<times> ('j, unit, unit) JSONRPCSignalClient) outcome" where
  "connect P url =
     (case NewClient (ce_pc P) (ce_engine P) NewJSONRPCSignalClient of
        Panic p \<Rightarrow> Panic p
      | Block \<Rightarrow> Block
      | made \<Rightarrow>
          (case sc_Open (ce_dial P) url NewJSONRPCSignalClient of
             (Err err, _) \<Rightarrow> Err err
           | (Panic p, _) \<Rightarrow> Panic p
           | (Block, _) \<Rightarrow> Block
           | (Ret _, sig) \<Rightarrow> Ret (ignore_err made, sig)))"

definition set_OnTrack ::
  "('j, 'pc, 'dc) cli option \<times> ('j, unit, unit) JSONRPCSignalClient \<Rightarrow> ('j, 'pc, 'dc) cli outcome" where
  "set_OnTrack made =
     (case made of
        (None, _) \<Rightarrow> Panic nil_deref
      | (Some c, sig) \<Rightarrow> Ret (c\<lparr>cl_signal := sig, cl_onTrack := True\<rparr>))"

text \<open>The final loop of \<open>clientThread\<close>; an error of a ping is only logged.\<close>

fun client_loop ::
  "'j rpc_conn \<Rightarrow> ct_event list \<Rightarrow> ('j, 'pc, 'dc) cli \<Rightarrow> ending \<times> ('j, 'pc, 'dc) cli" where
  "client_loop J [] c = (Inl Block, c)"
| "client_loop J (CtTick # evs) c = client_loop J evs (c\<lparr>cl_signal := snd (sc_Ping J (cl_signal c))\<rparr>)"
| "client_loop J (CtSignal # evs) c =
     (case sc_Close J (cl_signal c) of
        (Panic p, s) \<Rightarrow> (Inl (Panic p), c\<lparr>cl_signal := s\<rparr>)
      | (_, s) \<Rightarrow> client_loop J evs (c\<lparr>cl_signal := s\<rparr>))"
| "client_loop J (CtClosed # evs) c = (Inr 1, c)"
| "client_loop J (CtTrack t # evs) c = client_loop J evs c"

definition make_producer ::
  "('j, 'pc, 'e, 'd, 'dc) cli_env \<Rightarrow> string \<times> string \<times> string \<Rightarrow> string list \<Rightarrow> gst_state
    \<Rightarrow> GSTProducer option outcome \<times> gst_state" where
  "make_producer P ids args g =
     (let (uid, vid, aid) = ids;
          new = (\<lambda>kind path.
            (case NewGSTProducer (ce_track P) (ce_launch P) (ce_GOOS P) uid vid aid kind path g of
               (Ret p, g') \<Rightarrow> (Ret (Some p), g')
             | (Err e, g') \<Rightarrow> (Err e, g') | (Panic e, g') \<Rightarrow> (Panic e, g') | (Block, g') \<Rightarrow> (Block, g')))
      in case args of
           [] \<Rightarrow> (Ret None, g)
         | a # _ \<Rightarrow> if a = ''test'' then new ''video'' [] else new ''screen'' a)"

definition publish_producer ::
  "('j, 'pc, 'e, 'd, 'dc) cli_env \<Rightarrow> (('j, 'pc, 'dc) cli \<Rightarrow> ('j, 'pc, 'dc) cli) \<Rightarrow> GSTProducer option
    \<Rightarrow> ('j, 'pc, 'dc) cli \<times> gst_state \<Rightarrow> unit outcome \<times> (('j, 'pc, 'dc) cli \<times> gst_state)" where
  "publish_producer P meanwhile producer st =
     (let (c, g) = st in
      case producer of
        None \<Rightarrow> (Ret (), (c, g))
      | Some p \<Rightarrow>
          (let (r, started, c') = Publish (ce_pc P) (ce_signal P) meanwhile (VideoTrack p) (AudioTrack p) c
           in (r, (c', if started then Producer_Start p g else g))))"

definition clientThread ::
  "('j, 'pc, 'e, 'd, 'dc) cli_env \<Rightarrow> (('j, 'pc, 'dc) cli \<Rightarrow> ('j, 'pc, 'dc) cli) \<Rightarrow> string \<times> string \<times> string
    \<Rightarrow> string \<Rightarrow> string \<Rightarrow> string \<Rightarrow> string list \<Rightarrow> ct_event list \<Rightarrow> gst_state \<Rightarrow> ending \<times> gst_state" where
  "clientThread P meanwhile ids clientURL clientSID clientToken args evs g =
     (case outcome_bind (connect P (endpoint clientURL clientSID clientToken)) set_OnTrack of
        Err e \<Rightarrow> (Inl (Err e), g) | Panic p \<Rightarrow> (Inl (Panic p), g) | Block \<Rightarrow> (Inl Block, g)
      | Ret c \<Rightarrow>
          (case Client_Join (ce_pc P) (ce_signal P) meanwhile clientSID c of
             (Err e, _) \<Rightarrow> (Inl (Err e), g) | (Panic p, _) \<Rightarrow> (Inl (Panic p), g) | (Block, _) \<Rightarrow> (Inl Block, g)
           | (Ret _, c1) \<Rightarrow>
               (case make_producer P ids args g of
                  (Err e, g1) \<Rightarrow> (Inl (Err e), g1) | (Panic p, g1) \<Rightarrow> (Inl (Panic p), g1) | (Block, g1) \<Rightarrow> (Inl Block, g1)
                | (Ret producer, g1) \<Rightarrow>
                    (case publish_producer P meanwhile producer (c1, g1) of
                       (Err e, (c2, g2)) \<Rightarrow> (Inl (Err e), g2) | (Panic p, (c2, g2)) \<Rightarrow> (Inl (Panic p), g2)
                     | (Block, (c2, g2)) \<Rightarrow> (Inl Block, g2)
                     | (Ret _, (c2, g2)) \<Rightarrow> (fst (client_loop (ce_rpc P) evs c2), g2)))))"

section \<open>Compositing\<close>

definition encode_pipeline_str :: "string \<Rightarrow> string \<Rightarrow> string" where
  "encode_pipeline_str savePath streamURL =
     (if savePath \<noteq> [] \<or> streamURL \<noteq> [] then
        nl @ tabs 4 @ ''tee name=aenctee ''
        @ nl @ tabs 4 @ ''tee name=venctee''
        @ nl @ tabs 4 @ ''vtee. ! queue ! vtenc_h264 ! video/x-h264,chroma-site=mpeg2 ! venctee.''
        @ nl @ tabs 4 @ ''atee. ! queue ! faac ! aenctee.''
        @ nl @ tabs 2
        @ (if savePath \<noteq> [] then
             nl @ tabs 4 @ ''qtmux name=savemux ! queue ! filesink location='' @ savePath @ '' async=false sync=false''
             @ nl @ tabs 4 @ ''venctee. ! queue ! savemux.''
             @ nl @ tabs 4 @ ''aenctee. ! queue ! savemux. ''
             @ nl @ tabs 3
           else [])
        @ (if streamURL \<noteq> [] then
             nl @ tabs 4 @ ''flvmux name=streammux ! queue ! rtmpsink location='' @ streamURL @ '' async=false sync=false''
             @ nl @ tabs 4 @ ''venctee. ! queue ! streammux.''
             @ nl @ tabs 4 @ ''aenctee. ! queue ! streammux. ''
             @ nl @ tabs 3
           else [])
      else [])"

fun composite_loop ::
  "'j rpc_conn \<Rightarrow> (string \<Rightarrow> bool) \<Rightarrow> ct_event list \<Rightarrow> ('j, 'pc, 'dc) cli \<Rightarrow> CompositorPipeline \<times> gst_state
    \<Rightarrow> ending \<times> (CompositorPipeline \<times> gst_state)" where
  "composite_loop J pb [] c st = (Inl Block, st)"
| "composite_loop J pb (CtTick # evs) c st = composite_loop J pb evs (c\<lparr>cl_signal := snd (sc_Ping J (cl_signal c))\<rparr>) st"
| "composite_loop J pb (CtSignal # evs) c st =
     (case sc_Close J (cl_signal c) of
        (Panic p, s) \<Rightarrow> (Inl (Panic p), st)
      | (_, s) \<Rightarrow> composite_loop J pb evs (c\<lparr>cl_signal := s\<rparr>) st)"
| "composite_loop J pb (CtClosed # evs) c st = (Inl (Ret ()), (fst st, Compositor_Stop (fst st) (snd st)))"
| "composite_loop J pb (CtTrack t # evs) c st =
     (if cl_onTrack c then
        (case AddInputTrack pb t st of
           (Panic p, st') \<Rightarrow> (Inl (Panic p), st')
         | (_, st') \<Rightarrow> composite_loop J pb evs c st')
      else composite_loop J pb evs c st)"

definition compositeThread ::
  "('j, 'pc, 'e, 'd, 'dc) cli_env \<Rightarrow> (('j, 'pc, 'dc) cli \<Rightarrow> ('j, 'pc, 'dc) cli) \<Rightarrow> string \<Rightarrow> string \<Rightarrow> string
    \<Rightarrow> string \<Rightarrow> string \<Rightarrow> ct_event list \<Rightarrow> gst_state \<Rightarrow> ending \<times> gst_state" where
  "compositeThread P meanwhile clientURL clientSID clientToken savePath streamURL evs g =
     (case connect P (endpoint clientURL clientSID clientToken) of
        Err e \<Rightarrow> (Inl (Err e), g) | Panic p \<Rightarrow> (Inl (Panic p), g) | Block \<Rightarrow> (Inl Block, g)
      | Ret made \<Rightarrow>
          (let (comp, g1) = NewCompositorPipeline (ce_launch P) (encode_pipeline_str savePath streamURL) g;
               g2 = Compositor_Play comp g1
           in case set_OnTrack made of
                Err e \<Rightarrow> (Inl (Err e), g2) | Panic p \<Rightarrow> (Inl (Panic p), g2) | Block \<Rightarrow> (Inl Block, g2)
              | Ret c \<Rightarrow>
                  (case Client_Join (ce_pc P) (ce_signal P) meanwhile clientSID c of
                     (Err e, _) \<Rightarrow> (Inl (Err e), g2) | (Panic p, _) \<Rightarrow> (Inl (Panic p), g2) | (Block, _) \<Rightarrow> (Inl Block, g2)
                   | (Ret _, c1) \<Rightarrow>
                       (let (r, (_, g3)) = composite_loop (ce_rpc P) (ce_parse_bin P) evs c1 (comp, g2) in (r, g3)))))"

section \<open>The commands\<close>

text \<open>
  Both commands start their thread as a goroutine and run GStreamer's main loop on the messages
  \<open>bus\<close> of the pipelines. What the thread returns is dropped; a panic or an exit in it ends the
  process when the main loop still runs.
\<close>

datatype tool_end = ToolReturned | ToolExit nat | ToolCrash string | ToolRuns

definition main_loop :: "bus_msg list \<Rightarrow> ending \<Rightarrow> tool_end" where
  "main_loop bus e =
     (case MainLoop bus of
        Inl (Ret _) \<Rightarrow> ToolReturned
      | Inr n \<Rightarrow> ToolExit n
      | _ \<Rightarrow> (case e of Inr n \<Rightarrow> ToolExit n | Inl (Panic p) \<Rightarrow> ToolCrash p | Inl _ \<Rightarrow> ToolRuns))"

definition clientMain ::
  "bus_msg list \<Rightarrow> ('j, 'pc, 'e, 'd, 'dc) cli_env \<Rightarrow> (('j, 'pc, 'dc) cli \<Rightarrow> ('j, 'pc, 'dc) cli) \<Rightarrow> string \<times> string \<times> string
    \<Rightarrow> string \<Rightarrow> string \<Rightarrow> string \<Rightarrow> string list \<Rightarrow> ct_event list \<Rightarrow> gst_state \<Rightarrow> tool_end" where
  "clientMain bus P meanwhile ids clientURL clientSID clientToken args evs g =
     main_loop bus (fst (clientThread P meanwhile ids clientURL clientSID clientToken args evs g))"

definition compositeMain ::
  "bus_msg list \<Rightarrow> ('j, 'pc, 'e, 'd, 'dc) cli_env \<Rightarrow> (('j, 'pc, 'dc) cli \<Rightarrow> ('j, 'pc, 'dc) cli)
    \<Rightarrow> string \<Rightarrow> string \<Rightarrow> string \<Rightarrow> string \<Rightarrow> string \<Rightarrow> ct_event list \<Rightarrow> gst_state \<Rightarrow> tool_end" where
  "compositeMain bus P meanwhile clientURL clientSID clientToken savePath streamURL evs g =
     main_loop bus (fst (compositeThread P meanwhile clientURL clientSID clientToken savePath streamURL evs g))"

text \<open>The defaults of the flags: URL, session id and token; and save path and stream URL.\<close>

definition client_init :: "string \<times> string \<times> string" where
  "client_init = (''ws://localhost:7000'', ''test-session'', [])"

definition composite_init :: "(string \<times> string \<times> string) \<times> string \<times> string" where
  "composite_init = ((''ws://localhost:7000'', ''test-session'', []), [], [])"

section \<open>Reaching the route\<close>

text \<open>
  The characters that a URL keeps as they are: letters, digits and \<open>-._~\<close>, of which JSON
  web tokens and the default ids consist.
\<close>

definition unreserved :: "char \<Rightarrow> bool" where
  "unreserved c \<longleftrightarrow>
     (let n = (of_char c :: nat) in
      48 \<le> n \<and> n \<le> 57 \<or> 65 \<le> n \<and> n \<le> 90 \<or> 97 \<le> n \<and> n \<le> 122 \<or> n \<in> {45, 46, 95, 126})"

lemma unreserved_not_special:
  assumes "list_all unreserved s" and "c \<in> set ''/?=&;%+''"
  shows "c \<notin> set s"
  using assms by (auto simp: list_all_iff unreserved_def)

lemma unreserved_not_control:
  assumes "list_all unreserved s"
  shows "\<not> list_ex (\<lambda>c. (of_char c :: nat) < 32 \<or> (of_char c :: nat) = 127) s"
  using assms by (auto simp: list_all_iff list_ex_iff unreserved_def Let_def)

lemma query_token:
  assumes "list_all unreserved token"
  shows "parse_query (''access_token='' @ token) = [''access_token'' \<mapsto> [token]]"
  using parse_query_single [of "''access_token''" token] unreserved_not_special [OF assms] by simp

lemma endpoint_target:
  assumes "list_all unreserved sid" and "list_all unreserved token"
  shows "parse_origin_form (endpoint [] sid token) =
    Some (''/session/'' @ sid, if token = [] then [] else ''access_token='' @ token)"
proof -
  have "CHR ''%'' \<notin> set (''/session/'' @ sid)" "CHR ''?'' \<notin> set (''/session/'' @ sid)"
    using unreserved_not_special [OF assms(1)] by simp_all
  note path = url_unescape_plain [OF this(1), of False] cut_none [OF this(2)] cut_first [OF this(2)]
  have "\<not> list_ex (\<lambda>c. (of_char c :: nat) < 32 \<or> (of_char c :: nat) = 127) (endpoint [] sid token)"
    using unreserved_not_control [OF assms(1)] unreserved_not_control [OF assms(2)] by (simp add: endpoint_def Let_def)
  then show ?thesis
    using path path(3) [of "''access_token='' @ token"]
    by (simp add: parse_origin_form_def endpoint_def Let_def del: url_unescape.simps cut.simps)
qed

text \<open>
  C26. The URL the command line tools connect to reaches the session handler of the server:
  the target they request is read as the path of a session and a query, that path is routed with
  exactly the session id the tool was given, and the handler finds the token, when one was
  given, as the only value of \<open>access_token\<close>; ids and tokens are of the characters that need no
  escape.
\<close>

theorem endpoint_reaches_session_route:
  assumes "router_laws R" and "list_all unreserved sid" and "proper_elem sid" and "list_all unreserved token"
  shows "endpoint url sid token = url @ endpoint [] sid token
    \<and> (\<exists>path query. parse_origin_form (endpoint [] sid token) = Some (path, query)
        \<and> serve_http R jwtParse urlOk s path query n = apfst (map_outcome SessionReply)
          (admit jwtParse urlOk s \<lparr>hr_id = sid,
             hr_query = (if token = [] then Map.empty else [''access_token'' \<mapsto> [token]])\<rparr> n))"
proof -
  have "route_id sid" using assms(3) unreserved_not_special [OF assms(2)] by (simp add: route_id_def)
  from serve_session [OF assms(1) this, of jwtParse urlOk s "if token = [] then [] else ''access_token='' @ token" n]
    query_token [OF assms(4)] endpoint_target [OF assms(2,4)]
  have "\<exists>path query. parse_origin_form (endpoint [] sid token) = Some (path, query)
        \<and> serve_http R jwtParse urlOk s path query n = apfst (map_outcome SessionReply)
          (admit jwtParse urlOk s \<lparr>hr_id = sid,
             hr_query = (if token = [] then Map.empty else [''access_token'' \<mapsto> [token]])\<rparr> n)"
    by (intro exI conjI) (assumption, simp)
  then show ?thesis by (simp add: endpoint_def Let_def)
qed

theorem endpoint_reaches_session_route_witness:
  "\<forall>c n. \<exists>path query. parse_origin_form (endpoint [] ''test-session'' ''abc.def'') = Some (path, query)
    \<and> serve_http first_match no_tokens (\<lambda>_. True) \<lparr>sg_c = local_coordinator, sg_config = c\<rparr> path query n
      = apfst (map_outcome SessionReply) (admit no_tokens (\<lambda>_. True) \<lparr>sg_c = local_coordinator, sg_config = c\<rparr>
          \<lparr>hr_id = ''test-session'', hr_query = [''access_token'' \<mapsto> [''abc.def'']]\<rparr> n)"
proof (intro allI)
  fix c and n :: "localCoordinator \<times> mem"
  show "\<exists>path query. parse_origin_form (endpoint [] ''test-session'' ''abc.def'') = Some (path, query)
    \<and> serve_http first_match no_tokens (\<lambda>_. True) \<lparr>sg_c = local_coordinator, sg_config = c\<rparr> path query n
      = apfst (map_outcome SessionReply) (admit no_tokens (\<lambda>_. True) \<lparr>sg_c = local_coordinator, sg_config = c\<rparr>
          \<lparr>hr_id = ''test-session'', hr_query = [''access_token'' \<mapsto> [''abc.def'']]\<rparr> n)"
    using endpoint_reaches_session_route [OF first_match_laws, of "''test-session''" "''abc.def''" "[]"
        no_tokens "\<lambda>_. True" "\<lparr>sg_c = local_coordinator, sg_config = c\<rparr>" n]
    by (simp add: unreserved_def proper_elem_def)
qed

text \<open>
  Other ids are not escaped: a question mark in the id cuts it off, and the tool reaches
  another session than it joins afterwards.
\<close>

lemma unescaped_id_reaches_other_session:
  assumes "router_laws R"
  shows "parse_origin_form (endpoint [] ''a?b'' []) = Some (''/session/a'', ''b'')"
    and "serve_http R jwtParse urlOk s ''/session/a'' ''b'' n = apfst (map_outcome SessionReply)
      (admit jwtParse urlOk s \<lparr>hr_id = ''a'', hr_query = [''b'' \<mapsto> [[]]]\<rparr> n)"
proof -
  show "parse_origin_form (endpoint [] ''a?b'' []) = Some (''/session/a'', ''b'')" by code_simp
  have "parse_query ''b'' = [''b'' \<mapsto> [[]]]" by (auto simp: parse_query_def query_pair_def map_filter_simps fun_eq_iff)
  with serve_session [OF assms, of "''a''" jwtParse urlOk s "''b''" n]
  show "serve_http R jwtParse urlOk s ''/session/a'' ''b'' n = apfst (map_outcome SessionReply)
      (admit jwtParse urlOk s \<lparr>hr_id = ''a'', hr_query = [''b'' \<mapsto> [[]]]\<rparr> n)"
    by (simp add: route_id_def proper_elem_def)
qed

section \<open>How the programs end\<close>

lemma sc_Ping_connected: "sc_jc s \<noteq> None \<Longrightarrow> sc_jc (snd (sc_Ping J s)) \<noteq> None"
  by (auto simp: sc_Ping_def split: option.splits prod.splits sum.splits)

lemma sc_Close_connected:
  assumes "sc_jc s \<noteq> None"
  shows "sc_jc (snd (sc_Close J s)) \<noteq> None" and "fst (sc_Close J s) \<noteq> Panic p" and "fst (sc_Close J s) \<noteq> Block"
  using assms by (auto simp: sc_Close_def split: option.splits prod.splits)

text \<open>
  C33. A connected client runs until its connection is closed and ends the process with status
  1 then: pings that fail and interrupts do not end it by themselves, they only close the
  connection; nothing in the loop panics.
\<close>

theorem client_runs_until_closed:
  assumes "sc_jc (cl_signal c) \<noteq> None"
  shows "fst (client_loop J evs c) = (if CtClosed \<in> set evs then Inr 1 else Inl Block)"
  using assms
proof (induction evs arbitrary: c)
  case (Cons ev evs)
  obtain r s where close: "sc_Close J (cl_signal c) = (r, s)" by (meson surj_pair)
  have "sc_jc s \<noteq> None" "\<nexists>p. r = Panic p"
    using sc_Close_connected [OF Cons.prems, of J] close by simp_all
  then show ?case
    using Cons sc_Ping_connected [OF Cons.prems, of J] close by (cases ev; cases r) simp_all
qed simp

definition open_client :: "(nat, unit, unit) cli" where
  "open_client =
     \<lparr>cl_signal = \<lparr>sc_jc = Some 0, sc_onNegotiate = Some (), sc_onTrickle = Some ()\<rparr>,
      pub = \<lparr>tr_role = 0, tr_api = None, tr_pc = (), candidates = []\<rparr>,
      sub = \<lparr>tr_role = 1, tr_api = None, tr_pc = (), candidates = []\<rparr>,
      cl_onTrack = True, cl_trackHook = True, cl_negotiationHook = True\<rparr>"

definition count_rpc :: "nat rpc_conn" where
  "count_rpc = \<lparr>jc_Call = \<lambda>m p j. (Inl ''timeout'', j + 1), jc_Notify = \<lambda>m p j. (None, j), jc_Close = \<lambda>j. (None, j)\<rparr>"

theorem client_runs_until_closed_witness:
  "fst (client_loop count_rpc [CtTick, CtSignal, CtTick, CtClosed] open_client) = Inr 1"
  using client_runs_until_closed [of open_client count_rpc "[CtTick, CtSignal, CtTick, CtClosed]"]
  by (simp add: open_client_def)

definition broken_env :: "(nat, bool \<times> nat list, unit, unit, unit) cli_env" where
  "broken_env =
     \<lparr>ce_pc = \<lparr>RegisterDefaultInterceptors = \<lambda>_. Ret (), NewPeerConnection = \<lambda>_. Inl ''no certificate'',
        CreateDataChannel = \<lambda>l p. (Inr (), p), CreateOffer = \<lambda>p. (Inr (), p), CreateAnswer = \<lambda>p. (Inr (), p),
        SetLocalDescription = \<lambda>d p. (None, p), SetRemoteDescription = \<lambda>d p. (None, (True, snd p)),
        RemoteDescription = \<lambda>p. None, AddICECandidate = \<lambda>i p. (None, p), AddTrack = \<lambda>t p. (None, p)\<rparr>,
      ce_wire = \<lparr>zero_desc = (), dec_desc = \<lambda>j _. Some (), zero_cand = 0, dec_cand = \<lambda>j _. Some 0\<rparr>,
      ce_enc = \<lparr>enc_desc = \<lambda>_. JNull, enc_cand = \<lambda>_. JNull\<rparr>, ce_rpc = count_rpc, ce_dial = \<lambda>_. Inr 0,
      ce_track = plain_track, ce_launch = \<lambda>_. True, ce_parse_bin = \<lambda>_. True, ce_GOOS = ''linux'', ce_engine = Ret ()\<rparr>"

lemma connect_nil_client:
  fixes P :: "('j, 'pc, 'e, 'd, 'dc) cli_env"
  assumes "NewClient (ce_pc P) (ce_engine P) (NewJSONRPCSignalClient :: ('j, unit, unit) JSONRPCSignalClient) = Err e"
    and "ce_dial P url = Inr j"
  shows "connect P url = Ret (None, NewJSONRPCSignalClient\<lparr>sc_jc := Some j\<rparr>)"
  using assms by (simp add: connect_def sc_Open_def ignore_err_def)

text \<open>
  C34. How the tools fail at the start. When the client cannot be made but the server answers,
  the error is only logged and both tools crash on the nil client. When the server cannot be
  reached, the thread's error is dropped: both tools stay in the main loop for ever, without a
  connection, whatever happens afterwards.
\<close>

theorem tools_at_failed_start:
  fixes P :: "('j, 'pc, 'e, 'd, 'dc) cli_env"
  defines "made \<equiv> NewClient (ce_pc P) (ce_engine P) (NewJSONRPCSignalClient :: ('j, unit, unit) JSONRPCSignalClient)"
  shows "(made = Err e \<and> ce_dial P (endpoint url sid token) = Inr j \<longrightarrow>
      clientMain [] P mw ids url sid token args evs g = ToolCrash nil_deref
      \<and> compositeMain [] P mw url sid token save stream evs g = ToolCrash nil_deref)
    \<and> (((\<exists>c. made = Ret c) \<or> (\<exists>e. made = Err e)) \<and> ce_dial P (endpoint url sid token) = Inl err \<longrightarrow>
      clientMain [] P mw ids url sid token args evs g = ToolRuns
      \<and> compositeMain [] P mw url sid token save stream evs g = ToolRuns)"
proof (intro conjI impI; elim conjE)
  assume "made = Err e" "ce_dial P (endpoint url sid token) = Inr j"
  from connect_nil_client [OF this [unfolded made_def]]
  show "clientMain [] P mw ids url sid token args evs g = ToolCrash nil_deref"
    and "compositeMain [] P mw url sid token save stream evs g = ToolCrash nil_deref"
    by (simp_all add: clientMain_def clientThread_def compositeMain_def compositeThread_def set_OnTrack_def main_loop_def
        case_prod_beta Let_def)
next
  assume "(\<exists>c. made = Ret c) \<or> (\<exists>e. made = Err e)" "ce_dial P (endpoint url sid token) = Inl err"
  then have "connect P (endpoint url sid token) = Err err"
    by (auto simp: made_def connect_def sc_Open_def)
  then show "clientMain [] P mw ids url sid token args evs g = ToolRuns"
    and "compositeMain [] P mw url sid token save stream evs g = ToolRuns"
    by (simp_all add: clientMain_def clientThread_def compositeMain_def compositeThread_def main_loop_def)
qed

theorem tools_at_failed_start_witness:
  "clientMain [] broken_env id ([], [], []) ''ws://h'' ''s'' [] [] [] gst0 = ToolCrash nil_deref
    \<and> compositeMain [] (broken_env\<lparr>ce_dial := \<lambda>_. Inl ''refused''\<rparr>) id ''ws://h'' ''s'' [] [] [] [CtTick] gst0 = ToolRuns"
  using tools_at_failed_start [of broken_env "''no certificate''" "''ws://h''" "''s''" "[]" 0 id "([], [], [])" "[]" "[]" gst0]
    tools_at_failed_start [of "broken_env\<lparr>ce_dial := \<lambda>_. Inl ''refused''\<rparr>" "[]" "''ws://h''" "''s''" "[]" 0 id
      "([], [], [])" "[]" "[CtTick]" gst0 "[]" "[]" "''refused''"]
  by (simp add: broken_env_def NewClient_def newTransport_def)

end
