(* ===== verification/Cmd_Main.thy ===== *)
theory Cmd_Main
  imports Cmd_Root Cmd_Server Cmd_Client
begin

text \<open>
  \<open>main.go\<close> and \<open>Execute\<close> of \<open>cmd/root.go\<close>: how the initialisation of the packages, the
  command line, the configuration and a command make up a run of the program, and its exit
  status. The command line parser is cobra: the parameter \<open>cobra\<close> finds the command, its flags
  and arguments, reports an error, or prints a help text (\<open>None\<close>).
\<close>

section \<open>Commands and flags\<close>

datatype command = ClientCommand | CompositeCommand | ServerCommand

text \<open>The commands, in the order in which the files of the package are initialised.\<close>

definition commands :: "(string \<times> command) list" where
  "commands = [(''client'', ClientCommand), (''composite'', CompositeCommand), (''server'', ServerCommand)]"

text \<open>The flags that were given; a flag that was not keeps its default.\<close>

record flags =
  fl_config :: "string option"
  fl_addr :: "string option"
  fl_cert :: "string option"
  fl_key :: "string option"
  fl_url :: "string option"
  fl_sid :: "string option"
  fl_token :: "string option"
  fl_save :: "string option"
  fl_stream :: "string option"

type_synonym cobra = "(string \<times> command) list \<Rightarrow> string list \<Rightarrow> string + (command \<times> flags \<times> string list) option"

definition given :: "'a option \<Rightarrow> 'a \<Rightarrow> 'a" where
  "given f v0 = (case f of None \<Rightarrow> v0 | Some v \<Rightarrow> v)"

text \<open>The root command's own flag, the config file, is empty by default.\<close>

definition root_init :: "flags \<Rightarrow> string" where
  "root_init fl = given (fl_config fl) []"

text \<open>The server's flags are variables of the configuration itself.\<close>

definition server_flags :: "flags \<Rightarrow> RootConfig \<Rightarrow> RootConfig" where
  "server_flags fl conf =
     (let sg = Signal (server_init conf) in
      conf\<lparr>Signal := sg\<lparr>HTTPAddr := given (fl_addr fl) (HTTPAddr sg), Cert := given (fl_cert fl) (Cert sg),
        Key := given (fl_key fl) (Key sg)\<rparr>\<rparr>)"

section \<open>A run of the program\<close>

text \<open>What surrounds the program: viper, the home directory, Kubernetes, and the runs of the commands.\<close>

record 'w world =
  w_load :: "config_source \<Rightarrow> string list \<Rightarrow> RootConfig \<Rightarrow> string + RootConfig"
  w_home :: "string + string"
  w_kube :: "node_addresses list option"
  w_sfu_fields :: "(string \<times> string option \<times> rvalue) list"
  w_maxAlloc :: int
  w_dial :: "string list \<Rightarrow> string + 'w"
  w_label :: string
  w_uuid :: string
  w_turn :: "string option"
  w_reading :: "nat \<Rightarrow> int"
  w_events :: "sm_event list"

text \<open>The two tools end as their main loop does.\<close>

definition tool_ending :: "tool_end \<Rightarrow> ending" where
  "tool_ending e =
     (case e of ToolReturned \<Rightarrow> Inl (Ret ()) | ToolExit n \<Rightarrow> Inr n | ToolCrash p \<Rightarrow> Inl (Panic p) | ToolRuns \<Rightarrow> Inl Block)"

text \<open>
  \<open>run_tool\<close> is a run of one of the two tools with its flags and arguments. Cobra calls
  \<open>initConfig\<close> after the flags were parsed and before the command runs.
\<close>

definition Execute ::
  "cobra \<Rightarrow> 'w world \<Rightarrow> (command \<Rightarrow> (string \<times> string \<times> string) \<times> string \<times> string \<Rightarrow> string list \<Rightarrow> tool_end)
    \<Rightarrow> RootConfig \<Rightarrow> string list \<Rightarrow> ending \<times> listen_call option" where
  "Execute cobra W run_tool conf args =
     (case cobra commands args of
        Inl err \<Rightarrow> (Inl (Err err), None)
      | Inr None \<Rightarrow> (Inl (Ret ()), None)
      | Inr (Some (cmd, fl, rest)) \<Rightarrow>
          (case initConfig (w_load W) (w_home W) (w_kube W) (w_sfu_fields W) (root_init fl)
                  (if cmd = ServerCommand then server_flags fl conf else server_init conf) of
             OsExit n \<Rightarrow> (Inr n, None)
           | Continue conf' \<Rightarrow>
               (case cmd of
                  ServerCommand \<Rightarrow>
                    apfst Inl (serverMain (w_maxAlloc W) (w_dial W) (w_label W) (w_uuid W) (w_turn W) (w_reading W) (w_events W) conf')
                | _ \<Rightarrow>
                    (let ((url, sid, token), save, stream) = composite_init in
                     (tool_ending (run_tool cmd ((given (fl_url fl) url, given (fl_sid fl) sid, given (fl_token fl) token),
                        given (fl_save fl) save, given (fl_stream fl) stream) rest), None)))))"

datatype process = Exited nat | Running

definition main :: "ending \<Rightarrow> process" where
  "main e =
     (case e of
        Inl (Ret _) \<Rightarrow> Exited 0
      | Inl (Err _) \<Rightarrow> Exited 1
      | Inl (Panic _) \<Rightarrow> Exited 2
      | Inl Block \<Rightarrow> Running
      | Inr n \<Rightarrow> Exited n)"

section \<open>Lemmas\<close>

text \<open>The configuration a server runs with.\<close>

definition server_config :: "'w world \<Rightarrow> flags \<Rightarrow> RootConfig \<Rightarrow> RootConfig run" where
  "server_config W fl conf =
     initConfig (w_load W) (w_home W) (w_kube W) (w_sfu_fields W) (root_init fl) (server_flags fl conf)"

lemma Execute_server:
  assumes "cobra commands args = Inr (Some (ServerCommand, fl, rest))"
  shows "Execute cobra W run_tool conf args =
    (case server_config W fl conf of
       OsExit n \<Rightarrow> (Inr n, None)
     | Continue conf' \<Rightarrow>
         apfst Inl (serverMain (w_maxAlloc W) (w_dial W) (w_label W) (w_uuid W) (w_turn W) (w_reading W) (w_events W) conf'))"
  using assms by (simp add: Execute_def server_config_def split: run.split)

lemma initConfig_signal:
  assumes "initConfig load home kube sfu cfgFile conf0 = Continue conf"
  obtains src conf1 where "load src (bindConfigEnvs (root_fields sfu) []) conf0 = Inr conf1"
    and "src = (if cfgFile \<noteq> [] then ConfigFile cfgFile ''toml'' else ConfigSearch (projr home) ''.ioncluster'')"
    and "Signal conf = Signal conf1" and "Coordinator conf = Coordinator conf1"
  using assms
  by (auto simp: initConfig_def kubeConfigureExternalIP_def Let_def split: if_splits sum.splits option.splits
      elim!: that [rotated])

text \<open>How the loop of a node ends depends on the first event that is not a tick.\<close>

lemma shutdown_loop_ends:
  "shutdown_loop reading k evs = Waiting \<longleftrightarrow>
     OsSignal \<notin> set evs \<and> \<not> (\<exists>j. k \<le> j \<and> j \<le> k + ticks_before_signal evs \<and> reading j = 0)"
  "shutdown_loop reading k evs \<noteq> Failed err"
proof -
  have wait: "shutdown_loop reading k evs = Waiting \<Longrightarrow> OsSignal \<notin> set evs"
    by (induction reading k evs rule: shutdown_loop.induct) (auto split: if_splits)
  have force: "shutdown_loop reading k evs = Forced \<Longrightarrow> OsSignal \<in> set evs"
    by (induction reading k evs rule: shutdown_loop.induct) (auto split: if_splits)
  have fail: "shutdown_loop reading k evs \<noteq> Failed e" for e
    by (induction reading k evs rule: shutdown_loop.induct) auto
  from wait force fail show "shutdown_loop reading k evs = Waiting \<longleftrightarrow>
      OsSignal \<notin> set evs \<and> \<not> (\<exists>j. k \<le> j \<and> j \<le> k + ticks_before_signal evs \<and> reading j = 0)"
    "shutdown_loop reading k evs \<noteq> Failed err"
    using shutdown_idle_iff [of reading k evs] by (cases "shutdown_loop reading k evs"; auto)+
qed

definition loop_process :: "sm_end \<Rightarrow> process" where
  "loop_process e = (case e of Idle \<Rightarrow> Exited 0 | Forced \<Rightarrow> Exited 0 | Failed _ \<Rightarrow> Exited 1 | Waiting \<Rightarrow> Running)"

lemma server_loop_process:
  "loop_process (server_loop reading evs) =
     (case dropWhile (\<lambda>ev. ev = Tick) evs of
        OsSignal # after \<Rightarrow>
          if OsSignal \<in> set after \<or> (\<exists>j \<le> ticks_before_signal after. reading j = 0) then Exited 0 else Running
      | WsError _ # _ \<Rightarrow> Exited 1
      | _ \<Rightarrow> Running)"
proof (induction evs)
  case (Cons ev evs)
  have "loop_process (shutdown_loop reading 0 evs) =
      (if OsSignal \<in> set evs \<or> (\<exists>j \<le> ticks_before_signal evs. reading j = 0) then Exited 0 else Running)"
    using shutdown_loop_ends [of reading 0 evs] by (cases "shutdown_loop reading 0 evs") (auto simp: loop_process_def)
  with Cons show ?case by (cases ev) (auto simp: loop_process_def)
qed (simp add: loop_process_def)

lemma serverMain_process:
  assumes "NewCoordinator dial label uuid conf = Ret c"
    and "0 \<le> Ballast (SFU conf)" and "Ballast (SFU conf) * 1024 * 1024 \<le> maxAlloc" and "maxAlloc < 2 ^ 63"
    and "TurnEnabled (SFU conf) \<Longrightarrow> initTurn = None"
  shows "main (Inl (fst (serverMain maxAlloc dial label uuid initTurn reading evs conf))) = loop_process (server_loop reading evs)"
  using assms(1,5) make_bytes_ballast [of "Ballast (SFU conf)" maxAlloc] assms(2-4)
  by (cases "server_loop reading evs") (auto simp: serverMain_def main_def loop_process_def Let_def)

section \<open>Properties\<close>

text \<open>
  C8. The exit status of a node. A configuration that cannot be loaded and a coordinator that
  cannot be made give status 1, a listen address without a port a crash, status 2. A node that
  starts ends with status 1 when its listener fails before any signal; after a signal it ends
  with status 0 at the latest with the second, earlier exactly if one of its counts of active
  clients is zero, and an error of the listener is not noticed any more. Otherwise it runs on.
\<close>

theorem exit_status_of_node:
  fixes W :: "'w world" and conf args cobra run_tool
  assumes "cobra commands args = Inr (Some (ServerCommand, fl, rest))"
  defines "status \<equiv> main (fst (Execute cobra W run_tool conf args))"
  shows "(server_config W fl conf = OsExit n \<longrightarrow> status = Exited 1)
    \<and> (server_config W fl conf = Continue conf' \<longrightarrow>
        (NewCoordinator (w_dial W) (w_label W) (w_uuid W) conf' = Err e \<longrightarrow> status = Exited 1)
      \<and> (CHR '':'' \<notin> set (HTTPAddr (Signal conf')) \<and> (\<forall>hosts. \<exists>w. w_dial W hosts = Inr w)
          \<and> (Local (Coordinator conf') \<noteq> None \<or> Etcd (Coordinator conf') \<noteq> None) \<longrightarrow> status = Exited 2)
      \<and> (NewCoordinator (w_dial W) (w_label W) (w_uuid W) conf' = Ret c
          \<and> 0 \<le> Ballast (SFU conf') \<and> Ballast (SFU conf') * 1024 * 1024 \<le> w_maxAlloc W \<and> w_maxAlloc W < 2 ^ 63
          \<and> (TurnEnabled (SFU conf') \<longrightarrow> w_turn W = None) \<longrightarrow>
         status = (case dropWhile (\<lambda>ev. ev = Tick) (w_events W) of
            OsSignal # after \<Rightarrow>
              if OsSignal \<in> set after \<or> (\<exists>j \<le> ticks_before_signal after. w_reading W j = 0) then Exited 0 else Running
          | WsError _ # _ \<Rightarrow> Exited 1
          | _ \<Rightarrow> Running)))"
proof -
  note run = Execute_server [of cobra args fl rest W run_tool conf, OF assms(1)]
  have exit: "n = 1" if "server_config W fl conf = OsExit n"
    using that unfolding server_config_def init_config_exits by blast
  have started: "status = main (Inl (fst (serverMain (w_maxAlloc W) (w_dial W) (w_label W) (w_uuid W) (w_turn W) (w_reading W) (w_events W) conf')))"
    if "server_config W fl conf = Continue conf'"
    using that run by (simp add: status_def)
  have "status = Exited 2"
    if "server_config W fl conf = Continue conf'" "CHR '':'' \<notin> set (HTTPAddr (Signal conf'))"
      "\<And>hosts. \<exists>w. w_dial W hosts = Inr w" "Local (Coordinator conf') \<noteq> None \<or> Etcd (Coordinator conf') \<noteq> None"
  proof -
    have "\<exists>p. serverMain (w_maxAlloc W) (w_dial W) (w_label W) (w_uuid W) (w_turn W) (w_reading W) (w_events W) conf' = (Panic p, None)"
      by (rule no_port_no_node [OF that(2,4,3)])
    with started [OF that(1)] show ?thesis by (auto simp: main_def)
  qed
  then show ?thesis
    using started exit run serverMain_process [of "w_dial W" "w_label W" "w_uuid W" conf' c "w_maxAlloc W" "w_turn W" "w_reading W" "w_events W"]
      server_loop_process [of "w_reading W" "w_events W"]
    by (auto simp: status_def main_def serverMain_def)
qed

text \<open>
  Viper, as it is documented: unmarshalling replaces the fields whose keys have a value in the
  config file or the environment, and leaves the others. \<open>setting\<close> is that value.
\<close>

definition viper_overlays ::
  "(config_source \<Rightarrow> string list \<Rightarrow> RootConfig \<Rightarrow> string + RootConfig) \<Rightarrow> (config_source \<Rightarrow> string \<rightharpoonup> string) \<Rightarrow> bool" where
  "viper_overlays load setting \<longleftrightarrow>
     (\<forall>src keys conf conf'. load src keys conf = Inr conf' \<longrightarrow>
        HTTPAddr (Signal conf') = given (setting src ''signal.httpaddr'') (HTTPAddr (Signal conf))
        \<and> Cert (Signal conf') = given (setting src ''signal.cert'') (Cert (Signal conf))
        \<and> Key (Signal conf') = given (setting src ''signal.key'') (Key (Signal conf)))"

lemma serverMain_listener:
  assumes "serverMain maxAlloc dial label uuid initTurn reading evs conf = (r, Some l)"
  shows "l = start_listener (Signal conf)"
  using assms by (auto simp: serverMain_def Let_def split: outcome.splits sm_end.splits option.splits if_splits)

text \<open>
  C36. Where a node listens, and with which certificate: the configuration file or the
  environment decide, then the flags, then the defaults. A flag given on the command line does
  not override the configuration.
\<close>

theorem configuration_beats_flags:
  assumes "cobra commands args = Inr (Some (ServerCommand, fl, rest))" and "viper_overlays (w_load W) setting"
    and "Execute cobra W run_tool conf args = (e, Some l)"
    and "src = (if root_init fl \<noteq> [] then ConfigFile (root_init fl) ''toml'' else ConfigSearch (projr (w_home W)) ''.ioncluster'')"
    and "addr = given (setting src ''signal.httpaddr'') (given (fl_addr fl) '':7000'')"
    and "cert = given (setting src ''signal.cert'') (given (fl_cert fl) [])"
    and "key = given (setting src ''signal.key'') (given (fl_key fl) [])"
  shows "l = (if key \<noteq> [] \<and> cert \<noteq> [] then ListenAndServeTLS addr cert key else ListenAndServe addr)"
proof -
  obtain conf' r where conf': "server_config W fl conf = Continue conf'"
    and run: "serverMain (w_maxAlloc W) (w_dial W) (w_label W) (w_uuid W) (w_turn W) (w_reading W) (w_events W) conf' = (r, Some l)"
    using assms(3) Execute_server [of cobra args fl rest W run_tool conf, OF assms(1)]
    by (auto split: run.splits simp: prod_eq_iff)
  obtain conf1 where load: "w_load W src (bindConfigEnvs (root_fields (w_sfu_fields W)) []) (server_flags fl conf) = Inr conf1"
    and same: "Signal conf' = Signal conf1"
    using initConfig_signal [OF conf' [unfolded server_config_def]] assms(4) by metis
  have "HTTPAddr (Signal conf') = addr" "Cert (Signal conf') = cert" "Key (Signal conf') = key"
    using assms(2,5-7) load same unfolding viper_overlays_def by (auto simp: server_flags_def server_init_def Let_def)
  then show ?thesis using serverMain_listener [OF run] by (simp add: start_listener_def uses_tls_def)
qed

section \<open>Witnesses\<close>

definition plain_conf :: RootConfig where
  "plain_conf =
     \<lparr>Signal = \<lparr>FQDN = ''localhost'', Key = [], Cert = [], HTTPAddr = [], GRPCAddr = [],
        Auth = \<lparr>Enabled = False, auth_Key = [], KeyType = []\<rparr>\<rparr>,
      SFU = \<lparr>BufferFactory = None, MaxPacketTrack = 0, ICEPortRange = [], NAT1To1IPs = [], Ballast = 0, TurnEnabled = False\<rparr>,
      Coordinator = \<lparr>Local = Some \<lparr>local_Enabled = True\<rparr>, Etcd = None\<rparr>\<rparr>"

definition plain_cobra :: cobra where
  "plain_cobra cs args =
     (case args of
        [c, a] \<Rightarrow> (case map_of cs c of
            None \<Rightarrow> Inl ''unknown command''
          | Some cmd \<Rightarrow> Inr (Some (cmd, \<lparr>fl_config = None, fl_addr = Some a, fl_cert = None, fl_key = None, fl_url = None,
              fl_sid = None, fl_token = None, fl_save = None, fl_stream = None\<rparr>, [])))
      | _ \<Rightarrow> Inr None)"

text \<open>A viper whose config file sets the listen address only.\<close>

definition file_world :: "string \<Rightarrow> sm_event list \<Rightarrow> unit world" where
  "file_world addr evs =
     \<lparr>w_load = \<lambda>src keys conf. Inr (conf\<lparr>Signal := (Signal conf)\<lparr>HTTPAddr := addr\<rparr>\<rparr>), w_home = Inr ''/root'', w_kube = None,
      w_sfu_fields = [], w_maxAlloc = 1000, w_dial = \<lambda>_. Inr (), w_label = ''ion-sfu'', w_uuid = ''node'', w_turn = None,
      w_reading = \<lambda>_. 1, w_events = evs\<rparr>"

lemma file_world_overlays:
  "viper_overlays (w_load (file_world addr evs)) (\<lambda>src. [''signal.httpaddr'' \<mapsto> addr])"
  by (simp add: viper_overlays_def file_world_def given_def)

lemma file_world_config:
  "server_config (file_world addr evs) fl plain_conf
    = Continue (plain_conf\<lparr>Signal := (Signal (server_flags fl plain_conf))\<lparr>HTTPAddr := addr\<rparr>\<rparr>)"
  by (cases "root_init fl = []")
    (simp_all add: server_config_def initConfig_def file_world_def kubeConfigureExternalIP_def server_flags_def Let_def plain_conf_def)

lemma plain_server: "plain_cobra commands [''server'', a] = Inr (Some (ServerCommand,
    \<lparr>fl_config = None, fl_addr = Some a, fl_cert = None, fl_key = None, fl_url = None,
     fl_sid = None, fl_token = None, fl_save = None, fl_stream = None\<rparr>, []))"
  by (simp add: plain_cobra_def commands_def)

theorem exit_status_of_node_witness:
  "main (fst (Execute plain_cobra (file_world [] []) (\<lambda>_ _ _. ToolRuns) plain_conf [''server'', '':80''])) = Exited 2"
  using exit_status_of_node [where cobra = plain_cobra and W = "file_world [] []" and conf = plain_conf
      and run_tool = "\<lambda>_ _ _. ToolRuns", OF plain_server [of "'':80''"]] file_world_config [of "[]" "[]"]
  by (simp add: plain_conf_def) (simp add: file_world_def)

theorem configuration_beats_flags_witness:
  "snd (Execute plain_cobra (file_world '':7001'' [OsSignal]) (\<lambda>_ _ _. ToolRuns) plain_conf [''server'', '':80''])
    = Some (ListenAndServe '':7001'')"
proof -
  let ?run = "Execute plain_cobra (file_world '':7001'' [OsSignal]) (\<lambda>_ _ _. ToolRuns) plain_conf [''server'', '':80'']"
  have "snd ?run \<noteq> None"
    unfolding Execute_server [where cobra = plain_cobra, OF plain_server] file_world_config
    by (simp add: serverMain_def NewCoordinator_def newCoordinatorLocal_def Endpoint_def Let_def file_world_def plain_conf_def
        make_bytes_def wrap64_def)
  then obtain e l where run: "?run = (e, Some l)" by (cases ?run) auto
  from configuration_beats_flags [where cobra = plain_cobra, OF plain_server file_world_overlays run refl refl refl refl]
  show ?thesis unfolding run by (simp add: given_def)
qed

end
