(* ===== verification/Spec2Isabelle.thy ===== *)
theory Spec2Isabelle
  imports Cluster_Locks Cluster_Homes End_To_End Client_Race Cmd_Main
begin

text \<open>
  A verification development of \<^verbatim>\<open>ion-cluster\<close>, a signalling server that spreads the sessions of
  the selective forwarding unit \<^verbatim>\<open>ion-sfu\<close> over the nodes of a cluster, with its command line
  clients.

  \<^bold>\<open>The program.\<close> \<open>main.go\<close> runs a command of \<open>cmd/root.go\<close> after the configuration was
  loaded. A node (\<open>cmd/server.go\<close>) makes a coordinator and serves websockets. A
  request for \<open>/session/{id}\<close> (\<open>pkg/server.go\<close>) is checked for an access token
  (\<open>pkg/server_auth.go\<close>); the coordinator says which node owns the session; a request for a
  foreign session is proxied to its owner, any other is upgraded and handled by the JSON-RPC
  methods of \<open>pkg/server_jsonrpc.go\<close>. The local coordinator (\<open>pkg/coordinator.go\<close>) owns
  everything; the etcd coordinator (\<open>pkg/coordinator_etcd.go\<close>) keeps one entry per session in
  etcd, under a lock. A session (\<open>pkg/session.go\<close>) holds the presence of its peers and
  broadcasts every change over buffered channels. \<open>pkg/client\<close> is the client: the signalling
  (\<open>signal.go\<close>), two peer connections (\<open>client.go\<close>), and GStreamer pipelines that produce and
  composite media (\<open>producer.go\<close>, \<open>gst/gst.go\<close>, \<open>gst/compositor.go\<close>); \<open>cmd/client.go\<close> and
  \<open>cmd/composite.go\<close> are the tools built on it.

  \<^bold>\<open>The theories\<close>, in the order of their imports:
  \<^item> \<open>Prelude\<close>: how a Go call ends (returns, errors, panics, blocks), Go maps, folding over a
    permuted list. \<open>Go_Strings\<close>: splitting, joining, lower case, decimal numbers.
    \<open>Go_Channels\<close>: buffered channels as an interpretation of the locale \<open>lossy_queue\<close>.
    \<open>Net_Url\<close>: what the program uses of \<open>net/url\<close> and \<open>net/http\<close>: a request target that is a path
    with a query (\<open>parse_origin_form\<close>; nothing is said of other targets), queries, clean paths and
    the choice of a handler.
  \<^item> \<open>Json_Strings\<close>, \<open>Json\<close>: the part of \<open>encoding/json\<close> the program uses, with the round
    trip of printing and parsing; the fuel of the parser is twice the length of the text plus
    one, and is proved to be enough. The locale \<open>wire_format\<close> is what a type of message
    promises; it is interpreted for the session metadata and the messages of the client.
  \<^item> \<open>Config\<close> (\<open>pkg/config.go\<close>), \<open>Metrics\<close> (\<open>pkg/metrics.go\<close>), \<open>Session\<close>
    (\<open>pkg/session.go\<close>, with a step relation of joins, leaves, updates and receives).
  \<^item> \<open>Coordinator\<close> (\<open>pkg/coordinator.go\<close>) with the locales \<open>session_registry\<close> (what a table of
    sessions promises) and \<open>coordinator_contract\<close> (what the handlers rely on), interpreted for
    the local coordinator; \<open>Coordinator_Etcd\<close> interprets both for the etcd coordinator. Sessions
    and channels are objects with addresses in the store \<open>mem\<close>, because several connections
    share them.
  \<^item> \<open>Cluster\<close>: several nodes on one etcd, the abstract directory of owners with its operation
    \<open>claim\<close>, and the refinement. A node looks up only sessions that a call of its own has given
    it, and closes only sessions it has made; two ghost fields of the state remember which.
    \<open>Cluster_Homes\<close>: which operations keep every session on the node that the directory names, and
    under which conditions exactly; \<open>Cluster_Locks\<close>: the two locks of the etcd
    coordinator and their order.
  \<^item> \<open>Server_Jsonrpc\<close>, \<open>Server_Auth\<close>, \<open>Server\<close>: the handlers, every method and every branch,
    and the server as a step relation \<open>server_step\<close> in which requests, callbacks of the peers,
    disconnects and listener goroutines of all connections interleave; the end of a handler is two
    steps, counting the client out and closing its peer. What the handlers rely on of a
    coordinator is proved once, in the context of \<open>coordinator_contract\<close>. \<open>Server_Routes\<close>: the
    routes, and which decoded path reaches which handler.
  \<^item> \<open>Client_Signal\<close>, \<open>Client\<close>, \<open>Gst\<close>, \<open>Compositor\<close>: the client side. \<open>End_To_End\<close> joins
    client and server by a JSON-RPC connection. \<open>Client_Race\<close>: the two goroutines that share
    the publishing transport of a client, step by step.
  \<^item> \<open>Cmd_Root\<close>, \<open>Cmd_Server\<close>, \<open>Cmd_Client\<close>: the commands. \<open>Cmd_Main\<close>: flags,
    configuration and command as one run of the program, with its exit status.
  \<^item> \<open>Instances\<close>: concrete third-party parts and configurations on which the witnesses
    evaluate. This theory holds the properties that span components.

  \<^bold>\<open>What is shown.\<close> Ownership: a call of the etcd coordinator that returns is one \<open>claim\<close>,
  asking never moves a session off the node the directory names, and it is said exactly when a
  lookup, a close or a lost entry does; redirects lead to the owner in one hop and a proxied
  request is never proxied again, closing a session frees it, failures disturb nobody.
  Counting: the gauges count sessions, handlers and proxies in every interleaving, for both
  coordinators, and a shutdown ends exactly when no handler and no proxy is left. Admission:
  exactly the paths of a proper session reach the session handler, and only valid tokens of the
  session pass. Presence: revisions increase, every listener with room gets every update, nothing
  is reordered or invented. Signalling: what the client prints the server reads, a join returns
  the server's answer or the owner's address, no ICE candidate is lost or reordered except for
  the one that a race of two goroutines can lose. The process: where a node listens, and its exit
  status. Media: sinks are bound, the compositor holds nothing of an ended track and everything of
  a running one that shares its id with no other, the layout tiles the canvas. Error behaviour is
  stated where the code panics, drops an error or ignores a setting.

  \<^bold>\<open>Parameters.\<close> Third-party code is an argument of the definitions, and what is relied on is a
  named hypothesis: etcd (\<open>etcd_laws\<close>, and \<open>etcd_up\<close> when no call fails), the SFU peer
  (\<open>joins_via_provider\<close>, \<open>closes_via_callback\<close>), the JWT parser (\<open>jwt_checks_claims\<close>),
  Prometheus gauges (\<open>gauge_reads_net\<close>) and their registry (\<open>registry_laws\<close>), the router (\<open>router_laws\<close>), the
  order of ranging over a map (\<open>range_permutes\<close>),
  pion's encoders and peer connections (\<open>wire_laws\<close>, \<open>pc_laws\<close>, \<open>me_laws\<close>), the JSON-RPC
  connection (\<open>link_laws\<close>) and the text of its errors (\<open>error_text_laws\<close>), viper
  (\<open>viper_overlays\<close>), cobra, Kubernetes and GStreamer.

  \<^bold>\<open>Not modelled.\<close> Logging; the pages of \<open>/metrics\<close> and of the profiler; help texts and the
  parsing of the command line; the calls of \<open>gst.c\<close> into GStreamer other than the layout and the
  bus callback; the time a lease takes, although an entry may expire at any step of the cluster;
  \<open>ServeGRPC\<close>, which is commented out. An operation of a coordinator is one atomic step of the
  cluster, as the locks make it; their order is looked at separately. In \<open>Client\<close> a message that
  reaches a client between the answer to its join and the delivery of the waiting candidates is
  taken to arrive before or after both; \<open>Client_Race\<close> drops that assumption.
\<close>

section \<open>The cluster: who serves a session\<close>

text \<open>
  C1. The etcd coordinator refines the directory of owners: a call of
  \<open>getOrCreateSession\<close> that returns is one \<open>claim\<close> on the directory that the entries
  of the store represent. The metadata it returns names the owner, and the redirect flag
  says exactly whether the owner is another node.
\<close>

theorem getOrCreate_refines_claim:
  assumes "etcd_laws E kv" and "good_sid sid" and "utf8_node e"
    and "etcd_getOrCreateSession E sid ((e, w), m) = (Ret meta, ((e', w'), m'))"
  shows "claim (self_owner e) sid (directory_of (kv w)) = (owner_of meta, directory_of (kv w'))
    \<and> (Redirect meta \<longleftrightarrow> NodeID meta \<noteq> ec_nodeID e)"
  using getOrCreate_claims [OF assms] by blast

theorem getOrCreate_refines_claim_witness:
  "claim (self_owner (demo_etcd_node ''n1'')) ''room'' (directory_of Map.empty)
    = (self_owner (demo_etcd_node ''n1''), directory_of (room_entry ''n1''))"
  using getOrCreate_refines_claim [OF map_etcd_laws good_demo(1) utf8_demo(1) demo_claim]
  by simp

text \<open>
  C4. One redirect is enough. In every reachable state of a cluster, the metadata a call
  returns is of the session asked for and names a node of the cluster; and when etcd answers,
  asking that node next returns the same owner without a redirect.
\<close>

theorem redirect_leads_to_owner:
  assumes "etcd_laws E kv" and "etcd_up E" and "cluster_reach E kv c" and "good_sid sid"
    and "etcd_getOrCreateSession E sid ((cl_node c i, cl_world c), m) = (Ret meta, ((e', w'), m'))"
  shows "SessionID meta = sid \<and> (\<exists>j. owner_of meta = self_owner (cl_node c j))
    \<and> (\<forall>e2 m2. self_owner e2 = owner_of meta \<longrightarrow>
         (\<exists>meta2. fst (etcd_getOrCreateSession E sid ((e2, w'), m2)) = Ret meta2
            \<and> \<not> Redirect meta2 \<and> owner_of meta2 = owner_of meta))"
  using asked_owner [OF assms(1) reach_inv [OF assms(1,3)] assms(4,5)] owner_asked_again [OF assms]
  by blast

theorem redirect_leads_to_owner_witness:
  "\<exists>meta. fst (etcd_getOrCreateSession map_etcd ''room'' ((demo_etcd_node ''n1'', room_entry ''n1''), mem0)) = Ret meta
    \<and> \<not> Redirect meta \<and> owner_of meta = self_owner (demo_etcd_node ''n1'')"
  using redirect_leads_to_owner [OF map_etcd_laws map_etcd_up demo_cluster_reach good_demo(1)
    demo_cluster_claim [of 0]]
  by (auto simp: owner_of_demo)

section \<open>Where sessions live\<close>

text \<open>
  C2. A session lives on one node, and what can change that. In a reachable state of the cluster
  in which the directory names, for every session in a node's table, that node, a session is in
  one table only. Asking for a session keeps this so, whether the call returns, fails or blocks;
  and a call that returns tells the home of a session that has one, with a redirect exactly for
  the other nodes. A lookup keeps it so exactly if the directory names the node that looks up: so
  the answer of the node's own call has to be still valid then. A close keeps it so exactly if
  the entry is left in the store or no table has the session afterwards, and the expiry of
  entries exactly if no entry of a session in a table is among them.
\<close>

theorem session_has_one_home:
  assumes "etcd_laws E kv" and "cluster_reach E kv c" and "at_home (cl_node c) (directory_of (kv (cl_world c)))"
    and "good_sid sid"
  shows "(\<forall>i j. localSessions (cl_node c i) sid \<noteq> None \<and> localSessions (cl_node c j) sid \<noteq> None \<longrightarrow> i = j)
    \<and> (\<forall>i m r e' w' m'. etcd_getOrCreateSession E sid ((cl_node c i, cl_world c), m) = (r, ((e', w'), m')) \<longrightarrow>
         at_home ((cl_node c)(i := e')) (directory_of (kv w'))
         \<and> (\<forall>meta k. r = Ret meta \<and> localSessions (cl_node c k) sid \<noteq> None \<longrightarrow>
              owner_of meta = self_owner (cl_node c k) \<and> (Redirect meta \<longleftrightarrow> i \<noteq> k)))
    \<and> (\<forall>i m a e' w' m'. etcd_ensureSession sid ((cl_node c i, cl_world c), m) = (a, ((e', w'), m')) \<longrightarrow>
         (at_home ((cl_node c)(i := e')) (directory_of (kv w')) \<longleftrightarrow>
            directory_of (kv (cl_world c)) sid = Some (self_owner (cl_node c i))))
    \<and> (\<forall>i m e' w' m'. etcd_onSessionClosed E sid ((cl_node c i, cl_world c), m) = ((e', w'), m') \<longrightarrow>
         (at_home ((cl_node c)(i := e')) (directory_of (kv w')) \<longleftrightarrow>
            kv w' = kv (cl_world c) \<or> (\<forall>k. localSessions (((cl_node c)(i := e')) k) sid = None)))
    \<and> (\<forall>w'. kv w' \<subseteq>\<^sub>m kv (cl_world c) \<longrightarrow>
         (at_home (cl_node c) (directory_of (kv w')) \<longleftrightarrow>
            (\<forall>i s. localSessions (cl_node c i) s \<noteq> None \<longrightarrow> kv w' (session_key s) \<noteq> None)))"
proof (intro conjI allI impI)
  fix i j
  assume "localSessions (cl_node c i) sid \<noteq> None \<and> localSessions (cl_node c j) sid \<noteq> None"
  then show "i = j" using at_home_one [OF assms(3)] by blast
next
  have utf8: "utf8_node (cl_node c i)" for i using reach_inv [OF assms(1,2)] by (simp add: cluster_inv_def)
  fix i m r e' w' m'
  assume call: "etcd_getOrCreateSession E sid ((cl_node c i, cl_world c), m) = (r, ((e', w'), m'))"
  show "at_home ((cl_node c)(i := e')) (directory_of (kv w'))"
    by (rule ask_keeps_home [OF assms(1,4) utf8 assms(3) call])
  fix meta k
  assume "r = Ret meta \<and> localSessions (cl_node c k) sid \<noteq> None"
  then show "owner_of meta = self_owner (cl_node c k)" and "Redirect meta \<longleftrightarrow> i \<noteq> k"
    using told_home [OF assms(1,4) utf8 assms(3)] call by blast+
qed (use lookup_home_iff [of "cl_node c" kv "cl_world c", OF assms(3)]
    close_home_iff [of E kv "cl_node c" "cl_world c", OF assms(1,3)]
    expire_home_iff [of "cl_node c" "kv (cl_world c)", OF assms(3)] in blast)+

theorem session_has_one_home_witness:
  "\<not> at_home ((cl_node joined_cluster)(1 := fst (fst (snd (etcd_ensureSession ''room''
      ((cl_node joined_cluster 1, cl_world joined_cluster), mem0))))))
    (directory_of (snd (fst (snd (etcd_ensureSession ''room'' ((cl_node joined_cluster 1, cl_world joined_cluster), mem0))))))"
proof -
  obtain a e' w' m' where look: "etcd_ensureSession ''room'' ((cl_node joined_cluster 1, cl_world joined_cluster), mem0) = (a, ((e', w'), m'))"
    by (metis prod.collapse)
  have "self_owner (numbered_node 0) \<noteq> self_owner (numbered_node 1)"
    using injD [OF numbered_inj, of 0 1] by (auto simp: self_owner_def)
  then have "directory_of (id (cl_world joined_cluster)) ''room'' \<noteq> Some (self_owner (cl_node joined_cluster 1))"
    by (simp add: joined_cluster_simps(2-4))
  moreover have home: "at_home (cl_node joined_cluster) (directory_of (id (cl_world joined_cluster)))"
    using joined_cluster_home by simp
  note session_has_one_home [OF map_etcd_laws joined_cluster_reach home good_demo(1), THEN conjunct2, THEN conjunct2, THEN conjunct1,
      rule_format, OF look]
  ultimately show ?thesis unfolding look by simp
qed

text \<open>
  C15. Nothing watches a lease after it was granted. Let a session be in the table of its home.
  Another node that is asked for it is redirected exactly as long as the entry is in the store.
  When it has expired, which needs no more than a second without keep-alives, that node takes
  the session: after the lookup of its own join the session is in both tables, the directory
  names the second node, and from then on the first one redirects to the second while it still
  has the session.
\<close>

theorem lost_lease_splits_session:
  assumes "etcd_laws E kv" and "etcd_up E" and "cluster_reach E kv c" and "good_sid sid"
    and "at_home (cl_node c) (directory_of (kv (cl_world c)))"
    and "localSessions (cl_node c i) sid = Some a" and "j \<noteq> i"
    and "kv w = kv (cl_world c) \<or> kv w = (kv (cl_world c))(session_key sid := None)"
  shows "\<exists>meta ej w1 m1. etcd_getOrCreateSession E sid ((cl_node c j, w), m) = (Ret meta, ((ej, w1), m1))
    \<and> (Redirect meta \<longleftrightarrow> kv w (session_key sid) \<noteq> None)
    \<and> (\<not> Redirect meta \<longrightarrow>
         (\<exists>b ej' m2. etcd_ensureSession sid ((ej, w1), m1) = (b, ((ej', w1), m2)) \<and> localSessions ej' sid = Some b
            \<and> directory_of (kv w1) sid = Some (self_owner (cl_node c j)))
         \<and> (\<forall>m3. \<exists>meta' ei w2 m4. etcd_getOrCreateSession E sid ((cl_node c i, w1), m3) = (Ret meta', ((ei, w2), m4))
              \<and> Redirect meta' \<and> owner_of meta' = self_owner (cl_node c j) \<and> localSessions ei sid = Some a))"
proof -
  have utf8: "utf8_node (cl_node c k)" for k using reach_inv [OF assms(1,3)] by (simp add: cluster_inv_def)
  have other: "ec_nodeID (cl_node c j) \<noteq> ec_nodeID (cl_node c i)"
    using assms(5,7) by (auto simp: at_home_def dest: injD)
  have dir: "directory_of (kv (cl_world c)) sid = Some (self_owner (cl_node c i))"
    using at_homeD [OF assms(5)] assms(6) by simp
  obtain meta ej w1 m1 where call: "etcd_getOrCreateSession E sid ((cl_node c j, w), m) = (Ret meta, ((ej, w1), m1))"
    and redirect: "Redirect meta \<longleftrightarrow> kv w (session_key sid) \<noteq> None"
    and own: "owner_of meta = (if Redirect meta then self_owner (cl_node c i) else self_owner (cl_node c j))"
    and dir1: "directory_of (kv w1) sid = Some (owner_of meta)"
    by (rule asked_after_loss [OF assms(1,2,4) utf8 utf8 dir other assms(8), of m]) blast
  have taken: "directory_of (kv w1) sid = Some (self_owner (cl_node c j))" if "\<not> Redirect meta"
    using own dir1 that by simp
  have "\<exists>b ej' m2. etcd_ensureSession sid ((ej, w1), m1) = (b, ((ej', w1), m2)) \<and> localSessions ej' sid = Some b"
    by (auto simp: etcd_ensureSession_def new_session_def Let_def split: option.split)
  moreover have "\<exists>meta' ei w2 m4. etcd_getOrCreateSession E sid ((cl_node c i, w1), m3) = (Ret meta', ((ei, w2), m4))
      \<and> Redirect meta' \<and> owner_of meta' = self_owner (cl_node c j) \<and> localSessions ei sid = Some a"
    if "\<not> Redirect meta" for m3
  proof -
    have "kv w1 (session_key sid) \<noteq> None" using taken [OF that] by (auto simp: directory_of_def split: option.splits)
    then show ?thesis
      using asked_after_loss [OF assms(1,2,4) utf8 utf8 taken [OF that] other [symmetric], of w1 m3] assms(6) by metis
  qed
  ultimately show ?thesis using call redirect taken by blast
qed

theorem lost_lease_splits_session_witness:
  "\<exists>meta st. etcd_getOrCreateSession map_etcd ''room'' ((cl_node joined_cluster 1,
      (cl_world joined_cluster)(session_key ''room'' := None)), mem0) = (Ret meta, st) \<and> \<not> Redirect meta"
proof -
  obtain a where "localSessions (cl_node joined_cluster 0) ''room'' = Some a" using joined_cluster_simps(1) by blast
  from lost_lease_splits_session [OF map_etcd_laws map_etcd_up joined_cluster_reach good_demo(1) _ this,
      of 1 "(cl_world joined_cluster)(session_key ''room'' := None)" mem0] joined_cluster_home
  show ?thesis by auto
qed

section \<open>Closing and failing\<close>

text \<open>
  C14. When etcd answers, closing a session removes it from the node's table and lease table,
  counts it out of the gauge and frees its id: the next node to ask, whichever it is, becomes
  its owner.
\<close>

theorem closed_session_can_move:
  assumes "etcd_up E" and "etcd_laws E kv" and "good_sid sid" and "utf8_node e2"
    and "etcd_onSessionClosed E sid ((e, w), m) = ((e', w'), m')"
  shows "localSessions e' = (localSessions e)(sid := None) \<and> sessionLeases e' = (sessionLeases e)(sid := None)
    \<and> m' = gauge_op (Dec GaugeSessions) m \<and> directory_of (kv w') = (directory_of (kv w))(sid := None)
    \<and> (\<exists>meta. fst (etcd_getOrCreateSession E sid ((e2, w'), m2)) = Ret meta
          \<and> owner_of meta = self_owner e2 \<and> \<not> Redirect meta)"
proof -
  note eff = closed_effect [OF assms(1,2,5)]
  have sf: "slash_free sid" using assms(3) by (simp add: good_sid_def)
  obtain meta where "fst (etcd_getOrCreateSession E sid ((e2, w'), m2)) = Ret meta"
    using getOrCreate_returns [OF assms(1,2) sf, of w' e2 m2] eff(1) by auto
  then obtain e3 w3 m3 where call: "etcd_getOrCreateSession E sid ((e2, w'), m2) = (Ret meta, ((e3, w3), m3))"
    by (metis prod.collapse)
  have "kv w' (session_key sid) = None" using eff(1) by simp
  then have "meta = own_meta e2 sid" using getOrCreate_absent(2) [OF assms(2) sf _ call] by simp
  then have "\<exists>meta. fst (etcd_getOrCreateSession E sid ((e2, w'), m2)) = Ret meta
      \<and> owner_of meta = self_owner e2 \<and> \<not> Redirect meta"
    using call by (simp add: owner_of_def self_owner_def own_meta_def)
  then show ?thesis using eff by (simp add: directory_of_delete)
qed

theorem closed_session_can_move_witness:
  "\<exists>meta. fst (etcd_getOrCreateSession map_etcd ''room'' ((demo_etcd_node ''n2'',
      snd (fst (etcd_onSessionClosed map_etcd ''room'' ((demo_etcd_node ''n1'', room_entry ''n1''), mem0)))), mem0)) = Ret meta
    \<and> owner_of meta = self_owner (demo_etcd_node ''n2'') \<and> \<not> Redirect meta"
  using closed_session_can_move [OF map_etcd_up map_etcd_laws good_demo(1) utf8_demo(2),
      of "demo_etcd_node ''n1''" "room_entry ''n1''" mem0]
  by (metis prod.collapse)

text \<open>
  C16. A call of \<open>getOrCreateSession\<close> that fails or never returns does not disturb the
  directory: no other session changes, a session with an owner keeps it, and the only thing
  that may have happened is that this node has claimed a free session after all. The node's
  own table of sessions is untouched.
\<close>

theorem failed_call_keeps_directory:
  assumes "etcd_laws E kv" and "good_sid sid" and "utf8_node e" and "\<not> returned r"
    and "etcd_getOrCreateSession E sid ((e, w), m) = (r, ((e', w'), m'))"
  shows "(directory_of (kv w') = directory_of (kv w)
      \<or> directory_of (kv w) sid = None \<and> directory_of (kv w') = (directory_of (kv w))(sid \<mapsto> self_owner e))
    \<and> localSessions e' = localSessions e \<and> m' = m"
  using getOrCreate_failed [OF assms] etcd_getOrCreate_table [of E sid "((e, w), m)"] assms(5) by simp

theorem failed_call_keeps_directory_witness:
  "directory_of (snd (fst (snd (etcd_getOrCreateSession down_etcd ''room'' ((demo_etcd_node ''n2'', room_entry ''n1''), mem0)))))
      = directory_of (room_entry ''n1'')
    \<and> localSessions (fst (fst (snd (etcd_getOrCreateSession down_etcd ''room'' ((demo_etcd_node ''n2'', room_entry ''n1''), mem0)))))
      = localSessions (demo_etcd_node ''n2'')"
  using failed_call_keeps_directory [OF down_etcd_laws good_demo(1) utf8_demo(2), of "Err ''context deadline exceeded''"
      "room_entry ''n1''" mem0 "demo_etcd_node ''n2''" "room_entry ''n1''" mem0]
  by (simp add: etcd_getOrCreateSession_def down_etcd_def map_etcd_def)

section \<open>The server: what the gauges count\<close>

lemma local_server_inv:
  assumes "newCoordinatorLocal label uuid conf = Ret c0"
    and "server_reach jwtParse urlOk S local_onSessionClosed (Signal conf) (c0, mem0) sv"
    and "se_coord S = local_coordinator" and "joins_via_provider (se_peer S)"
    and "closes_via_callback (se_peer S) local_onSessionClosed (\<lambda>n. lc_sessions (fst n))"
  shows "server_inv (\<lambda>n. lc_sessions (fst n)) sv"
  by (rule local_coord.server_reach_inv [OF assms(2)])
    (use new_local_registry [OF assms(1)] assms(3-5) in \<open>simp_all add: mem0_def\<close>)


text \<open>
  C3. On a node with the local coordinator, whatever the requests, callbacks, disconnects and
  listener goroutines of its connections do and in whatever order: the sessions gauge is the
  number of sessions in the table, different session ids have different sessions, the clients
  gauge is the number of websocket handlers that have not been counted out, the proxy gauge the number
  of running proxies, and the count of active clients is their sum.
\<close>

theorem local_server_counts:
  assumes "newCoordinatorLocal label uuid conf = Ret c0"
    and "server_reach jwtParse urlOk S local_onSessionClosed (Signal conf) (c0, mem0) sv"
    and "se_coord S = local_coordinator" and "joins_via_provider (se_peer S)"
    and "closes_via_callback (se_peer S) local_onSessionClosed (\<lambda>n. lc_sessions (fst n))"
    and "gauge_reads_net read"
  shows "net GaugeSessions (gauges (snd (sv_node sv))) = int (card (dom (lc_sessions (fst (sv_node sv)))))
    \<and> inj_on (lc_sessions (fst (sv_node sv))) (dom (lc_sessions (fst (sv_node sv))))
    \<and> net GaugeClients (gauges (snd (sv_node sv))) = int (card (open_conns sv))
    \<and> net GaugeProxyClients (gauges (snd (sv_node sv))) = int (card (dom (sv_proxies sv)))
    \<and> MetricsGetActiveClientsCount read (gauges (snd (sv_node sv)))
        = int (card (open_conns sv) + card (dom (sv_proxies sv)))"
  using local_server_inv [OF assms(1-5)] active_clients_net [OF assms(6)]
  by (simp add: server_inv_def wf_registry_def)

theorem local_server_counts_witness:
  "net GaugeSessions (gauges (snd (sv_node demo_server))) = 1
    \<and> MetricsGetActiveClientsCount (\<lambda>cs g. of_int (net g cs)) (gauges (snd (sv_node demo_server))) = 1"
  using local_server_counts [OF demo_local_new demo_server_reach _ _ _, of "\<lambda>cs g. of_int (net g cs)"]
  by (simp add: demo_peer_laws gauge_reads_net_def demo_server_sets)

text \<open>
  C12. The same on a node of a cluster, for every behaviour of the etcd service, failing calls
  included: a session stays counted exactly as long as it is in the table of local sessions.
\<close>

theorem etcd_server_counts:
  assumes "newCoordinatorEtcd dial label uuid ec conf = Ret (e0, w0)"
    and "server_reach jwtParse urlOk S (etcd_onSessionClosed E) (Signal conf) ((e0, w0), mem0) sv"
    and "se_coord S = etcd_coordinator E" and "joins_via_provider (se_peer S)"
    and "closes_via_callback (se_peer S) (etcd_onSessionClosed E) (\<lambda>n. localSessions (fst (fst n)))"
  shows "net GaugeSessions (gauges (snd (sv_node sv))) = int (card (dom (localSessions (fst (fst (sv_node sv))))))
    \<and> net GaugeClients (gauges (snd (sv_node sv))) = int (card (open_conns sv))
    \<and> net GaugeProxyClients (gauges (snd (sv_node sv))) = int (card (dom (sv_proxies sv)))"
proof -
  have "server_inv (\<lambda>n. localSessions (fst (fst n))) sv"
    by (rule etcd_coord.server_reach_inv [OF assms(2)])
      (use new_etcd_registry [OF assms(1)] assms(3-5) in \<open>simp_all add: mem0_def\<close>)
  then show ?thesis by (simp add: server_inv_def)
qed

theorem etcd_server_counts_witness:
  "net GaugeProxyClients (gauges (snd (sv_node demo_proxying))) = 1
    \<and> net GaugeSessions (gauges (snd (sv_node demo_proxying))) = 0"
  using etcd_server_counts [OF demo_etcd_new demo_proxying_reach]
  by (simp add: demo_peer_laws demo_proxying_sets)



section \<open>Admission\<close>

text \<open>
  C5. With authentication on, a request gets a websocket or a proxy only with an access token
  that the JWT parser accepted under the configured key, whose claims are valid and whose
  session id is the one of the request.
\<close>

theorem token_admits_session:
  assumes "Enabled (Auth (sg_config s))" and "jwt_checks_claims scValid jwtParse"
    and "admit jwtParse urlOk s r n = (Ret a, n')" and "a = UpgradeHere \<or> (\<exists>e. a = ProxyTo e)"
  shows "\<exists>tok rest t. hr_query r ''access_token'' = Some (tok # rest)
    \<and> jwtParse tok (keyFunc (Auth (sg_config s))) = Inr t \<and> SID t = hr_id r \<and> hr_id r \<noteq> []
    \<and> (\<forall>sc. StandardClaims t = Some sc \<longrightarrow> scValid sc = None)"
  using check_token_None [OF admit_allowed [OF assms(3,4)] assms(1,2)] by metis

theorem token_admits_session_witness:
  "\<exists>tok rest t. hr_query room_request ''access_token'' = Some (tok # rest)
    \<and> demo_jwt tok (keyFunc (Auth (Signal demo_conf))) = Inr t \<and> SID t = ''room''"
  using token_admits_session [OF _ demo_jwt_checks room_admitted(2)]
  by (auto simp: demo_conf_def room_request_def)

text \<open>
  Without such a token the answer is 403 and nothing happened: no coordinator was asked,
  no session made, no gauge counted.
\<close>

lemma bad_token_refused:
  assumes "Enabled (Auth (sg_config s))"
    and "\<And>t. authGetAndValidateToken jwtParse (Auth (sg_config s)) (hr_query r) = Ret t \<Longrightarrow> SID t \<noteq> hr_id r"
  shows "admit jwtParse urlOk s r n = (Ret (HttpError 403 ''Invalid Token''), n)"
proof -
  have "\<exists>a. check_token jwtParse (sg_config s) r = Some a"
    using assms by (auto simp: check_token_def split: outcome.split)
  then show ?thesis using admit_refused by blast
qed



section \<open>Requests on a connection\<close>

text \<open>
  A join for a session of another node is answered with error 302, and the message of that
  error, read back as JSON, is the metadata the coordinator returned; the peer does not join.
\<close>

lemma redirect_payload_decodes:
  assumes "rq_Method req = ''join''" and "rq_Params req = Some j" and "unmarshal_Join (se_wire S) j = Some join"
    and "getOrCreateSession (se_coord S) (join_SID join) (js_node g) = (Ret meta, n')"
    and "Redirect meta" and "utf8_meta meta"
  shows "Handle S req g = (Ret (), emit (ReplyError (rq_ID req) 302 (marshal_meta meta)) (g\<lparr>js_node := n'\<rparr>))
    \<and> unmarshal_meta (marshal_meta meta) = Some meta"
  using assms unmarshal_marshal_meta by (simp add: Handle_def with_params_def handle_join_def)

text \<open>
  C19. A join that the peer accepts, on a local node whose store and table are well-formed:
  the client gets the answer, the session is in the table and the connection remembers its id,
  the callbacks are set, and the connection's own new channel, empty and with room for 32
  messages, is registered in that session under the peer's id. The store stays well-formed.
\<close>

theorem join_installs_listener:
  assumes "se_coord S = local_coordinator" and "joins_via_provider (se_peer S)"
    and "rq_Method req = ''join''" and "rq_Params req = Some j" and "unmarshal_Join (se_wire S) j = Some join"
    and "wf_mem (snd (js_node g))" and "wf_registry (lc_sessions (fst (js_node g))) (snd (js_node g))"
    and "peer_Join (se_peer S) local_GetSession (join_SID join) (join_UID join) (js_peer g)
      (snd (local_getOrCreateSession (join_SID join) (js_node g))) = (None, p2, n2)"
    and "peer_Answer (se_peer S) (join_Offer join) p2 = (Inr answer, p3)"
    and "Handle S req g = (r, g')"
  shows "r = Ret () \<and> js_out g' = js_out g @ [ReplyDesc (rq_ID req) answer]
    \<and> js_sid g' = join_SID join \<and> js_hooks g' \<and> wf_mem (snd (js_node g'))
    \<and> (\<exists>a ch s. lc_sessions (fst (js_node g')) (join_SID join) = Some a \<and> heap (snd (js_node g')) a = Some s
          \<and> map_of (broadcastListeners s) (peer_ID (se_peer S) p3) = Some ch
          \<and> chans (snd (js_node g)) ch = None \<and> chans (snd (js_node g')) ch = Some (make_chan 32)
          \<and> js_listening g' = (a, ch) # js_listening g)"
proof -
  let ?g2 = "g\<lparr>js_peer := p3, js_node := n2\<rparr>"
  have n2: "wf_mem (snd n2)" "wf_registry (lc_sessions (fst n2)) (snd n2)"
    "chans (snd n2) = chans (snd (js_node g))"
    using local_join_store [OF assms(2,8) assms(6,7)] by simp_all
  have g': "r = Ret ()" "g' = join_listen S req (join_SID join) answer ?g2"
    using assms(1,3-5,8-10) local_getOrCreateSession_result(1) [of "join_SID join" "js_node g"]
    by (auto simp: Handle_def with_params_def handle_join_def local_coordinator_def split: prod.splits)
  have "ran (lc_sessions (fst n2)) \<subseteq> dom (heap (snd n2))" using n2(2) by (simp add: wf_registry_def)
  then show ?thesis
    using local_coord.join_listen_effect [OF assms(1), of ?g2 req "join_SID join" answer] g' n2(1,3) by simp
qed

theorem join_installs_listener_witness:
  "\<exists>ch. js_listening (snd (Handle (demo_env local_coordinator) (join_room 1) (idle_conn (demo_local, mem0)))) = [(0, ch)]"
proof -
  have "joins_via_provider (demo_peer :: (string, localCoordinator, json, json) sfu_peer)" by (rule demo_peer_laws)
  then show ?thesis
    using join_installs_listener [where S = "demo_env local_coordinator" and req = "join_room 1" and j = room_params
        and join = room_join and g = "idle_conn (demo_local, mem0)", OF _ _ _ _ _ _ _ _ _ prod.collapse [symmetric]]
      demo_joined wf_mem0 wf_registry_empty
    by (simp add: demo_local_empty) blast
qed



text \<open>
  C29. Every request is answered at most once, and only under its own id; what was written
  before stays. This holds for every method, also the unknown ones.
\<close>

theorem handle_answers_at_most_once:
  "js_out (snd (Handle S req g)) = js_out g
    \<or> (\<exists>x. js_out (snd (Handle S req g)) = js_out g @ [x] \<and> out_id x = Some (rq_ID req))"
  using Handle_answers_once [of req g S] by (simp add: answers_once_def)

text \<open>
  C30. On a node with the local coordinator a request always returns, unless it is one of the
  methods that read parameters and has none: then it panics on the nil pointer, and has done
  nothing before.
\<close>

theorem local_handle_returns:
  assumes "se_coord S = local_coordinator"
  shows "(fst (Handle S req g) = Ret () \<longleftrightarrow> rq_Params req \<noteq> None \<or> \<not> needs_params req g)
    \<and> (fst (Handle S req g) \<noteq> Ret () \<longrightarrow> Handle S req g = (Panic nil_deref, g))"
proof (cases "rq_Params req \<noteq> None \<or> \<not> needs_params req g")
  case True
  have "fst (getOrCreateSession (se_coord S) sid n) =
    Ret \<lparr>SessionID = sid, NodeID = lc_nodeID (fst n), NodeEndpoint = lc_nodeEndpoint (fst n), Redirect = False\<rparr>" for sid n
    using assms by (simp add: local_coordinator_def local_getOrCreateSession_result)
  then have "fst (Handle S req g) = Ret ()" using True by (intro Handle_returns) simp_all
  with True show ?thesis by simp
next
  case False
  then show ?thesis using Handle_nil_params [of req g S] by simp
qed

theorem local_handle_returns_witness:
  "fst (Handle (demo_env local_coordinator) \<lparr>rq_ID = 1, rq_Method = ''offer'', rq_Params = None\<rparr> (idle_conn (demo_local, mem0)))
    = Panic nil_deref"
  using local_handle_returns [of "demo_env local_coordinator" "\<lparr>rq_ID = 1, rq_Method = ''offer'', rq_Params = None\<rparr>"
      "idle_conn (demo_local, mem0)"]
  by (auto simp: needs_params_def)

text \<open>
  C37. When the session of a connection has been closed and left the table, \<open>presence_set\<close>
  makes a new session under the same id and counts it. That session has the sender's presence and
  no listener: the update is put into no channel of the node, nobody hears it, not even the
  sender, whose listener goroutine, if any, still serves the session it joined.
\<close>

theorem presence_set_revives_session:
  assumes "se_coord S = local_coordinator" and "range_permutes (se_sess S)"
    and "rq_Method req = ''presence_set''" and "js_sid g \<noteq> []"
    and "rq_Params req = Some j" and "unmarshal_map j = Some meta"
    and "lc_sessions (fst (js_node g)) (js_sid g) = None" and "Handle S req g = (r, g')"
  shows "\<exists>a s. a = next_session (snd (js_node g))
    \<and> lc_sessions (fst (js_node g')) = (lc_sessions (fst (js_node g)))(js_sid g \<mapsto> a)
    \<and> heap (snd (js_node g')) = (heap (snd (js_node g)))(a \<mapsto> s)
    \<and> broadcastListeners s = [] \<and> presenceRevision s = 1 \<and> presence s = [peer_ID (se_peer S) (js_peer g) \<mapsto> IMap meta]
    \<and> chans (snd (js_node g')) = chans (snd (js_node g)) \<and> js_listening g' = js_listening g \<and> js_out g' = js_out g
    \<and> gauges (snd (js_node g')) = gauges (snd (js_node g)) @ [Inc GaugeSessions]"
proof -
  let ?n = "js_node g"
  let ?s = "set_presence (peer_ID (se_peer S) (js_peer g)) (IMap meta)
    (NewSession (js_sid g) (lc_datachannels (fst ?n)) (lc_w (fst ?n)))"
  have "g' = snd (handle_presence_set S req j g)"
    using assms(3-5,8) by (simp add: Handle_def with_params_def)
  moreover have "rangeOrder (se_sess S) [] = []" using assms(2) by (metis mset_zero_iff range_permutes_def)
  moreover have "broadcastListeners ?s = []" by (simp add: NewSession_def)
  ultimately have "g' = g\<lparr>js_node := ((fst ?n)\<lparr>lc_sessions := (lc_sessions (fst ?n))(js_sid g \<mapsto> next_session (snd ?n))\<rparr>,
      (snd ?n)\<lparr>next_session := Suc (next_session (snd ?n)), gauges := gauges (snd ?n) @ [Inc GaugeSessions],
        heap := (heap (snd ?n))(next_session (snd ?n) \<mapsto> ?s)\<rparr>)\<rparr>"
    using assms(7)
    by (simp add: local_coord.presence_set_node [OF assms(1,6)] local_ensureSession_def new_session_def gauge_op_def
        case_prod_beta Let_def mem_UpdatePresence_def UpdatePresenceMetaForPeer_def Broadcast_send_def)
  then show ?thesis by (intro exI [of _ "next_session (snd ?n)"] exI [of _ ?s]) (simp add: NewSession_def)
qed

theorem presence_set_revives_session_witness:
  "gauges (snd (js_node (snd (Handle (demo_env local_coordinator) set_empty
    (joined_conn\<lparr>js_node := local_onSessionClosed ''room'' (js_node joined_conn)\<rparr>)))))
    = [Inc GaugeSessions, Dec GaugeSessions, Inc GaugeSessions]"
  using presence_set_revives_session [where S = "demo_env local_coordinator" and req = set_empty and j = "JObj []"
      and meta = "Some []" and g = "joined_conn\<lparr>js_node := local_onSessionClosed ''room'' (js_node joined_conn)\<rparr>",
      OF _ _ _ _ _ _ _ prod.collapse [symmetric]] joined_conn_state demo_sess_permutes
  by (simp add: set_empty_def unmarshal_map_def local_onSessionClosed_def gauge_op_def case_prod_beta) blast

text \<open>
  C38. The session of the access token binds only the URL. With authentication on, a request is
  admitted with a token for the session of its path; but whichever session a \<open>join\<close> on the
  connection then names, if the peer accepts, it is answered, the connection is in that session
  and the session is in the node's table.
\<close>

theorem token_does_not_bind_join:
  assumes "se_coord S = local_coordinator" and "Enabled (Auth conf)" and "jwt_checks_claims scValid jwtParse"
    and "admit jwtParse urlOk \<lparr>sg_c = se_coord S, sg_config = conf\<rparr> r n = (Ret UpgradeHere, n1)"
    and "accept_conn None peer n1 = Ret g"
    and "rq_Method req = ''join''" and "rq_Params req = Some j" and "unmarshal_Join (se_wire S) j = Some join"
    and "peer_Join (se_peer S) local_GetSession (join_SID join) (join_UID join) peer
      (snd (local_getOrCreateSession (join_SID join) (js_node g))) = (None, p2, n2)"
    and "peer_Answer (se_peer S) (join_Offer join) p2 = (Inr answer, p3)"
  shows "(\<exists>tok rest t. hr_query r ''access_token'' = Some (tok # rest)
        \<and> jwtParse tok (keyFunc (Auth conf)) = Inr t \<and> SID t = hr_id r)
    \<and> (\<exists>g'. Handle S req g = (Ret (), g') \<and> js_sid g' = join_SID join \<and> js_out g' = [ReplyDesc (rq_ID req) answer]
        \<and> lc_sessions (fst (js_node g')) (join_SID join) \<noteq> None)"
proof -
  let ?g2 = "g\<lparr>js_peer := p3, js_node := n2\<rparr>"
  let ?g' = "join_listen S req (join_SID join) answer ?g2"
  have "check_token jwtParse conf r = None" using admit_allowed [OF assms(4)] by simp
  then obtain tok rest t where token: "hr_query r ''access_token'' = Some (tok # rest)"
    "jwtParse tok (keyFunc (Auth conf)) = Inr t" "SID t = hr_id r"
    by (rule check_token_None [OF _ assms(2,3)]) blast
  have g: "js_peer g = peer" "js_out g = []" using assms(5) by (auto simp: accept_conn_def)
  then have "Handle S req g = (Ret (), ?g')"
    using assms(1,6-10) local_getOrCreateSession_result(1) [of "join_SID join" "js_node g"]
    by (auto simp: Handle_def with_params_def handle_join_def local_coordinator_def split: prod.splits)
  moreover have "js_sid ?g' = join_SID join" "js_out ?g' = [ReplyDesc (rq_ID req) answer]"
    by (simp_all add: join_listen_def case_prod_beta Let_def g)
  moreover have "lc_sessions (fst (js_node ?g')) (join_SID join) \<noteq> None"
    using local_coord.join_listen_node [OF assms(1), of req "join_SID join" answer ?g2] local_reg.get_table [of "join_SID join" n2]
    by simp
  ultimately show ?thesis using token by blast
qed

theorem token_does_not_bind_join_witness:
  "(\<exists>tok rest t. hr_query room_request ''access_token'' = Some (tok # rest)
      \<and> demo_jwt tok (keyFunc (Auth (Signal demo_conf))) = Inr t \<and> SID t = ''room'')
    \<and> (\<exists>g'. Handle (demo_env local_coordinator) join_hall demo_conn = (Ret (), g') \<and> js_sid g' = ''hall'')"
proof -
  have accepted: "accept_conn None [] demo_node = Ret demo_conn" by (simp add: accept_conn_def demo_conn_def)
  have admitted: "admit demo_jwt (\<lambda>_. True) \<lparr>sg_c = se_coord (demo_env local_coordinator), sg_config = Signal demo_conf\<rparr>
      room_request (demo_local, mem0) = (Ret UpgradeHere, demo_node)"
    by (simp add: room_admitted)
  have enabled: "Enabled (Auth (Signal demo_conf))" by (simp add: demo_conf_def)
  have decoded: "unmarshal_Join (se_wire (demo_env local_coordinator)) hall_params = Some hall_join" by (simp add: hall_fields)
  have joined: "peer_Join (se_peer (demo_env local_coordinator)) local_GetSession (join_SID hall_join) (join_UID hall_join) []
      (snd (local_getOrCreateSession (join_SID hall_join) (js_node demo_conn)))
    = (None, ''alice'', snd (local_GetSession (join_SID hall_join) (snd (local_getOrCreateSession (join_SID hall_join) (js_node demo_conn)))))"
    by (simp add: hall_fields)
  have answered: "peer_Answer (se_peer (demo_env local_coordinator)) (join_Offer hall_join) ''alice'' = (Inr (JStr ''sdp''), ''alice'')"
    by (simp add: hall_fields)
  have "hr_id room_request = ''room''" by (simp add: room_request_def)
  with token_does_not_bind_join [OF demo_env_simps(2) enabled demo_jwt_checks admitted accepted hall_fields(1,2) decoded joined answered]
  show ?thesis by (auto simp: hall_fields(4))
qed

text \<open>
  A \<open>presence_set\<close> whose parameters are the JSON value \<open>null\<close> does not remove the
  peer's entry: a nil map inside an interface is not the nil interface, so the entry is there,
  with a nil map.
\<close>

lemma null_presence_is_stored:
  assumes "se_coord S = local_coordinator" and "rq_Method req = ''presence_set''" and "js_sid g \<noteq> []"
    and "rq_Params req = Some JNull"
    and "lc_sessions (fst (js_node g)) (js_sid g) = Some a" and "heap (snd (js_node g)) a = Some s"
  shows "\<exists>s'. heap (snd (js_node (snd (Handle S req g)))) a = Some s'
    \<and> presence s' (peer_ID (se_peer S) (js_peer g)) = Some (IMap None)"
proof -
  have "unmarshal_map JNull = Some None" by (simp add: unmarshal_map_def)
  from local_coord.presence_set_effect [OF assms(1) this assms(5,6), of req]
  show ?thesis using assms(2-4,6)
    by (simp add: Handle_def with_params_def mem_UpdatePresence_apply(1))
qed

end
